(* ===== verification/Go_Prelude.thy ===== *)
theory Go_Prelude
  imports Main "HOL-Library.Word"
begin

text \<open>
  Shared vocabulary of the development: the Go types and standard-library functions the
  program uses (integers of fixed width, byte strings, models of strings.Split,
  strings.TrimSpace and strings.HasSuffix, contexts, durations, buffered channels, iteration
  over a Go map) and the generic lemmas the components share.

  A Go string is a list of bytes (HOL's char has 256 values), a Go map is a partial function,
  and ranging over a map visits its keys in an order the language leaves open: an iteration
  order is an argument, constrained by iteration_of. A buffered channel is a bounded FIFO
  queue; the locale bounded_fifo states what its clients rely on.
\<close>

named_theorems go_simps \<open>unfolding rules of the small Go-level helpers\<close>

subsection \<open>Integers, bytes, opaque values\<close>

type_synonym u8 = "8 word"
type_synonym u32 = "32 word"
type_synonym u64 = "64 word"
type_synonym bytes = "u8 list"

text \<open>
  Values that the program moves around without looking inside (fields of the vendored message
  types that it never reads, user payloads, vendor extension values) are opaque tokens. Token 0
  stands for the Go zero value of such a field.
\<close>

datatype opaque = Opaque nat

text \<open>A Go any that the program itself sometimes fills with a string.\<close>

datatype any = AnyString string | AnyFloat u64 | AnyValue opaque

text \<open>Adding one to a word that is not the largest one makes it larger.\<close>

lemma word_less_succ:
  fixes x :: "'n :: len word"
  assumes "x \<noteq> - 1"
  shows "x < x + 1"
proof -
  have "1 + x \<noteq> 0"
    using assms by (metis add_eq_0_iff)
  then have "unat (1 + x) = Suc (unat x)" by (rule unatSuc)
  then show ?thesis by (simp add: word_less_nat_alt add.commute)
qed

subsection \<open>Time\<close>

text \<open>
  An instant is counted in nanoseconds from the zero time of the Go package time, so IsZero is
  equality with 0. A Duration is a signed 64-bit number of nanoseconds; Time.Sub saturates.
\<close>

type_synonym gotime = int
type_synonym duration = int

definition IsZero :: "gotime \<Rightarrow> bool" where
  [go_simps]: "IsZero t \<longleftrightarrow> t = 0"

definition maxDuration :: duration where
  [go_simps]: "maxDuration = 2 ^ 63 - 1"

definition minDuration :: duration where
  [go_simps]: "minDuration = - (2 ^ 63)"

definition time_Sub :: "gotime \<Rightarrow> gotime \<Rightarrow> duration" where
  "time_Sub t u = max minDuration (min maxDuration (t - u))"

definition Second :: duration where
  [go_simps]: "Second = 1000000000"

lemma time_Sub_exact:
  "minDuration \<le> t - u \<Longrightarrow> t - u \<le> maxDuration \<Longrightarrow> time_Sub t u = t - u"
  by (simp add: time_Sub_def)

lemma time_Sub_neg: "time_Sub t u < 0 \<longleftrightarrow> t < u"
  by (auto simp: time_Sub_def minDuration_def maxDuration_def)

subsection \<open>Contexts\<close>

text \<open>
  A context.Context is fixed by when it ends (never, for context.Background), by the error its
  Err method reports from then on, by its deadline if it has one, and by the one value the
  program stores in it (the enqueue time of an inbound message).
\<close>

datatype ctx_err = Canceled | DeadlineExceeded

record goctx =
  ctx_done_at :: "gotime option"
  ctx_cause :: ctx_err
  ctx_deadline :: "gotime option"
  ctx_receivedAt :: "gotime option"

definition Background :: goctx where
  [go_simps]: "Background = \<lparr>ctx_done_at = None, ctx_cause = Canceled,
     ctx_deadline = None, ctx_receivedAt = None\<rparr>"

definition ctx_Err :: "goctx \<Rightarrow> gotime \<Rightarrow> ctx_err option" where
  "ctx_Err ctx now =
     (case ctx_done_at ctx of
        None \<Rightarrow> None
      | Some d \<Rightarrow> if d \<le> now then Some (ctx_cause ctx) else None)"

lemma ctx_Err_Background [simp]: "ctx_Err Background now = None"
  by (simp add: ctx_Err_def Background_def)

subsection \<open>strings.Split and its inverse\<close>

fun split_on :: "'a \<Rightarrow> 'a list \<Rightarrow> 'a list list" where
  "split_on c [] = [[]]"
| "split_on c (x # xs) =
     (if x = c then [] # split_on c xs
      else (case split_on c xs of [] \<Rightarrow> [[x]] | y # ys \<Rightarrow> (x # y) # ys))"

fun join_on :: "'a \<Rightarrow> 'a list list \<Rightarrow> 'a list" where
  "join_on c [] = []"
| "join_on c [x] = x"
| "join_on c (x # y # ys) = x @ [c] @ join_on c (y # ys)"

lemma split_on_nonempty [simp]: "split_on c xs \<noteq> []"
  by (induction xs) (auto split: list.splits)

lemma split_on_Cons_other:
  "x \<noteq> c \<Longrightarrow> split_on c (x # xs) = (x # hd (split_on c xs)) # tl (split_on c xs)"
  by (cases "split_on c xs") auto

lemma join_on_Cons: "ys \<noteq> [] \<Longrightarrow> join_on c (x # ys) = x @ c # join_on c ys"
  by (cases ys) auto

lemma join_on_Cons_head: "join_on c ((x # y) # ys) = x # join_on c (y # ys)"
  by (cases ys) auto

lemma join_split_on [simp]: "join_on c (split_on c xs) = xs"
proof (induction xs)
  case (Cons x xs)
  then show ?case
    by (cases "split_on c xs") (auto simp: join_on_Cons join_on_Cons_head)
qed simp

lemma split_on_free: "c \<notin> set x \<Longrightarrow> split_on c x = [x]"
  by (induction x) auto

lemma split_on_append: "c \<notin> set x \<Longrightarrow> split_on c (x @ c # ys) = x # split_on c ys"
  by (induction x) (auto split: list.splits)

lemma split_join_on:
  "xs \<noteq> [] \<Longrightarrow> (\<And>x. x \<in> set xs \<Longrightarrow> c \<notin> set x) \<Longrightarrow> split_on c (join_on c xs) = xs"
  by (induction c xs rule: join_on.induct) (auto simp: split_on_free split_on_append)

lemma split_on_parts_free: "p \<in> set (split_on c xs) \<Longrightarrow> c \<notin> set p"
proof (induction xs arbitrary: p)
  case (Cons x xs)
  then show ?case
    by (cases "split_on c xs") (auto split: if_splits)
qed simp

lemma length_split_on: "length (split_on c xs) = Suc (count_list xs c)"
proof (induction xs)
  case (Cons x xs)
  then show ?case by (cases "split_on c xs") auto
qed simp

lemma count_list_free: "c \<notin> set xs \<Longrightarrow> count_list xs c = 0"
  by (induction xs) auto

subsection \<open>strings.TrimSpace, strings.HasSuffix\<close>

text \<open>
  TrimSpace cuts white space as defined by Unicode from both ends. On UTF-8 bytes the white
  space characters are the six ASCII ones, U+0085, U+00A0, U+1680, U+2000 to U+200A, U+2028,
  U+2029, U+202F, U+205F and U+3000. The function space_len gives the length in bytes of the
  white space character a string starts with, 0 if it starts with none; space_len_end is the
  same at the other end of the string, on its reversal.
\<close>

definition char_bytes :: "string \<Rightarrow> nat list" where
  "char_bytes s = map of_char s"

definition is_space_bytes :: "nat list \<Rightarrow> bool" where
  "is_space_bytes b \<longleftrightarrow>
     b \<in> set [[9], [10], [11], [12], [13], [32], [194, 133], [194, 160], [225, 154, 128],
              [226, 128, 168], [226, 128, 169], [226, 128, 175], [226, 129, 159], [227, 128, 128]]
     \<or> (length b = 3 \<and> take 2 b = [226, 128] \<and> 128 \<le> b ! 2 \<and> b ! 2 \<le> 138)"

definition space_len :: "string \<Rightarrow> nat" where
  "space_len s =
     (if 1 \<le> length s \<and> is_space_bytes (char_bytes (take 1 s)) then 1
      else if 2 \<le> length s \<and> is_space_bytes (char_bytes (take 2 s)) then 2
      else if 3 \<le> length s \<and> is_space_bytes (char_bytes (take 3 s)) then 3
      else 0)"

definition space_len_end :: "string \<Rightarrow> nat" where
  "space_len_end r =
     (if 1 \<le> length r \<and> is_space_bytes (char_bytes (rev (take 1 r))) then 1
      else if 2 \<le> length r \<and> is_space_bytes (char_bytes (rev (take 2 r))) then 2
      else if 3 \<le> length r \<and> is_space_bytes (char_bytes (rev (take 3 r))) then 3
      else 0)"

function trim_left :: "string \<Rightarrow> string" where
  "trim_left s = (if space_len s = 0 then s else trim_left (drop (space_len s) s))"
  by pat_completeness auto
termination
  by (relation "measure length") (auto simp: space_len_def split: if_splits)

function trim_right_rev :: "string \<Rightarrow> string" where
  "trim_right_rev r =
     (if space_len_end r = 0 then r else trim_right_rev (drop (space_len_end r) r))"
  by pat_completeness auto
termination
  by (relation "measure length") (auto simp: space_len_end_def split: if_splits)

declare trim_left.simps [simp del] trim_right_rev.simps [simp del]

definition TrimSpace :: "string \<Rightarrow> string" where
  "TrimSpace s = rev (trim_right_rev (rev (trim_left s)))"

definition HasSuffix :: "string \<Rightarrow> string \<Rightarrow> bool" where
  "HasSuffix s suf \<longleftrightarrow> length suf \<le> length s \<and> drop (length s - length suf) s = suf"

lemma TrimSpace_Nil [simp]: "TrimSpace [] = []"
  by (simp add: TrimSpace_def trim_left.simps [of "[]"] trim_right_rev.simps [of "[]"]
      space_len_def space_len_end_def)

lemma HasSuffix_append [simp]: "HasSuffix (p @ suf) suf"
  by (simp add: HasSuffix_def)

lemma HasSuffix_iff: "HasSuffix s suf \<longleftrightarrow> (\<exists>p. s = p @ suf)"
proof
  assume "HasSuffix s suf"
  then have "s = take (length s - length suf) s @ suf"
    by (metis HasSuffix_def append_take_drop_id)
  then show "\<exists>p. s = p @ suf" ..
qed auto

subsection \<open>Decimal numerals\<close>

text \<open>strconv.Itoa of a natural number, and the zero-padded numerals of Time.Format.\<close>

fun itoa :: "nat \<Rightarrow> string" where
  "itoa n = (if n < 10 then [char_of (48 + n)] else itoa (n div 10) @ [char_of (48 + n mod 10)])"

declare itoa.simps [simp del]

definition zero_pad :: "nat \<Rightarrow> nat \<Rightarrow> string" where
  "zero_pad w n = replicate (w - length (itoa n)) CHR ''0'' @ itoa n"

lemma length_itoa_le: "n < 10 ^ w \<Longrightarrow> 0 < w \<Longrightarrow> length (itoa n) \<le> w"
proof (induction w arbitrary: n)
  case (Suc w)
  show ?case
  proof (cases "n < 10")
    case True
    then show ?thesis by (simp add: itoa.simps)
  next
    case False
    then have "0 < w" using Suc.prems by (cases w) auto
    moreover have "n div 10 < 10 ^ w" using Suc.prems by (simp add: less_mult_imp_div_less mult.commute)
    ultimately have "length (itoa (n div 10)) \<le> w" by (rule Suc.IH [rotated])
    then show ?thesis using False by (simp add: itoa.simps [of n])
  qed
qed simp

lemma length_zero_pad: "n < 10 ^ w \<Longrightarrow> 0 < w \<Longrightarrow> length (zero_pad w n) = w"
  using length_itoa_le [of n w] by (simp add: zero_pad_def)

subsection \<open>Clean-up loops\<close>

text \<open>
  The program calls lists of Unsubscribe closures in reverse order, either keeping the first
  error or discarding all of them. The closures act on the world, which they take and return.
\<close>

definition first_err :: "'e option \<Rightarrow> 'e option \<Rightarrow> 'e option" where
  "first_err old new = (if new \<noteq> None \<and> old = None then new else old)"

fun call_all :: "('u \<Rightarrow> 's \<Rightarrow> 's \<times> 'e option) \<Rightarrow> 'u list \<Rightarrow> 's \<Rightarrow> 'e option \<Rightarrow> 's \<times> 'e option" where
  "call_all f [] s fe = (s, fe)"
| "call_all f (u # us) s fe = (case f u s of (s', e) \<Rightarrow> call_all f us s' (first_err fe e))"

lemma first_err_None [simp]: "first_err None e = e" "first_err fe None = fe"
  by (auto simp: first_err_def)

lemma first_err_Some [simp]: "first_err (Some x) e = Some x"
  by (simp add: first_err_def)

lemma call_all_append:
  "call_all f (us @ vs) s fe = (case call_all f us s fe of (s', e) \<Rightarrow> call_all f vs s' e)"
  by (induction us arbitrary: s fe) (auto split: prod.splits)

lemma call_all_world: "fst (call_all f us s fe) = fst (call_all f us s fe')"
  by (induction us arbitrary: s fe fe') (auto split: prod.splits)

lemma call_all_err_kept: "snd (call_all f us s (Some e)) = Some e"
  by (induction us arbitrary: s) (auto split: prod.splits)

text \<open>Calling a list of void callbacks in order.\<close>

fun call_hooks :: "('a \<Rightarrow> 's \<Rightarrow> 's) list \<Rightarrow> 'a \<Rightarrow> 's \<Rightarrow> 's" where
  "call_hooks [] a s = s"
| "call_hooks (h # hs) a s = call_hooks hs a (h a s)"

lemma call_hooks_append: "call_hooks (hs @ gs) a s = call_hooks gs a (call_hooks hs a s)"
  by (induction hs arbitrary: s) auto

lemma call_hooks_pres:
  "(\<And>h s. h \<in> set hs \<Longrightarrow> P (h a s) = P s) \<Longrightarrow> P (call_hooks hs a s) = P s"
  by (induction hs arbitrary: s) auto

text \<open>Removing an absent key from a list of pairs.\<close>

lemma filter_fst_absent: "u \<notin> fst ` set xs \<Longrightarrow> filter (\<lambda>(v, h). v \<noteq> u) xs = xs"
  by (induction xs) auto

subsection \<open>Ranging over a Go map\<close>

definition iteration_of :: "'k list \<Rightarrow> ('k \<rightharpoonup> 'v) \<Rightarrow> bool" where
  "iteration_of ks m \<longleftrightarrow> distinct ks \<and> set ks = dom m"

definition map_values :: "'k list \<Rightarrow> ('k \<rightharpoonup> 'v) \<Rightarrow> 'v list" where
  "map_values ks m = map (\<lambda>k. the (m k)) ks"

lemma iteration_of_empty [simp]: "iteration_of ks Map.empty \<longleftrightarrow> ks = []"
  by (auto simp: iteration_of_def)

lemma iteration_of_mem: "iteration_of ks m \<Longrightarrow> k \<in> set ks \<longleftrightarrow> (\<exists>v. m k = Some v)"
  by (auto simp: iteration_of_def)

lemma map_values_Nil [simp]: "map_values [] m = []"
  by (simp add: map_values_def)

lemma map_values_Cons [simp]: "map_values (k # ks) m = the (m k) # map_values ks m"
  by (simp add: map_values_def)

lemma ex5I: "P a b c d e \<Longrightarrow> \<exists>a b c d e. P a b c d e"
  by blast

end
