(* ===== verification/Vda_Types.thy ===== *)
theory Vda_Types
  imports Go_Prelude
begin

text \<open>
  The message types of vda5050-types-go, reduced to the fields this repository reads or writes;
  everything else of a message is one opaque field. ConnectionState is a string type whose three
  named constants the fleet session switches on (they are distinct, or the Go switch would not
  compile); any other string is OtherConnectionState. The strings of the action names and of the
  blocking type are not under src/: they are the record vda_consts, an argument of the
  definitions that use them.
\<close>

record protocol_header =
  h_HeaderId :: u32
  h_Timestamp :: string
  h_Version :: string
  h_Manufacturer :: string
  h_SerialNumber :: string

record action_state =
  as_ActionId :: string
  as_ActionStatus :: string
  as_ActionType :: "string option"

record vstate =
  st_LastNodeId :: string
  st_OrderId :: string
  st_OrderUpdateId :: u32
  st_ActionStates :: "action_state list"
  st_rest :: opaque

datatype connection_state = Online | Offline | ConnectionBroken | OtherConnectionState string

record connection =
  cn_ConnectionState :: connection_state
  cn_rest :: opaque

record vorder =
  o_header :: protocol_header
  o_OrderId :: string
  o_OrderUpdateId :: u32
  o_rest :: opaque

record action_parameter =
  ap_Key :: string
  ap_Value :: any

record instant_action =
  ia_ActionType :: string
  ia_ActionId :: string
  ia_BlockingType :: string
  ia_Parameters :: "action_parameter list"
  ia_rest :: opaque

record instant_actions =
  ias_header :: protocol_header
  ias_Actions :: "instant_action list"

datatype vda_action =
    ActionCancelOrder
  | ActionStartPause
  | ActionStopPause
  | ActionStateRequest
  | ActionFactsheetRequest
  | ActionStartCharging
  | ActionStopCharging
  | ActionInitPosition

record vda_consts =
  vda_action_name :: "vda_action \<Rightarrow> string"
  vda_Hard :: string

definition zero_header :: protocol_header where
  "zero_header = \<lparr>h_HeaderId = 0, h_Timestamp = [], h_Version = [],
     h_Manufacturer = [], h_SerialNumber = []\<rparr>"

end
