(* ===== verification/Facts.thy ===== *)
theory Facts
  imports Vda_Types
begin

text \<open>
  facts/facts.go: the protocol facts between two consecutive State messages. Apply is the Go
  function, its two loops as recursions over the action lists. The observables of a state and the
  replay of facts over them state what the facts are good for: they are a lossless difference.
\<close>

type_synonym kind = string

definition KindLastNodeChanged :: kind where
  "KindLastNodeChanged = ''LastNodeChanged''"
definition KindOrderIdChanged :: kind where
  "KindOrderIdChanged = ''OrderIdChanged''"
definition KindOrderUpdateChanged :: kind where
  "KindOrderUpdateChanged = ''OrderUpdateChanged''"
definition KindActionTransitioned :: kind where
  "KindActionTransitioned = ''ActionTransitioned''"

lemmas kind_defs =
  KindLastNodeChanged_def KindOrderIdChanged_def KindOrderUpdateChanged_def
  KindActionTransitioned_def

record fact =
  f_Kind :: kind
  f_PrevLastNodeID :: string
  f_NextLastNodeID :: string
  f_PrevOrderID :: string
  f_NextOrderID :: string
  f_PrevOrderUpdateID :: u32
  f_NextOrderUpdateID :: u32
  f_ActionID :: string
  f_PrevStatus :: string
  f_NextStatus :: string
  f_ActionType :: string

text \<open>A composite literal Fact{Kind: k} leaves every other field at its zero value.\<close>

definition zero_fact :: "kind \<Rightarrow> fact" where
  "zero_fact k = \<lparr>f_Kind = k, f_PrevLastNodeID = [], f_NextLastNodeID = [],
     f_PrevOrderID = [], f_NextOrderID = [], f_PrevOrderUpdateID = 0, f_NextOrderUpdateID = 0,
     f_ActionID = [], f_PrevStatus = [], f_NextStatus = [], f_ActionType = []\<rparr>"

definition derefStr :: "string option \<Rightarrow> string" where
  "derefStr p = (case p of None \<Rightarrow> [] | Some s \<Rightarrow> s)"

fun index_actions :: "action_state list \<Rightarrow> (string \<rightharpoonup> action_state) \<Rightarrow> (string \<rightharpoonup> action_state)" where
  "index_actions [] m = m"
| "index_actions (a # as) m = index_actions as (m(as_ActionId a \<mapsto> a))"

definition action_fact :: "string \<Rightarrow> action_state \<Rightarrow> fact" where
  "action_fact prevStatus a =
     (zero_fact KindActionTransitioned)\<lparr>f_ActionID := as_ActionId a, f_PrevStatus := prevStatus,
        f_NextStatus := as_ActionStatus a, f_ActionType := derefStr (as_ActionType a)\<rparr>"

fun action_facts :: "(string \<rightharpoonup> action_state) \<Rightarrow> action_state list \<Rightarrow> fact list" where
  "action_facts prev [] = []"
| "action_facts prev (a # as) =
     (case prev (as_ActionId a) of
        None \<Rightarrow> [action_fact [] a]
      | Some old \<Rightarrow>
          if as_ActionStatus old \<noteq> as_ActionStatus a
          then [action_fact (as_ActionStatus old) a] else [])
     @ action_facts prev as"

definition Apply :: "vstate option \<Rightarrow> vstate option \<Rightarrow> fact list" where
  "Apply prev next =
     (case next of None \<Rightarrow> [] | Some n \<Rightarrow>
       (let prevNode = (case prev of None \<Rightarrow> [] | Some p \<Rightarrow> st_LastNodeId p);
            prevOrder = (case prev of None \<Rightarrow> [] | Some p \<Rightarrow> st_OrderId p);
            prevUpdate = (case prev of None \<Rightarrow> 0 | Some p \<Rightarrow> st_OrderUpdateId p);
            prevActions = (case prev of None \<Rightarrow> Map.empty
                           | Some p \<Rightarrow> index_actions (st_ActionStates p) Map.empty)
        in
          (if prevNode \<noteq> st_LastNodeId n
           then [(zero_fact KindLastNodeChanged)\<lparr>f_PrevLastNodeID := prevNode,
                   f_NextLastNodeID := st_LastNodeId n\<rparr>] else [])
        @ (if prevOrder \<noteq> st_OrderId n
           then [(zero_fact KindOrderIdChanged)\<lparr>f_PrevOrderID := prevOrder,
                   f_NextOrderID := st_OrderId n\<rparr>] else [])
        @ (if prevUpdate \<noteq> st_OrderUpdateId n
           then [(zero_fact KindOrderUpdateChanged)\<lparr>f_PrevOrderID := st_OrderId n,
                   f_NextOrderID := st_OrderId n, f_PrevOrderUpdateID := prevUpdate,
                   f_NextOrderUpdateID := st_OrderUpdateId n\<rparr>] else [])
        @ action_facts prevActions (st_ActionStates n)))"

subsection \<open>Observables and replay\<close>

record observed =
  ob_node :: string
  ob_order :: string
  ob_update :: u32
  ob_status :: "string \<rightharpoonup> string"

definition status_of :: "action_state list \<Rightarrow> (string \<rightharpoonup> string)" where
  "status_of as = map_of (rev (map (\<lambda>a. (as_ActionId a, as_ActionStatus a)) as))"

definition observe :: "vstate option \<Rightarrow> observed" where
  "observe s = (case s of
      None \<Rightarrow> \<lparr>ob_node = [], ob_order = [], ob_update = 0, ob_status = Map.empty\<rparr>
    | Some s \<Rightarrow> \<lparr>ob_node = st_LastNodeId s, ob_order = st_OrderId s,
         ob_update = st_OrderUpdateId s, ob_status = status_of (st_ActionStates s)\<rparr>)"

definition replay_fact :: "fact \<Rightarrow> observed \<Rightarrow> observed" where
  "replay_fact f ob =
     (if f_Kind f = KindLastNodeChanged then ob\<lparr>ob_node := f_NextLastNodeID f\<rparr>
      else if f_Kind f = KindOrderIdChanged then ob\<lparr>ob_order := f_NextOrderID f\<rparr>
      else if f_Kind f = KindOrderUpdateChanged then ob\<lparr>ob_update := f_NextOrderUpdateID f\<rparr>
      else if f_Kind f = KindActionTransitioned
      then ob\<lparr>ob_status := (ob_status ob)(f_ActionID f \<mapsto> f_NextStatus f)\<rparr>
      else ob)"

definition replay :: "fact list \<Rightarrow> observed \<Rightarrow> observed" where
  "replay fs ob = fold replay_fact fs ob"

text \<open>The previous map of the Go loop holds exactly the observed statuses: the last entry wins.\<close>

lemma index_actions_lookup:
  "map_option as_ActionStatus (index_actions as m k) =
     (case status_of as k of None \<Rightarrow> map_option as_ActionStatus (m k) | Some s \<Rightarrow> Some s)"
proof (induction as arbitrary: m)
  case (Cons a as)
  then show ?case
    by (auto simp: status_of_def map_add_def split: option.splits)
qed (simp add: status_of_def)

definition prev_actions :: "vstate option \<Rightarrow> (string \<rightharpoonup> action_state)" where
  "prev_actions prev = (case prev of None \<Rightarrow> Map.empty
     | Some p \<Rightarrow> index_actions (st_ActionStates p) Map.empty)"

lemma prev_actions_status:
  "map_option as_ActionStatus (prev_actions prev k) = ob_status (observe prev) k"
  by (cases prev) (auto simp: prev_actions_def observe_def index_actions_lookup split: option.splits)

text \<open>Apply in terms of what was observed before.\<close>

lemma Apply_observe:
  "Apply prev (Some n) =
     (let ob = observe prev in
        (if ob_node ob \<noteq> st_LastNodeId n
         then [(zero_fact KindLastNodeChanged)\<lparr>f_PrevLastNodeID := ob_node ob,
                 f_NextLastNodeID := st_LastNodeId n\<rparr>] else [])
      @ (if ob_order ob \<noteq> st_OrderId n
         then [(zero_fact KindOrderIdChanged)\<lparr>f_PrevOrderID := ob_order ob,
                 f_NextOrderID := st_OrderId n\<rparr>] else [])
      @ (if ob_update ob \<noteq> st_OrderUpdateId n
         then [(zero_fact KindOrderUpdateChanged)\<lparr>f_PrevOrderID := st_OrderId n,
                 f_NextOrderID := st_OrderId n, f_PrevOrderUpdateID := ob_update ob,
                 f_NextOrderUpdateID := st_OrderUpdateId n\<rparr>] else [])
      @ action_facts (prev_actions prev) (st_ActionStates n))"
  by (cases prev) (simp_all add: Apply_def Let_def observe_def prev_actions_def)

lemma action_facts_Nil_iff:
  "action_facts m as = [] \<longleftrightarrow>
     (\<forall>a \<in> set as. map_option as_ActionStatus (m (as_ActionId a)) = Some (as_ActionStatus a))"
  by (induction as) (auto split: option.splits)

lemma replay_Cons [simp]: "replay (f # fs) ob = replay fs (replay_fact f ob)"
  by (simp add: replay_def)

lemma replay_Nil [simp]: "replay [] ob = ob"
  by (simp add: replay_def)

lemma replay_append: "replay (fs @ gs) ob = replay gs (replay fs ob)"
  by (simp add: replay_def)

lemma replay_action_fact [simp]:
  "replay_fact (action_fact s a) ob =
     ob\<lparr>ob_status := (ob_status ob)(as_ActionId a \<mapsto> as_ActionStatus a)\<rparr>"
  by (simp add: replay_fact_def action_fact_def zero_fact_def kind_defs)

text \<open>Replaying the action facts brings every action of the new message to its new status.\<close>

lemma replay_action_facts:
  assumes "distinct (map as_ActionId as)"
    and "\<forall>a \<in> set as. map_option as_ActionStatus (m (as_ActionId a)) = ob_status ob (as_ActionId a)"
  shows "replay (action_facts m as) ob = ob\<lparr>ob_status := ob_status ob ++ status_of as\<rparr>"
  using assms
proof (induction as arbitrary: ob)
  case (Cons a as)
  let ?ob = "ob\<lparr>ob_status := (ob_status ob)(as_ActionId a \<mapsto> as_ActionStatus a)\<rparr>"
  have fresh: "as_ActionId a \<notin> dom (status_of as)"
    using Cons.prems(1) by (auto simp: status_of_def dom_map_of_conv_image_fst)
  have "replay (action_facts m (a # as)) ob = replay (action_facts m as) ?ob"
  proof (cases "m (as_ActionId a)")
    case (Some old)
    then have "ob = ?ob" if "as_ActionStatus old = as_ActionStatus a"
      using Cons.prems(2) that by (cases ob) (auto simp: fun_upd_idem_iff)
    with Some show ?thesis by (auto simp: replay_append)
  qed simp
  also have "\<dots> = ?ob\<lparr>ob_status := ob_status ?ob ++ status_of as\<rparr>"
    using Cons.prems by (intro Cons.IH) (auto simp: image_iff)
  also have "ob_status ?ob ++ status_of as = ob_status ob ++ status_of (a # as)"
    using fresh by (auto simp: status_of_def map_add_def fun_eq_iff split: option.splits)
  finally show ?case by simp
qed (simp add: status_of_def)

text \<open>
  What a fact says of the past is what was observed: the previous node, order id, order update id,
  or status of the action (blank for an action that was not seen before).
\<close>

definition names_previous :: "observed \<Rightarrow> fact \<Rightarrow> bool" where
  "names_previous ob f \<longleftrightarrow>
     (f_Kind f = KindLastNodeChanged \<longrightarrow> f_PrevLastNodeID f = ob_node ob) \<and>
     (f_Kind f = KindOrderIdChanged \<longrightarrow> f_PrevOrderID f = ob_order ob) \<and>
     (f_Kind f = KindOrderUpdateChanged \<longrightarrow> f_PrevOrderUpdateID f = ob_update ob) \<and>
     (f_Kind f = KindActionTransitioned \<longrightarrow>
        f_PrevStatus f = (case ob_status ob (f_ActionID f) of None \<Rightarrow> [] | Some x \<Rightarrow> x))"

text \<open>A fact about an action is about one of the message, with its status and type.\<close>

definition about_action :: "vstate \<Rightarrow> fact \<Rightarrow> bool" where
  "about_action n f \<longleftrightarrow> f_Kind f \<noteq> KindActionTransitioned \<or>
     (\<exists>a\<in>set (st_ActionStates n). f_ActionID f = as_ActionId a \<and> f_NextStatus f = as_ActionStatus a \<and>
        f_ActionType f = (case as_ActionType a of None \<Rightarrow> [] | Some t \<Rightarrow> t))"

lemma names_previous_action [simp]:
  "names_previous ob (action_fact x a) \<longleftrightarrow>
     x = (case ob_status ob (as_ActionId a) of None \<Rightarrow> [] | Some y \<Rightarrow> y)"
  by (auto simp: names_previous_def action_fact_def zero_fact_def kind_defs)

lemma action_facts_honest:
  assumes "\<forall>a \<in> set as. map_option as_ActionStatus (m (as_ActionId a)) = ob_status ob (as_ActionId a)"
    and "f \<in> set (action_facts m as)"
  shows "names_previous ob f \<and> replay_fact f ob \<noteq> ob"
proof -
  obtain x a where a: "a \<in> set as" "f = action_fact x a"
    "(m (as_ActionId a) = None \<and> x = []) \<or>
      (\<exists>old. m (as_ActionId a) = Some old \<and> x = as_ActionStatus old \<and> as_ActionStatus old \<noteq> as_ActionStatus a)"
    using assms(2) by (induction as) (auto split: option.splits if_splits)
  have "ob_status ob (as_ActionId a) = map_option as_ActionStatus (m (as_ActionId a))"
    using assms(1) a(1) by metis
  then have "names_previous ob f" "ob_status (replay_fact f ob) (as_ActionId a) \<noteq> ob_status ob (as_ActionId a)"
    using a(2,3) by auto
  then show ?thesis by auto
qed

lemma action_facts_about:
  "set as \<subseteq> set (st_ActionStates n) \<Longrightarrow> f \<in> set (action_facts m as) \<Longrightarrow> about_action n f"
proof (induction as)
  case (Cons a as)
  have "about_action n (action_fact x a)" for x
    using Cons.prems(1) by (auto simp: about_action_def action_fact_def zero_fact_def derefStr_def)
  then show ?case using Cons by (auto split: option.splits if_splits)
qed simp

lemma Apply_honest:
  assumes "f \<in> set (Apply prev (Some n))"
  shows "names_previous (observe prev) f \<and> replay_fact f (observe prev) \<noteq> observe prev \<and> about_action n f"
proof -
  have stat: "\<forall>a \<in> set (st_ActionStates n). map_option as_ActionStatus (prev_actions prev (as_ActionId a)) =
      ob_status (observe prev) (as_ActionId a)" by (simp add: prev_actions_status)
  consider (act) "f \<in> set (action_facts (prev_actions prev) (st_ActionStates n))"
    | (other) "f_Kind f \<noteq> KindActionTransitioned"
      "names_previous (observe prev) f" "replay_fact f (observe prev) \<noteq> observe prev"
    using assms by (cases "observe prev")
      (auto simp: Apply_observe Let_def names_previous_def zero_fact_def kind_defs replay_fact_def split: if_splits)
  then show ?thesis
  proof cases
    case act
    then show ?thesis using action_facts_honest [OF stat] action_facts_about [of "st_ActionStates n" n f] by blast
  next
    case other
    then show ?thesis by (simp add: about_action_def)
  qed
qed

text \<open>
  C28. The facts between two states are a lossless difference. Replaying them over what was observed
  before gives the new node, order id and order update id, and the old statuses updated with those
  of the new message: an action that disappeared keeps its old status, because no fact reports
  disappearance. Each fact is a change, names as previous what was observed before (for a change
  of the order update id this is the previous update id, not the previous order), and one about an
  action has the status and type of an action of the message. The action ids of the new message are
  assumed to be distinct.
\<close>

theorem Apply_replay:
  assumes "distinct (map as_ActionId (st_ActionStates n))"
  shows "replay (Apply prev (Some n)) (observe prev) =
      \<lparr>ob_node = st_LastNodeId n, ob_order = st_OrderId n, ob_update = st_OrderUpdateId n,
       ob_status = ob_status (observe prev) ++ status_of (st_ActionStates n)\<rparr> \<and>
    list_all (\<lambda>f. names_previous (observe prev) f \<and> replay_fact f (observe prev) \<noteq> observe prev \<and>
      about_action n f) (Apply prev (Some n))"
proof -
  let ?ob = "\<lparr>ob_node = st_LastNodeId n, ob_order = st_OrderId n,
    ob_update = st_OrderUpdateId n, ob_status = ob_status (observe prev)\<rparr>"
  have "replay (Apply prev (Some n)) (observe prev) =
      replay (action_facts (prev_actions prev) (st_ActionStates n)) ?ob"
    by (cases "observe prev")
      (auto simp: Apply_observe Let_def replay_append replay_fact_def zero_fact_def kind_defs)
  also have "\<dots> = ?ob\<lparr>ob_status := ob_status ?ob ++ status_of (st_ActionStates n)\<rparr>"
    using assms by (intro replay_action_facts) (auto simp: prev_actions_status)
  finally show ?thesis by (simp add: list_all_iff Apply_honest)
qed

text \<open>
  No facts exactly when nothing observable changed: same node, order id and order update id,
  and every action of the new message already had its status.
\<close>

theorem Apply_Nil_iff:
  "Apply prev (Some n) = [] \<longleftrightarrow>
     ob_node (observe prev) = st_LastNodeId n \<and> ob_order (observe prev) = st_OrderId n \<and>
     ob_update (observe prev) = st_OrderUpdateId n \<and>
     list_all (\<lambda>a. ob_status (observe prev) (as_ActionId a) = Some (as_ActionStatus a))
       (st_ActionStates n)"
  by (auto simp: Apply_observe Let_def action_facts_Nil_iff prev_actions_status list_all_iff)

text \<open>
  C37. When both the order and its update id change, the OrderUpdateChanged fact names the new
  order as the previous one too: its PrevOrderID is not the order the vehicle had before.
\<close>

theorem OrderUpdate_fact_prev_order:
  assumes "st_OrderId p \<noteq> st_OrderId n" and "st_OrderUpdateId p \<noteq> st_OrderUpdateId n"
  shows "\<exists>f \<in> set (Apply (Some p) (Some n)). f_Kind f = KindOrderUpdateChanged \<and>
    f_PrevOrderUpdateID f = st_OrderUpdateId p \<and> f_PrevOrderID f = st_OrderId n \<and>
    f_PrevOrderID f \<noteq> st_OrderId p"
  using assms by (auto simp: Apply_observe Let_def observe_def zero_fact_def)

definition example_state :: "string \<Rightarrow> string \<Rightarrow> u32 \<Rightarrow> (string \<times> string) list \<Rightarrow> vstate" where
  "example_state node ord upd acts = \<lparr>st_LastNodeId = node, st_OrderId = ord,
     st_OrderUpdateId = upd,
     st_ActionStates = map (\<lambda>(i, s). \<lparr>as_ActionId = i, as_ActionStatus = s, as_ActionType = None\<rparr>) acts,
     st_rest = Opaque 0\<rparr>"

theorem Apply_replay_witness:
  "let prev = Some (example_state ''N1'' ''o1'' 1 [(''a1'', ''WAITING'')]);
       next = example_state ''N2'' ''o1'' 2 [(''a1'', ''RUNNING'')] in
     ob_status (replay (Apply prev (Some next)) (observe prev)) ''a1'' = Some ''RUNNING'' \<and>
     list_all (names_previous (observe prev)) (Apply prev (Some next))"
  using Apply_replay [of "example_state ''N2'' ''o1'' 2 [(''a1'', ''RUNNING'')]"
      "Some (example_state ''N1'' ''o1'' 1 [(''a1'', ''WAITING'')])"]
  by (simp add: example_state_def status_of_def list_all_iff Let_def)

theorem OrderUpdate_fact_prev_order_witness:
  "\<exists>f \<in> set (Apply (Some (example_state ''N1'' ''o1'' 1 [])) (Some (example_state ''N1'' ''o2'' 2 []))).
     f_Kind f = KindOrderUpdateChanged \<and> f_PrevOrderID f = ''o2''"
proof -
  have "st_OrderId (example_state ''N1'' ''o1'' 1 []) \<noteq> st_OrderId (example_state ''N1'' ''o2'' 2 [])"
    "st_OrderUpdateId (example_state ''N1'' ''o1'' 1 []) \<noteq>
       st_OrderUpdateId (example_state ''N1'' ''o2'' 2 [])"
    by (simp_all add: example_state_def)
  from OrderUpdate_fact_prev_order [OF this] show ?thesis
    by (auto simp: example_state_def)
qed

end
