(* ===== verification/Gerr_Codes.thy ===== *)
theory Gerr_Codes
  imports Go_Prelude
begin

text \<open>
  internal/gerrors/code.go: the table of coded errors. Each wrapper is a record with the fields
  the file gives it (messages in the order of the source, the Chinese text as its UTF-8 bytes);
  gkey names the sentinels, wrapper_of says from which wrapper a sentinel is made, registered is
  the order of the init function. The library gerr itself (NewError, Register, With, Args, Is)
  is not under src/: its Register is an argument of gerr_init, its values are kept symbolic in
  theory Go_Errors.
\<close>

datatype severity = SeverityError | SeverityWarning

record err_wrapper =
  gw_Key :: string
  gw_Code :: string
  gw_Category :: string
  gw_Severity :: severity
  gw_Messages :: "(string \<times> string) list"
  gw_Description :: string

text \<open>Bytes that are not ASCII, written by their codes.\<close>

definition utf8 :: "nat list \<Rightarrow> string" where
  "utf8 = map char_of"

subsection \<open>The wrappers\<close>

definition invalidConfigErr :: err_wrapper where
  "invalidConfigErr = \<lparr>gw_Key = ''InvalidConfig'', gw_Code = ''InvalidConfig'',
     gw_Category = ''validation'', gw_Severity = SeverityError,
     gw_Messages = [(''cn'', (utf8 [230, 151, 160, 230, 149, 136, 233, 133, 141, 231, 189, 174] @ '': %s'')),
       (''en'', ''Invalid configuration: %s'')],
     gw_Description = ''invalid navlink client configuration''\<rparr>"

definition clientNotStartedErr :: err_wrapper where
  "clientNotStartedErr = \<lparr>gw_Key = ''ClientNotStarted'', gw_Code = ''ClientNotStarted'',
     gw_Category = ''system'', gw_Severity = SeverityError,
     gw_Messages = [(''en'', ''Client is not started''),
       (''cn'', (utf8 [229, 174, 162, 230, 136, 183, 231, 171, 175, 230, 156, 170, 229, 144, 175, 229, 138, 168]))],
     gw_Description = ''navlink client has not been started''\<rparr>"

definition clientAlreadyStartedErr :: err_wrapper where
  "clientAlreadyStartedErr = \<lparr>gw_Key = ''ClientAlreadyStarted'', gw_Code = ''ClientAlreadyStarted'',
     gw_Category = ''system'', gw_Severity = SeverityError,
     gw_Messages = [(''cn'', (utf8 [229, 174, 162, 230, 136, 183, 231, 171, 175, 229, 183, 178, 229, 144, 175, 229, 138, 168])),
       (''en'', ''Client is already started'')],
     gw_Description = ''navlink client is already started''\<rparr>"

definition decodeFailedErr :: err_wrapper where
  "decodeFailedErr = \<lparr>gw_Key = ''DecodeFailed'', gw_Code = ''DecodeFailed'',
     gw_Category = ''protocol'', gw_Severity = SeverityError,
     gw_Messages = [(''en'', ''Decode failed: %s''),
       (''cn'', (utf8 [232, 167, 163, 231, 160, 129, 229, 164, 177, 232, 180, 165] @ '': %s''))],
     gw_Description = ''failed to decode VDA5050 payload''\<rparr>"

definition identityMismatchErr :: err_wrapper where
  "identityMismatchErr = \<lparr>gw_Key = ''IdentityMismatch'', gw_Code = ''IdentityMismatch'',
     gw_Category = ''validation'', gw_Severity = SeverityError,
     gw_Messages = [(''cn'', (utf8 [232, 186, 171, 228, 187, 189, 228, 184, 141, 228, 184, 128, 232, 135, 180] @ '': topic '' @ utf8 [228, 184, 142, 230, 138, 165, 230, 150, 135] @ '' header '' @ utf8 [228, 184, 141, 229, 140, 185, 233, 133, 141])),
       (''en'', ''Identity mismatch between topic and payload header'')],
     gw_Description = ''topic identity does not match payload header''\<rparr>"

definition idAllocationFailedErr :: err_wrapper where
  "idAllocationFailedErr = \<lparr>gw_Key = ''IdAllocationFailed'', gw_Code = ''IdAllocationFailed'',
     gw_Category = ''system'', gw_Severity = SeverityError,
     gw_Messages = [(''en'', ''ID allocation failed: %s''),
       (''cn'', (''ID '' @ utf8 [229, 136, 134, 233, 133, 141, 229, 164, 177, 232, 180, 165] @ '': %s''))],
     gw_Description = ''failed to allocate outbound protocol id''\<rparr>"

definition mQTTTransportNotRunningErr :: err_wrapper where
  "mQTTTransportNotRunningErr = \<lparr>gw_Key = ''MQTTTransportNotRunning'', gw_Code = ''TransportNotRunning'',
     gw_Category = ''system'', gw_Severity = SeverityError,
     gw_Messages = [(''en'', ''MQTT transport is not running''),
       (''cn'', (''MQTT transport '' @ utf8 [230, 156, 170, 229, 144, 175, 229, 138, 168]))],
     gw_Description = ''mqtt transport not running''\<rparr>"

definition mQTTTransportAlreadyRunningErr :: err_wrapper where
  "mQTTTransportAlreadyRunningErr = \<lparr>gw_Key = ''MQTTTransportAlreadyRunning'', gw_Code = ''TransportAlreadyRunning'',
     gw_Category = ''system'', gw_Severity = SeverityError,
     gw_Messages = [(''cn'', (''MQTT'' @ utf8 [232, 189, 172, 230, 141, 162, 229, 153, 168, 229, 183, 178, 231, 187, 143, 229, 144, 175, 229, 138, 168])),
       (''en'', ''MQTT transport already running'')],
     gw_Description = ''mqtt transport already running''\<rparr>"

definition connectionFailedErr :: err_wrapper where
  "connectionFailedErr = \<lparr>gw_Key = ''ConnectionFailed'', gw_Code = ''ConnectionFailed'',
     gw_Category = ''network'', gw_Severity = SeverityError,
     gw_Messages = [(''cn'', (utf8 [232, 191, 158, 230, 142, 165] @ ''MQTT'' @ utf8 [228, 187, 163, 231, 144, 134, 229, 164, 177, 232, 180, 165])),
       (''en'', ''Failed to connect to MQTT broker'')],
     gw_Description = ''failed to connect to mqtt broker''\<rparr>"

definition authenticationFailedErr :: err_wrapper where
  "authenticationFailedErr = \<lparr>gw_Key = ''AuthenticationFailed'', gw_Code = ''AuthenticationFailed'',
     gw_Category = ''security'', gw_Severity = SeverityError,
     gw_Messages = [(''en'', ''MQTT authentication failed''),
       (''cn'', (''MQTT'' @ utf8 [232, 174, 164, 232, 175, 129, 229, 164, 177, 232, 180, 165]))],
     gw_Description = ''mqtt authentication failed''\<rparr>"

definition subscriptionFailedErr :: err_wrapper where
  "subscriptionFailedErr = \<lparr>gw_Key = ''SubscriptionFailed'', gw_Code = ''SubscriptionFailed'',
     gw_Category = ''network'', gw_Severity = SeverityError,
     gw_Messages = [(''cn'', (utf8 [232, 174, 162, 233, 152, 133, 228, 184, 187, 233, 162, 152, 229, 164, 177, 232, 180, 165])),
       (''en'', ''Failed to subscribe to topic'')],
     gw_Description = ''failed to subscribe to topic''\<rparr>"

definition publishFailedErr :: err_wrapper where
  "publishFailedErr = \<lparr>gw_Key = ''PublishFailed'', gw_Code = ''PublishFailed'',
     gw_Category = ''network'', gw_Severity = SeverityError,
     gw_Messages = [(''cn'', (utf8 [229, 143, 145, 229, 184, 131, 230, 182, 136, 230, 129, 175, 229, 164, 177, 232, 180, 165])),
       (''en'', ''Failed to publish message'')],
     gw_Description = ''failed to publish message''\<rparr>"

definition invalidTopicErr :: err_wrapper where
  "invalidTopicErr = \<lparr>gw_Key = ''InvalidTopic'', gw_Code = ''InvalidTopic'',
     gw_Category = ''validation'', gw_Severity = SeverityError,
     gw_Messages = [(''en'', ''Invalid MQTT topic format''),
       (''cn'', (utf8 [230, 151, 160, 230, 149, 136, 231, 154, 132] @ ''MQTT'' @ utf8 [228, 184, 187, 233, 162, 152, 230, 160, 188, 229, 188, 143]))],
     gw_Description = ''invalid mqtt topic format''\<rparr>"

definition clientNotConnectedErr :: err_wrapper where
  "clientNotConnectedErr = \<lparr>gw_Key = ''ClientNotConnected'', gw_Code = ''ClientNotConnected'',
     gw_Category = ''network'', gw_Severity = SeverityError,
     gw_Messages = [(''cn'', (''MQTT'' @ utf8 [229, 174, 162, 230, 136, 183, 231, 171, 175, 230, 156, 170, 232, 191, 158, 230, 142, 165])),
       (''en'', ''MQTT client is not connected'')],
     gw_Description = ''mqtt client is not connected''\<rparr>"

definition reconnectFailedErr :: err_wrapper where
  "reconnectFailedErr = \<lparr>gw_Key = ''ReconnectFailed'', gw_Code = ''ReconnectFailed'',
     gw_Category = ''network'', gw_Severity = SeverityError,
     gw_Messages = [(''en'', ''Failed to reconnect to broker''),
       (''cn'', (utf8 [233, 135, 141, 230, 150, 176, 232, 191, 158, 230, 142, 165, 228, 187, 163, 231, 144, 134, 229, 164, 177, 232, 180, 165]))],
     gw_Description = ''failed to reconnect to broker''\<rparr>"

definition tLSConfigErrorErr :: err_wrapper where
  "tLSConfigErrorErr = \<lparr>gw_Key = ''TLSConfigError'', gw_Code = ''TLSConfigError'',
     gw_Category = ''security'', gw_Severity = SeverityError,
     gw_Messages = [(''cn'', (''TLS'' @ utf8 [233, 133, 141, 231, 189, 174, 230, 151, 160, 230, 149, 136])),
       (''en'', ''Invalid TLS configuration'')],
     gw_Description = ''invalid tls configuration''\<rparr>"

definition willMessageErrorErr :: err_wrapper where
  "willMessageErrorErr = \<lparr>gw_Key = ''WillMessageError'', gw_Code = ''WillMessageError'',
     gw_Category = ''validation'', gw_Severity = SeverityError,
     gw_Messages = [(''cn'', (utf8 [233, 129, 151, 229, 152, 177, 230, 182, 136, 230, 129, 175, 233, 133, 141, 231, 189, 174, 230, 151, 160, 230, 149, 136])),
       (''en'', ''Invalid will message configuration'')],
     gw_Description = ''invalid will message configuration''\<rparr>"

definition qosNotSupportedErr :: err_wrapper where
  "qosNotSupportedErr = \<lparr>gw_Key = ''QosNotSupported'', gw_Code = ''QosNotSupported'',
     gw_Category = ''validation'', gw_Severity = SeverityError,
     gw_Messages = [(''en'', ''Requested QoS level not supported''),
       (''cn'', (utf8 [228, 184, 141, 230, 148, 175, 230, 140, 129, 231, 154, 132] @ ''QoS'' @ utf8 [231, 186, 167, 229, 136, 171]))],
     gw_Description = ''requested qos level not supported''\<rparr>"

definition messageTooLargeErr :: err_wrapper where
  "messageTooLargeErr = \<lparr>gw_Key = ''MessageTooLarge'', gw_Code = ''MessageTooLarge'',
     gw_Category = ''validation'', gw_Severity = SeverityError,
     gw_Messages = [(''en'', ''Message size exceeds limit''),
       (''cn'', (utf8 [230, 182, 136, 230, 129, 175, 229, 164, 167, 229, 176, 143, 232, 182, 133, 232, 191, 135, 233, 153, 144, 229, 136, 182]))],
     gw_Description = ''message size exceeds limit''\<rparr>"

definition brokerUnavailableErr :: err_wrapper where
  "brokerUnavailableErr = \<lparr>gw_Key = ''BrokerUnavailable'', gw_Code = ''BrokerUnavailable'',
     gw_Category = ''network'', gw_Severity = SeverityError,
     gw_Messages = [(''en'', ''MQTT broker is unavailable''),
       (''cn'', (''MQTT'' @ utf8 [228, 187, 163, 231, 144, 134, 228, 184, 141, 229, 143, 175, 231, 148, 168]))],
     gw_Description = ''mqtt broker is unavailable''\<rparr>"

definition protocolErrorErr :: err_wrapper where
  "protocolErrorErr = \<lparr>gw_Key = ''ProtocolError'', gw_Code = ''ProtocolError'',
     gw_Category = ''protocol'', gw_Severity = SeverityError,
     gw_Messages = [(''cn'', (''MQTT'' @ utf8 [229, 141, 143, 232, 174, 174, 233, 148, 153, 232, 175, 175])),
       (''en'', ''MQTT protocol error'')],
     gw_Description = ''mqtt protocol error''\<rparr>"

definition timeoutErrorErr :: err_wrapper where
  "timeoutErrorErr = \<lparr>gw_Key = ''TimeoutError'', gw_Code = ''TimeoutError'',
     gw_Category = ''network'', gw_Severity = SeverityError,
     gw_Messages = [(''cn'', (utf8 [230, 147, 141, 228, 189, 156, 232, 182, 133, 230, 151, 182])),
       (''en'', ''Operation timed out'')],
     gw_Description = ''operation timed out''\<rparr>"

definition alreadySubscribedErr :: err_wrapper where
  "alreadySubscribedErr = \<lparr>gw_Key = ''AlreadySubscribed'', gw_Code = ''AlreadySubscribed'',
     gw_Category = ''validation'', gw_Severity = SeverityWarning,
     gw_Messages = [(''cn'', (utf8 [229, 183, 178, 231, 187, 143, 232, 174, 162, 233, 152, 133, 232, 175, 165, 228, 184, 187, 233, 162, 152])),
       (''en'', ''Already subscribed to topic'')],
     gw_Description = ''already subscribed to topic''\<rparr>"

definition notSubscribedErr :: err_wrapper where
  "notSubscribedErr = \<lparr>gw_Key = ''NotSubscribed'', gw_Code = ''NotSubscribed'',
     gw_Category = ''validation'', gw_Severity = SeverityWarning,
     gw_Messages = [(''en'', ''Not subscribed to topic''),
       (''cn'', (utf8 [230, 156, 170, 232, 174, 162, 233, 152, 133, 232, 175, 165, 228, 184, 187, 233, 162, 152]))],
     gw_Description = ''not subscribed to topic''\<rparr>"

definition invalidPayloadErr :: err_wrapper where
  "invalidPayloadErr = \<lparr>gw_Key = ''InvalidPayload'', gw_Code = ''InvalidPayload'',
     gw_Category = ''validation'', gw_Severity = SeverityError,
     gw_Messages = [(''cn'', (utf8 [230, 151, 160, 230, 149, 136, 231, 154, 132, 230, 182, 136, 230, 129, 175, 232, 180, 159, 232, 189, 189])),
       (''en'', ''Invalid message payload'')],
     gw_Description = ''invalid message payload''\<rparr>"

definition outboundValidationFailedErr :: err_wrapper where
  "outboundValidationFailedErr = \<lparr>gw_Key = ''OutboundValidationFailed'', gw_Code = ''OutboundValidationFailed'',
     gw_Category = ''validation'', gw_Severity = SeverityError,
     gw_Messages = [(''cn'', (utf8 [229, 135, 186, 231, 171, 153, 230, 160, 161, 233, 170, 140, 229, 164, 177, 232, 180, 165])),
       (''en'', ''Outbound validation failed'')],
     gw_Description = ''outbound message failed light pre-publish validation''\<rparr>"

definition configurationErrorErr :: err_wrapper where
  "configurationErrorErr = \<lparr>gw_Key = ''ConfigurationError'', gw_Code = ''ConfigurationError'',
     gw_Category = ''validation'', gw_Severity = SeverityError,
     gw_Messages = [(''cn'', (''MQTT'' @ utf8 [233, 133, 141, 231, 189, 174, 230, 151, 160, 230, 149, 136] @ '': %s'')),
       (''en'', ''Invalid MQTT configuration: %s'')],
     gw_Description = ''invalid mqtt configuration''\<rparr>"

definition subscriptionNotActiveErr :: err_wrapper where
  "subscriptionNotActiveErr = \<lparr>gw_Key = ''SubscriptionNotActive'', gw_Code = ''SubscriptionNotActive'',
     gw_Category = ''network'', gw_Severity = SeverityError,
     gw_Messages = [(''cn'', (utf8 [228, 184, 187, 233, 162, 152] @ '' %s '' @ utf8 [231, 154, 132, 232, 174, 162, 233, 152, 133, 230, 156, 170, 230, 191, 128, 230, 180, 187])),
       (''en'', ''Subscription to topic %s is not active'')],
     gw_Description = ''subscription to topic is not active''\<rparr>"

definition unsubscribeFailedErr :: err_wrapper where
  "unsubscribeFailedErr = \<lparr>gw_Key = ''UnsubscribeFailed'', gw_Code = ''UnsubscribeFailed'',
     gw_Category = ''network'', gw_Severity = SeverityError,
     gw_Messages = [(''cn'', (utf8 [229, 143, 150, 230, 182, 136, 232, 174, 162, 233, 152, 133, 228, 184, 187, 233, 162, 152] @ '' %s '' @ utf8 [229, 164, 177, 232, 180, 165] @ '': %v'')),
       (''en'', ''Failed to unsubscribe from topic %s: %v'')],
     gw_Description = ''failed to unsubscribe from topic''\<rparr>"

lemmas wrapper_defs =
  invalidConfigErr_def
  clientNotStartedErr_def
  clientAlreadyStartedErr_def
  decodeFailedErr_def
  identityMismatchErr_def
  idAllocationFailedErr_def
  mQTTTransportNotRunningErr_def
  mQTTTransportAlreadyRunningErr_def
  connectionFailedErr_def
  authenticationFailedErr_def
  subscriptionFailedErr_def
  publishFailedErr_def
  invalidTopicErr_def
  clientNotConnectedErr_def
  reconnectFailedErr_def
  tLSConfigErrorErr_def
  willMessageErrorErr_def
  qosNotSupportedErr_def
  messageTooLargeErr_def
  brokerUnavailableErr_def
  protocolErrorErr_def
  timeoutErrorErr_def
  alreadySubscribedErr_def
  notSubscribedErr_def
  invalidPayloadErr_def
  outboundValidationFailedErr_def
  configurationErrorErr_def
  subscriptionNotActiveErr_def
  unsubscribeFailedErr_def

subsection \<open>The sentinels and their order of registration\<close>

datatype gkey =
    InvalidConfig
  | ClientNotStarted
  | ClientAlreadyStarted
  | DecodeFailed
  | IdentityMismatch
  | IdAllocationFailed
  | MQTTTransportNotRunning
  | MQTTTransportAlreadyRunning
  | ConnectionFailed
  | AuthenticationFailed
  | SubscriptionFailed
  | PublishFailed
  | InvalidTopic
  | ClientNotConnected
  | ReconnectFailed
  | TLSConfigError
  | WillMessageError
  | QosNotSupported
  | MessageTooLarge
  | BrokerUnavailable
  | ProtocolError
  | TimeoutError
  | AlreadySubscribed
  | NotSubscribed
  | InvalidPayload
  | OutboundValidationFailed
  | ConfigurationError
  | SubscriptionNotActive
  | UnsubscribeFailed

text \<open>The sentinels are finitely many, so the library can enumerate them.\<close>

instantiation gkey :: enum
begin

definition enum_gkey :: "gkey list" where
  "enum_gkey = [InvalidConfig,
     ClientNotStarted,
     ClientAlreadyStarted,
     DecodeFailed,
     IdentityMismatch,
     IdAllocationFailed,
     MQTTTransportNotRunning,
     MQTTTransportAlreadyRunning,
     ConnectionFailed,
     AuthenticationFailed,
     SubscriptionFailed,
     PublishFailed,
     InvalidTopic,
     ClientNotConnected,
     ReconnectFailed,
     TLSConfigError,
     WillMessageError,
     QosNotSupported,
     MessageTooLarge,
     BrokerUnavailable,
     ProtocolError,
     TimeoutError,
     AlreadySubscribed,
     NotSubscribed,
     InvalidPayload,
     OutboundValidationFailed,
     ConfigurationError,
     SubscriptionNotActive,
     UnsubscribeFailed]"

definition enum_all_gkey :: "(gkey \<Rightarrow> bool) \<Rightarrow> bool" where
  "enum_all_gkey P \<longleftrightarrow> list_all P Enum.enum"

definition enum_ex_gkey :: "(gkey \<Rightarrow> bool) \<Rightarrow> bool" where
  "enum_ex_gkey P \<longleftrightarrow> list_ex P Enum.enum"

instance
proof
  show univ: "UNIV = set (Enum.enum :: gkey list)"
    by (auto simp: enum_gkey_def) (metis gkey.exhaust)
  show "distinct (Enum.enum :: gkey list)"
    by (simp add: enum_gkey_def)
  show "enum_class.enum_all P \<longleftrightarrow> Ball UNIV P" for P :: "gkey \<Rightarrow> bool"
    by (simp add: enum_all_gkey_def list_all_iff univ)
  show "enum_class.enum_ex P \<longleftrightarrow> Bex UNIV P" for P :: "gkey \<Rightarrow> bool"
    by (simp add: enum_ex_gkey_def list_ex_iff univ)
qed

end

fun wrapper_of :: "gkey \<Rightarrow> err_wrapper" where
  "wrapper_of InvalidConfig = invalidConfigErr"
| "wrapper_of ClientNotStarted = clientNotStartedErr"
| "wrapper_of ClientAlreadyStarted = clientAlreadyStartedErr"
| "wrapper_of DecodeFailed = decodeFailedErr"
| "wrapper_of IdentityMismatch = identityMismatchErr"
| "wrapper_of IdAllocationFailed = idAllocationFailedErr"
| "wrapper_of MQTTTransportNotRunning = mQTTTransportNotRunningErr"
| "wrapper_of MQTTTransportAlreadyRunning = mQTTTransportAlreadyRunningErr"
| "wrapper_of ConnectionFailed = connectionFailedErr"
| "wrapper_of AuthenticationFailed = authenticationFailedErr"
| "wrapper_of SubscriptionFailed = subscriptionFailedErr"
| "wrapper_of PublishFailed = publishFailedErr"
| "wrapper_of InvalidTopic = invalidTopicErr"
| "wrapper_of ClientNotConnected = clientNotConnectedErr"
| "wrapper_of ReconnectFailed = reconnectFailedErr"
| "wrapper_of TLSConfigError = tLSConfigErrorErr"
| "wrapper_of WillMessageError = willMessageErrorErr"
| "wrapper_of QosNotSupported = qosNotSupportedErr"
| "wrapper_of MessageTooLarge = messageTooLargeErr"
| "wrapper_of BrokerUnavailable = brokerUnavailableErr"
| "wrapper_of ProtocolError = protocolErrorErr"
| "wrapper_of TimeoutError = timeoutErrorErr"
| "wrapper_of AlreadySubscribed = alreadySubscribedErr"
| "wrapper_of NotSubscribed = notSubscribedErr"
| "wrapper_of InvalidPayload = invalidPayloadErr"
| "wrapper_of OutboundValidationFailed = outboundValidationFailedErr"
| "wrapper_of ConfigurationError = configurationErrorErr"
| "wrapper_of SubscriptionNotActive = subscriptionNotActiveErr"
| "wrapper_of UnsubscribeFailed = unsubscribeFailedErr"

definition registered :: "err_wrapper list" where
  "registered = [invalidConfigErr,
     clientNotStartedErr,
     clientAlreadyStartedErr,
     decodeFailedErr,
     identityMismatchErr,
     idAllocationFailedErr,
     mQTTTransportNotRunningErr,
     mQTTTransportAlreadyRunningErr,
     connectionFailedErr,
     authenticationFailedErr,
     subscriptionFailedErr,
     publishFailedErr,
     invalidTopicErr,
     clientNotConnectedErr,
     reconnectFailedErr,
     tLSConfigErrorErr,
     willMessageErrorErr,
     qosNotSupportedErr,
     messageTooLargeErr,
     brokerUnavailableErr,
     protocolErrorErr,
     timeoutErrorErr,
     alreadySubscribedErr,
     notSubscribedErr,
     invalidPayloadErr,
     outboundValidationFailedErr,
     configurationErrorErr,
     subscriptionNotActiveErr,
     unsubscribeFailedErr]"

subsection \<open>Registration at start-up\<close>

text \<open>
  The init function registers every wrapper and panics when the library returns an error. The
  library's registry is of an unknown type; the result None is the panic.
\<close>

fun gerr_init :: "(err_wrapper \<Rightarrow> 'r \<Rightarrow> 'e option \<times> 'r) \<Rightarrow> err_wrapper list \<Rightarrow> 'r \<Rightarrow> 'r option" where
  "gerr_init register [] r = Some r"
| "gerr_init register (w # ws) r =
     (case register w r of
        (None, r') \<Rightarrow> gerr_init register ws r'
      | (Some e, r') \<Rightarrow> None)"

text \<open>
  What the init function relies on: registering a wrapper whose key and code are both new to the
  registry succeeds and adds exactly that wrapper.
\<close>

definition accepts_new :: "(err_wrapper \<Rightarrow> 'r \<Rightarrow> 'e option \<times> 'r) \<Rightarrow> ('r \<Rightarrow> err_wrapper set) \<Rightarrow> bool" where
  "accepts_new register known \<longleftrightarrow>
     (\<forall>w r. gw_Key w \<notin> gw_Key ` known r \<longrightarrow> gw_Code w \<notin> gw_Code ` known r \<longrightarrow>
        fst (register w r) = None \<and> known (snd (register w r)) = insert w (known r))"

lemma distinct_keys: "distinct (map gw_Key registered)"
  by (simp add: registered_def wrapper_defs)

lemma distinct_codes: "distinct (map gw_Code registered)"
  by (simp add: registered_def wrapper_defs)

lemma gerr_init_distinct:
  assumes "accepts_new register known"
    and "distinct (map gw_Key ws)" and "distinct (map gw_Code ws)"
    and "gw_Key ` set ws \<inter> gw_Key ` known r = {}"
    and "gw_Code ` set ws \<inter> gw_Code ` known r = {}"
  shows "\<exists>r'. gerr_init register ws r = Some r' \<and> known r' = set ws \<union> known r"
  using assms(2-)
proof (induction ws arbitrary: r)
  case (Cons w ws)
  have new: "fst (register w r) = None" "known (snd (register w r)) = insert w (known r)"
    using assms(1) Cons.prems by (auto simp: accepts_new_def)
  have "\<exists>r'. gerr_init register ws (snd (register w r)) = Some r' \<and>
      known r' = set ws \<union> insert w (known r)"
    using Cons.IH [of "snd (register w r)"] Cons.prems new(2) by auto
  then show ?case
    using new by (cases "register w r") auto
qed simp

lemma registered_enum: "registered = map wrapper_of Enum.enum"
  by (simp add: registered_def enum_gkey_def)

lemma registered_wrapper_of: "set registered = range wrapper_of"
  by (simp add: registered_enum enum_UNIV)

lemma wrapper_code_inject: "gw_Code (wrapper_of k) = gw_Code (wrapper_of k') \<longleftrightarrow> k = k'"
proof -
  have "distinct (map (\<lambda>k. gw_Code (wrapper_of k)) Enum.enum)"
    using distinct_codes by (simp add: registered_enum comp_def)
  then have "inj (\<lambda>k. gw_Code (wrapper_of k))"
    by (simp add: distinct_map enum_UNIV)
  then show ?thesis by (auto dest: injD)
qed

end
