(* ===== verification/Go_Errors.thy ===== *)
theory Go_Errors
  imports Gerr_Codes
begin

text \<open>
  Go error values. A nil error is None of type goerr option. The library gerr is not under src/,
  so a coded error is the symbolic record of how the program built it: the sentinel and the
  With / Args calls made on it. Whether such a value matches a sentinel in errors.Is is the
  library's business: it is the argument gis of every definition that asks. errors.Is and
  errors.As are the standard library's walks along the Unwrap chain.
\<close>

datatype goerr =
    Gerr gkey "gnote list"
  | Ctx ctx_err
  | MqttAttempted "goerr option"
  | PublishAttempted goerr
  | ErrorsNew string
  | Errorf string "garg list"
  | ErrorfW string "garg list" goerr
and gnote =
    With string garg
  | Args "garg list"
and garg =
    ArgStr string
  | ArgByte u8
  | ArgInt int
  | ArgErr goerr
  | ArgText goerr

text \<open>A sentinel of internal/gerrors as it is.\<close>

abbreviation sentinel :: "gkey \<Rightarrow> goerr" where
  "sentinel k \<equiv> Gerr k []"

subsection \<open>Constructors of internal/gerrors\<close>

definition gerr_With :: "goerr \<Rightarrow> string \<Rightarrow> garg \<Rightarrow> goerr" where
  "gerr_With e k v = (case e of Gerr key ns \<Rightarrow> Gerr key (ns @ [With k v]) | _ \<Rightarrow> e)"

definition gerr_Args :: "goerr \<Rightarrow> garg list \<Rightarrow> goerr" where
  "gerr_Args e as = (case e of Gerr key ns \<Rightarrow> Gerr key (ns @ [Args as]) | _ \<Rightarrow> e)"

definition NewInvalidConfigWithArgs :: "garg list \<Rightarrow> goerr" where
  "NewInvalidConfigWithArgs as = gerr_Args (sentinel InvalidConfig) as"

definition NewDecodeFailedWithArgs :: "garg list \<Rightarrow> goerr" where
  "NewDecodeFailedWithArgs as = gerr_Args (sentinel DecodeFailed) as"

definition NewConfigurationErrorWithArgs :: "garg list \<Rightarrow> goerr" where
  "NewConfigurationErrorWithArgs as = gerr_Args (sentinel ConfigurationError) as"

definition NewUnsubscribeFailedWithArgs :: "garg list \<Rightarrow> goerr" where
  "NewUnsubscribeFailedWithArgs as = gerr_Args (sentinel UnsubscribeFailed) as"

lemmas gerr_constructors =
  gerr_With_def gerr_Args_def NewInvalidConfigWithArgs_def NewDecodeFailedWithArgs_def
  NewConfigurationErrorWithArgs_def NewUnsubscribeFailedWithArgs_def

lemma gerr_With_Gerr [simp]: "gerr_With (Gerr k ns) key v = Gerr k (ns @ [With key v])"
  by (simp add: gerr_With_def)

lemma gerr_Args_Gerr [simp]: "gerr_Args (Gerr k ns) as = Gerr k (ns @ [Args as])"
  by (simp add: gerr_Args_def)

subsection \<open>errors.Is and errors.As\<close>

datatype target = TGerr gkey | TCtx ctx_err

type_synonym gerr_is = "gkey \<Rightarrow> gnote list \<Rightarrow> gkey \<Rightarrow> bool"

fun errors_Is :: "gerr_is \<Rightarrow> goerr \<Rightarrow> target \<Rightarrow> bool" where
  "errors_Is gis (Gerr k ns) tg = (case tg of TGerr k' \<Rightarrow> gis k ns k' | TCtx _ \<Rightarrow> False)"
| "errors_Is gis (Ctx c) tg = (tg = TCtx c)"
| "errors_Is gis (MqttAttempted None) tg = False"
| "errors_Is gis (MqttAttempted (Some e)) tg = errors_Is gis e tg"
| "errors_Is gis (PublishAttempted e) tg = errors_Is gis e tg"
| "errors_Is gis (ErrorsNew m) tg = False"
| "errors_Is gis (Errorf f as) tg = False"
| "errors_Is gis (ErrorfW f as e) tg = errors_Is gis e tg"

text \<open>errors.As with a target of type *publishAttemptedError: only success matters.\<close>

fun as_PublishAttempted :: "goerr \<Rightarrow> bool" where
  "as_PublishAttempted (PublishAttempted e) = True"
| "as_PublishAttempted (MqttAttempted (Some e)) = as_PublishAttempted e"
| "as_PublishAttempted (ErrorfW f as e) = as_PublishAttempted e"
| "as_PublishAttempted _ = False"

text \<open>errors.As with a target of type *mqtt.AttemptedError: its Err field.\<close>

fun as_MqttAttempted :: "goerr \<Rightarrow> goerr option option" where
  "as_MqttAttempted (MqttAttempted e) = Some e"
| "as_MqttAttempted (PublishAttempted e) = as_MqttAttempted e"
| "as_MqttAttempted (ErrorfW f as e) = as_MqttAttempted e"
| "as_MqttAttempted _ = None"

text \<open>A nil error matches nothing.\<close>

definition err_Is :: "gerr_is \<Rightarrow> goerr option \<Rightarrow> target \<Rightarrow> bool" where
  "err_Is gis err tg = (case err of None \<Rightarrow> False | Some e \<Rightarrow> errors_Is gis e tg)"

lemma err_Is_simps [simp]:
  "err_Is gis None tg = False"
  "err_Is gis (Some e) tg = errors_Is gis e tg"
  by (simp_all add: err_Is_def)

text \<open>
  What the program relies on from the library: an error built from a sentinel matches that
  sentinel, whatever was added to it with With or Args, and no other sentinel.
\<close>

definition matches_by_code :: "gerr_is \<Rightarrow> bool" where
  "matches_by_code gis \<longleftrightarrow> (\<forall>k ns k'. gis k ns k' = (k = k'))"

definition by_code :: gerr_is where
  "by_code k ns k' = (k = k')"

lemma matches_by_code_by_code [simp]: "matches_by_code by_code"
  by (simp add: matches_by_code_def by_code_def)

text \<open>The innermost error of a chain of wrappers.\<close>

fun root_error :: "goerr \<Rightarrow> goerr" where
  "root_error (MqttAttempted (Some e)) = root_error e"
| "root_error (PublishAttempted e) = root_error e"
| "root_error (ErrorfW f as e) = root_error e"
| "root_error e = e"

lemma errors_Is_root: "errors_Is gis e tg = errors_Is gis (root_error e) tg"
  by (induction e rule: root_error.induct) auto

lemma errors_Is_code:
  assumes "matches_by_code gis"
  shows "errors_Is gis e (TGerr k) \<longleftrightarrow> (\<exists>ns. root_error e = Gerr k ns)"
  using assms by (induction e rule: root_error.induct) (auto simp: matches_by_code_def)

lemma errors_Is_ctx: "errors_Is gis e (TCtx c) \<longleftrightarrow> root_error e = Ctx c"
  by (induction e rule: root_error.induct) auto

lemma root_error_idem [simp]: "root_error (root_error e) = root_error e"
  by (induction e rule: root_error.induct) auto

end
