(* ===== verification/Topics.thy ===== *)
theory Topics
  imports Go_Errors
begin

text \<open>
  topic/resolver.go: building and parsing VDA5050 topics. A channel is a string, as in the code.
  The error of Parse is fmt.Errorf with the topic as argument, kept symbolic.
\<close>

type_synonym channel = string

definition ChannelOrder :: channel where
  "ChannelOrder = ''order''"
definition ChannelInstantActions :: channel where
  "ChannelInstantActions = ''instantActions''"
definition ChannelState :: channel where
  "ChannelState = ''state''"
definition ChannelVisualization :: channel where
  "ChannelVisualization = ''visualization''"
definition ChannelConnection :: channel where
  "ChannelConnection = ''connection''"
definition ChannelFactsheet :: channel where
  "ChannelFactsheet = ''factsheet''"

lemmas channel_defs =
  ChannelOrder_def ChannelInstantActions_def ChannelState_def ChannelVisualization_def
  ChannelConnection_def ChannelFactsheet_def

record resolver =
  res_Interface :: string
  res_Version :: string

record parsed_topic =
  pt_Interface :: string
  pt_Version :: string
  pt_Manufacturer :: string
  pt_SerialNumber :: string
  pt_Channel :: channel

definition Build :: "resolver \<Rightarrow> string \<Rightarrow> string \<Rightarrow> channel \<Rightarrow> string" where
  "Build r manufacturer serial ch =
     res_Interface r @ ''/'' @ res_Version r @ ''/'' @ manufacturer @ ''/'' @ serial @ ''/'' @ ch"

definition Wildcard :: "resolver \<Rightarrow> channel \<Rightarrow> string" where
  "Wildcard r ch = Build r ''+'' ''+'' ch"

definition ValidChannel :: "channel \<Rightarrow> bool" where
  "ValidChannel ch \<longleftrightarrow>
     ch \<in> set [ChannelOrder, ChannelInstantActions, ChannelState,
               ChannelVisualization, ChannelConnection, ChannelFactsheet]"

definition Parse :: "resolver \<Rightarrow> string \<Rightarrow> goerr + parsed_topic" where
  "Parse r topic =
     (let parts = split_on CHR ''/'' topic in
      if length parts \<noteq> 5
      then Inl (Errorf ''invalid VDA5050 topic %q: want 5 segments'' [ArgStr topic])
      else let ch = parts ! 4 in
        if \<not> ValidChannel ch
        then Inl (Errorf ''unknown VDA5050 channel %q in topic %q'' [ArgStr (parts ! 4), ArgStr topic])
        else Inr \<lparr>pt_Interface = parts ! 0, pt_Version = parts ! 1, pt_Manufacturer = parts ! 2,
                  pt_SerialNumber = parts ! 3, pt_Channel = ch\<rparr>)"

subsection \<open>Segments\<close>

text \<open>A segment of a topic: a string without the separator.\<close>

definition segment :: "string \<Rightarrow> bool" where
  "segment s \<longleftrightarrow> CHR ''/'' \<notin> set s"

definition topic_of_parts :: "string list \<Rightarrow> string" where
  "topic_of_parts parts = join_on CHR ''/'' parts"

lemma Build_join:
  "Build r m s ch = topic_of_parts [res_Interface r, res_Version r, m, s, ch]"
  by (simp add: Build_def topic_of_parts_def)

lemma ValidChannel_segment: "ValidChannel ch \<Longrightarrow> segment ch"
  by (auto simp: ValidChannel_def segment_def channel_defs)

lemma split_Build:
  assumes "segment (res_Interface r)" "segment (res_Version r)" "segment m" "segment s" "segment ch"
  shows "split_on CHR ''/'' (Build r m s ch) = [res_Interface r, res_Version r, m, s, ch]"
  using assms unfolding Build_join topic_of_parts_def
  by (intro split_join_on) (auto simp: segment_def)

lemma count_Build:
  "count_list (Build r m s ch) CHR ''/'' =
     4 + count_list (res_Interface r) CHR ''/'' + count_list (res_Version r) CHR ''/''
       + count_list m CHR ''/'' + count_list s CHR ''/'' + count_list ch CHR ''/''"
  by (simp add: Build_def)

lemma segment_count: "segment s \<longleftrightarrow> count_list s CHR ''/'' = 0"
  by (simp add: segment_def count_list_0_iff)

lemma Parse_Inr_iff:
  "Parse r t = Inr p \<longleftrightarrow>
     split_on CHR ''/'' t =
       [pt_Interface p, pt_Version p, pt_Manufacturer p, pt_SerialNumber p, pt_Channel p] \<and>
     ValidChannel (pt_Channel p)"
  (is "_ \<longleftrightarrow> ?parts = _ \<and> _")
proof (cases "length ?parts = 5")
  case True
  then obtain a b c d e where "?parts = [a, b, c, d, e]"
    by (auto simp: numeral_eq_Suc length_Suc_conv)
  then show ?thesis
    by (cases p) (auto simp: Parse_def Let_def)
qed (auto simp: Parse_def Let_def)

lemma Parse_segments:
  assumes "Parse r t = Inr p"
  shows "segment (pt_Interface p)" "segment (pt_Version p)" "segment (pt_Manufacturer p)"
    "segment (pt_SerialNumber p)" "ValidChannel (pt_Channel p)"
  using assms split_on_parts_free [of _ "CHR ''/''" t]
  by (auto simp: Parse_Inr_iff segment_def)

text \<open>Parse never looks at the resolver: only Build does.\<close>

lemma Parse_resolver: "Parse r t = Parse r' t"
  by (simp add: Parse_def)

lemma Parse_Build_segments:
  assumes "segment (res_Interface r)" "segment (res_Version r)" "segment m" "segment s"
    "ValidChannel ch"
  shows "Parse r' (Build r m s ch) = Inr \<lparr>pt_Interface = res_Interface r,
     pt_Version = res_Version r, pt_Manufacturer = m, pt_SerialNumber = s, pt_Channel = ch\<rparr>"
  using assms by (simp add: Parse_Inr_iff split_Build ValidChannel_segment)

text \<open>
  C8. Build and Parse: a topic built for a known channel parses back to the very segments it was
  built from when none of the four free segments contains the separator, and is rejected as
  having the wrong number of segments when one does.
\<close>

theorem Parse_Build:
  assumes "ValidChannel ch"
  shows "Parse r' (Build r m s ch) =
    (if segment (res_Interface r) \<and> segment (res_Version r) \<and> segment m \<and> segment s
     then Inr \<lparr>pt_Interface = res_Interface r, pt_Version = res_Version r,
               pt_Manufacturer = m, pt_SerialNumber = s, pt_Channel = ch\<rparr>
     else Inl (Errorf ''invalid VDA5050 topic %q: want 5 segments'' [ArgStr (Build r m s ch)]))"
proof (cases "segment (res_Interface r) \<and> segment (res_Version r) \<and> segment m \<and> segment s")
  case True
  with assms show ?thesis by (simp add: Parse_Build_segments)
next
  case False
  then have "length (split_on CHR ''/'' (Build r m s ch)) \<noteq> 5"
    by (auto simp: length_split_on count_Build segment_count)
  with False show ?thesis by (simp add: Parse_def)
qed

theorem Parse_Build_witness:
  "Parse \<lparr>res_Interface = [], res_Version = []\<rparr> (Build \<lparr>res_Interface = ''uagv'', res_Version = ''v2''\<rparr> ''M'' ''S1'' ''state'') =
     Inr \<lparr>pt_Interface = ''uagv'', pt_Version = ''v2'', pt_Manufacturer = ''M'',
          pt_SerialNumber = ''S1'', pt_Channel = ''state''\<rparr>"
  using Parse_Build [of "''state''" "\<lparr>res_Interface = [], res_Version = []\<rparr>" "\<lparr>res_Interface = ''uagv'', res_Version = ''v2''\<rparr>"
      "''M''" "''S1''"]
  by (simp add: ValidChannel_def channel_defs segment_def)

text \<open>
  C9. Parse and Build: rebuilding the segments that Parse returned gives the topic back, so a
  parsed identity determines the topic.
\<close>

theorem Build_Parse:
  assumes "Parse r t = Inr p"
  shows "Build \<lparr>res_Interface = pt_Interface p, res_Version = pt_Version p\<rparr>
    (pt_Manufacturer p) (pt_SerialNumber p) (pt_Channel p) = t"
proof -
  have "topic_of_parts (split_on CHR ''/'' t) = t"
    by (simp add: topic_of_parts_def)
  with assms show ?thesis
    by (simp add: Build_join Parse_Inr_iff)
qed

theorem Build_Parse_witness:
  "\<exists>p. Parse \<lparr>res_Interface = [], res_Version = []\<rparr> ''uagv/v2/M/S1/state'' = Inr p \<and>
     Build \<lparr>res_Interface = pt_Interface p, res_Version = pt_Version p\<rparr>
       (pt_Manufacturer p) (pt_SerialNumber p) (pt_Channel p) = ''uagv/v2/M/S1/state''"
proof -
  have "Parse \<lparr>res_Interface = [], res_Version = []\<rparr> ''uagv/v2/M/S1/state'' =
     Inr \<lparr>pt_Interface = ''uagv'', pt_Version = ''v2'', pt_Manufacturer = ''M'',
          pt_SerialNumber = ''S1'', pt_Channel = ''state''\<rparr>"
    by (simp add: Parse_Inr_iff ValidChannel_def channel_defs)
  then show ?thesis using Build_Parse by blast
qed

end
