(* ===== verification/Envelope.thy ===== *)
theory Envelope
  imports Topics Vda_Types
begin

text \<open>
  identity.go, envelope.go, inbound_timing.go (all but noteInbound, which is in theory Inbound)
  and inbound_drop.go: the envelope around an inbound message, the enqueue time carried through
  the context, and the small enumerations. The enumerations are Go ints, so String has its
  default branch. A nil Meta map is None.
\<close>

record identity =
  id_Manufacturer :: string
  id_SerialNumber :: string

definition Identity_String :: "identity \<Rightarrow> string" where
  "Identity_String i = id_Manufacturer i @ ''/'' @ id_SerialNumber i"

type_synonym meta = "string \<rightharpoonup> any"

record header_summary =
  hs_HeaderID :: u32
  hs_Timestamp :: string
  hs_Version :: string
  hs_Manufacturer :: string
  hs_SerialNumber :: string

record envelope =
  env_AGV :: identity
  env_Topic :: string
  env_Channel :: channel
  env_Raw :: bytes
  env_ReceivedAt :: gotime
  env_DispatchedAt :: gotime
  env_Header :: header_summary
  env_Meta :: "meta option"
  env_RobotID :: string
  env_InboundDisposition :: string

definition zero_identity :: identity where
  "zero_identity = \<lparr>id_Manufacturer = [], id_SerialNumber = []\<rparr>"

definition zero_summary :: header_summary where
  "zero_summary = \<lparr>hs_HeaderID = 0, hs_Timestamp = [], hs_Version = [],
     hs_Manufacturer = [], hs_SerialNumber = []\<rparr>"

text \<open>A composite literal Envelope{...} with the fields the two inbound handlers always set.\<close>

definition new_envelope :: "string \<Rightarrow> bytes \<Rightarrow> gotime \<Rightarrow> gotime \<Rightarrow> envelope" where
  "new_envelope topic raw receivedAt dispatchedAt =
     \<lparr>env_AGV = zero_identity, env_Topic = topic, env_Channel = [], env_Raw = raw,
      env_ReceivedAt = receivedAt, env_DispatchedAt = dispatchedAt, env_Header = zero_summary,
      env_Meta = None, env_RobotID = [], env_InboundDisposition = []\<rparr>"

definition QueueWait :: "envelope \<Rightarrow> duration" where
  "QueueWait e =
     (if IsZero (env_ReceivedAt e) \<or> IsZero (env_DispatchedAt e) then 0
      else let d = time_Sub (env_DispatchedAt e) (env_ReceivedAt e) in
        if d < 0 then 0 else d)"

lemma QueueWait_nonneg: "0 \<le> QueueWait e"
  by (simp add: QueueWait_def Let_def)

lemma QueueWait_exact:
  assumes "env_ReceivedAt e \<noteq> 0" "env_DispatchedAt e \<noteq> 0"
    and "env_ReceivedAt e \<le> env_DispatchedAt e"
    and "env_DispatchedAt e - env_ReceivedAt e \<le> maxDuration"
  shows "QueueWait e = env_DispatchedAt e - env_ReceivedAt e"
  using assms by (simp add: QueueWait_def IsZero_def Let_def time_Sub_exact minDuration_def)

subsection \<open>The enqueue time in the context\<close>

definition contextWithInboundReceivedAt :: "goctx option \<Rightarrow> gotime \<Rightarrow> goctx" where
  "contextWithInboundReceivedAt ctx receivedAt =
     (let c = (case ctx of None \<Rightarrow> Background | Some c \<Rightarrow> c) in
      if IsZero receivedAt then c else c\<lparr>ctx_receivedAt := Some receivedAt\<rparr>)"

text \<open>The result is (receivedAt, dispatchedAt); now is the value of time.Now().UTC().\<close>

definition envelopeTimes :: "goctx option \<Rightarrow> gotime \<Rightarrow> gotime \<times> gotime" where
  "envelopeTimes ctx now =
     (case ctx of
        None \<Rightarrow> (now, now)
      | Some c \<Rightarrow> (case ctx_receivedAt c of
            None \<Rightarrow> (now, now)
          | Some t \<Rightarrow> if \<not> IsZero t then (t, now) else (now, now)))"

lemma envelopeTimes_enqueued:
  "receivedAt \<noteq> 0 \<Longrightarrow> envelopeTimes (Some (contextWithInboundReceivedAt ctx receivedAt)) now =
     (receivedAt, now)"
  by (simp add: envelopeTimes_def contextWithInboundReceivedAt_def IsZero_def Let_def)

subsection \<open>Enumerations\<close>

type_synonym inbound_slow_cause = int

definition InboundSlowQueue :: inbound_slow_cause where
  "InboundSlowQueue = 0"
definition InboundSlowHandler :: inbound_slow_cause where
  "InboundSlowHandler = 1"

definition InboundSlowCause_String :: "inbound_slow_cause \<Rightarrow> string" where
  "InboundSlowCause_String c =
     (if c = InboundSlowQueue then ''queue''
      else if c = InboundSlowHandler then ''handler'' else ''unknown'')"

type_synonym inbound_drop_reason = int

definition InboundDropped :: inbound_drop_reason where
  "InboundDropped = 0"
definition InboundBackpressured :: inbound_drop_reason where
  "InboundBackpressured = 1"

definition InboundDropReason_String :: "inbound_drop_reason \<Rightarrow> string" where
  "InboundDropReason_String r =
     (if r = InboundDropped then ''dropped''
      else if r = InboundBackpressured then ''backpressured'' else ''unknown'')"

end
