(* ===== verification/Extend.thy ===== *)
theory Extend
  imports Envelope
begin

text \<open>
  extend/registry.go: the extractor registry. A Registry pointer may be nil (None), and so may a
  registered extractor. An extractor is a function of the channel and the raw payload; a nil Meta
  it returns is the empty map, over which a range does nothing.
\<close>

type_synonym extractor = "string \<Rightarrow> bytes \<Rightarrow> goerr + meta"

record registry =
  reg_extractors :: "extractor list"

definition NewRegistry :: registry where
  "NewRegistry = \<lparr>reg_extractors = []\<rparr>"

definition Register :: "registry option \<Rightarrow> extractor option \<Rightarrow> registry option" where
  "Register r e =
     (case (r, e) of
        (Some reg, Some ex) \<Rightarrow> Some (reg\<lparr>reg_extractors := reg_extractors reg @ [ex]\<rparr>)
      | _ \<Rightarrow> r)"

fun apply_loop :: "extractor list \<Rightarrow> int \<Rightarrow> string \<Rightarrow> bytes \<Rightarrow> meta \<Rightarrow> goerr + meta" where
  "apply_loop [] i channel raw out = Inr out"
| "apply_loop (e # es) i channel raw out =
     (case e channel raw of
        Inl err \<Rightarrow> Inl (ErrorfW ''extension extractor %d: %w'' [ArgInt i, ArgErr err] err)
      | Inr meta \<Rightarrow> apply_loop es (i + 1) channel raw (out ++ meta))"

definition Registry_Apply :: "registry option \<Rightarrow> string \<Rightarrow> bytes \<Rightarrow> goerr + meta" where
  "Registry_Apply r channel raw =
     (case r of
        None \<Rightarrow> Inr Map.empty
      | Some reg \<Rightarrow>
          if reg_extractors reg = [] then Inr Map.empty
          else apply_loop (reg_extractors reg) 0 channel raw Map.empty)"

lemma apply_loop_append:
  "apply_loop (es @ fs) i channel raw out =
     (case apply_loop es i channel raw out of
        Inl err \<Rightarrow> Inl err
      | Inr out' \<Rightarrow> apply_loop fs (i + int (length es)) channel raw out')"
  by (induction es arbitrary: i out) (auto split: sum.splits simp: algebra_simps)

text \<open>Registering one more extractor only matters after all earlier ones succeeded.\<close>

lemma Apply_Register:
  "Registry_Apply (Register (Some reg) (Some e)) channel raw =
     (case Registry_Apply (Some reg) channel raw of
        Inl err \<Rightarrow> Inl err
      | Inr out \<Rightarrow> (case e channel raw of
            Inl err \<Rightarrow> Inl (ErrorfW ''extension extractor %d: %w''
                [ArgInt (int (length (reg_extractors reg))), ArgErr err] err)
          | Inr meta \<Rightarrow> Inr (out ++ meta)))"
  by (auto simp: Registry_Apply_def Register_def apply_loop_append split: sum.splits)

definition register_all :: "extractor list \<Rightarrow> registry option" where
  "register_all es = fold (\<lambda>e r. Register r (Some e)) es (Some NewRegistry)"

lemma register_all_extractors: "register_all es = Some \<lparr>reg_extractors = es\<rparr>"
proof (induction es rule: rev_induct)
  case (snoc e es)
  then show ?case by (simp add: register_all_def Register_def)
qed (simp add: register_all_def NewRegistry_def)

text \<open>
  C36. Apply merges the results of all extractors in order of registration, later keys
  overwriting earlier ones, when they all succeed; otherwise it reports the first extractor
  that failed, by its index, wrapping its error, and returns no metadata.
\<close>

theorem Registry_Apply_merge:
  "Registry_Apply (register_all es) channel raw =
     (case find (\<lambda>(i, e). isl (e channel raw)) (enumerate 0 es) of
        None \<Rightarrow> Inr (foldl (++) Map.empty (map (\<lambda>e. projr (e channel raw)) es))
      | Some (i, e) \<Rightarrow> Inl (ErrorfW ''extension extractor %d: %w''
            [ArgInt (int i), ArgErr (projl (e channel raw))] (projl (e channel raw))))"
proof -
  have "apply_loop es (int n) channel raw out =
     (case find (\<lambda>(i, e). isl (e channel raw)) (enumerate n es) of
        None \<Rightarrow> Inr (foldl (++) out (map (\<lambda>e. projr (e channel raw)) es))
      | Some (i, e) \<Rightarrow> Inl (ErrorfW ''extension extractor %d: %w''
            [ArgInt (int i), ArgErr (projl (e channel raw))] (projl (e channel raw))))" for n out
  proof (induction es arbitrary: n out)
    case (Cons e es)
    then show ?case
      using Cons.IH [of "Suc n"] by (auto simp: algebra_simps split: sum.splits option.split)
  qed simp
  from this [of 0] show ?thesis
    by (cases es) (simp_all add: Registry_Apply_def register_all_extractors)
qed

end
