(* ===== verification/Inbound_Policy.thy ===== *)
theory Inbound_Policy
  imports Envelope
begin

text \<open>
  inbound_policy.go: classification of inbound header ids. The interface InboundPolicy, as far as
  a watermark policy is concerned, is the locale watermark_policy: a verdict that depends on the
  watermark of the key alone, and an update that touches that watermark only. Its lemmas compute
  the watermark after any message history. HeaderSequencePolicy interprets it for identities
  without NUL bytes, which is what keeps the concatenated map key injective.
\<close>

type_synonym disposition = string

definition InboundAccept :: disposition where
  "InboundAccept = ''accept''"
definition InboundStale :: disposition where
  "InboundStale = ''stale''"
definition InboundDuplicate :: disposition where
  "InboundDuplicate = ''duplicate''"
definition MetaInboundDisposition :: string where
  "MetaInboundDisposition = ''navlink.inboundDisposition''"

lemmas disposition_defs = InboundAccept_def InboundStale_def InboundDuplicate_def

record header_sequence_policy =
  hsp_last :: "string \<rightharpoonup> u32"

definition NewHeaderSequencePolicy :: header_sequence_policy where
  "NewHeaderSequencePolicy = \<lparr>hsp_last = Map.empty\<rparr>"

definition policy_key :: "identity \<Rightarrow> channel \<Rightarrow> string" where
  "policy_key agv ch =
     id_Manufacturer agv @ [CHR 0x00] @ id_SerialNumber agv @ [CHR 0x00] @ ch"

text \<open>The receiver may be a nil pointer; the policy is updated in place, so it is returned.\<close>

definition Classify ::
  "header_sequence_policy option \<Rightarrow> identity \<Rightarrow> channel \<Rightarrow> u32 \<Rightarrow>
     disposition \<times> header_sequence_policy option" where
  "Classify p agv ch headerID =
     (case p of
        None \<Rightarrow> (InboundAccept, None)
      | Some pol \<Rightarrow>
         (let key = policy_key agv ch in
          case hsp_last pol key of
            None \<Rightarrow> (InboundAccept, Some (pol\<lparr>hsp_last := (hsp_last pol)(key \<mapsto> headerID)\<rparr>))
          | Some prev \<Rightarrow>
              if headerID = prev then (InboundDuplicate, p)
              else if headerID < prev then (InboundStale, p)
              else (InboundAccept, Some (pol\<lparr>hsp_last := (hsp_last pol)(key \<mapsto> headerID)\<rparr>))))"

subsection \<open>The contract of a watermark policy\<close>

definition verdict :: "u32 option \<Rightarrow> u32 \<Rightarrow> disposition" where
  "verdict w h = (case w of None \<Rightarrow> InboundAccept
     | Some w \<Rightarrow> if h = w then InboundDuplicate else if h < w then InboundStale else InboundAccept)"

definition raise_mark :: "u32 option \<Rightarrow> u32 \<Rightarrow> u32" where
  "raise_mark w h = (case w of None \<Rightarrow> h | Some w \<Rightarrow> max w h)"

type_synonym message_id = "identity \<times> channel \<times> u32"

text \<open>The header ids seen earlier under one key.\<close>

definition seen :: "identity \<Rightarrow> channel \<Rightarrow> message_id list \<Rightarrow> u32 list" where
  "seen agv ch ms = map (\<lambda>(i, c, h). h) (filter (\<lambda>(i, c, h). i = agv \<and> c = ch) ms)"

locale watermark_policy =
  fixes classify :: "'p \<Rightarrow> identity \<Rightarrow> channel \<Rightarrow> u32 \<Rightarrow> disposition \<times> 'p"
    and mark :: "'p \<Rightarrow> identity \<Rightarrow> channel \<Rightarrow> u32 option"
    and keyed :: "identity \<Rightarrow> channel \<Rightarrow> bool"
  assumes classify_verdict: "keyed i c \<Longrightarrow> fst (classify p i c h) = verdict (mark p i c) h"
    and classify_mark: "keyed i c \<Longrightarrow> mark (snd (classify p i c h)) i c = Some (raise_mark (mark p i c) h)"
    and classify_other: "keyed i c \<Longrightarrow> keyed i' c' \<Longrightarrow> (i, c) \<noteq> (i', c') \<Longrightarrow>
      mark (snd (classify p i c h)) i' c' = mark p i' c'"
begin

fun run :: "'p \<Rightarrow> message_id list \<Rightarrow> 'p" where
  "run p [] = p"
| "run p ((i, c, h) # ms) = run (snd (classify p i c h)) ms"

definition high :: "u32 option \<Rightarrow> u32 list \<Rightarrow> u32 option" where
  "high w hs = fold (\<lambda>h w. Some (raise_mark w h)) hs w"

lemma run_mark:
  assumes "list_all (\<lambda>(i, c, h). keyed i c) ms" and "keyed i c"
  shows "mark (run p ms) i c = high (mark p i c) (seen i c ms)"
  using assms
proof (induction ms arbitrary: p)
  case (Cons m ms)
  obtain i' c' h where m: "m = (i', c', h)" by (cases m)
  with Cons show ?case
    by (cases "(i', c') = (i, c)")
      (auto simp: seen_def high_def classify_mark classify_other)
qed (simp add: seen_def high_def)

lemma high_Some: "high (Some w) hs = Some (Max (insert w (set hs)))"
proof (induction hs arbitrary: w)
  case (Cons h hs)
  have "high (Some w) (h # hs) = high (Some (max w h)) hs"
    by (simp add: high_def raise_mark_def)
  then show ?case
    using Cons.IH [of "max w h"] by (cases "set hs = {}") (auto simp: max.assoc)
qed (simp add: high_def)

lemma high_None: "high None hs = (if hs = [] then None else Some (Max (set hs)))"
proof (cases hs)
  case (Cons h hs')
  have "high None (h # hs') = high (Some h) hs'"
    by (simp add: high_def raise_mark_def)
  with Cons show ?thesis by (simp add: high_Some)
qed (simp add: high_def)

lemma verdict_history:
  assumes "list_all (\<lambda>(i, c, h). keyed i c) ms" and "keyed i c" and "mark p i c = None"
  shows "fst (classify (run p ms) i c h) =
    (let prevs = seen i c ms in
     if prevs = [] then InboundAccept else verdict (Some (Max (set prevs))) h)"
  using assms by (simp add: classify_verdict run_mark high_None Let_def verdict_def)

end

subsection \<open>HeaderSequencePolicy meets the contract\<close>

definition nul_free :: "identity \<Rightarrow> channel \<Rightarrow> bool" where
  "nul_free i c \<longleftrightarrow>
     CHR 0x00 \<notin> set (id_Manufacturer i) \<and> CHR 0x00 \<notin> set (id_SerialNumber i) \<and> CHR 0x00 \<notin> set c"

definition policy_mark :: "header_sequence_policy \<Rightarrow> identity \<Rightarrow> channel \<Rightarrow> u32 option" where
  "policy_mark p i c = hsp_last p (policy_key i c)"

definition policy_classify ::
  "header_sequence_policy \<Rightarrow> identity \<Rightarrow> channel \<Rightarrow> u32 \<Rightarrow> disposition \<times> header_sequence_policy" where
  "policy_classify p i c h = (case Classify (Some p) i c h of (d, q) \<Rightarrow> (d, the q))"

lemma policy_key_inject:
  assumes "nul_free i c" "nul_free i' c'"
  shows "policy_key i c = policy_key i' c' \<longleftrightarrow> i = i' \<and> c = c'"
proof
  assume "policy_key i c = policy_key i' c'"
  then have "split_on (CHR 0x00) (policy_key i c) = split_on (CHR 0x00) (policy_key i' c')"
    by simp
  with assms show "i = i' \<and> c = c'"
    by (cases i; cases i') (auto simp: nul_free_def policy_key_def split_on_append split_on_free)
qed simp

interpretation header_seq: watermark_policy policy_classify policy_mark nul_free
  by unfold_locales
    (auto simp: policy_classify_def Classify_def policy_mark_def verdict_def raise_mark_def
      policy_key_inject Let_def max_def split: option.splits)

text \<open>
  C21. After any history of messages whose identities hold no NUL byte, HeaderSequencePolicy
  accepts the first header id of a (manufacturer, serial, channel), and later calls one Accept
  exactly when it is above the largest header id seen under that key, Duplicate when equal to
  it and Stale when below it, whatever was seen under other keys.
\<close>

theorem HeaderSequencePolicy_history:
  assumes "list_all (\<lambda>(i, c, h). nul_free i c) ms" and "nul_free agv ch"
  shows "fst (policy_classify (header_seq.run NewHeaderSequencePolicy ms) agv ch h) =
    (let prevs = seen agv ch ms in
     if prevs = [] then InboundAccept
     else if h = Max (set prevs) then InboundDuplicate
     else if h < Max (set prevs) then InboundStale else InboundAccept)"
  using header_seq.verdict_history [OF assms, of NewHeaderSequencePolicy h]
  by (simp add: policy_mark_def NewHeaderSequencePolicy_def verdict_def Let_def)

definition example_agv :: identity where
  "example_agv = \<lparr>id_Manufacturer = ''M'', id_SerialNumber = ''S1''\<rparr>"

theorem HeaderSequencePolicy_history_witness:
  "fst (policy_classify (header_seq.run NewHeaderSequencePolicy
      [(example_agv, ''state'', 7), (example_agv, ''connection'', 90), (example_agv, ''state'', 5)])
      example_agv ''state'' 6) = InboundStale"
proof -
  have h: "list_all (\<lambda>(i, c, h). nul_free i c)
      [(example_agv, ''state'', 7), (example_agv, ''connection'', 90), (example_agv, ''state'', 5)]"
    "nul_free example_agv ''state''"
    by (simp_all add: nul_free_def example_agv_def)
  show ?thesis
    using HeaderSequencePolicy_history [OF h, of 6]
    by (simp add: seen_def example_agv_def disposition_defs)
qed

end
