(* ===== verification/Transport_Api.thy ===== *)
theory Transport_Api
  imports Topics
begin

text \<open>
  transport.go and handlers.go: the byte-level transport boundary. A transport is a record of
  operations on the world 's (everything outside the client's own fields: broker, network, user
  state); 'u are its Unsubscribe closures. The closures the client hands to a transport are
  named: RawHandler values are OnRawMessage (the method onRawMessage) and DispatchTopic h (the
  closure around dispatchTopic for the user handler h), the two callbacks are the client's
  handleReconnect and emitTransportDown. User handlers are tokens, run by functions of the
  environment. An optional interface of the code (ReconnectAware and so on) is an optional field.
  Publish may wait for ever (a context without end on a broker that hangs): its result is then
  None.

  The locale subscription_service is the contract that the fleet session relies on.
\<close>

type_synonym handler = nat

datatype raw_handler = OnRawMessage | DispatchTopic handler

datatype client_callback = HandleReconnect | EmitTransportDown

record publish_options =
  po_QoS :: u8
  po_Retain :: bool

record ('s, 'u) transport =
  tr_Start :: "goctx \<Rightarrow> 's \<Rightarrow> 's \<times> goerr option"
  tr_Stop :: "goctx \<Rightarrow> 's \<Rightarrow> 's \<times> goerr option"
  tr_Publish :: "goctx \<Rightarrow> string \<Rightarrow> bytes \<Rightarrow> publish_options \<Rightarrow> 's \<Rightarrow> ('s \<times> goerr option) option"
  tr_Subscribe :: "goctx \<Rightarrow> string \<Rightarrow> raw_handler \<Rightarrow> 's \<Rightarrow> 's \<times> (goerr + 'u)"
  tr_Unsubscribe :: "goctx \<Rightarrow> 'u \<Rightarrow> 's \<Rightarrow> 's \<times> goerr option"
  tr_Connected :: "('s \<Rightarrow> bool) option"
  tr_SetOnReconnect :: "(client_callback \<Rightarrow> 's \<Rightarrow> 's) option"
  tr_SetOnConnectionLost :: "(client_callback \<Rightarrow> 's \<Rightarrow> 's) option"

text \<open>
  The contract of subscribing: a successful call issues a handle never issued before and makes
  exactly that subscription live, a failed one changes no subscription, unsubscribing touches no
  other handle and removes its own when it reports no error.
\<close>

locale subscription_service =
  fixes subscribe :: "goctx \<Rightarrow> string \<Rightarrow> 's \<Rightarrow> 's \<times> (goerr + 'u)"
    and unsubscribe :: "goctx \<Rightarrow> 'u \<Rightarrow> 's \<Rightarrow> 's \<times> goerr option"
    and live :: "'s \<Rightarrow> 'u \<rightharpoonup> string"
    and issued :: "'s \<Rightarrow> 'u set"
    and ok :: "'s \<Rightarrow> bool"
  assumes live_issued: "ok s \<Longrightarrow> dom (live s) \<subseteq> issued s"
    and subscribe_done: "ok s \<Longrightarrow> subscribe ctx f s = (s', Inr u) \<Longrightarrow>
      ok s' \<and> u \<notin> issued s \<and> issued s' = insert u (issued s) \<and> live s' = (live s)(u \<mapsto> f)"
    and subscribe_failed: "ok s \<Longrightarrow> subscribe ctx f s = (s', Inl e) \<Longrightarrow>
      ok s' \<and> issued s' = issued s \<and> live s' = live s"
    and unsubscribe_others: "ok s \<Longrightarrow> unsubscribe ctx u s = (s', r) \<Longrightarrow>
      ok s' \<and> issued s' = issued s \<and> (\<forall>v. v \<noteq> u \<longrightarrow> live s' v = live s v)"
    and unsubscribe_done: "ok s \<Longrightarrow> unsubscribe ctx u s = (s', None) \<Longrightarrow> live s' u = None"

text \<open>A transport whose Unsubscribe never fails, as the in-process broker.\<close>

locale reliable_subscriptions = subscription_service +
  assumes unsubscribe_reliable: "snd (unsubscribe ctx u s) = None"
begin

lemma unsubscribe_live:
  assumes "ok s"
  shows "ok (fst (unsubscribe ctx u s)) \<and> issued (fst (unsubscribe ctx u s)) = issued s \<and>
    live (fst (unsubscribe ctx u s)) = (live s)(u := None)"
proof -
  obtain s' r where s': "unsubscribe ctx u s = (s', r)" by fastforce
  moreover have "r = None"
    using unsubscribe_reliable [of ctx u s] s' by simp
  ultimately show ?thesis
    using unsubscribe_others [OF assms s'] unsubscribe_done [OF assms, of ctx u s']
    by (auto simp: fun_eq_iff)
qed

lemma call_all_live:
  assumes "ok s"
  shows "ok (fst (call_all (unsubscribe ctx) us s fe)) \<and>
    issued (fst (call_all (unsubscribe ctx) us s fe)) = issued s \<and>
    live (fst (call_all (unsubscribe ctx) us s fe)) = live s |` (- set us) \<and>
    snd (call_all (unsubscribe ctx) us s fe) = fe"
  using assms
proof (induction us arbitrary: s fe)
  case (Cons u us)
  obtain s' where s': "unsubscribe ctx u s = (s', None)"
    using unsubscribe_reliable [of ctx u s] by (metis prod.collapse)
  have "ok s' \<and> issued s' = issued s \<and> live s' = (live s)(u := None)"
    using unsubscribe_live [OF Cons.prems, of ctx u] s' by simp
  with Cons.IH [of s' fe] s' show ?case
    by (auto simp: restrict_map_def fun_eq_iff)
qed (simp add: restrict_map_def)

end

end
