(* ===== verification/Publish_Outcome.thy ===== *)
theory Publish_Outcome
  imports Go_Errors
begin

text \<open>
  publish.go: the three-way outcome of a publish, the predicates on publish errors, the marker
  that says the MQTT publish was already invoked, and the QoS check. The predicate
  IsOutboundValidationFailed of outbound_validate.go is here too, because the classification
  calls it. An outcome is a Go int: other values than the three constants are possible and
  String answers them.
\<close>

type_synonym publish_outcome = int

definition PublishOutcomeAccepted :: publish_outcome where
  "PublishOutcomeAccepted = 0"

definition PublishOutcomeNotStarted :: publish_outcome where
  "PublishOutcomeNotStarted = 1"

definition PublishOutcomeUncertain :: publish_outcome where
  "PublishOutcomeUncertain = 2"

lemmas outcome_defs =
  PublishOutcomeAccepted_def PublishOutcomeNotStarted_def PublishOutcomeUncertain_def

lemma outcomes_distinct [simp]:
  "PublishOutcomeAccepted \<noteq> PublishOutcomeNotStarted"
  "PublishOutcomeAccepted \<noteq> PublishOutcomeUncertain"
  "PublishOutcomeNotStarted \<noteq> PublishOutcomeUncertain"
  "PublishOutcomeNotStarted \<noteq> PublishOutcomeAccepted"
  "PublishOutcomeUncertain \<noteq> PublishOutcomeAccepted"
  "PublishOutcomeUncertain \<noteq> PublishOutcomeNotStarted"
  by (simp_all add: outcome_defs)

definition PublishOutcome_String :: "publish_outcome \<Rightarrow> string" where
  "PublishOutcome_String o' =
     (if o' = PublishOutcomeAccepted then ''accepted''
      else if o' = PublishOutcomeNotStarted then ''not_started''
      else if o' = PublishOutcomeUncertain then ''uncertain''
      else ''unknown'')"

subsection \<open>Predicates on publish errors\<close>

definition publishWasAttempted :: "goerr option \<Rightarrow> bool" where
  "publishWasAttempted err = (case err of None \<Rightarrow> False | Some e \<Rightarrow> as_PublishAttempted e)"

definition MarkPublishAttempted :: "goerr option \<Rightarrow> goerr option" where
  "MarkPublishAttempted err =
     (case err of
        None \<Rightarrow> None
      | Some e \<Rightarrow> if as_PublishAttempted e then err else Some (PublishAttempted e))"

definition PublishAccepted :: "goerr option \<Rightarrow> bool" where
  "PublishAccepted err \<longleftrightarrow> err = None"

definition IsPublishNotStarted :: "gerr_is \<Rightarrow> goerr option \<Rightarrow> bool" where
  "IsPublishNotStarted gis err \<longleftrightarrow>
     err_Is gis err (TGerr ClientNotStarted) \<or> err_Is gis err (TGerr MQTTTransportNotRunning)"

definition IsPublishTimeout :: "gerr_is \<Rightarrow> goerr option \<Rightarrow> bool" where
  "IsPublishTimeout gis err \<longleftrightarrow>
     err_Is gis err (TGerr TimeoutError) \<or> err_Is gis err (TCtx DeadlineExceeded)"

definition IsPublishCanceled :: "gerr_is \<Rightarrow> goerr option \<Rightarrow> bool" where
  "IsPublishCanceled gis err \<longleftrightarrow> err_Is gis err (TCtx Canceled)"

definition IsPublishQoSRejected :: "gerr_is \<Rightarrow> goerr option \<Rightarrow> bool" where
  "IsPublishQoSRejected gis err \<longleftrightarrow> err_Is gis err (TGerr QosNotSupported)"

definition IsPublishBrokerRejected :: "gerr_is \<Rightarrow> goerr option \<Rightarrow> bool" where
  "IsPublishBrokerRejected gis err \<longleftrightarrow> err_Is gis err (TGerr PublishFailed)"

definition IsOutboundValidationFailed :: "gerr_is \<Rightarrow> goerr option \<Rightarrow> bool" where
  "IsOutboundValidationFailed gis err \<longleftrightarrow> err_Is gis err (TGerr OutboundValidationFailed)"

definition IsPublishValidationFailed :: "gerr_is \<Rightarrow> goerr option \<Rightarrow> bool" where
  "IsPublishValidationFailed gis err \<longleftrightarrow> IsOutboundValidationFailed gis err"

definition validatePublishQoS :: "u8 \<Rightarrow> goerr option" where
  "validatePublishQoS qos =
     (if qos > 2 then Some (gerr_With (sentinel QosNotSupported) ''qos'' (ArgByte qos)) else None)"

subsection \<open>ClassifyPublish\<close>

definition ClassifyPublish :: "gerr_is \<Rightarrow> goerr option \<Rightarrow> publish_outcome" where
  "ClassifyPublish gis err =
     (if err = None then PublishOutcomeAccepted
      else if IsPublishValidationFailed gis err \<or> IsPublishNotStarted gis err \<or>
              IsPublishQoSRejected gis err \<or> IsPublishBrokerRejected gis err
      then PublishOutcomeNotStarted
      else if err_Is gis err (TGerr InvalidConfig) then PublishOutcomeNotStarted
      else if err_Is gis err (TGerr TimeoutError) then PublishOutcomeUncertain
      else if publishWasAttempted err then PublishOutcomeUncertain
      else if IsPublishCanceled gis err \<or> err_Is gis err (TCtx DeadlineExceeded)
      then PublishOutcomeNotStarted
      else PublishOutcomeUncertain)"

lemmas publish_predicates =
  IsPublishNotStarted_def IsPublishTimeout_def IsPublishCanceled_def IsPublishQoSRejected_def
  IsPublishBrokerRejected_def IsOutboundValidationFailed_def IsPublishValidationFailed_def
  publishWasAttempted_def

subsection \<open>What the classification depends on\<close>

text \<open>
  The codes that say that nothing was sent, and the specification of the outcome in terms of the
  innermost error and of the attempted marker alone.
\<close>

definition not_sent_codes :: "gkey set" where
  "not_sent_codes = {OutboundValidationFailed, ClientNotStarted, MQTTTransportNotRunning,
     QosNotSupported, PublishFailed, InvalidConfig}"

definition outcome_spec :: "goerr \<Rightarrow> publish_outcome" where
  "outcome_spec e =
     (case root_error e of
        Gerr k ns \<Rightarrow> if k \<in> not_sent_codes then PublishOutcomeNotStarted else PublishOutcomeUncertain
      | Ctx c \<Rightarrow> if as_PublishAttempted e then PublishOutcomeUncertain else PublishOutcomeNotStarted
      | _ \<Rightarrow> PublishOutcomeUncertain)"

lemma ClassifyPublish_spec:
  assumes "matches_by_code gis"
  shows "ClassifyPublish gis (Some e) = outcome_spec e"
proof (cases "root_error e")
  case (Ctx c)
  then show ?thesis
    by (cases c) (simp_all add: ClassifyPublish_def outcome_spec_def publish_predicates not_sent_codes_def
      errors_Is_code [OF assms] errors_Is_ctx)
qed (simp_all add: ClassifyPublish_def outcome_spec_def publish_predicates not_sent_codes_def
    errors_Is_code [OF assms] errors_Is_ctx)

text \<open>
  C1. ClassifyPublish answers Accepted exactly for a nil error, and otherwise depends only on
  the innermost error of the chain and on the attempted marker: NotStarted for the codes of
  not_sent_codes and for a context error that is not marked, Uncertain for everything else.
\<close>

theorem ClassifyPublish_refines_spec:
  assumes "matches_by_code gis"
  shows "ClassifyPublish gis err =
    (case err of None \<Rightarrow> PublishOutcomeAccepted | Some e \<Rightarrow> outcome_spec e)"
  using ClassifyPublish_spec [OF assms]
  by (cases err) (auto simp: ClassifyPublish_def)

theorem ClassifyPublish_refines_spec_witness:
  "ClassifyPublish by_code (Some (PublishAttempted (Ctx DeadlineExceeded))) = PublishOutcomeUncertain"
  using ClassifyPublish_refines_spec [OF matches_by_code_by_code,
      of "Some (PublishAttempted (Ctx DeadlineExceeded))"]
  by (simp add: outcome_spec_def)

lemma root_error_Mark:
  "MarkPublishAttempted (Some e) = Some e' \<Longrightarrow> root_error e' = root_error e"
  by (auto simp: MarkPublishAttempted_def split: if_splits)

lemma attempted_Mark: "MarkPublishAttempted (Some e) = Some e' \<Longrightarrow> as_PublishAttempted e'"
  by (auto simp: MarkPublishAttempted_def split: if_splits)

text \<open>
  Marking an error as attempted is idempotent and never lets a wait failure be taken for a
  publish that did not start: the marked error is Uncertain unless the error underneath carries
  one of the codes that say nothing was sent.
\<close>

theorem Mark_uncertain:
  assumes "matches_by_code gis"
  shows "MarkPublishAttempted (MarkPublishAttempted err) = MarkPublishAttempted err \<and>
    (\<forall>e. err = Some e \<longrightarrow>
       (ClassifyPublish gis (MarkPublishAttempted err) = PublishOutcomeNotStarted \<longleftrightarrow>
          (\<exists>k ns. root_error e = Gerr k ns \<and> k \<in> not_sent_codes)) \<and>
       ClassifyPublish gis (MarkPublishAttempted err) \<noteq> PublishOutcomeAccepted)"
proof (cases err)
  case (Some e)
  obtain e' where e': "MarkPublishAttempted (Some e) = Some e'"
    by (cases "as_PublishAttempted e") (auto simp: MarkPublishAttempted_def)
  have "ClassifyPublish gis (Some e') = outcome_spec e'"
    by (rule ClassifyPublish_spec [OF assms])
  then show ?thesis
    using Some e' root_error_Mark [OF e'] attempted_Mark [OF e']
    by (auto simp: outcome_spec_def MarkPublishAttempted_def split: goerr.splits)
qed (simp add: MarkPublishAttempted_def)

theorem Mark_uncertain_witness:
  "ClassifyPublish by_code (MarkPublishAttempted (Some (Ctx Canceled))) \<noteq> PublishOutcomeNotStarted"
  using Mark_uncertain [OF matches_by_code_by_code, of "Some (Ctx Canceled)"] by simp

end
