(* ===== verification/Config.thy ===== *)
theory Config
  imports Extend Inbound_Policy Transport_Api Publish_Outcome
begin

text \<open>
  config.go and the options type of outbound_validate.go: the settings of a client. Optional
  pointers are options. Callbacks and injected services act on the world 's; 'u are the
  Unsubscribe handles of the transport. The bus is any implementation of the interface EventBus,
  'p are its payloads and 'h the handlers it stores; its Unsubscribe closures are functions on
  the world, and a nil closure is None.
\<close>

record fleet_options =
  fo_SubscribeState :: bool
  fo_SubscribeVisualization :: bool
  fo_AutoTrackFromConnection :: bool

definition DefaultFleetOptions :: fleet_options where
  "DefaultFleetOptions = \<lparr>fo_SubscribeState = True, fo_SubscribeVisualization = False,
     fo_AutoTrackFromConnection = False\<rparr>"

definition zero_fleet_options :: fleet_options where
  "zero_fleet_options = \<lparr>fo_SubscribeState = False, fo_SubscribeVisualization = False,
     fo_AutoTrackFromConnection = False\<rparr>"

definition DefaultOrderQoS :: u8 where
  "DefaultOrderQoS = 1"

definition QoSOf :: "u8 \<Rightarrow> u8 option" where
  "QoSOf q = Some q"

record last_will =
  lw_Topic :: string
  lw_Payload :: bytes
  lw_QoS :: u8
  lw_Retain :: bool

record outbound_options =
  ov_Disabled :: bool
  ov_AllowZeroHeaderID :: bool
  ov_SkipIdentityCheck :: bool

type_synonym 's bus_closure = "goctx \<Rightarrow> 's \<Rightarrow> 's \<times> goerr option"

record ('s, 'h, 'p) event_bus_ops =
  eb_Publish :: "goctx \<Rightarrow> string \<Rightarrow> 'p \<Rightarrow> 's \<Rightarrow> 's \<times> goerr option"
  eb_Subscribe :: "string \<Rightarrow> 'h option \<Rightarrow> 's \<Rightarrow> 's \<times> (goerr + 's bus_closure option)"

record ('s, 'u, 'h, 'p) config =
  cfg_Broker :: string
  cfg_ClientID :: string
  cfg_Username :: string
  cfg_Password :: string
  cfg_Interface :: string
  cfg_Version :: string
  cfg_HeaderVersion :: string
  cfg_Manufacturer :: string
  cfg_SerialNumber :: string
  cfg_QoS :: "u8 option"
  cfg_KeepAlive :: duration
  cfg_ConnectTimeout :: duration
  cfg_CleanSession :: bool
  cfg_AutoReconnect :: bool
  cfg_TLS :: "opaque option"
  cfg_Will :: "last_will option"
  cfg_InboundQueueSize :: int
  cfg_OnInboundDrop :: "(string \<Rightarrow> inbound_drop_reason \<Rightarrow> 's \<Rightarrow> 's) option"
  cfg_SlowInbound :: duration
  cfg_OnSlowInbound :: "(envelope \<Rightarrow> inbound_slow_cause \<Rightarrow> duration \<Rightarrow> 's \<Rightarrow> 's) option"
  cfg_RestoreSubscriptionsOnReconnect :: "bool option"
  cfg_StrictIdentity :: "bool option"
  cfg_Transport :: "('s, 'u) transport option"
  cfg_Fleet :: "fleet_options option"
  cfg_Extensions :: "registry option"
  cfg_Bus :: "('s, 'h, 'p) event_bus_ops option"
  cfg_IdentityMapper :: "(string \<Rightarrow> string \<Rightarrow> string) option"
  cfg_OutboundValidation :: "outbound_options option"
  cfg_InboundPolicy :: "(identity \<Rightarrow> channel \<Rightarrow> u32 \<Rightarrow> 's \<Rightarrow> 's \<times> disposition) option"
  cfg_OnDecodeError :: "(envelope \<Rightarrow> goerr \<Rightarrow> 's \<Rightarrow> 's) option"
  cfg_OnHandlerError :: "(envelope \<Rightarrow> goerr \<Rightarrow> 's \<Rightarrow> 's) option"
  cfg_OnTransportUp :: "('s \<Rightarrow> 's) option"
  cfg_OnTransportDown :: "(goerr option \<Rightarrow> 's \<Rightarrow> 's) option"
  cfg_OnSubscriptionsRestored :: "(goerr option \<Rightarrow> 's \<Rightarrow> 's) option"

definition headerVersion :: "('s, 'u, 'h, 'p) config \<Rightarrow> string" where
  "headerVersion c =
     (if TrimSpace (cfg_HeaderVersion c) \<noteq> [] then cfg_HeaderVersion c else cfg_Version c)"

definition strictIdentity :: "('s, 'u, 'h, 'p) config \<Rightarrow> bool" where
  "strictIdentity c = (case cfg_StrictIdentity c of None \<Rightarrow> True | Some b \<Rightarrow> b)"

definition restoreOnReconnect :: "('s, 'u, 'h, 'p) config \<Rightarrow> bool" where
  "restoreOnReconnect c =
     (case cfg_RestoreSubscriptionsOnReconnect c of None \<Rightarrow> True | Some b \<Rightarrow> b)"

definition validate :: "('s, 'u, 'h, 'p) config \<Rightarrow> goerr option" where
  "validate c =
     (if TrimSpace (cfg_Interface c) = []
      then Some (NewInvalidConfigWithArgs [ArgStr ''Interface is required''])
      else if TrimSpace (cfg_Version c) = []
      then Some (NewInvalidConfigWithArgs [ArgStr ''Version is required''])
      else if cfg_Transport c = None \<and> TrimSpace (cfg_Broker c) = []
      then Some (NewInvalidConfigWithArgs [ArgStr ''Broker is required when Transport is nil''])
      else if cfg_Transport c = None \<and> TrimSpace (cfg_ClientID c) = []
      then Some (NewInvalidConfigWithArgs [ArgStr ''ClientID is required when Transport is nil''])
      else (case cfg_Will c of
          None \<Rightarrow> None
        | Some w \<Rightarrow> if TrimSpace (lw_Topic w) = [] \<or> lw_QoS w > 2
                    then Some (sentinel WillMessageError) else None))"

definition publishQoS :: "('s, 'u, 'h, 'p) config \<Rightarrow> u8" where
  "publishQoS c = (case cfg_QoS c of None \<Rightarrow> DefaultOrderQoS | Some q \<Rightarrow> q)"

definition subscribeQoSExplicit :: "('s, 'u, 'h, 'p) config \<Rightarrow> u8 \<times> bool" where
  "subscribeQoSExplicit c =
     (case cfg_QoS c of None \<Rightarrow> (DefaultOrderQoS, False) | Some q \<Rightarrow> (q, True))"

definition outboundValidation :: "('s, 'u, 'h, 'p) config \<Rightarrow> outbound_options" where
  "outboundValidation c =
     (case cfg_OutboundValidation c of
        None \<Rightarrow> \<lparr>ov_Disabled = False, ov_AllowZeroHeaderID = False, ov_SkipIdentityCheck = False\<rparr>
      | Some v \<Rightarrow> v)"

text \<open>What a validated configuration guarantees to the rest of the client.\<close>

lemma validate_version: "validate c = None \<Longrightarrow> TrimSpace (headerVersion c) \<noteq> []"
  by (auto simp: validate_def headerVersion_def split: if_splits)

lemma validate_error:
  assumes "matches_by_code gis" and "validate c = Some e"
  shows "ClassifyPublish gis (Some e) = PublishOutcomeNotStarted \<or> e = sentinel WillMessageError"
  using assms ClassifyPublish_spec [OF assms(1), of e]
  by (auto simp: validate_def outcome_spec_def gerr_constructors not_sent_codes_def
      split: if_splits option.splits)

end
