(* ===== verification/Memory_Bus.thy ===== *)
theory Memory_Bus
  imports Go_Errors
begin

text \<open>
  internal/bus/memory.go: the synchronous in-process event bus, generic in the handler values
  'h. A handler runs on the world 's, which contains the bus itself: it may subscribe,
  unsubscribe or publish while it runs, and Publish works on the snapshot it took first. The Go
  map of slices is a map of lists (a missing key is the nil slice). An Unsubscribe closure is the
  pair of event and subscription id it captures. The locale event_bus is the contract of a bus
  for its clients; Memory interprets it as long as the 64-bit id counter has not wrapped.
\<close>

record 'h memory =
  mem_nextID :: u64
  mem_subs :: "string \<rightharpoonup> (u64 \<times> 'h) list"

type_synonym bus_unsub = "string \<times> u64"

definition NewMemory :: "'h memory" where
  "NewMemory = \<lparr>mem_nextID = 0, mem_subs = Map.empty\<rparr>"

definition subs_of :: "'h memory \<Rightarrow> string \<Rightarrow> (u64 \<times> 'h) list" where
  "subs_of m event = (case mem_subs m event of None \<Rightarrow> [] | Some l \<Rightarrow> l)"

fun deliver ::
  "('h \<Rightarrow> 'p \<Rightarrow> 's \<Rightarrow> 's \<times> goerr option) \<Rightarrow> (u64 \<times> 'h) list \<Rightarrow> 'p \<Rightarrow> 's \<Rightarrow> 's \<times> goerr option" where
  "deliver run [] payload s = (s, None)"
| "deliver run ((i, h) # subs) payload s =
     (case run h payload s of
        (s', Some e) \<Rightarrow> (s', Some e)
      | (s', None) \<Rightarrow> deliver run subs payload s')"

definition Memory_Publish ::
  "('s \<Rightarrow> 'h memory) \<Rightarrow> ('h \<Rightarrow> 'p \<Rightarrow> 's \<Rightarrow> 's \<times> goerr option) \<Rightarrow> string \<Rightarrow> 'p \<Rightarrow> 's \<Rightarrow> 's \<times> goerr option" where
  "Memory_Publish bus run event payload s = deliver run (subs_of (bus s) event) payload s"

text \<open>Subscribe: a nil handler gives a nil Unsubscribe and changes nothing; the error is always nil.\<close>

definition Memory_Subscribe ::
  "string \<Rightarrow> 'h option \<Rightarrow> 'h memory \<Rightarrow> 'h memory \<times> bus_unsub option" where
  "Memory_Subscribe event h m =
     (case h of
        None \<Rightarrow> (m, None)
      | Some h \<Rightarrow>
         (let i = mem_nextID m + 1 in
          (m\<lparr>mem_nextID := i, mem_subs := (mem_subs m)(event \<mapsto> subs_of m event @ [(i, h)])\<rparr>,
           Some (event, i))))"

fun remove_sub :: "u64 \<Rightarrow> (u64 \<times> 'h) list \<Rightarrow> (u64 \<times> 'h) list option" where
  "remove_sub i [] = None"
| "remove_sub i ((j, h) # l) =
     (if j = i then Some l else map_option ((#) (j, h)) (remove_sub i l))"

definition Memory_Unsubscribe :: "bus_unsub \<Rightarrow> 'h memory \<Rightarrow> 'h memory" where
  "Memory_Unsubscribe u m =
     (case remove_sub (snd u) (subs_of m (fst u)) of
        None \<Rightarrow> m
      | Some l \<Rightarrow> m\<lparr>mem_subs := (mem_subs m)(fst u \<mapsto> l)\<rparr>)"

subsection \<open>The contract of an event bus\<close>

locale event_bus =
  fixes subscribe :: "string \<Rightarrow> 'h \<Rightarrow> 'b \<Rightarrow> 'b \<times> 'u"
    and unsubscribe :: "'u \<Rightarrow> 'b \<Rightarrow> 'b"
    and listeners :: "'b \<Rightarrow> string \<Rightarrow> ('u \<times> 'h) list"
    and ok :: "'b \<Rightarrow> bool"
    and room :: "'b \<Rightarrow> bool"
  assumes subscribe_event: "ok b \<Longrightarrow> room b \<Longrightarrow> subscribe e h b = (b', u) \<Longrightarrow>
      listeners b' e = listeners b e @ [(u, h)]"
    and subscribe_other: "ok b \<Longrightarrow> room b \<Longrightarrow> subscribe e h b = (b', u) \<Longrightarrow> e' \<noteq> e \<Longrightarrow>
      listeners b' e' = listeners b e'"
    and subscribe_fresh: "ok b \<Longrightarrow> room b \<Longrightarrow> subscribe e h b = (b', u) \<Longrightarrow>
      u \<notin> fst ` set (listeners b e')"
    and subscribe_ok: "ok b \<Longrightarrow> room b \<Longrightarrow> subscribe e h b = (b', u) \<Longrightarrow> ok b'"
    and unsubscribe_listeners: "ok b \<Longrightarrow>
      listeners (unsubscribe u b) e = filter (\<lambda>(v, h). v \<noteq> u) (listeners b e)"
    and unsubscribe_ok: "ok b \<Longrightarrow> ok (unsubscribe u b)"
begin

lemma unsubscribe_twice:
  "ok b \<Longrightarrow> listeners (unsubscribe u (unsubscribe u b)) e = listeners (unsubscribe u b) e"
  by (simp add: unsubscribe_listeners unsubscribe_ok)

lemma subscribe_then_unsubscribe:
  assumes "ok b" "room b" "subscribe e h b = (b', u)"
  shows "listeners (unsubscribe u b') e' = listeners b e'"
proof -
  have "filter (\<lambda>(v, h). v \<noteq> u) (listeners b e'') = listeners b e''" for e''
    using subscribe_fresh [OF assms] by (simp add: filter_fst_absent)
  then show ?thesis
    using assms subscribe_event [OF assms] subscribe_other [OF assms, of e']
      subscribe_ok [OF assms] unsubscribe_listeners [of b' u e']
    by (cases "e' = e") auto
qed

lemma unsubscribe_keeps_order:
  assumes "ok b" and "listeners b e = xs @ (u, h) # ys"
    and "u \<notin> fst ` set xs" and "u \<notin> fst ` set ys"
  shows "listeners (unsubscribe u b) e = xs @ ys"
  using assms by (simp add: unsubscribe_listeners filter_fst_absent)

end

subsection \<open>Memory meets the contract\<close>

definition bus_ok :: "'h memory \<Rightarrow> bool" where
  "bus_ok m \<longleftrightarrow> (\<forall>e. distinct (map fst (subs_of m e)) \<and>
     (\<forall>i \<in> fst ` set (subs_of m e). i \<le> mem_nextID m))"

definition bus_room :: "'h memory \<Rightarrow> bool" where
  "bus_room m \<longleftrightarrow> mem_nextID m \<noteq> - 1"

definition bus_listeners :: "'h memory \<Rightarrow> string \<Rightarrow> (bus_unsub \<times> 'h) list" where
  "bus_listeners m e = map (\<lambda>(i, h). ((e, i), h)) (subs_of m e)"

definition bus_subscribe :: "string \<Rightarrow> 'h \<Rightarrow> 'h memory \<Rightarrow> 'h memory \<times> bus_unsub" where
  "bus_subscribe e h m = (case Memory_Subscribe e (Some h) m of (m', u) \<Rightarrow> (m', the u))"

lemma remove_sub_filter:
  "distinct (map fst l) \<Longrightarrow>
     (case remove_sub i l of None \<Rightarrow> l | Some l' \<Rightarrow> l') = filter (\<lambda>(j, h). j \<noteq> i) l"
proof (induction l)
  case (Cons x l)
  then show ?case
    by (cases x) (auto simp: filter_fst_absent split: option.splits)
qed simp

lemma Memory_Unsubscribe_subs:
  assumes "bus_ok m"
  shows "subs_of (Memory_Unsubscribe (e, i) m) e' =
    (if e' = e then filter (\<lambda>(j, h). j \<noteq> i) (subs_of m e) else subs_of m e')"
  using remove_sub_filter [of "subs_of m e" i] assms
  by (auto simp: Memory_Unsubscribe_def bus_ok_def subs_of_def split: option.splits)

lemma Memory_Unsubscribe_nextID [simp]: "mem_nextID (Memory_Unsubscribe u m) = mem_nextID m"
  by (simp add: Memory_Unsubscribe_def split: option.splits)

lemma next_id_above: "bus_room m \<Longrightarrow> mem_nextID m < mem_nextID m + 1"
  by (simp add: bus_room_def word_less_succ)

lemma bus_subscribe_simps:
  "subs_of (fst (bus_subscribe e h m)) e' =
     subs_of m e' @ (if e' = e then [(mem_nextID m + 1, h)] else [])"
  "mem_nextID (fst (bus_subscribe e h m)) = mem_nextID m + 1"
  "snd (bus_subscribe e h m) = (e, mem_nextID m + 1)"
  by (simp_all add: bus_subscribe_def Memory_Subscribe_def Let_def subs_of_def)

lemma bus_ok_subscribe:
  assumes "bus_ok m" "bus_room m"
  shows "bus_ok (fst (bus_subscribe e h m))"
  using assms next_id_above [OF assms(2)]
  by (fastforce simp: bus_ok_def bus_subscribe_simps)

lemma bus_ok_unsubscribe: "bus_ok m \<Longrightarrow> bus_ok (Memory_Unsubscribe u m)"
  using Memory_Unsubscribe_subs [of m "fst u" "snd u"]
  by (fastforce simp: bus_ok_def distinct_map_filter)

interpretation memory: event_bus bus_subscribe Memory_Unsubscribe bus_listeners bus_ok bus_room
proof
  fix b :: "'h memory" and e e' h b' u
  assume ok: "bus_ok b"
  show "bus_listeners (Memory_Unsubscribe u b) e = filter (\<lambda>(v, h). v \<noteq> u) (bus_listeners b e)"
    using Memory_Unsubscribe_subs [OF ok, of "fst u" "snd u" e]
    by (cases u) (auto simp: bus_listeners_def filter_map comp_def split_def
        intro!: arg_cong [where f = "map _"] filter_cong)
  show "bus_ok (Memory_Unsubscribe u b)"
    using ok by (rule bus_ok_unsubscribe)
  assume room: "bus_room b" and sub: "bus_subscribe e h b = (b', u)"
  then have b': "b' = fst (bus_subscribe e h b)" and u: "u = snd (bus_subscribe e h b)"
    by simp_all
  show "bus_listeners b' e = bus_listeners b e @ [(u, h)]"
    by (simp add: b' u bus_listeners_def bus_subscribe_simps)
  show "e' \<noteq> e \<Longrightarrow> bus_listeners b' e' = bus_listeners b e'"
    by (simp add: b' bus_listeners_def bus_subscribe_simps)
  show "u \<notin> fst ` set (bus_listeners b e')"
    using ok next_id_above [OF room]
    by (fastforce simp: u bus_listeners_def bus_subscribe_simps bus_ok_def)
  show "bus_ok b'"
    unfolding b' using ok room by (rule bus_ok_subscribe)
qed

text \<open>
  Histories of subscribing and cancelling, on the bus and on plain lists of listeners. A cancel may
  name any handle: one that is live, one that was cancelled before, or none that was ever issued.
\<close>

datatype 'h bus_call = BusSubscribe string 'h | BusCancel bus_unsub

fun bus_run :: "'h bus_call list \<Rightarrow> 'h memory \<Rightarrow> 'h memory" where
  "bus_run [] m = m"
| "bus_run (BusSubscribe e h # cs) m = bus_run cs (fst (bus_subscribe e h m))"
| "bus_run (BusCancel u # cs) m = bus_run cs (Memory_Unsubscribe u m)"

fun list_run ::
  "'h bus_call list \<Rightarrow> u64 \<Rightarrow> (string \<Rightarrow> (bus_unsub \<times> 'h) list) \<Rightarrow> string \<Rightarrow> (bus_unsub \<times> 'h) list" where
  "list_run [] n L = L"
| "list_run (BusSubscribe e h # cs) n L = list_run cs (n + 1) (L(e := L e @ [((e, n + 1), h)]))"
| "list_run (BusCancel u # cs) n L = list_run cs n (\<lambda>e. filter (\<lambda>(v, h). v \<noteq> u) (L e))"

definition ids_left :: "'h bus_call list \<Rightarrow> 'h memory \<Rightarrow> bool" where
  "ids_left cs m \<longleftrightarrow> unat (mem_nextID m) + length cs < 2 ^ 64 - 1"

lemma ids_left_Cons:
  assumes "ids_left (c # cs) m"
  shows "bus_room m" "ids_left cs (Memory_Unsubscribe u m)" "ids_left cs (fst (bus_subscribe e h m))"
proof -
  have n: "unat (mem_nextID m) + Suc (length cs) < 2 ^ 64 - 1" using assms by (simp add: ids_left_def)
  then show "bus_room m" by (auto simp: bus_room_def unsigned_minus_1_eq_mask mask_eq_exp_minus_1)
  show "ids_left cs (Memory_Unsubscribe u m)" using n by (simp add: ids_left_def)
  have "unat (mem_nextID m + 1) = Suc (unat (mem_nextID m))" using n by (simp add: unat_word_ariths)
  then show "ids_left cs (fst (bus_subscribe e h m))" using n by (simp add: ids_left_def bus_subscribe_simps)
qed

lemma bus_run_ok: "bus_ok m \<Longrightarrow> ids_left cs m \<Longrightarrow> bus_ok (bus_run cs m)"
  by (induction cs m rule: bus_run.induct)
    (auto intro: bus_ok_subscribe bus_ok_unsubscribe dest: ids_left_Cons)

lemma bus_run_lists:
  "bus_ok m \<Longrightarrow> ids_left cs m \<Longrightarrow> bus_listeners (bus_run cs m) = list_run cs (mem_nextID m) (bus_listeners m)"
proof (induction cs m rule: bus_run.induct)
  case (2 e h cs m)
  have "bus_listeners (fst (bus_subscribe e h m)) =
      (bus_listeners m)(e := bus_listeners m e @ [((e, mem_nextID m + 1), h)])"
    by (simp add: fun_eq_iff bus_listeners_def bus_subscribe_simps)
  then show ?case
    using 2(1) [OF bus_ok_subscribe [OF 2(2) ids_left_Cons(1) [OF 2(3)]] ids_left_Cons(3) [OF 2(3)]]
    by (simp add: bus_subscribe_simps fun_upd_def)
next
  case (3 u cs m)
  have "bus_listeners (Memory_Unsubscribe u m) = (\<lambda>e. filter (\<lambda>(v, h). v \<noteq> u) (bus_listeners m e))"
    using memory.unsubscribe_listeners [OF 3(2)] by (simp add: fun_eq_iff)
  then show ?case using 3(1) [OF bus_ok_unsubscribe [OF 3(2)] ids_left_Cons(2) [OF 3(3)]] by simp
qed simp

text \<open>A live subscription stays where it is, after the survivors of those before it.\<close>

definition cancelled :: "'h bus_call list \<Rightarrow> bus_unsub set" where
  "cancelled cs = {u. BusCancel u \<in> set cs}"

lemma bus_run_keeps:
  assumes "bus_ok m" "ids_left cs m" "bus_listeners m e = xs @ (u, h) # ys" "u \<notin> cancelled cs"
  shows "\<exists>ys'. bus_listeners (bus_run cs m) e =
    filter (\<lambda>(v, h). v \<notin> cancelled cs) xs @ (u, h) # ys' \<and> (cs = [] \<longrightarrow> ys' = ys)"
  using assms
proof (induction cs m arbitrary: xs ys rule: bus_run.induct)
  case (1 m)
  then show ?case by (simp add: cancelled_def)
next
  case (2 e0 h0 cs m)
  let ?m = "fst (bus_subscribe e0 h0 m)"
  have "bus_listeners ?m e = xs @ (u, h) # (ys @ (if e0 = e then [((e0, mem_nextID m + 1), h0)] else []))"
    using 2(4) by (auto simp: bus_listeners_def bus_subscribe_simps)
  with 2(1) [OF bus_ok_subscribe [OF 2(2) ids_left_Cons(1) [OF 2(3)]] ids_left_Cons(3) [OF 2(3)] this] 2(5)
  show ?case by (auto simp: cancelled_def)
next
  case (3 v cs m)
  have "u \<noteq> v" using 3(5) by (auto simp: cancelled_def)
  then have "bus_listeners (Memory_Unsubscribe v m) e =
      filter (\<lambda>(w, h). w \<noteq> v) xs @ (u, h) # filter (\<lambda>(w, h). w \<noteq> v) ys"
    using memory.unsubscribe_listeners [OF 3(2), of v e] 3(4) by simp
  with 3(1) [OF bus_ok_unsubscribe [OF 3(2)] ids_left_Cons(2) [OF 3(3)] this] 3(5)
  show ?case by (auto simp: cancelled_def case_prod_unfold conj_commute)
qed

lemma bus_listeners_distinct: "bus_ok m \<Longrightarrow> distinct (map fst (bus_listeners m e))"
  by (auto simp: bus_ok_def bus_listeners_def comp_def case_prod_unfold distinct_map inj_on_def)

text \<open>
  C35. A Memory subscription behaves like an entry of a list of listeners per event. Any history of
  subscribing and cancelling changes the listeners as it would change plain lists (a subscription
  is appended, a cancel removes the entries of its handle); so a new subscription stays,
  whatever others do meanwhile, right after those before it that are still there, and cancelling it
  after any such history takes out this one entry and keeps all others, before and after it, in
  their order; cancelling it again, or cancelling it first, leaves no trace of it.
\<close>

theorem Memory_subscribe_unsubscribe:
  assumes "bus_ok m" and "ids_left (BusSubscribe e h # cs) m" and "bus_subscribe e h m = (m', u)"
    and "u \<notin> cancelled cs"
  shows "bus_listeners (bus_run cs m') = list_run (BusSubscribe e h # cs) (mem_nextID m) (bus_listeners m) \<and>
    bus_listeners (Memory_Unsubscribe u m') = bus_listeners m \<and>
    (\<exists>after. bus_listeners (bus_run cs m') e =
        filter (\<lambda>(v, h). v \<notin> cancelled cs) (bus_listeners m e) @ (u, h) # after \<and>
      (let m'' = Memory_Unsubscribe u (bus_run cs m') in
         bus_listeners m'' = (bus_listeners (bus_run cs m'))
           (e := filter (\<lambda>(v, h). v \<notin> cancelled cs) (bus_listeners m e) @ after) \<and>
         bus_listeners (Memory_Unsubscribe u m'') = bus_listeners m''))"
proof -
  have m': "m' = fst (bus_subscribe e h m)" and u: "u = (e, mem_nextID m + 1)"
    using assms(3) by (simp_all add: bus_subscribe_def Memory_Subscribe_def Let_def)
  note room = ids_left_Cons(1) [OF assms(2)] and left = ids_left_Cons(3) [OF assms(2), of e h, folded m']
  have ok: "bus_ok m'" "bus_ok (bus_run cs m')"
    using bus_ok_subscribe [OF assms(1) room, of e h] bus_run_ok [OF _ left] by (simp_all add: m')
  have "bus_listeners m' e = bus_listeners m e @ (u, h) # []"
    using memory.subscribe_event [OF assms(1) room assms(3)] by simp
  from bus_run_keeps [OF ok(1) left this assms(4)] obtain after where
    run: "bus_listeners (bus_run cs m') e =
      filter (\<lambda>(v, h). v \<notin> cancelled cs) (bus_listeners m e) @ (u, h) # after" by blast
  let ?xs = "filter (\<lambda>(v, h). v \<notin> cancelled cs) (bus_listeners m e)"
  have fresh: "u \<notin> fst ` set ?xs" "u \<notin> fst ` set after"
    using bus_listeners_distinct [OF ok(2), of e] run by auto
  have "bus_listeners (Memory_Unsubscribe u (bus_run cs m')) e = ?xs @ after"
    by (rule memory.unsubscribe_keeps_order [OF ok(2) run fresh])
  moreover have "bus_listeners (Memory_Unsubscribe u (bus_run cs m')) e' = bus_listeners (bus_run cs m') e'"
    if "e' \<noteq> e" for e'
    using that Memory_Unsubscribe_subs [OF ok(2), of e "mem_nextID m + 1" e'] by (simp add: u bus_listeners_def)
  ultimately have cancel: "bus_listeners (Memory_Unsubscribe u (bus_run cs m')) =
      (bus_listeners (bus_run cs m'))(e := ?xs @ after)" by (auto simp: fun_eq_iff)
  have twice: "bus_listeners (Memory_Unsubscribe u (Memory_Unsubscribe u (bus_run cs m'))) =
      bus_listeners (Memory_Unsubscribe u (bus_run cs m'))"
    using memory.unsubscribe_twice [OF ok(2), of u] by (simp add: fun_eq_iff)
  have "bus_listeners (Memory_Unsubscribe u m') = bus_listeners m"
    using memory.subscribe_then_unsubscribe [OF assms(1) room assms(3)] by (simp add: fun_eq_iff)
  moreover have "bus_listeners (bus_run cs m') =
      list_run (BusSubscribe e h # cs) (mem_nextID m) (bus_listeners m)"
    using bus_run_lists [OF assms(1,2)] by (simp add: m')
  ultimately show ?thesis unfolding Let_def using run cancel twice by blast
qed

lemma bus_ok_NewMemory [simp]: "bus_ok NewMemory" "bus_room NewMemory"
  by (simp_all add: bus_ok_def NewMemory_def subs_of_def bus_room_def)

text \<open>
  The second of three subscribers is cancelled after the third one subscribed.
\<close>

theorem Memory_subscribe_unsubscribe_witness:
  "let m1 = fst (bus_subscribe ''e'' (1::nat) NewMemory); (m2, u) = bus_subscribe ''e'' 2 m1 in
     map snd (bus_listeners (Memory_Unsubscribe u (bus_run [BusSubscribe ''e'' 3] m2)) ''e'') = [1, 3]"
proof -
  let ?m1 = "fst (bus_subscribe ''e'' (1::nat) NewMemory)" and ?cs = "[BusSubscribe ''e'' (3::nat)]"
  obtain m2 u where sub: "bus_subscribe ''e'' 2 ?m1 = (m2, u)" by (metis prod.collapse)
  have ok: "bus_ok ?m1" by (intro bus_ok_subscribe bus_ok_NewMemory)
  have left: "ids_left (BusSubscribe ''e'' 2 # ?cs) ?m1"
    by (simp add: ids_left_def bus_subscribe_simps) (simp add: NewMemory_def)
  have "u \<notin> cancelled ?cs" by (simp add: cancelled_def)
  from Memory_subscribe_unsubscribe [OF ok left sub this] obtain after where
    "bus_listeners (bus_run ?cs m2) ''e'' = bus_listeners ?m1 ''e'' @ (u, 2) # after"
    "bus_listeners (Memory_Unsubscribe u (bus_run ?cs m2)) ''e'' = bus_listeners ?m1 ''e'' @ after"
    by (auto simp: Let_def cancelled_def)
  moreover have "m2 = fst (bus_subscribe ''e'' 2 ?m1)" using sub by simp
  then have "map snd (bus_listeners (bus_run ?cs m2) ''e'') = [1, 2, 3]"
    by (simp add: bus_listeners_def bus_subscribe_simps) (simp add: NewMemory_def subs_of_def)
  moreover have "map snd (bus_listeners ?m1 ''e'') = [1]"
    by (simp add: bus_listeners_def bus_subscribe_simps) (simp add: NewMemory_def subs_of_def)
  ultimately show ?thesis using sub by (simp add: Let_def)
qed

text \<open>Handlers that log their call, change the bus and answer a fixed result.\<close>

definition logging_run ::
  "('h \<Rightarrow> 'h memory \<Rightarrow> 'h memory) \<Rightarrow> ('h \<Rightarrow> goerr option) \<Rightarrow> 'h \<Rightarrow> 'p \<Rightarrow> 'h memory \<times> 'h list \<Rightarrow>
     ('h memory \<times> 'h list) \<times> goerr option" where
  "logging_run touch result h payload s = ((touch h (fst s), snd s @ [h]), result h)"

lemma deliver_logging:
  "snd (fst (deliver (logging_run touch result) subs payload s)) =
     snd s @ takeWhile (\<lambda>h. result h = None) (map snd subs)
       @ take 1 (dropWhile (\<lambda>h. result h = None) (map snd subs)) \<and>
   snd (deliver (logging_run touch result) subs payload s) =
     (case dropWhile (\<lambda>h. result h = None) (map snd subs) of [] \<Rightarrow> None | h # _ \<Rightarrow> result h)"
  by (induction subs arbitrary: s) (auto simp: logging_run_def split: option.splits)

text \<open>
  C40. Publish calls the subscribers of the snapshot in registration order and stops after the
  first one that fails, whose error it returns; what the handlers do to the bus while they run
  (unsubscribing others included) does not change who is called. In particular the subscribers
  after a failing one do not see the event.
\<close>
theorem Memory_Publish_order:
  "snd (fst (Memory_Publish fst (logging_run touch result) event payload s)) =
     snd s @ takeWhile (\<lambda>h. result h = None) (map snd (subs_of (fst s) event))
       @ take 1 (dropWhile (\<lambda>h. result h = None) (map snd (subs_of (fst s) event))) \<and>
   snd (Memory_Publish fst (logging_run touch result) event payload s) =
     (case dropWhile (\<lambda>h. result h = None) (map snd (subs_of (fst s) event)) of
        [] \<Rightarrow> None | h # _ \<Rightarrow> result h)"
  unfolding Memory_Publish_def by (rule deliver_logging)

end
