(* ===== verification/Events.thy ===== *)
theory Events
  imports Config Memory_Bus
begin

text \<open>
  events.go and the wrappers of eventbus_client.go: event names, payloads, the typed handlers and
  their adaptation to bus handlers. A user handler is a token; user_code says what each does to
  the world. A bus stores event_handler values: the closures that the four wrap functions return
  around a typed handler, or a handler the user passed to Subscribe. The in-process bus of
  NewMemoryEventBus lives in the world, at the place that get and put give.
\<close>

definition EventStateReceived :: string where
  "EventStateReceived = ''vda.state.received''"
definition EventConnectionChanged :: string where
  "EventConnectionChanged = ''vda.connection.changed''"
definition EventVisualizationReceived :: string where
  "EventVisualizationReceived = ''vda.visualization.received''"
definition EventFactsheetReceived :: string where
  "EventFactsheetReceived = ''vda.factsheet.received''"
definition EventDecodeFailed :: string where
  "EventDecodeFailed = ''vda.decode.failed''"

lemmas event_names = EventStateReceived_def EventConnectionChanged_def
  EventVisualizationReceived_def EventFactsheetReceived_def EventDecodeFailed_def

datatype payload =
    StateEvent envelope vstate
  | ConnectionEvent envelope connection
  | VisualizationEvent envelope opaque
  | FactsheetEvent envelope opaque
  | DecodeFailedEvent envelope goerr
  | CustomPayload any

datatype event_handler =
    WrapState handler
  | WrapConnection handler
  | WrapVisualization handler
  | WrapFactsheet handler
  | UserEvent handler

record 's user_code =
  run_state :: "handler \<Rightarrow> goctx \<Rightarrow> envelope \<Rightarrow> vstate \<Rightarrow> 's \<Rightarrow> 's \<times> goerr option"
  run_connection :: "handler \<Rightarrow> goctx \<Rightarrow> envelope \<Rightarrow> connection \<Rightarrow> 's \<Rightarrow> 's \<times> goerr option"
  run_visualization :: "handler \<Rightarrow> goctx \<Rightarrow> envelope \<Rightarrow> opaque \<Rightarrow> 's \<Rightarrow> 's \<times> goerr option"
  run_factsheet :: "handler \<Rightarrow> goctx \<Rightarrow> envelope \<Rightarrow> opaque \<Rightarrow> 's \<Rightarrow> 's \<times> goerr option"
  run_topic :: "handler \<Rightarrow> goctx \<Rightarrow> envelope \<Rightarrow> 's \<Rightarrow> 's \<times> goerr option"
  run_event :: "handler \<Rightarrow> goctx \<Rightarrow> payload \<Rightarrow> 's \<Rightarrow> 's \<times> goerr option"

definition wrapState :: "'s user_code \<Rightarrow> handler \<Rightarrow> goctx \<Rightarrow> payload \<Rightarrow> 's \<Rightarrow> 's \<times> goerr option" where
  "wrapState uc h ctx p s = (case p of StateEvent e m \<Rightarrow> run_state uc h ctx e m s | _ \<Rightarrow> (s, None))"

definition wrapConnection :: "'s user_code \<Rightarrow> handler \<Rightarrow> goctx \<Rightarrow> payload \<Rightarrow> 's \<Rightarrow> 's \<times> goerr option" where
  "wrapConnection uc h ctx p s =
     (case p of ConnectionEvent e m \<Rightarrow> run_connection uc h ctx e m s | _ \<Rightarrow> (s, None))"

definition wrapVisualization :: "'s user_code \<Rightarrow> handler \<Rightarrow> goctx \<Rightarrow> payload \<Rightarrow> 's \<Rightarrow> 's \<times> goerr option" where
  "wrapVisualization uc h ctx p s =
     (case p of VisualizationEvent e m \<Rightarrow> run_visualization uc h ctx e m s | _ \<Rightarrow> (s, None))"

definition wrapFactsheet :: "'s user_code \<Rightarrow> handler \<Rightarrow> goctx \<Rightarrow> payload \<Rightarrow> 's \<Rightarrow> 's \<times> goerr option" where
  "wrapFactsheet uc h ctx p s =
     (case p of FactsheetEvent e m \<Rightarrow> run_factsheet uc h ctx e m s | _ \<Rightarrow> (s, None))"

definition run_event_handler ::
  "'s user_code \<Rightarrow> goctx \<Rightarrow> event_handler \<Rightarrow> payload \<Rightarrow> 's \<Rightarrow> 's \<times> goerr option" where
  "run_event_handler uc ctx eh p s =
     (case eh of
        WrapState h \<Rightarrow> wrapState uc h ctx p s
      | WrapConnection h \<Rightarrow> wrapConnection uc h ctx p s
      | WrapVisualization h \<Rightarrow> wrapVisualization uc h ctx p s
      | WrapFactsheet h \<Rightarrow> wrapFactsheet uc h ctx p s
      | UserEvent h \<Rightarrow> run_event uc h ctx p s)"

lemmas wrap_defs = wrapState_def wrapConnection_def wrapVisualization_def wrapFactsheet_def

subsection \<open>The in-process event bus\<close>

definition Shim_Publish ::
  "('s \<Rightarrow> event_handler memory) \<Rightarrow> 's user_code \<Rightarrow> goctx \<Rightarrow> string \<Rightarrow> payload \<Rightarrow> 's \<Rightarrow> 's \<times> goerr option" where
  "Shim_Publish get uc ctx event p s = Memory_Publish get (run_event_handler uc ctx) event p s"

definition Shim_Unsubscribe ::
  "('s \<Rightarrow> event_handler memory) \<Rightarrow> (event_handler memory \<Rightarrow> 's \<Rightarrow> 's) \<Rightarrow> bus_unsub \<Rightarrow> 's bus_closure" where
  "Shim_Unsubscribe get put u ctx s = (put (Memory_Unsubscribe u (get s)) s, None)"

definition Shim_Subscribe ::
  "('s \<Rightarrow> event_handler memory) \<Rightarrow> (event_handler memory \<Rightarrow> 's \<Rightarrow> 's) \<Rightarrow> string \<Rightarrow> event_handler option \<Rightarrow>
     's \<Rightarrow> 's \<times> (goerr + 's bus_closure option)" where
  "Shim_Subscribe get put event h s =
     (case Memory_Subscribe event h (get s) of
        (m, None) \<Rightarrow> (put m s, Inr None)
      | (m, Some u) \<Rightarrow> (put m s, Inr (Some (Shim_Unsubscribe get put u))))"

definition NewMemoryEventBus ::
  "('s \<Rightarrow> event_handler memory) \<Rightarrow> (event_handler memory \<Rightarrow> 's \<Rightarrow> 's) \<Rightarrow> 's user_code \<Rightarrow>
     ('s, event_handler, payload) event_bus_ops" where
  "NewMemoryEventBus get put uc =
     \<lparr>eb_Publish = Shim_Publish get uc, eb_Subscribe = Shim_Subscribe get put\<rparr>"

end
