(* ===== verification/Builder.thy ===== *)
theory Builder
  imports Vda_Types
begin

text \<open>
  internal/outbound/builder.go: the header defaults of an outbound message. The clock of a
  Builder is a function of the wall clock, which is an argument: the identity for the default
  clock (time.Now().UTC()), anything else after SetClock. Time.Format with the layout
  2006-01-02T15:04:05.000Z is written out: the civil date of the proleptic Gregorian calendar, the
  time of day truncated to milliseconds. A nil message pointer is None.
\<close>

text \<open>
  Year, month and day of the n-th day since 0001-01-01, counted in years that start in March, so
  that a leap day is the last day of its year and a cycle of 400 years has 146097 days.
\<close>

definition civil_of_days :: "int \<Rightarrow> int \<times> int \<times> int" where
  "civil_of_days n =
     (let d = n + 306; era = d div 146097; doe = d mod 146097;
          yoe = (doe - doe div 1460 + doe div 36524 - doe div 146096) div 365;
          doy = doe - (365 * yoe + yoe div 4 - yoe div 100);
          mp = (5 * doy + 2) div 153;
          m = (if mp < 10 then mp + 3 else mp - 9);
          y = yoe + era * 400 + (if m \<le> 2 then 1 else 0)
      in (y, m, doy - (153 * mp + 2) div 5 + 1))"

definition year_text :: "int \<Rightarrow> string" where
  "year_text y = (if y < 0 then CHR ''-'' # zero_pad 4 (nat (- y)) else zero_pad 4 (nat y))"

definition format_timestamp :: "gotime \<Rightarrow> string" where
  "format_timestamp t =
     (let secs = t div Second; ms = (t mod Second) div 1000000; sod = secs mod 86400;
          (y, m, d) = civil_of_days (secs div 86400) in
      year_text y @ ''-'' @ zero_pad 2 (nat m) @ ''-'' @ zero_pad 2 (nat d) @ ''T''
      @ zero_pad 2 (nat (sod div 3600)) @ '':'' @ zero_pad 2 (nat (sod mod 3600 div 60)) @ '':''
      @ zero_pad 2 (nat (sod mod 60)) @ ''.'' @ zero_pad 3 (nat ms) @ ''Z'')"

record builder =
  bd_Version :: string
  bd_now :: "gotime \<Rightarrow> gotime"

definition NewBuilder :: "string \<Rightarrow> builder" where
  "NewBuilder version = \<lparr>bd_Version = version, bd_now = (\<lambda>t. t)\<rparr>"

definition SetClock :: "(gotime \<Rightarrow> gotime) option \<Rightarrow> builder \<Rightarrow> builder" where
  "SetClock now b = (case now of None \<Rightarrow> b | Some f \<Rightarrow> b\<lparr>bd_now := f\<rparr>)"

definition ApplyHeader :: "builder \<Rightarrow> gotime \<Rightarrow> string \<Rightarrow> string \<Rightarrow> protocol_header \<Rightarrow> protocol_header" where
  "ApplyHeader b wall manufacturer serial h =
     h\<lparr>h_Manufacturer := (if h_Manufacturer h = [] then manufacturer else h_Manufacturer h),
       h_SerialNumber := (if h_SerialNumber h = [] then serial else h_SerialNumber h),
       h_Version := bd_Version b,
       h_Timestamp := format_timestamp (bd_now b wall)\<rparr>"

definition PrepareOrder :: "builder \<Rightarrow> gotime \<Rightarrow> string \<Rightarrow> string \<Rightarrow> vorder option \<Rightarrow> vorder option" where
  "PrepareOrder b wall manufacturer serial o' =
     (case o' of None \<Rightarrow> None
      | Some r \<Rightarrow> Some (r\<lparr>o_header := ApplyHeader b wall manufacturer serial (o_header r)\<rparr>))"

definition PrepareInstantActions ::
  "builder \<Rightarrow> gotime \<Rightarrow> string \<Rightarrow> string \<Rightarrow> instant_actions option \<Rightarrow> instant_actions option" where
  "PrepareInstantActions b wall manufacturer serial ia =
     (case ia of None \<Rightarrow> None
      | Some r \<Rightarrow> Some (r\<lparr>ias_header := ApplyHeader b wall manufacturer serial (ias_header r)\<rparr>))"

text \<open>The header id is the caller's; filling a header again with the same builder and clock changes nothing.\<close>

lemma ApplyHeader_id [simp]: "h_HeaderId (ApplyHeader b wall m s h) = h_HeaderId h"
  by (simp add: ApplyHeader_def)

lemma ApplyHeader_idem: "ApplyHeader b wall m s (ApplyHeader b wall m s h) = ApplyHeader b wall m s h"
  by (simp add: ApplyHeader_def)

end
