(* ===== verification/Fleet_Session.thy ===== *)
theory Fleet_Session
  imports Transport_Api Vda_Types
begin

text \<open>
  internal/session/fleet.go: the fleet session, which holds one wildcard subscription to the
  connection channel and one bundle of subscriptions per tracked vehicle. The SubscribeFunc the
  client injects and the Unsubscribe closures it gets back are arguments (sub, uns) of the
  operations, which pass the world 's and return the new session, the new world and the error.
  Online and offline hooks are functions on the world.

  track and untrack release the mutex while they talk to the broker: their atomic sections are
  definitions of their own (track_exists, subscribe_all, track_commit, untrack_take) and the
  methods are their compositions. Ranging over the map tracked is open in Go, so Stop, Restore
  and Tracked take the iteration order ks.
\<close>

record agv =
  agv_Manufacturer :: string
  agv_SerialNumber :: string

definition agv_key :: "agv \<Rightarrow> string" where
  "agv_key a = agv_Manufacturer a @ ''/'' @ agv_SerialNumber a"

record options =
  opt_SubscribeState :: bool
  opt_SubscribeVisualization :: bool
  opt_AutoTrackFromConnection :: bool

definition DefaultOptions :: options where
  "DefaultOptions = \<lparr>opt_SubscribeState = True, opt_SubscribeVisualization = False,
     opt_AutoTrackFromConnection = False\<rparr>"

record 'u tracked_agv =
  ta_agv :: agv
  ta_unsubs :: "'u list"

record ('s, 'u) fleet =
  fl_topics :: resolver
  fl_opts :: options
  fl_started :: bool
  fl_connUnsub :: "'u option"
  fl_tracked :: "string \<rightharpoonup> 'u tracked_agv"
  fl_onOnline :: "(agv \<Rightarrow> 's \<Rightarrow> 's) list"
  fl_onOffline :: "(agv \<Rightarrow> 's \<Rightarrow> 's) list"

type_synonym ('s, 'u) sub_fun = "goctx \<Rightarrow> string \<Rightarrow> 's \<Rightarrow> 's \<times> (goerr + 'u)"
type_synonym ('s, 'u) uns_fun = "goctx \<Rightarrow> 'u \<Rightarrow> 's \<Rightarrow> 's \<times> goerr option"

definition NewFleetSession :: "resolver \<Rightarrow> options \<Rightarrow> ('s, 'u) fleet" where
  "NewFleetSession topics opts = \<lparr>fl_topics = topics, fl_opts = opts, fl_started = False,
     fl_connUnsub = None, fl_tracked = Map.empty, fl_onOnline = [], fl_onOffline = []\<rparr>"

definition Fleet_OnAGVOnline :: "(agv \<Rightarrow> 's \<Rightarrow> 's) option \<Rightarrow> ('s, 'u) fleet \<Rightarrow> ('s, 'u) fleet" where
  "Fleet_OnAGVOnline h f =
     (case h of None \<Rightarrow> f | Some h \<Rightarrow> f\<lparr>fl_onOnline := fl_onOnline f @ [h]\<rparr>)"

definition Fleet_OnAGVOffline :: "(agv \<Rightarrow> 's \<Rightarrow> 's) option \<Rightarrow> ('s, 'u) fleet \<Rightarrow> ('s, 'u) fleet" where
  "Fleet_OnAGVOffline h f =
     (case h of None \<Rightarrow> f | Some h \<Rightarrow> f\<lparr>fl_onOffline := fl_onOffline f @ [h]\<rparr>)"

definition fleet_channels :: "options \<Rightarrow> channel list" where
  "fleet_channels opts =
     (if opt_SubscribeState opts then [ChannelState] else [])
     @ (if opt_SubscribeVisualization opts then [ChannelVisualization] else [])"

definition agv_filters :: "('s, 'u) fleet \<Rightarrow> agv \<Rightarrow> string list" where
  "agv_filters f a =
     map (Build (fl_topics f) (agv_Manufacturer a) (agv_SerialNumber a)) (fleet_channels (fl_opts f))"

subsection \<open>Start\<close>

definition Fleet_Start ::
  "('s, 'u) sub_fun \<Rightarrow> goctx \<Rightarrow> ('s, 'u) fleet \<Rightarrow> 's \<Rightarrow> ('s, 'u) fleet \<times> 's \<times> goerr option" where
  "Fleet_Start sub ctx f s =
     (if fl_started f then (f, s, None)
      else (case sub ctx (Wildcard (fl_topics f) ChannelConnection) s of
          (s', Inl e) \<Rightarrow> (f, s', Some e)
        | (s', Inr u) \<Rightarrow> (f\<lparr>fl_connUnsub := Some u, fl_started := True\<rparr>, s', None)))"

subsection \<open>track and untrack\<close>

definition track_exists :: "('s, 'u) fleet \<Rightarrow> agv \<Rightarrow> bool" where
  "track_exists f a = (fl_tracked f (agv_key a) \<noteq> None)"

text \<open>
  The subscribe loop of track: the handles so far are acc, in order; a failure rolls them back in
  reverse, discarding errors.
\<close>

fun subscribe_all ::
  "('s, 'u) sub_fun \<Rightarrow> ('s, 'u) uns_fun \<Rightarrow> goctx \<Rightarrow> string list \<Rightarrow> 'u list \<Rightarrow> 's \<Rightarrow> 's \<times> (goerr + 'u list)" where
  "subscribe_all sub uns ctx [] acc s = (s, Inr acc)"
| "subscribe_all sub uns ctx (x # xs) acc s =
     (case sub ctx x s of
        (s', Inl e) \<Rightarrow> (fst (call_all (uns ctx) (rev acc) s' None), Inl e)
      | (s', Inr u) \<Rightarrow> subscribe_all sub uns ctx xs (acc @ [u]) s')"

definition track_commit ::
  "('s, 'u) uns_fun \<Rightarrow> goctx \<Rightarrow> agv \<Rightarrow> bool \<Rightarrow> 'u list \<Rightarrow> ('s, 'u) fleet \<Rightarrow> 's \<Rightarrow>
     ('s, 'u) fleet \<times> 's \<times> goerr option" where
  "track_commit uns ctx a notify unsubs f s =
     (if track_exists f a
      then (f, fst (call_all (uns ctx) (rev unsubs) s None), None)
      else let f' = f\<lparr>fl_tracked := (fl_tracked f)(agv_key a \<mapsto> \<lparr>ta_agv = a, ta_unsubs = unsubs\<rparr>)\<rparr>;
               hooks = (if notify then fl_onOnline f else []) in
        (f', call_hooks hooks a s, None))"

definition fleet_track ::
  "('s, 'u) sub_fun \<Rightarrow> ('s, 'u) uns_fun \<Rightarrow> goctx \<Rightarrow> agv \<Rightarrow> bool \<Rightarrow> ('s, 'u) fleet \<Rightarrow> 's \<Rightarrow>
     ('s, 'u) fleet \<times> 's \<times> goerr option" where
  "fleet_track sub uns ctx a notify f s =
     (if track_exists f a then (f, s, None)
      else (case subscribe_all sub uns ctx (agv_filters f a) [] s of
          (s', Inl e) \<Rightarrow> (f, s', Some e)
        | (s', Inr unsubs) \<Rightarrow> track_commit uns ctx a notify unsubs f s'))"

definition untrack_take :: "agv \<Rightarrow> ('s, 'u) fleet \<Rightarrow> 'u tracked_agv option \<times> ('s, 'u) fleet" where
  "untrack_take a f =
     (case fl_tracked f (agv_key a) of
        None \<Rightarrow> (None, f)
      | Some e \<Rightarrow> (Some e, f\<lparr>fl_tracked := (fl_tracked f)(agv_key a := None)\<rparr>))"

definition fleet_untrack ::
  "('s, 'u) uns_fun \<Rightarrow> goctx \<Rightarrow> agv \<Rightarrow> bool \<Rightarrow> ('s, 'u) fleet \<Rightarrow> 's \<Rightarrow>
     ('s, 'u) fleet \<times> 's \<times> goerr option" where
  "fleet_untrack uns ctx a notify f s =
     (case untrack_take a f of
        (None, f') \<Rightarrow> (f', s, None)
      | (Some e, f') \<Rightarrow>
         (let hooks = (if notify then fl_onOffline f else []) in
          case call_all (uns ctx) (rev (ta_unsubs e)) s None of
            (s', firstErr) \<Rightarrow> (f', call_hooks hooks a s', firstErr)))"

definition Fleet_Track ::
  "('s, 'u) sub_fun \<Rightarrow> ('s, 'u) uns_fun \<Rightarrow> goctx \<Rightarrow> agv \<Rightarrow> ('s, 'u) fleet \<Rightarrow> 's \<Rightarrow>
     ('s, 'u) fleet \<times> 's \<times> goerr option" where
  "Fleet_Track sub uns ctx a f s = fleet_track sub uns ctx a True f s"

definition Fleet_Untrack ::
  "('s, 'u) uns_fun \<Rightarrow> goctx \<Rightarrow> agv \<Rightarrow> ('s, 'u) fleet \<Rightarrow> 's \<Rightarrow> ('s, 'u) fleet \<times> 's \<times> goerr option" where
  "Fleet_Untrack uns ctx a f s = fleet_untrack uns ctx a True f s"

definition AutoTrackFromConnection :: "('s, 'u) fleet \<Rightarrow> bool" where
  "AutoTrackFromConnection f = opt_AutoTrackFromConnection (fl_opts f)"

definition HandleConnection ::
  "('s, 'u) sub_fun \<Rightarrow> ('s, 'u) uns_fun \<Rightarrow> goctx \<Rightarrow> agv \<Rightarrow> connection_state \<Rightarrow> ('s, 'u) fleet \<Rightarrow> 's \<Rightarrow>
     ('s, 'u) fleet \<times> 's \<times> goerr option" where
  "HandleConnection sub uns ctx a state f s =
     (if \<not> opt_AutoTrackFromConnection (fl_opts f) then (f, s, None)
      else (case state of
          Online \<Rightarrow> Fleet_Track sub uns ctx a f s
        | Offline \<Rightarrow> Fleet_Untrack uns ctx a f s
        | ConnectionBroken \<Rightarrow> Fleet_Untrack uns ctx a f s
        | OtherConnectionState _ \<Rightarrow> (f, s, None)))"

subsection \<open>Stop, Restore, Tracked\<close>

definition Tracked :: "string list \<Rightarrow> ('s, 'u) fleet \<Rightarrow> agv list" where
  "Tracked ks f = map ta_agv (map_values ks (fl_tracked f))"

fun untrack_each ::
  "('s, 'u) uns_fun \<Rightarrow> goctx \<Rightarrow> agv list \<Rightarrow> ('s, 'u) fleet \<Rightarrow> 's \<Rightarrow> goerr option \<Rightarrow>
     ('s, 'u) fleet \<times> 's \<times> goerr option" where
  "untrack_each uns ctx [] f s firstErr = (f, s, firstErr)"
| "untrack_each uns ctx (a # as) f s firstErr =
     (case Fleet_Untrack uns ctx a f s of
        (f', s', err) \<Rightarrow> untrack_each uns ctx as f' s' (first_err firstErr err))"

definition Fleet_Stop ::
  "('s, 'u) uns_fun \<Rightarrow> goctx \<Rightarrow> string list \<Rightarrow> ('s, 'u) fleet \<Rightarrow> 's \<Rightarrow>
     ('s, 'u) fleet \<times> 's \<times> goerr option" where
  "Fleet_Stop uns ctx ks f s =
     (case untrack_each uns ctx (Tracked ks f) f s None of
        (f1, s1, firstErr) \<Rightarrow>
          (case fl_connUnsub f1 of
             None \<Rightarrow> (f1\<lparr>fl_started := False\<rparr>, s1, firstErr)
           | Some u \<Rightarrow>
               (case uns ctx u s1 of
                  (s2, err) \<Rightarrow> (f1\<lparr>fl_connUnsub := None, fl_started := False\<rparr>, s2,
                    first_err firstErr err))))"

fun unsub_entries :: "('s, 'u) uns_fun \<Rightarrow> goctx \<Rightarrow> 'u tracked_agv list \<Rightarrow> 's \<Rightarrow> 's" where
  "unsub_entries uns ctx [] s = s"
| "unsub_entries uns ctx (e # es) s =
     unsub_entries uns ctx es (fst (call_all (uns ctx) (rev (ta_unsubs e)) s None))"

fun track_each ::
  "('s, 'u) sub_fun \<Rightarrow> ('s, 'u) uns_fun \<Rightarrow> goctx \<Rightarrow> agv list \<Rightarrow> ('s, 'u) fleet \<Rightarrow> 's \<Rightarrow>
     ('s, 'u) fleet \<times> 's \<times> goerr option" where
  "track_each sub uns ctx [] f s = (f, s, None)"
| "track_each sub uns ctx (a # as) f s =
     (case fleet_track sub uns ctx a False f s of
        (f', s', Some e) \<Rightarrow> (f', s', Some e)
      | (f', s', None) \<Rightarrow> track_each sub uns ctx as f' s')"

text \<open>The clearing half of Restore, done under the mutex, and the whole method.\<close>

definition restore_clear ::
  "('s, 'u) uns_fun \<Rightarrow> goctx \<Rightarrow> string list \<Rightarrow> ('s, 'u) fleet \<Rightarrow> 's \<Rightarrow> ('s, 'u) fleet \<times> 's" where
  "restore_clear uns ctx ks f s =
     (let s1 = unsub_entries uns ctx (map_values ks (fl_tracked f)) s;
          s2 = (case fl_connUnsub f of None \<Rightarrow> s1 | Some u \<Rightarrow> fst (uns ctx u s1)) in
      (f\<lparr>fl_tracked := Map.empty, fl_connUnsub := None, fl_started := False\<rparr>, s2))"

definition Fleet_Restore ::
  "('s, 'u) sub_fun \<Rightarrow> ('s, 'u) uns_fun \<Rightarrow> goctx \<Rightarrow> string list \<Rightarrow> ('s, 'u) fleet \<Rightarrow> 's \<Rightarrow>
     ('s, 'u) fleet \<times> 's \<times> goerr option" where
  "Fleet_Restore sub uns ctx ks f s =
     (if \<not> fl_started f \<and> ks = [] then (f, s, None)
      else let agvs = Tracked ks f in
        (case restore_clear uns ctx ks f s of
           (f1, s1) \<Rightarrow>
             (case Fleet_Start sub ctx f1 s1 of
                (f2, s2, Some e) \<Rightarrow> (f2, s2, Some e)
              | (f2, s2, None) \<Rightarrow> track_each sub uns ctx agvs f2 s2)))"

end
