(* ===== verification/Mqtt_Config.thy ===== *)
theory Mqtt_Config
  imports Go_Errors
begin

text \<open>
  The settings of the MQTT transport (the types Will and Config of internal/mqtt/transport.go),
  the drop reasons of dispatch.go, and the two functions that only read the settings. TLS settings
  are opaque; 's is the world the callbacks act on, 'c names the two connection callbacks.
\<close>

record will =
  w_Topic :: string
  w_Payload :: bytes
  w_QoS :: u8
  w_Retain :: bool

type_synonym drop_reason = int

definition DropDiscarded :: drop_reason where
  "DropDiscarded = 0"
definition DropBackpressured :: drop_reason where
  "DropBackpressured = 1"

record ('s, 'c) mqtt_config =
  mc_Broker :: string
  mc_ClientID :: string
  mc_Username :: string
  mc_Password :: string
  mc_QoS :: u8
  mc_QoSExplicit :: bool
  mc_KeepAlive :: duration
  mc_ConnectTimeout :: duration
  mc_CleanSession :: bool
  mc_AutoReconnect :: bool
  mc_TLS :: "opaque option"
  mc_Will :: "will option"
  mc_InboundQueueSize :: int
  mc_OnInboundDrop :: "(string \<Rightarrow> drop_reason \<Rightarrow> 's \<Rightarrow> 's) option"
  mc_OnHandlerError :: "(string \<Rightarrow> goerr \<Rightarrow> 's \<Rightarrow> 's) option"
  mc_OnConnectionLost :: "'c option"
  mc_OnReconnect :: "'c option"

definition defaultInboundQueue :: int where
  "defaultInboundQueue = 256"

definition validateWill :: "will option \<Rightarrow> goerr option" where
  "validateWill w =
     (case w of None \<Rightarrow> None
      | Some w \<Rightarrow> if TrimSpace (w_Topic w) = [] then Some (sentinel WillMessageError)
                 else if w_QoS w > 2 then Some (sentinel WillMessageError) else None)"

definition subscribeQoS :: "('s, 'c) mqtt_config \<Rightarrow> string \<Rightarrow> u8" where
  "subscribeQoS cfg fltr =
     (if mc_QoSExplicit cfg then mc_QoS cfg
      else if HasSuffix fltr ''/visualization'' then 0
      else if mc_QoS cfg = 0 then 1 else mc_QoS cfg)"

end
