(* ===== verification/Channels.thy ===== *)
theory Channels
  imports Go_Prelude
begin

text \<open>
  Buffered Go channels. A channel made with capacity n holds at most n values; a send in a
  select with a default succeeds exactly when there is room, a receive takes the oldest value.
  The locale bounded_fifo is the interface the inbound lanes and the fleet worker rely on: its
  laws are what a buffered channel promises, its lemmas are the bound and the FIFO log
  invariant, proved once and used for every queue of the program.
\<close>

record 'a chan =
  ch_cap :: nat
  ch_buf :: "'a list"

definition chan_make :: "nat \<Rightarrow> 'a chan" where
  "chan_make n = \<lparr>ch_cap = n, ch_buf = []\<rparr>"

definition chan_send :: "'a \<Rightarrow> 'a chan \<Rightarrow> 'a chan option" where
  "chan_send x c =
     (if length (ch_buf c) < ch_cap c then Some (c\<lparr>ch_buf := ch_buf c @ [x]\<rparr>) else None)"

definition chan_recv :: "'a chan \<Rightarrow> ('a \<times> 'a chan) option" where
  "chan_recv c = (case ch_buf c of [] \<Rightarrow> None | x # xs \<Rightarrow> Some (x, c\<lparr>ch_buf := xs\<rparr>))"

text \<open>The contract of a bounded queue, over an abstraction to the list of waiting values.\<close>

locale bounded_fifo =
  fixes contents :: "'q \<Rightarrow> 'a list"
    and capacity :: "'q \<Rightarrow> nat"
    and send :: "'a \<Rightarrow> 'q \<Rightarrow> 'q option"
    and recv :: "'q \<Rightarrow> ('a \<times> 'q) option"
  assumes send_contents: "send x q = Some q' \<Longrightarrow> contents q' = contents q @ [x]"
    and send_capacity: "send x q = Some q' \<Longrightarrow> capacity q' = capacity q"
    and send_room: "send x q = Some q' \<Longrightarrow> length (contents q) < capacity q"
    and send_full: "send x q = None \<Longrightarrow> capacity q \<le> length (contents q)"
    and recv_contents: "recv q = Some (x, q') \<Longrightarrow> contents q = x # contents q'"
    and recv_capacity: "recv q = Some (x, q') \<Longrightarrow> capacity q' = capacity q"
    and recv_empty: "recv q = None \<Longrightarrow> contents q = []"
begin

definition within :: "'q \<Rightarrow> bool" where
  "within q \<longleftrightarrow> length (contents q) \<le> capacity q"

lemma send_within: "send x q = Some q' \<Longrightarrow> within q'"
  using send_contents send_capacity send_room by (fastforce simp: within_def)

lemma recv_within: "within q \<Longrightarrow> recv q = Some (x, q') \<Longrightarrow> within q'"
  using recv_contents recv_capacity by (fastforce simp: within_def)

lemma send_iff_room: "(\<exists>q'. send x q = Some q') \<longleftrightarrow> length (contents q) < capacity q"
  by (metis linorder_not_less option.exhaust send_full send_room)

lemma recv_iff_nonempty: "(\<exists>x q'. recv q = Some (x, q')) \<longleftrightarrow> contents q \<noteq> []"
  by (metis list.distinct(1) option.exhaust prod.exhaust recv_contents recv_empty)

text \<open>
  The log invariant: what has been accepted so far is what has been delivered so far followed
  by what is still waiting. Both operations keep it, so delivery is in order, without loss and
  without duplication.
\<close>

definition fifo_log :: "'a list \<Rightarrow> 'a list \<Rightarrow> 'q \<Rightarrow> bool" where
  "fifo_log accepted delivered q \<longleftrightarrow> accepted = delivered @ contents q"

lemma fifo_log_send:
  "fifo_log acc del q \<Longrightarrow> send x q = Some q' \<Longrightarrow> fifo_log (acc @ [x]) del q'"
  by (simp add: fifo_log_def send_contents)

lemma fifo_log_recv:
  "fifo_log acc del q \<Longrightarrow> recv q = Some (x, q') \<Longrightarrow> fifo_log acc (del @ [x]) q'"
  by (simp add: fifo_log_def recv_contents)

lemma fifo_log_backlog:
  "fifo_log acc del q \<Longrightarrow> within q \<Longrightarrow> length acc \<le> length del + capacity q"
  by (simp add: fifo_log_def within_def)

end

interpretation chan: bounded_fifo ch_buf ch_cap chan_send chan_recv
  by unfold_locales
    (auto simp: chan_send_def chan_recv_def split: if_splits list.splits)

lemma chan_make_empty [simp]: "ch_buf (chan_make n) = []" "ch_cap (chan_make n) = n"
  by (simp_all add: chan_make_def)

lemma chan_make_within: "chan.within (chan_make n)"
  by (simp add: chan.within_def)

lemmas chan_ops = chan_send_def chan_recv_def

end
