(* ===== verification/Client.thy ===== *)
theory Client
  imports Events Builder Fleet_Session Mqtt_Config Channels
begin

text \<open>
  client.go and the client methods of eventbus_client.go: construction, registration of handlers,
  the life cycle Start / Stop, the reconnect path, the fleet operations and the small reporters. A
  client is the record client, passed and returned by its operations beside the world 's; the
  closures it hands to its transport are the names of Transport_Api. The worker of the
  auto-tracking (fields fleetJobs, fleetStop, fleetDone) is started and stopped here, its steps
  are in theory Auto_Track. User callbacks act on the world and not on the client record: a
  callback that registers handlers or tracks vehicles while it runs is not modelled.
\<close>

record fleet_conn_job =
  job_agv :: agv
  job_state :: connection_state
  job_env :: envelope

record ('s, 'u) client =
  cl_cfg :: "('s, 'u, event_handler, payload) config"
  cl_transport :: "('s, 'u) transport"
  cl_topics :: resolver
  cl_builder :: builder
  cl_fleet :: "('s, 'u) fleet option"
  cl_extensions :: "registry option"
  cl_bus :: "('s, event_handler, payload) event_bus_ops option"
  cl_started :: bool
  cl_unsubs :: "'u list"
  cl_busUnsubs :: "'s bus_closure list"
  cl_wantState :: bool
  cl_wantConn :: bool
  cl_wantViz :: bool
  cl_wantFS :: bool
  cl_stateHandlers :: "handler list"
  cl_connHandlers :: "handler list"
  cl_vizHandlers :: "handler list"
  cl_fsHandlers :: "handler list"
  cl_topicHandlers :: "(string \<times> handler) list"
  cl_onTransportUp :: "('s \<Rightarrow> 's) option"
  cl_onTransportDown :: "(goerr option \<Rightarrow> 's \<Rightarrow> 's) option"
  cl_onHandlerError :: "(envelope \<Rightarrow> goerr \<Rightarrow> 's \<Rightarrow> 's) option"
  cl_onSubscriptionsRestored :: "(goerr option \<Rightarrow> 's \<Rightarrow> 's) option"
  cl_fleetJobs :: "fleet_conn_job chan option"
  cl_fleetStop :: bool
  cl_fleetDone :: "bool option"

text \<open>
  The channel Done() of the worker's context is None when the field is nil, otherwise whether it
  is closed; fleetStop is whether the cancel function is set.
\<close>

subsection \<open>New\<close>

definition mapInboundDrop ::
  "(string \<Rightarrow> inbound_drop_reason \<Rightarrow> 's \<Rightarrow> 's) option \<Rightarrow> (string \<Rightarrow> drop_reason \<Rightarrow> 's \<Rightarrow> 's) option" where
  "mapInboundDrop fn =
     (case fn of None \<Rightarrow> None
      | Some f \<Rightarrow> Some (\<lambda>topic reason.
          f topic (if reason = DropDiscarded then InboundDropped else InboundBackpressured)))"

definition fleetSessionOptions :: "fleet_options \<Rightarrow> options" where
  "fleetSessionOptions fo =
     (if fo = zero_fleet_options then DefaultOptions
      else \<lparr>opt_SubscribeState = fo_SubscribeState fo,
             opt_SubscribeVisualization = fo_SubscribeVisualization fo,
             opt_AutoTrackFromConnection = fo_AutoTrackFromConnection fo\<rparr>)"

definition client_mqtt_config :: "('s, 'u, 'h, 'p) config \<Rightarrow> ('s, client_callback) mqtt_config" where
  "client_mqtt_config cfg =
     \<lparr>mc_Broker = cfg_Broker cfg, mc_ClientID = cfg_ClientID cfg,
      mc_Username = cfg_Username cfg, mc_Password = cfg_Password cfg,
      mc_QoS = fst (subscribeQoSExplicit cfg), mc_QoSExplicit = snd (subscribeQoSExplicit cfg),
      mc_KeepAlive = (if cfg_KeepAlive cfg = 0 then 30 * Second else cfg_KeepAlive cfg),
      mc_ConnectTimeout = cfg_ConnectTimeout cfg, mc_CleanSession = cfg_CleanSession cfg,
      mc_AutoReconnect = cfg_AutoReconnect cfg, mc_TLS = cfg_TLS cfg,
      mc_Will = map_option (\<lambda>w. \<lparr>w_Topic = lw_Topic w, w_Payload = lw_Payload w,
        w_QoS = lw_QoS w, w_Retain = lw_Retain w\<rparr>) (cfg_Will cfg),
      mc_InboundQueueSize = cfg_InboundQueueSize cfg,
      mc_OnInboundDrop = mapInboundDrop (cfg_OnInboundDrop cfg),
      mc_OnHandlerError = None, mc_OnConnectionLost = None, mc_OnReconnect = None\<rparr>"

text \<open>newMQTT is newMQTTTransport, the adapter around the MQTT transport.\<close>

definition New ::
  "(('s, client_callback) mqtt_config \<Rightarrow> ('s, 'u) transport) \<Rightarrow>
     ('s, 'u, event_handler, payload) config \<Rightarrow> 's \<Rightarrow> 's \<times> (goerr + ('s, 'u) client)" where
  "New newMQTT cfg s =
     (case validate cfg of
        Some e \<Rightarrow> (s, Inl e)
      | None \<Rightarrow>
         (let topics = \<lparr>res_Interface = cfg_Interface cfg, res_Version = cfg_Version cfg\<rparr>;
              tr = (case cfg_Transport cfg of Some t \<Rightarrow> t | None \<Rightarrow> newMQTT (client_mqtt_config cfg));
              c = \<lparr>cl_cfg = cfg, cl_transport = tr, cl_topics = topics,
                   cl_builder = NewBuilder (headerVersion cfg),
                   cl_fleet = map_option (\<lambda>fo. NewFleetSession topics (fleetSessionOptions fo)) (cfg_Fleet cfg),
                   cl_extensions = cfg_Extensions cfg, cl_bus = cfg_Bus cfg, cl_started = False,
                   cl_unsubs = [], cl_busUnsubs = [],
                   cl_wantState = False, cl_wantConn = False, cl_wantViz = False, cl_wantFS = False,
                   cl_stateHandlers = [], cl_connHandlers = [], cl_vizHandlers = [], cl_fsHandlers = [],
                   cl_topicHandlers = [],
                   cl_onTransportUp = cfg_OnTransportUp cfg, cl_onTransportDown = cfg_OnTransportDown cfg,
                   cl_onHandlerError = cfg_OnHandlerError cfg,
                   cl_onSubscriptionsRestored = cfg_OnSubscriptionsRestored cfg,
                   cl_fleetJobs = None, cl_fleetStop = False, cl_fleetDone = None\<rparr>;
              s1 = (if restoreOnReconnect cfg
                    then (case tr_SetOnReconnect tr of None \<Rightarrow> s | Some setCb \<Rightarrow> setCb HandleReconnect s)
                    else s);
              s2 = (case tr_SetOnConnectionLost tr of None \<Rightarrow> s1 | Some setCb \<Rightarrow> setCb EmitTransportDown s1)
          in (s2, Inr c)))"

subsection \<open>Registration\<close>

definition subscribeTypedLocked ::
  "string \<Rightarrow> event_handler option \<Rightarrow> ('s, 'u) client \<Rightarrow> 's \<Rightarrow>
     ('s, 'u) client \<times> 's \<times> (goerr + 's bus_closure option)" where
  "subscribeTypedLocked event h c s =
     (case cl_bus c of
        None \<Rightarrow> (c, s, Inr None)
      | Some bus \<Rightarrow>
         (case eb_Subscribe bus event h s of
            (s', Inl e) \<Rightarrow> (c, s', Inl e)
          | (s', Inr None) \<Rightarrow> (c, s', Inr None)
          | (s', Inr (Some u)) \<Rightarrow> (c\<lparr>cl_busUnsubs := cl_busUnsubs c @ [u]\<rparr>, s', Inr (Some u))))"

text \<open>On a client without bus the function above is never called: the None branch is unreachable.\<close>

definition OnState :: "handler option \<Rightarrow> ('s, 'u) client \<Rightarrow> 's \<Rightarrow> ('s, 'u) client \<times> 's" where
  "OnState h c s =
     (case h of None \<Rightarrow> (c, s)
      | Some h \<Rightarrow>
         (let c1 = c\<lparr>cl_wantState := True\<rparr> in
          if cl_bus c \<noteq> None
          then (case subscribeTypedLocked EventStateReceived (Some (WrapState h)) c1 s of
                  (c2, s', _) \<Rightarrow> (c2, s'))
          else (c1\<lparr>cl_stateHandlers := cl_stateHandlers c @ [h]\<rparr>, s)))"

definition OnConnection :: "handler option \<Rightarrow> ('s, 'u) client \<Rightarrow> 's \<Rightarrow> ('s, 'u) client \<times> 's" where
  "OnConnection h c s =
     (case h of None \<Rightarrow> (c, s)
      | Some h \<Rightarrow>
         (let c1 = c\<lparr>cl_wantConn := True\<rparr> in
          if cl_bus c \<noteq> None
          then (case subscribeTypedLocked EventConnectionChanged (Some (WrapConnection h)) c1 s of
                  (c2, s', _) \<Rightarrow> (c2, s'))
          else (c1\<lparr>cl_connHandlers := cl_connHandlers c @ [h]\<rparr>, s)))"

definition OnVisualization :: "handler option \<Rightarrow> ('s, 'u) client \<Rightarrow> 's \<Rightarrow> ('s, 'u) client \<times> 's" where
  "OnVisualization h c s =
     (case h of None \<Rightarrow> (c, s)
      | Some h \<Rightarrow>
         (let c1 = c\<lparr>cl_wantViz := True\<rparr> in
          if cl_bus c \<noteq> None
          then (case subscribeTypedLocked EventVisualizationReceived (Some (WrapVisualization h)) c1 s of
                  (c2, s', _) \<Rightarrow> (c2, s'))
          else (c1\<lparr>cl_vizHandlers := cl_vizHandlers c @ [h]\<rparr>, s)))"

definition OnFactsheet :: "handler option \<Rightarrow> ('s, 'u) client \<Rightarrow> 's \<Rightarrow> ('s, 'u) client \<times> 's" where
  "OnFactsheet h c s =
     (case h of None \<Rightarrow> (c, s)
      | Some h \<Rightarrow>
         (let c1 = c\<lparr>cl_wantFS := True\<rparr> in
          if cl_bus c \<noteq> None
          then (case subscribeTypedLocked EventFactsheetReceived (Some (WrapFactsheet h)) c1 s of
                  (c2, s', _) \<Rightarrow> (c2, s'))
          else (c1\<lparr>cl_fsHandlers := cl_fsHandlers c @ [h]\<rparr>, s)))"

definition OnTopic :: "string \<Rightarrow> handler \<Rightarrow> ('s, 'u) client \<Rightarrow> ('s, 'u) client" where
  "OnTopic fltr h c = c\<lparr>cl_topicHandlers := cl_topicHandlers c @ [(fltr, h)]\<rparr>"

definition agv_identity :: "agv \<Rightarrow> identity" where
  "agv_identity a = \<lparr>id_Manufacturer = agv_Manufacturer a, id_SerialNumber = agv_SerialNumber a\<rparr>"

definition OnAGVOnline :: "(identity \<Rightarrow> 's \<Rightarrow> 's) option \<Rightarrow> ('s, 'u) client \<Rightarrow> ('s, 'u) client" where
  "OnAGVOnline h c =
     (case (cl_fleet c, h) of
        (Some f, Some h) \<Rightarrow> c\<lparr>cl_fleet := Some (Fleet_OnAGVOnline (Some (\<lambda>a. h (agv_identity a))) f)\<rparr>
      | _ \<Rightarrow> c)"

definition OnAGVOffline :: "(identity \<Rightarrow> 's \<Rightarrow> 's) option \<Rightarrow> ('s, 'u) client \<Rightarrow> ('s, 'u) client" where
  "OnAGVOffline h c =
     (case (cl_fleet c, h) of
        (Some f, Some h) \<Rightarrow> c\<lparr>cl_fleet := Some (Fleet_OnAGVOffline (Some (\<lambda>a. h (agv_identity a))) f)\<rparr>
      | _ \<Rightarrow> c)"

definition OnTransportUp :: "('s \<Rightarrow> 's) option \<Rightarrow> ('s, 'u) client \<Rightarrow> ('s, 'u) client" where
  "OnTransportUp h c = c\<lparr>cl_onTransportUp := h\<rparr>"

definition OnTransportDown :: "(goerr option \<Rightarrow> 's \<Rightarrow> 's) option \<Rightarrow> ('s, 'u) client \<Rightarrow> ('s, 'u) client" where
  "OnTransportDown h c = c\<lparr>cl_onTransportDown := h\<rparr>"

definition OnHandlerError :: "(envelope \<Rightarrow> goerr \<Rightarrow> 's \<Rightarrow> 's) option \<Rightarrow> ('s, 'u) client \<Rightarrow> ('s, 'u) client" where
  "OnHandlerError h c = c\<lparr>cl_onHandlerError := h\<rparr>"

definition OnSubscriptionsRestored :: "(goerr option \<Rightarrow> 's \<Rightarrow> 's) option \<Rightarrow> ('s, 'u) client \<Rightarrow> ('s, 'u) client" where
  "OnSubscriptionsRestored h c = c\<lparr>cl_onSubscriptionsRestored := h\<rparr>"

end
