(* ===== verification/Client_Life.thy ===== *)
theory Client_Life
  imports Client
begin

text \<open>
  The methods of a client that reach its transport or its bus: the event bus methods, the
  subscriptions, Start, Stop and the reconnect path, the fleet operations and the reporters.
  Ranging over the fleet's map is open in Go: ks is its iteration order.
\<close>

subsection \<open>The event bus methods\<close>

fun subscribe_wrapped ::
  "string \<Rightarrow> event_handler list \<Rightarrow> ('s, 'u) client \<Rightarrow> 's \<Rightarrow> ('s, 'u) client \<times> 's" where
  "subscribe_wrapped event [] c s = (c, s)"
| "subscribe_wrapped event (h # hs) c s =
     (case subscribeTypedLocked event (Some h) c s of
        (c', s', _) \<Rightarrow> subscribe_wrapped event hs c' s')"

definition UseEventBus ::
  "('s, event_handler, payload) event_bus_ops option \<Rightarrow> ('s, 'u) client \<Rightarrow> 's \<Rightarrow> ('s, 'u) client \<times> 's" where
  "UseEventBus bus c s =
     (case bus of None \<Rightarrow> (c, s)
      | Some b \<Rightarrow>
         (case subscribe_wrapped EventStateReceived (map WrapState (cl_stateHandlers c))
                 (c\<lparr>cl_bus := Some b\<rparr>) s of (c1, s1) \<Rightarrow>
          case subscribe_wrapped EventConnectionChanged (map WrapConnection (cl_connHandlers c1))
                 (c1\<lparr>cl_stateHandlers := []\<rparr>) s1 of (c2, s2) \<Rightarrow>
          case subscribe_wrapped EventVisualizationReceived (map WrapVisualization (cl_vizHandlers c2))
                 (c2\<lparr>cl_connHandlers := []\<rparr>) s2 of (c3, s3) \<Rightarrow>
          case subscribe_wrapped EventFactsheetReceived (map WrapFactsheet (cl_fsHandlers c3))
                 (c3\<lparr>cl_vizHandlers := []\<rparr>) s3 of (c4, s4) \<Rightarrow>
            (c4\<lparr>cl_fsHandlers := []\<rparr>, s4)))"

definition Emit :: "string \<Rightarrow> payload \<Rightarrow> ('s, 'u) client \<Rightarrow> 's \<Rightarrow> 's \<times> goerr option" where
  "Emit event p c s =
     (case cl_bus c of
        None \<Rightarrow> (s, Some (NewInvalidConfigWithArgs [ArgStr ''EventBus is not configured'']))
      | Some bus \<Rightarrow> eb_Publish bus Background event p s)"

definition markEventWantedLocked :: "string \<Rightarrow> ('s, 'u) client \<Rightarrow> ('s, 'u) client" where
  "markEventWantedLocked event c =
     (if event = EventStateReceived then c\<lparr>cl_wantState := True\<rparr>
      else if event = EventConnectionChanged then c\<lparr>cl_wantConn := True\<rparr>
      else if event = EventVisualizationReceived then c\<lparr>cl_wantViz := True\<rparr>
      else if event = EventFactsheetReceived then c\<lparr>cl_wantFS := True\<rparr>
      else c)"

definition Subscribe ::
  "string \<Rightarrow> event_handler option \<Rightarrow> ('s, 'u) client \<Rightarrow> 's \<Rightarrow>
     ('s, 'u) client \<times> 's \<times> (goerr + 's bus_closure option)" where
  "Subscribe event h c s =
     (case h of None \<Rightarrow> (c, s, Inr None)
      | Some h \<Rightarrow>
         (let c1 = markEventWantedLocked event c in
          if cl_bus c1 = None
          then (c1, s, Inl (NewInvalidConfigWithArgs [ArgStr ''EventBus is not configured'']))
          else subscribeTypedLocked event (Some h) c1 s))"

definition publishEvent :: "goctx \<Rightarrow> string \<Rightarrow> payload \<Rightarrow> ('s, 'u) client \<Rightarrow> 's \<Rightarrow> 's \<times> goerr option" where
  "publishEvent ctx event p c s =
     (case cl_bus c of None \<Rightarrow> (s, None) | Some bus \<Rightarrow> eb_Publish bus ctx event p s)"

subsection \<open>Accessors\<close>

definition client_Topics :: "('s, 'u) client \<Rightarrow> resolver" where
  "client_Topics c = cl_topics c"

definition client_Transport :: "('s, 'u) client \<Rightarrow> ('s, 'u) transport" where
  "client_Transport c = cl_transport c"

definition client_EventBus :: "('s, 'u) client \<Rightarrow> ('s, event_handler, payload) event_bus_ops option" where
  "client_EventBus c = cl_bus c"

subsection \<open>Reporters and guards\<close>

definition emitTransportDown :: "goerr option \<Rightarrow> ('s, 'u) client \<Rightarrow> 's \<Rightarrow> 's" where
  "emitTransportDown err c s =
     (case cl_onTransportDown c of None \<Rightarrow> s | Some h \<Rightarrow> h err s)"

definition reportHandlerError :: "envelope \<Rightarrow> goerr option \<Rightarrow> ('s, 'u) client \<Rightarrow> 's \<Rightarrow> 's" where
  "reportHandlerError env err c s =
     (case err of None \<Rightarrow> s
      | Some e \<Rightarrow> (case cl_onHandlerError c of None \<Rightarrow> s | Some h \<Rightarrow> h env e s))"

definition subscriptionFilter :: "('s, 'u) client \<Rightarrow> channel \<Rightarrow> string" where
  "subscriptionFilter c ch =
     (let mfr = cfg_Manufacturer (cl_cfg c); sn = cfg_SerialNumber (cl_cfg c) in
      Build (cl_topics c) (if mfr = [] then ''+'' else mfr) (if sn = [] then ''+'' else sn) ch)"

definition requireStarted :: "('s, 'u) client \<Rightarrow> goerr option" where
  "requireStarted c = (if cl_started c then None else Some (sentinel ClientNotStarted))"

definition Connected :: "('s, 'u) client \<Rightarrow> 's \<Rightarrow> bool" where
  "Connected c s = (case tr_Connected (cl_transport c) of Some f \<Rightarrow> f s | None \<Rightarrow> cl_started c)"

subsection \<open>Fleet operations\<close>

definition fleetSubscribe :: "('s, 'u) client \<Rightarrow> goctx \<Rightarrow> string \<Rightarrow> 's \<Rightarrow> 's \<times> (goerr + 'u)" where
  "fleetSubscribe c ctx fltr s = tr_Subscribe (cl_transport c) ctx fltr OnRawMessage s"

definition fleet_disabled :: goerr where
  "fleet_disabled = NewInvalidConfigWithArgs [ArgStr ''Fleet session is not enabled'']"

definition Track ::
  "goctx \<Rightarrow> string \<Rightarrow> string \<Rightarrow> ('s, 'u) client \<Rightarrow> 's \<Rightarrow> ('s, 'u) client \<times> 's \<times> goerr option" where
  "Track ctx manufacturer serial c s =
     (case cl_fleet c of
        None \<Rightarrow> (c, s, Some fleet_disabled)
      | Some f \<Rightarrow>
         (case requireStarted c of
            Some e \<Rightarrow> (c, s, Some e)
          | None \<Rightarrow>
             (case Fleet_Track (fleetSubscribe c) (tr_Unsubscribe (cl_transport c)) ctx
                 \<lparr>agv_Manufacturer = manufacturer, agv_SerialNumber = serial\<rparr> f s of
                (f', s', r) \<Rightarrow> (c\<lparr>cl_fleet := Some f'\<rparr>, s', r))))"

definition Untrack ::
  "goctx \<Rightarrow> string \<Rightarrow> string \<Rightarrow> ('s, 'u) client \<Rightarrow> 's \<Rightarrow> ('s, 'u) client \<times> 's \<times> goerr option" where
  "Untrack ctx manufacturer serial c s =
     (case cl_fleet c of
        None \<Rightarrow> (c, s, Some fleet_disabled)
      | Some f \<Rightarrow>
         (case requireStarted c of
            Some e \<Rightarrow> (c, s, Some e)
          | None \<Rightarrow>
             (case Fleet_Untrack (tr_Unsubscribe (cl_transport c)) ctx
                 \<lparr>agv_Manufacturer = manufacturer, agv_SerialNumber = serial\<rparr> f s of
                (f', s', r) \<Rightarrow> (c\<lparr>cl_fleet := Some f'\<rparr>, s', r))))"

definition RestoreFleet ::
  "goctx \<Rightarrow> string list \<Rightarrow> ('s, 'u) client \<Rightarrow> 's \<Rightarrow> ('s, 'u) client \<times> 's \<times> goerr option" where
  "RestoreFleet ctx ks c s =
     (case cl_fleet c of
        None \<Rightarrow> (c, s, None)
      | Some f \<Rightarrow>
         (case requireStarted c of
            Some e \<Rightarrow> (c, s, Some e)
          | None \<Rightarrow>
             (case Fleet_Restore (fleetSubscribe c) (tr_Unsubscribe (cl_transport c)) ctx ks f s of
                (f', s', r) \<Rightarrow> (c\<lparr>cl_fleet := Some f'\<rparr>, s', r))))"

subsection \<open>The auto-tracking worker: start and stop\<close>

definition fleetAutoTrackQueueSize :: nat where
  "fleetAutoTrackQueueSize = 64"

definition startFleetAutoTrack :: "('s, 'u) client \<Rightarrow> ('s, 'u) client" where
  "startFleetAutoTrack c =
     (case cl_fleet c of
        None \<Rightarrow> c
      | Some f \<Rightarrow>
          if \<not> opt_AutoTrackFromConnection (fl_opts f) then c
          else c\<lparr>cl_fleetStop := True, cl_fleetDone := Some False,
                 cl_fleetJobs := Some (chan_make fleetAutoTrackQueueSize)\<rparr>)"

text \<open>After the cancel, the worker has returned when Wait returns: what is queued is abandoned.\<close>

definition stopFleetAutoTrack :: "('s, 'u) client \<Rightarrow> ('s, 'u) client" where
  "stopFleetAutoTrack c = c\<lparr>cl_fleetStop := False, cl_fleetJobs := None, cl_fleetDone := None\<rparr>"

subsection \<open>Subscriptions\<close>

text \<open>The handles of the subscriptions made so far are kept even when a later one fails.\<close>

fun subscribe_topics ::
  "('s, 'u) transport \<Rightarrow> goctx \<Rightarrow> (string \<times> raw_handler) list \<Rightarrow> 'u list \<Rightarrow> 's \<Rightarrow> 'u list \<times> 's \<times> goerr option" where
  "subscribe_topics tr ctx [] us s = (us, s, None)"
| "subscribe_topics tr ctx ((fltr, h) # subs) us s =
     (case tr_Subscribe tr ctx fltr h s of
        (s', Inl e) \<Rightarrow> (us, s', Some e)
      | (s', Inr u) \<Rightarrow> subscribe_topics tr ctx subs (us @ [u]) s')"

definition wanted_channels :: "('s, 'u) client \<Rightarrow> channel list" where
  "wanted_channels c =
     (if cl_fleet c \<noteq> None then (if cl_wantFS c then [ChannelFactsheet] else [])
      else (if cl_wantState c then [ChannelState] else [])
         @ (if cl_wantConn c then [ChannelConnection] else [])
         @ (if cl_wantViz c then [ChannelVisualization] else [])
         @ (if cl_wantFS c then [ChannelFactsheet] else []))"

definition wanted_topics :: "('s, 'u) client \<Rightarrow> (string \<times> raw_handler) list" where
  "wanted_topics c =
     map (\<lambda>ch. (subscriptionFilter c ch, OnRawMessage)) (wanted_channels c)
     @ map (\<lambda>(fltr, h). (fltr, DispatchTopic h)) (cl_topicHandlers c)"

definition subscribeLocked :: "goctx \<Rightarrow> ('s, 'u) client \<Rightarrow> 's \<Rightarrow> ('s, 'u) client \<times> 's \<times> goerr option" where
  "subscribeLocked ctx c s =
     (case (case cl_fleet c of
              None \<Rightarrow> (c, s, None)
            | Some f \<Rightarrow> (case Fleet_Start (fleetSubscribe c) ctx f s of
                (f', s', r) \<Rightarrow> (c\<lparr>cl_fleet := Some f'\<rparr>, s', r))) of
        (c1, s1, Some e) \<Rightarrow> (c1, s1, Some e)
      | (c1, s1, None) \<Rightarrow>
         (case subscribe_topics (cl_transport c1) ctx (wanted_topics c1) (cl_unsubs c1) s1 of
            (us, s2, r) \<Rightarrow> (c1\<lparr>cl_unsubs := us\<rparr>, s2, r)))"

subsection \<open>Start, Stop, reconnect\<close>

definition call_opt :: "('s \<Rightarrow> 's) option \<Rightarrow> 's \<Rightarrow> 's" where
  "call_opt h s = (case h of None \<Rightarrow> s | Some f \<Rightarrow> f s)"

definition Start :: "goctx \<Rightarrow> ('s, 'u) client \<Rightarrow> 's \<Rightarrow> ('s, 'u) client \<times> 's \<times> goerr option" where
  "Start ctx c s =
     (if cl_started c then (c, s, Some (sentinel ClientAlreadyStarted))
      else (case tr_Start (cl_transport c) ctx s of
          (s1, Some e) \<Rightarrow> (c, s1, Some e)
        | (s1, None) \<Rightarrow>
           (case subscribeLocked ctx c s1 of
              (c2, s2, Some e) \<Rightarrow> (c2, fst (tr_Stop (cl_transport c2) ctx s2), Some e)
            | (c2, s2, None) \<Rightarrow>
                (let c3 = (startFleetAutoTrack c2)\<lparr>cl_started := True\<rparr> in
                 (c3, call_opt (cl_onTransportUp c3) s2, None)))))"

definition Stop ::
  "goctx \<Rightarrow> string list \<Rightarrow> ('s, 'u) client \<Rightarrow> 's \<Rightarrow> ('s, 'u) client \<times> 's \<times> goerr option" where
  "Stop ctx ks c s =
     (if \<not> cl_started c then (c, s, None)
      else let c1 = stopFleetAutoTrack (c\<lparr>cl_unsubs := [], cl_busUnsubs := [], cl_started := False\<rparr>) in
        (case (case cl_fleet c of
                 None \<Rightarrow> (None, s, None)
               | Some f \<Rightarrow> (case Fleet_Stop (tr_Unsubscribe (cl_transport c)) ctx ks f s of
                   (f', s', r) \<Rightarrow> (Some f', s', r))) of
           (fl, s1, e1) \<Rightarrow>
             (case call_all (tr_Unsubscribe (cl_transport c) ctx) (rev (cl_unsubs c)) s1 e1 of
                (s2, e2) \<Rightarrow>
                  (case call_all (\<lambda>u. u ctx) (rev (cl_busUnsubs c)) s2 e2 of
                     (s3, e3) \<Rightarrow>
                       (case tr_Stop (cl_transport c) ctx s3 of
                          (s4, e4) \<Rightarrow> (c1\<lparr>cl_fleet := fl\<rparr>, s4, first_err e3 e4))))))"

text \<open>
  The reconnect path: two critical sections with the restore of the fleet, which takes the fleet's
  own lock, in between; a Stop may come between them.
\<close>

definition reconnect_begin :: "('s, 'u) client \<Rightarrow> ('s, 'u) client option" where
  "reconnect_begin c = (if \<not> cl_started c then None else Some (c\<lparr>cl_unsubs := []\<rparr>))"

definition reconnect_restore ::
  "string list \<Rightarrow> ('s, 'u) client \<Rightarrow> 's \<Rightarrow> ('s, 'u) client \<times> 's \<times> goerr option" where
  "reconnect_restore ks c s =
     (case cl_fleet c of
        None \<Rightarrow> (c, s, None)
      | Some f \<Rightarrow>
         (case Fleet_Restore (fleetSubscribe c) (tr_Unsubscribe (cl_transport c)) Background ks f s of
            (f', s', r) \<Rightarrow> (c\<lparr>cl_fleet := Some f'\<rparr>, s', r)))"

definition reconnect_finish :: "goerr option \<Rightarrow> ('s, 'u) client \<Rightarrow> 's \<Rightarrow> ('s, 'u) client \<times> 's" where
  "reconnect_finish restoreErr c s =
     (if \<not> cl_started c then (c, s)
      else (case (if restoreErr = None then subscribeLocked Background c s else (c, s, restoreErr)) of
          (c1, s1, err) \<Rightarrow>
            (let s2 = (case cl_onSubscriptionsRestored c1 of None \<Rightarrow> s1 | Some h \<Rightarrow> h err s1) in
             (c1, if err = None then call_opt (cl_onTransportUp c1) s2 else s2))))"

definition handleReconnect :: "string list \<Rightarrow> ('s, 'u) client \<Rightarrow> 's \<Rightarrow> ('s, 'u) client \<times> 's" where
  "handleReconnect ks c s =
     (case reconnect_begin c of
        None \<Rightarrow> (c, s)
      | Some c1 \<Rightarrow>
         (case reconnect_restore ks c1 s of
            (c2, s2, err) \<Rightarrow> reconnect_finish err c2 s2))"

end
