(* ===== verification/Fleet_Correct.thy ===== *)
theory Fleet_Correct
  imports Fleet_Session
begin

text \<open>
  Correctness of the fleet session against any reliable subscription service. The invariant
  fleet_ok ties the session to the live subscriptions: every tracked vehicle owns exactly one
  live handle per filter of the options, handles are not shared, the connection handle is live
  exactly when the session is started. The handles a session owns are owned; the rest of the live
  map is foreign, and no operation changes it: nothing is leaked and nothing of others is lost.
\<close>

definition owned :: "('s, 'u) fleet \<Rightarrow> 'u set" where
  "owned f = (\<Union>e \<in> ran (fl_tracked f). set (ta_unsubs e)) \<union> set_option (fl_connUnsub f)"

definition foreign :: "('u \<rightharpoonup> string) \<Rightarrow> ('s, 'u) fleet \<Rightarrow> ('u \<rightharpoonup> string)" where
  "foreign lv f = lv |` (- owned f)"

definition entry_ok :: "('u \<rightharpoonup> string) \<Rightarrow> ('s, 'u) fleet \<Rightarrow> string \<Rightarrow> 'u tracked_agv \<Rightarrow> bool" where
  "entry_ok lv f k e \<longleftrightarrow> agv_key (ta_agv e) = k \<and> distinct (ta_unsubs e) \<and>
     map lv (ta_unsubs e) = map Some (agv_filters f (ta_agv e))"

definition fleet_ok :: "('u \<rightharpoonup> string) \<Rightarrow> ('s, 'u) fleet \<Rightarrow> bool" where
  "fleet_ok lv f \<longleftrightarrow>
     (\<forall>k e. fl_tracked f k = Some e \<longrightarrow> entry_ok lv f k e) \<and>
     (\<forall>k e k' e'. fl_tracked f k = Some e \<longrightarrow> fl_tracked f k' = Some e' \<longrightarrow> k \<noteq> k' \<longrightarrow>
        set (ta_unsubs e) \<inter> set (ta_unsubs e') = {}) \<and>
     (case fl_connUnsub f of
        None \<Rightarrow> \<not> fl_started f
      | Some u \<Rightarrow> fl_started f \<and> lv u = Some (Wildcard (fl_topics f) ChannelConnection) \<and>
          (\<forall>k e. fl_tracked f k = Some e \<longrightarrow> u \<notin> set (ta_unsubs e)))"

lemma fleet_ok_entry: "fleet_ok lv f \<Longrightarrow> fl_tracked f k = Some e \<Longrightarrow> entry_ok lv f k e"
  by (simp add: fleet_ok_def)

lemma owned_live:
  assumes "fleet_ok lv f" and "u \<in> owned f"
  shows "lv u \<noteq> None"
proof -
  have "lv v \<noteq> None" if "fl_tracked f k = Some e" and "v \<in> set (ta_unsubs e)" for k e v
  proof -
    have "map lv (ta_unsubs e) = map Some (agv_filters f (ta_agv e))"
      using fleet_ok_entry [OF assms(1) that(1)] by (simp add: entry_ok_def)
    then have "lv v \<in> Some ` set (agv_filters f (ta_agv e))"
      using that(2) by (metis image_eqI list.set_map)
    then show ?thesis by auto
  qed
  then show ?thesis
    using assms
    by (auto simp: owned_def ran_def fleet_ok_def split: option.splits)
qed

lemma agv_filters_cong [simp]:
  "agv_filters (f\<lparr>fl_tracked := t\<rparr>) a = agv_filters f a"
  "agv_filters (f\<lparr>fl_connUnsub := c\<rparr>) a = agv_filters f a"
  "agv_filters (f\<lparr>fl_started := b\<rparr>) a = agv_filters f a"
  by (simp_all add: agv_filters_def)

lemma entry_ok_cong [simp]:
  "entry_ok lv (f\<lparr>fl_tracked := t\<rparr>) k e = entry_ok lv f k e"
  "entry_ok lv (f\<lparr>fl_connUnsub := c\<rparr>) k e = entry_ok lv f k e"
  "entry_ok lv (f\<lparr>fl_started := b\<rparr>) k e = entry_ok lv f k e"
  by (simp_all add: entry_ok_def)

lemma entry_ok_agree:
  assumes "entry_ok lv f k e" and "\<forall>u \<in> set (ta_unsubs e). lv' u = lv u"
  shows "entry_ok lv' f k e"
proof -
  have "map lv' (ta_unsubs e) = map lv (ta_unsubs e)"
    using assms(2) by simp
  with assms(1) show ?thesis by (simp add: entry_ok_def)
qed

text \<open>The invariant only looks at the handles the session owns.\<close>

lemma fleet_ok_agree:
  assumes "fleet_ok lv f" and "\<forall>u \<in> owned f. lv' u = lv u"
  shows "fleet_ok lv' f"
  using assms entry_ok_agree [of lv f _ _ lv']
  by (fastforce simp: fleet_ok_def owned_def ran_def split: option.splits)

lemma ownedI: "fl_tracked f k = Some e \<Longrightarrow> u \<in> set (ta_unsubs e) \<Longrightarrow> u \<in> owned f"
  by (auto simp: owned_def ran_def)

lemma owned_remove:
  assumes "fl_tracked f k = Some e"
  shows "owned f = owned (f\<lparr>fl_tracked := (fl_tracked f)(k := None)\<rparr>) \<union> set (ta_unsubs e)"
proof -
  have "ran (fl_tracked f) = insert e (ran ((fl_tracked f)(k := None)))"
    using assms by (metis fun_upd_triv fun_upd_upd ran_map_upd fun_upd_same)
  then show ?thesis by (auto simp: owned_def)
qed

lemma map_add_zip:
  assumes "distinct us" and "length us = length fs"
  shows "map (lv ++ map_of (zip us fs)) us = map Some fs"
  using assms
  by (intro nth_equalityI) (auto simp: map_add_def map_of_zip_nth)

lemma fleet_ok_remove:
  assumes "fleet_ok lv f" and "fl_tracked f k = Some e"
  shows "fleet_ok (lv |` (- set (ta_unsubs e))) (f\<lparr>fl_tracked := (fl_tracked f)(k := None)\<rparr>)"
    and "foreign (lv |` (- set (ta_unsubs e))) (f\<lparr>fl_tracked := (fl_tracked f)(k := None)\<rparr>)
      = foreign lv f"
proof -
  let ?f = "f\<lparr>fl_tracked := (fl_tracked f)(k := None)\<rparr>"
  have disj: "set (ta_unsubs e) \<inter> owned ?f = {}"
    using assms by (fastforce simp: fleet_ok_def owned_def ran_def split: option.splits if_splits)
  have own: "owned f = owned ?f \<union> set (ta_unsubs e)"
    by (auto simp: owned_remove [OF assms(2)])
  have "fleet_ok lv ?f"
    using assms(1) by (auto simp: fleet_ok_def split: option.splits)
  then show "fleet_ok (lv |` (- set (ta_unsubs e))) ?f"
    by (rule fleet_ok_agree) (use disj in \<open>auto simp: restrict_map_def\<close>)
  show "foreign (lv |` (- set (ta_unsubs e))) ?f = foreign lv f"
    unfolding foreign_def own by (auto simp: restrict_map_def fun_eq_iff)
qed

lemma fleet_ok_add:
  assumes ok: "fleet_ok lv f" and new: "fl_tracked f (agv_key a) = None"
    and us: "distinct us" "length us = length (agv_filters f a)" "set us \<inter> dom lv = {}"
  shows "fleet_ok (lv ++ map_of (zip us (agv_filters f a)))
      (f\<lparr>fl_tracked := (fl_tracked f)(agv_key a \<mapsto> \<lparr>ta_agv = a, ta_unsubs = us\<rparr>)\<rparr>)"
    and "foreign (lv ++ map_of (zip us (agv_filters f a)))
      (f\<lparr>fl_tracked := (fl_tracked f)(agv_key a \<mapsto> \<lparr>ta_agv = a, ta_unsubs = us\<rparr>)\<rparr>) = foreign lv f"
proof -
  let ?f = "f\<lparr>fl_tracked := (fl_tracked f)(agv_key a \<mapsto> \<lparr>ta_agv = a, ta_unsubs = us\<rparr>)\<rparr>"
  let ?lv = "lv ++ map_of (zip us (agv_filters f a))"
  have dom: "dom (map_of (zip us (agv_filters f a))) = set us"
    using us(2) by (simp add: dom_map_of_zip)
  have fresh: "set us \<inter> owned f = {}"
    using owned_live [OF ok] us(3) by blast
  have keep: "?lv u = lv u" if "u \<in> owned f" for u
    using that fresh dom by (metis disjoint_iff map_add_dom_app_simps(3))
  have "entry_ok ?lv f (agv_key a) \<lparr>ta_agv = a, ta_unsubs = us\<rparr>"
    using us(1,2) by (simp add: entry_ok_def map_add_zip)
  moreover have "entry_ok ?lv f k e" if "fl_tracked f k = Some e" for k e
    using that by (intro entry_ok_agree [OF fleet_ok_entry [OF ok that]]) (auto intro!: keep ownedI)
  moreover have "?lv u = lv u" if "fl_connUnsub f = Some u" for u
    using that by (intro keep) (simp add: owned_def)
  ultimately show "fleet_ok ?lv ?f"
    using ok new fresh
    by (auto simp: fleet_ok_def owned_def ran_def split: option.splits) blast+
  have "owned ?f = owned f \<union> set us"
    using new by (auto simp: owned_def ran_map_upd)
  moreover have "lv u = None" if "u \<in> set us" for u
    using us(3) that by blast
  ultimately show "foreign ?lv ?f = foreign lv f"
    using dom by (auto simp: foreign_def restrict_map_def fun_eq_iff map_add_dom_app_simps)
qed

end
