(* ===== verification/Fleet_Contract.thy ===== *)
theory Fleet_Contract
  imports Fleet_Correct
begin

text \<open>
  The operations of the fleet session over the contract reliable_subscriptions: each keeps the
  session invariant and the foreign part of the live map, and its effect on the set of tracked
  vehicles is stated exactly, failures included. Hooks are required to leave the subscriptions
  alone (quiet); that they may do anything else to the world is allowed.
\<close>

definition tracked_agvs :: "('s, 'u) fleet \<Rightarrow> string \<rightharpoonup> agv" where
  "tracked_agvs f k = map_option ta_agv (fl_tracked f k)"

text \<open>The configuration of a session, which no operation here changes.\<close>

definition same_config :: "('s, 'u) fleet \<Rightarrow> ('s, 'u) fleet \<Rightarrow> bool" where
  "same_config f f' \<longleftrightarrow> fl_topics f' = fl_topics f \<and> fl_opts f' = fl_opts f \<and>
     fl_onOnline f' = fl_onOnline f \<and> fl_onOffline f' = fl_onOffline f"

lemma same_config_refl [simp]: "same_config f f"
  by (simp add: same_config_def)

lemma same_config_trans: "same_config f g \<Longrightarrow> same_config g h \<Longrightarrow> same_config f h"
  by (simp add: same_config_def)

lemma same_config_upd [simp]:
  "same_config f (f\<lparr>fl_tracked := t\<rparr>)"
  "same_config f (f\<lparr>fl_connUnsub := c\<rparr>)"
  "same_config f (f\<lparr>fl_started := b\<rparr>)"
  "same_config f (f\<lparr>fl_connUnsub := c, fl_started := b\<rparr>)"
  "same_config f (f\<lparr>fl_tracked := t, fl_connUnsub := c, fl_started := b\<rparr>)"
  by (simp_all add: same_config_def)

lemma agv_filters_same: "same_config f f' \<Longrightarrow> agv_filters f' a = agv_filters f a"
  by (simp add: same_config_def agv_filters_def)

definition quiet_hooks :: "('s \<Rightarrow> bool) \<Rightarrow> ('s \<Rightarrow> 'x) \<Rightarrow> ('s \<Rightarrow> 'y) \<Rightarrow> (agv \<Rightarrow> 's \<Rightarrow> 's) list \<Rightarrow> bool" where
  "quiet_hooks ok live issued hs \<longleftrightarrow>
     (\<forall>h \<in> set hs. \<forall>a s. ok (h a s) = ok s \<and> live (h a s) = live s \<and> issued (h a s) = issued s)"

lemma quiet_hooks_Nil [simp]: "quiet_hooks ok live issued []"
  by (simp add: quiet_hooks_def)

lemma call_hooks_quiet:
  assumes "quiet_hooks ok live issued hs"
  shows "ok (call_hooks hs a s) = ok s \<and> live (call_hooks hs a s) = live s \<and>
    issued (call_hooks hs a s) = issued s"
proof (intro conjI)
  show "ok (call_hooks hs a s) = ok s"
    using assms by (intro call_hooks_pres) (simp add: quiet_hooks_def)
  show "live (call_hooks hs a s) = live s"
    using assms by (intro call_hooks_pres) (simp add: quiet_hooks_def)
  show "issued (call_hooks hs a s) = issued s"
    using assms by (intro call_hooks_pres) (simp add: quiet_hooks_def)
qed

lemma restrict_UNIV [simp]: "m |` UNIV = m"
  by (simp add: restrict_map_def)

definition session_ok ::
  "('s \<Rightarrow> bool) \<Rightarrow> ('s \<Rightarrow> 'u \<rightharpoonup> string) \<Rightarrow> ('u \<rightharpoonup> string) \<Rightarrow> ('s, 'u) fleet \<Rightarrow> 's \<Rightarrow> bool" where
  "session_ok ok live fg f s \<longleftrightarrow> ok s \<and> fleet_ok (live s) f \<and> foreign (live s) f = fg"

lemma new_session_ok: "ok s \<Longrightarrow> session_ok ok live (live s) (NewFleetSession topics opts) s"
  by (simp add: session_ok_def fleet_ok_def foreign_def owned_def NewFleetSession_def)

lemma tracked_agvs_upd [simp]:
  "tracked_agvs (f\<lparr>fl_tracked := (fl_tracked f)(k := x)\<rparr>) = (tracked_agvs f)(k := map_option ta_agv x)"
  by (auto simp: tracked_agvs_def)

lemma track_exists_iff: "track_exists f a \<longleftrightarrow> tracked_agvs f (agv_key a) \<noteq> None"
  by (simp add: tracked_agvs_def track_exists_def)

definition filed :: "('s, 'u) fleet \<Rightarrow> bool" where
  "filed f \<longleftrightarrow> (\<forall>k e. fl_tracked f k = Some e \<longrightarrow> agv_key (ta_agv e) = k)"

lemma fleet_ok_filed: "fleet_ok lv f \<Longrightarrow> filed f"
  by (simp add: fleet_ok_def filed_def entry_ok_def)

lemma filed_keys: "filed f \<Longrightarrow> iteration_of ks (fl_tracked f) \<Longrightarrow> map agv_key (Tracked ks f) = ks"
proof -
  assume "filed f" and ks: "iteration_of ks (fl_tracked f)"
  then have "agv_key (ta_agv (the (fl_tracked f k))) = k" if "k \<in> set ks" for k
    using that by (force simp: iteration_of_def filed_def)
  then show ?thesis by (simp add: Tracked_def map_values_def map_idI)
qed

abbreviation agv_map :: "agv list \<Rightarrow> string \<rightharpoonup> agv" where
  "agv_map as \<equiv> map_of (map (\<lambda>a. (agv_key a, a)) as)"

text \<open>The fleet session on a reliable service; no law beyond the contract is needed.\<close>

locale fleet_service = reliable_subscriptions subscribe unsubscribe live issued ok
  for subscribe :: "goctx \<Rightarrow> string \<Rightarrow> 's \<Rightarrow> 's \<times> (goerr + 'u)"
    and unsubscribe :: "goctx \<Rightarrow> 'u \<Rightarrow> 's \<Rightarrow> 's \<times> goerr option"
    and live :: "'s \<Rightarrow> 'u \<rightharpoonup> string"
    and issued :: "'s \<Rightarrow> 'u set"
    and ok :: "'s \<Rightarrow> bool"
begin

lemma subscribe_all_done:
  assumes "ok s" and "subscribe_all subscribe unsubscribe ctx fs acc s = (s', Inr us)"
  shows "\<exists>vs. us = acc @ vs \<and> distinct vs \<and> length vs = length fs \<and> set vs \<inter> issued s = {} \<and>
    ok s' \<and> issued s' = issued s \<union> set vs \<and> live s' = live s ++ map_of (zip vs fs)"
  using assms
proof (induction fs arbitrary: acc s)
  case (Cons x xs)
  obtain s1 u where s1: "subscribe ctx x s = (s1, Inr u)"
    and rest: "subscribe_all subscribe unsubscribe ctx xs (acc @ [u]) s1 = (s', Inr us)"
    using Cons.prems(2) by (auto split: prod.splits sum.splits)
  note st = subscribe_done [OF Cons.prems(1) s1]
  obtain vs where vs: "us = (acc @ [u]) @ vs" "distinct vs" "length vs = length xs"
    "set vs \<inter> issued s1 = {}" "ok s'" "issued s' = issued s1 \<union> set vs"
    "live s' = live s1 ++ map_of (zip vs xs)"
    using Cons.IH [OF _ rest] st by blast
  have "u \<notin> dom (map_of (zip vs xs))" using st vs(3,4) by (auto simp: dom_map_of_zip)
  then have upd: "(live s)(u \<mapsto> x) ++ map_of (zip vs xs) = live s ++ map_of (zip (u # vs) (x # xs))"
    using map_add_upd [of "live s" "map_of (zip vs xs)" u x]
    by (simp add: map_add_upd_left del: fun_upd_apply map_add_upd)
  have "live s' = live s ++ map_of (zip (u # vs) (x # xs))"
    using upd vs(7) st by (simp only:)
  then show ?case
    using vs st by (intro exI [of _ "u # vs"]) (auto simp del: zip_Cons_Cons map_of.simps)
qed simp

lemma subscribe_all_failed:
  assumes "ok s" and "set acc \<subseteq> issued s"
    and "subscribe_all subscribe unsubscribe ctx fs acc s = (s', Inl e)"
  shows "ok s' \<and> issued s \<subseteq> issued s' \<and> live s' = live s |` (- set acc)"
  using assms
proof (induction fs arbitrary: acc s)
  case (Cons x xs)
  obtain s1 r where s1: "subscribe ctx x s = (s1, r)" by fastforce
  show ?case
  proof (cases r)
    case (Inl e')
    then have "s' = fst (call_all (unsubscribe ctx) (rev acc) s1 None)"
      using Cons.prems(3) s1 by simp
    with subscribe_failed [OF Cons.prems(1)] s1 Inl call_all_live [of s1 ctx "rev acc" None]
    show ?thesis by auto
  next
    case (Inr u)
    note st = subscribe_done [OF Cons.prems(1) s1 [unfolded Inr]]
    have "live s u = None"
      using st live_issued [OF Cons.prems(1)] by (auto simp: domIff)
    then have "(live s)(u \<mapsto> x) |` (- set (acc @ [u])) = live s |` (- set acc)"
      by (auto simp: restrict_map_def fun_eq_iff)
    moreover have "ok s' \<and> issued s1 \<subseteq> issued s' \<and> live s' = live s1 |` (- set (acc @ [u]))"
      using Cons.prems s1 Inr st by (intro Cons.IH) auto
    ultimately show ?thesis using st by auto
  qed
qed simp

lemma start_session:
  assumes "session_ok ok live fg f s" and "Fleet_Start subscribe ctx f s = (f', s', r)"
  shows "session_ok ok live fg f' s' \<and> same_config f f' \<and> fl_tracked f' = fl_tracked f \<and>
    (case r of None \<Rightarrow> fl_started f' | Some e \<Rightarrow> f' = f \<and> live s' = live s)"
proof (cases "fl_started f")
  case True
  then show ?thesis using assms by (simp add: Fleet_Start_def)
next
  case False
  obtain s1 q where s1: "subscribe ctx (Wildcard (fl_topics f) ChannelConnection) s = (s1, q)"
    by fastforce
  note inv = assms(1) [unfolded session_ok_def]
  show ?thesis
  proof (cases q)
    case (Inl e)
    then show ?thesis
      using assms s1 False subscribe_failed [of s ctx] by (auto simp: Fleet_Start_def session_ok_def)
  next
    case (Inr u)
    let ?f = "f\<lparr>fl_connUnsub := Some u, fl_started := True\<rparr>"
    have none: "fl_connUnsub f = None"
      using inv False by (auto simp: fleet_ok_def split: option.splits)
    have st: "ok s1" "u \<notin> issued s" "live s1 = (live s)(u \<mapsto> Wildcard (fl_topics f) ChannelConnection)"
      using subscribe_done [OF _ s1 [unfolded Inr]] inv by auto
    have lu: "live s u = None"
      using st(2) live_issued [of s] inv by (auto simp: domIff)
    have nu: "u \<notin> owned f" using owned_live [of "live s" f u] inv lu by blast
    have "fleet_ok (live s) f" using inv by simp
    then have "fleet_ok (live s1) f"
      by (rule fleet_ok_agree) (use nu st(3) in \<open>auto simp only: fun_upd_apply split: if_splits\<close>)
    moreover have "u \<notin> set (ta_unsubs e)" if "fl_tracked f k = Some e" for k e
      using nu ownedI [OF that] by blast
    ultimately have "fleet_ok (live s1) ?f"
      using none st(3) by (simp add: fleet_ok_def)
    moreover have "owned ?f = insert u (owned f)" using none by (auto simp: owned_def)
    then have "foreign (live s1) ?f = foreign (live s) f"
      using lu st(3) by (auto simp: foreign_def restrict_map_def fun_eq_iff)
    ultimately show ?thesis
      using assms s1 Inr False st inv by (auto simp: Fleet_Start_def session_ok_def)
  qed
qed

lemma untrack_session:
  assumes inv: "session_ok ok live fg f s" and quiet: "n \<Longrightarrow> quiet_hooks ok live issued (fl_onOffline f)"
    and run: "fleet_untrack unsubscribe ctx a n f s = (f', s', r)"
  shows "session_ok ok live fg f' s' \<and> same_config f f' \<and> r = None \<and>
    fl_tracked f' = (fl_tracked f)(agv_key a := None) \<and> fl_started f' = fl_started f \<and>
    fl_connUnsub f' = fl_connUnsub f"
proof (cases "fl_tracked f (agv_key a)")
  case None
  then show ?thesis
    using inv run by (auto simp: fleet_untrack_def untrack_take_def fun_upd_idem)
next
  case (Some e)
  let ?f = "f\<lparr>fl_tracked := (fl_tracked f)(agv_key a := None)\<rparr>"
  let ?hs = "if n then fl_onOffline f else []"
  obtain s1 where s1: "call_all (unsubscribe ctx) (rev (ta_unsubs e)) s None = (s1, None)"
    and st: "ok s1" "live s1 = live s |` (- set (ta_unsubs e))"
    using call_all_live [of s ctx "rev (ta_unsubs e)" None] inv
    by (metis session_ok_def prod.collapse set_rev)
  have s': "s' = call_hooks ?hs a s1" "f' = ?f" "r = None"
    using run Some s1 by (auto simp: fleet_untrack_def untrack_take_def Let_def)
  have "quiet_hooks ok live issued ?hs" using quiet by simp
  from call_hooks_quiet [OF this, of a s1] have "ok s' \<and> live s' = live s1"
    using st s' by simp
  then show ?thesis
    using fleet_ok_remove [of "live s" f "agv_key a" e] inv Some s' st
    by (simp add: session_ok_def)
qed

lemma track_session:
  assumes inv: "session_ok ok live fg f s" and quiet: "n \<Longrightarrow> quiet_hooks ok live issued (fl_onOnline f)"
    and run: "fleet_track subscribe unsubscribe ctx a n f s = (f', s', r)"
  shows "session_ok ok live fg f' s' \<and> same_config f f' \<and> fl_started f' = fl_started f \<and>
    (case r of Some e \<Rightarrow> f' = f \<and> live s' = live s
      | None \<Rightarrow> tracked_agvs f' = (if track_exists f a then tracked_agvs f
          else (tracked_agvs f)(agv_key a \<mapsto> a)))"
proof (cases "track_exists f a")
  case True
  then show ?thesis using inv run by (auto simp: fleet_track_def)
next
  case False
  have new: "fl_tracked f (agv_key a) = None" using False by (simp add: track_exists_def)
  note inv' = inv [unfolded session_ok_def]
  obtain s1 q where s1: "subscribe_all subscribe unsubscribe ctx (agv_filters f a) [] s = (s1, q)"
    by fastforce
  show ?thesis
  proof (cases q)
    case (Inl e)
    have "ok s1 \<and> live s1 = live s"
      using subscribe_all_failed [of s "[]" ctx "agv_filters f a" s1 e] s1 Inl inv' by simp
    then show ?thesis using run False s1 Inl inv' by (auto simp: fleet_track_def session_ok_def)
  next
    case (Inr us)
    let ?f = "f\<lparr>fl_tracked := (fl_tracked f)(agv_key a \<mapsto> \<lparr>ta_agv = a, ta_unsubs = us\<rparr>)\<rparr>"
    let ?hs = "if n then fl_onOnline f else []"
    have us: "distinct us" "length us = length (agv_filters f a)" "set us \<inter> issued s = {}"
      "ok s1" "live s1 = live s ++ map_of (zip us (agv_filters f a))"
      using subscribe_all_done [of s ctx "agv_filters f a" "[]" s1 us] s1 Inr inv' by auto
    have s': "s' = call_hooks ?hs a s1" "f' = ?f" "r = None"
      using run False s1 Inr by (auto simp: fleet_track_def track_commit_def Let_def)
    have "quiet_hooks ok live issued ?hs" using quiet by simp
    from call_hooks_quiet [OF this, of a s1] have "ok s' \<and> live s' = live s1"
      using us s' by simp
    moreover have "set us \<inter> dom (live s) = {}"
      using us(3) live_issued [of s] inv' by blast
    ultimately show ?thesis
      using fleet_ok_add [OF _ new us(1,2), of "live s"] inv' us s' False
      by (simp add: session_ok_def)
  qed
qed

lemma untrack_each_session:
  assumes "session_ok ok live fg f s" and "quiet_hooks ok live issued (fl_onOffline f)"
    and "untrack_each unsubscribe ctx as f s fe = (f', s', r)"
  shows "session_ok ok live fg f' s' \<and> same_config f f' \<and> r = fe \<and>
    fl_tracked f' = fl_tracked f |` (- agv_key ` set as) \<and> fl_connUnsub f' = fl_connUnsub f"
  using assms
proof (induction "as" arbitrary: f s fe)
  case (Cons a as)
  obtain f1 s1 r1 where one: "fleet_untrack unsubscribe ctx a True f s = (f1, s1, r1)"
    using prod_cases3 by blast
  note st = untrack_session [OF Cons.prems(1) Cons.prems(2) one]
  have "untrack_each unsubscribe ctx as f1 s1 fe = (f', s', r)"
    using Cons.prems(3) one st by (simp add: Fleet_Untrack_def)
  moreover have "quiet_hooks ok live issued (fl_onOffline f1)"
    using st Cons.prems(2) by (simp add: same_config_def)
  ultimately have "session_ok ok live fg f' s' \<and> same_config f1 f' \<and> r = fe \<and>
    fl_tracked f' = fl_tracked f1 |` (- agv_key ` set as) \<and> fl_connUnsub f' = fl_connUnsub f1"
    using st by (intro Cons.IH) auto
  moreover have "(fl_tracked f)(agv_key a := None) |` (- agv_key ` set as)
      = fl_tracked f |` (- agv_key ` set (a # as))"
    by (auto simp: restrict_map_def fun_eq_iff)
  ultimately show ?case
    using st same_config_trans [of f f1 f'] by simp
qed simp

lemma conn_unsub_session:
  assumes "session_ok ok live fg f s" and "fl_tracked f = Map.empty" and "fl_connUnsub f = Some u"
  shows "ok (fst (unsubscribe ctx u s)) \<and> live (fst (unsubscribe ctx u s)) = fg"
proof -
  have "owned f = {u}" using assms(2,3) by (simp add: owned_def)
  moreover have "fg = foreign (live s) f"
    using assms(1) by (simp add: session_ok_def)
  ultimately have "(live s)(u := None) = fg"
    by (auto simp: foreign_def restrict_map_def fun_eq_iff)
  then show ?thesis
    using unsubscribe_live [of s ctx u] assms(1) by (simp add: session_ok_def)
qed

lemma stop_session:
  assumes inv: "session_ok ok live fg f s" and quiet: "quiet_hooks ok live issued (fl_onOffline f)"
    and ks: "iteration_of ks (fl_tracked f)"
    and run: "Fleet_Stop unsubscribe ctx ks f s = (f', s', r)"
  shows "ok s' \<and> live s' = fg \<and> r = None \<and> same_config f f' \<and> fl_tracked f' = Map.empty \<and>
    fl_connUnsub f' = None \<and> \<not> fl_started f'"
proof -
  obtain f1 s1 r1 where one: "untrack_each unsubscribe ctx (Tracked ks f) f s None = (f1, s1, r1)"
    using prod_cases3 by blast
  note st = untrack_each_session [OF inv quiet one]
  have "agv_key ` set (Tracked ks f) = dom (fl_tracked f)"
    using filed_keys [OF fleet_ok_filed ks] inv ks
    by (metis image_set iteration_of_def session_ok_def)
  then have empty: "fl_tracked f1 = Map.empty"
    using st by (auto simp: restrict_map_def fun_eq_iff domIff)
  show ?thesis
  proof (cases "fl_connUnsub f1")
    case None
    then have "foreign (live s1) f1 = live s1"
      using empty by (simp add: foreign_def owned_def)
    then show ?thesis
      using run one None st empty by (auto simp: Fleet_Stop_def session_ok_def same_config_def)
  next
    case (Some u)
    obtain s2 where s2: "unsubscribe ctx u s1 = (s2, None)"
      using unsubscribe_reliable [of ctx u s1] by (metis prod.collapse)
    have "session_ok ok live fg f1 s1" using st by simp
    from conn_unsub_session [OF this empty Some, of ctx] show ?thesis
      using run one Some st empty s2 by (auto simp: Fleet_Stop_def same_config_def)
  qed
qed

lemma unsub_entries_live:
  assumes "ok s"
  shows "ok (unsub_entries unsubscribe ctx es s) \<and>
    live (unsub_entries unsubscribe ctx es s) = live s |` (- (\<Union>e \<in> set es. set (ta_unsubs e)))"
  using assms
proof (induction es arbitrary: s)
  case (Cons e es)
  let ?s = "fst (call_all (unsubscribe ctx) (rev (ta_unsubs e)) s None)"
  have st: "ok ?s" "live ?s = live s |` (- set (ta_unsubs e))"
    using call_all_live [OF Cons.prems, of ctx "rev (ta_unsubs e)" None] by auto
  then show ?case
    using Cons.IH [OF st(1)] by (auto simp: restrict_map_def fun_eq_iff)
qed (simp add: restrict_map_def)

text \<open>Clearing a session whose handles may be stale.\<close>

lemma restore_clear_stale:
  assumes "ok s" and ks: "iteration_of ks (fl_tracked f)"
    and run: "restore_clear unsubscribe ctx ks f s = (f', s')"
  shows "session_ok ok live (live s |` (- owned f)) f' s' \<and> live s' = live s |` (- owned f) \<and>
    same_config f f' \<and> fl_tracked f' = Map.empty \<and> \<not> fl_started f'"
proof -
  let ?es = "map_values ks (fl_tracked f)"
  let ?s = "unsub_entries unsubscribe ctx ?es s"
  let ?s2 = "case fl_connUnsub f of None \<Rightarrow> ?s | Some u \<Rightarrow> fst (unsubscribe ctx u ?s)"
  have es: "set ?es = ran (fl_tracked f)"
    using ks by (force simp: map_values_def iteration_of_def ran_def)
  have st: "ok ?s" "live ?s = live s |` (- (\<Union>e \<in> ran (fl_tracked f). set (ta_unsubs e)))"
    using unsub_entries_live [OF assms(1), of ctx ?es] es by auto
  have "ok ?s2 \<and> live ?s2 = live s |` (- owned f)"
    using st unsubscribe_live [OF st(1), of ctx]
    by (auto simp: owned_def restrict_map_def fun_eq_iff split: option.split)
  moreover have "f' = f\<lparr>fl_tracked := Map.empty, fl_connUnsub := None, fl_started := False\<rparr>" "s' = ?s2"
    using run by (auto simp: restore_clear_def Let_def)
  ultimately show ?thesis
    by (auto simp: session_ok_def fleet_ok_def foreign_def owned_def)
qed

lemma restore_clear_session:
  assumes inv: "session_ok ok live fg f s" and ks: "iteration_of ks (fl_tracked f)"
    and run: "restore_clear unsubscribe ctx ks f s = (f', s')"
  shows "session_ok ok live fg f' s' \<and> live s' = fg \<and> same_config f f' \<and>
    fl_tracked f' = Map.empty \<and> \<not> fl_started f'"
proof -
  have "ok s" and fg: "fg = live s |` (- owned f)"
    using inv by (simp_all add: session_ok_def foreign_def)
  from restore_clear_stale [OF \<open>ok s\<close> ks run] show ?thesis unfolding fg .
qed

lemma track_each_session:
  assumes "session_ok ok live fg f s" and "distinct (map agv_key as)"
    and "\<forall>a \<in> set as. tracked_agvs f (agv_key a) = None"
    and "track_each subscribe unsubscribe ctx as f s = (f', s', r)"
  shows "session_ok ok live fg f' s' \<and> same_config f f' \<and> fl_started f' = fl_started f \<and>
    (\<exists>done rest. as = done @ rest \<and> tracked_agvs f' = tracked_agvs f ++ agv_map done \<and>
      (rest = [] \<longleftrightarrow> r = None))"
  using assms
proof (induction "as" arbitrary: f s)
  case (Cons a as)
  obtain f1 s1 r1 where one: "fleet_track subscribe unsubscribe ctx a False f s = (f1, s1, r1)"
    using prod_cases3 by blast
  have new: "\<not> track_exists f a"
    using Cons.prems(3) by (simp add: track_exists_def tracked_agvs_def)
  note st = track_session [OF Cons.prems(1) _ one, simplified]
  show ?case
  proof (cases r1)
    case (Some e)
    then have "f' = f" "s' = s1" "r = Some e"
      using Cons.prems(4) one st by auto
    moreover have "a # as = [] @ (a # as) \<and> tracked_agvs f' = tracked_agvs f ++ agv_map [] \<and>
        (a # as = [] \<longleftrightarrow> r = None)"
      using calculation by simp
    ultimately show ?thesis
      using st Some by (metis (mono_tags, lifting) option.simps(5))
  next
    case None
    have upd: "tracked_agvs f1 = (tracked_agvs f)(agv_key a \<mapsto> a)"
      using st None new by simp
    have rest: "track_each subscribe unsubscribe ctx as f1 s1 = (f', s', r)"
      using Cons.prems(4) one None by simp
    have ne: "agv_key b \<noteq> agv_key a" if "b \<in> set as" for b
      using that Cons.prems(2) by (metis distinct.simps(2) image_eqI list.set_map list.simps(9))
    have fresh: "\<forall>b \<in> set as. tracked_agvs f1 (agv_key b) = None"
      using Cons.prems(3) upd ne by simp
    have ih: "session_ok ok live fg f' s' \<and> same_config f1 f' \<and> fl_started f' = fl_started f1 \<and>
      (\<exists>done rest. as = done @ rest \<and> tracked_agvs f' = tracked_agvs f1 ++ agv_map done \<and>
        (rest = [] \<longleftrightarrow> r = None))"
    proof (rule Cons.IH [OF _ _ fresh rest])
      show "session_ok ok live fg f1 s1" using st by simp
      show "distinct (map agv_key as)" using Cons.prems(2) by simp
    qed
    from ih obtain dn rs where split: "as = dn @ rs"
      "tracked_agvs f' = tracked_agvs f1 ++ agv_map dn" "rs = [] \<longleftrightarrow> r = None"
      by (elim conjE exE) (rule that)
    have "agv_key a \<notin> fst ` set (map (\<lambda>a. (agv_key a, a)) dn)"
      using ne split(1) by (auto simp: image_iff) metis
    then have "agv_key a \<notin> dom (agv_map dn)"
      by (simp only: dom_map_of_conv_image_fst not_False_eq_True)
    then have "(tracked_agvs f)(agv_key a \<mapsto> a) ++ agv_map dn = tracked_agvs f ++ agv_map (a # dn)"
      by (simp add: map_add_upd_left)
    then have "a # as = (a # dn) @ rs \<and> tracked_agvs f' = tracked_agvs f ++ agv_map (a # dn) \<and>
        (rs = [] \<longleftrightarrow> r = None)"
      using split upd by (simp only: append_Cons)
    then show ?thesis
      using st ih same_config_trans [of f f1 f'] by blast
  qed
qed (auto intro!: exI [of _ "[]"])

lemma restore_session:
  assumes inv: "session_ok ok live fg f s" and ks: "iteration_of ks (fl_tracked f)"
    and run: "Fleet_Restore subscribe unsubscribe ctx ks f s = (f', s', r)"
  shows "session_ok ok live fg f' s' \<and> same_config f f' \<and>
    (\<exists>done rest. Tracked ks f = done @ rest \<and> tracked_agvs f' = agv_map done \<and>
      (r = None \<longrightarrow> rest = []) \<and> (r \<noteq> None \<longrightarrow> fl_started f' \<longrightarrow> rest \<noteq> []))"
proof (cases "\<not> fl_started f \<and> ks = []")
  case True
  then show ?thesis
    using inv ks run
    by (auto simp: Fleet_Restore_def Tracked_def iteration_of_def tracked_agvs_def fun_eq_iff
        split: if_splits)
next
  case False
  obtain f1 s1 where one: "restore_clear unsubscribe ctx ks f s = (f1, s1)" by fastforce
  obtain f2 s2 r2 where two: "Fleet_Start subscribe ctx f1 s1 = (f2, s2, r2)"
    using prod_cases3 by blast
  note st1 = restore_clear_session [OF inv ks one]
  note st2 = start_session [OF _ two, of fg]
  have empty: "tracked_agvs f2 = Map.empty"
    using st1 st2 by (simp add: tracked_agvs_def fun_eq_iff)
  show ?thesis
  proof (cases r2)
    case (Some e)
    then have "f' = f2" "s' = s2" "r = Some e" "f2 = f1"
      using run False one two st1 st2 by (auto simp: Fleet_Restore_def)
    then show ?thesis
      using st1 st2 Some empty same_config_trans [of f f1 f2] by (auto intro!: exI [of _ "[]"])
  next
    case None
    have keys: "map agv_key (Tracked ks f) = ks"
      using inv by (auto simp: session_ok_def intro: filed_keys [OF fleet_ok_filed ks])
    have "track_each subscribe unsubscribe ctx (Tracked ks f) f2 s2 = (f', s', r)"
      using run False one two None by (simp add: Fleet_Restore_def Let_def)
    from track_each_session [OF _ _ _ this, of fg] show ?thesis
      using st1 st2 None empty keys ks same_config_trans [of f f1 f2] same_config_trans [of f f2 f']
      by (auto simp: iteration_of_def)
  qed
qed

end

end
