(* ===== verification/Fleet_Available.thy ===== *)
theory Fleet_Available
  imports Fleet_Contract
begin

text \<open>
  The fleet session on a service that is up: as long as it is, subscribing succeeds, so no
  operation of the session fails. The reconnect path starts from a session whose handles are
  stale (the broker forgot them); restoring it needs no live handle, only that tracked vehicles
  are filed under their keys.
\<close>

locale available_service = fleet_service subscribe unsubscribe live issued ok
  for subscribe :: "goctx \<Rightarrow> string \<Rightarrow> 's \<Rightarrow> 's \<times> (goerr + 'u)"
    and unsubscribe :: "goctx \<Rightarrow> 'u \<Rightarrow> 's \<Rightarrow> 's \<times> goerr option"
    and live :: "'s \<Rightarrow> 'u \<rightharpoonup> string"
    and issued :: "'s \<Rightarrow> 'u set"
    and ok :: "'s \<Rightarrow> bool" +
  fixes up :: "'s \<Rightarrow> bool"
  assumes subscribe_up: "up s \<Longrightarrow> \<exists>s' u. subscribe ctx f s = (s', Inr u) \<and> up s'"
    and unsubscribe_up: "up s \<Longrightarrow> up (fst (unsubscribe ctx u s))"

lemma tracked_agvs_of_list:
  assumes "filed f" and "iteration_of ks (fl_tracked f)"
  shows "agv_map (Tracked ks f) = tracked_agvs f"
proof
  fix k
  let ?xs = "map (\<lambda>a. (agv_key a, a)) (Tracked ks f)"
  have keys: "map fst ?xs = ks"
    using filed_keys [OF assms] by (simp add: comp_def)
  have "distinct ks" "set ks = dom (fl_tracked f)"
    using assms(2) by (simp_all add: iteration_of_def)
  show "agv_map (Tracked ks f) k = tracked_agvs f k"
  proof (cases "fl_tracked f k")
    case None
    then have "k \<notin> fst ` set ?xs"
      using keys \<open>set ks = dom (fl_tracked f)\<close> by (metis domIff image_set)
    then show ?thesis using None by (simp add: map_of_eq_None_iff tracked_agvs_def)
  next
    case (Some e)
    then have "k \<in> set ks" using \<open>set ks = dom (fl_tracked f)\<close> by blast
    then have "ta_agv e \<in> set (Tracked ks f)"
      using Some by (force simp: Tracked_def map_values_def)
    moreover have "agv_key (ta_agv e) = k" using Some assms(1) by (simp add: filed_def)
    ultimately have "(k, ta_agv e) \<in> set ?xs" by force
    then show ?thesis
      using Some keys \<open>distinct ks\<close> by (simp add: map_of_is_SomeI tracked_agvs_def)
  qed
qed

context available_service
begin

lemma call_all_up: "up s \<Longrightarrow> up (fst (call_all (unsubscribe ctx) us s fe))"
proof (induction us arbitrary: s fe)
  case (Cons u us)
  then show ?case
    using unsubscribe_up [of s ctx u] by (cases "unsubscribe ctx u s") simp
qed simp

lemma unsub_entries_up: "up s \<Longrightarrow> up (unsub_entries unsubscribe ctx es s)"
  by (induction es arbitrary: s) (auto intro: call_all_up)

lemma subscribe_all_up:
  "up s \<Longrightarrow> \<exists>s' us. subscribe_all subscribe unsubscribe ctx fs acc s = (s', Inr us) \<and> up s'"
proof (induction fs arbitrary: acc s)
  case (Cons x xs)
  then show ?case using subscribe_up [OF Cons.prems, of ctx x] by fastforce
qed simp

lemma start_up:
  assumes "up s"
  shows "\<exists>f' s'. Fleet_Start subscribe ctx f s = (f', s', None) \<and> up s'"
  using assms subscribe_up [OF assms, of ctx "Wildcard (fl_topics f) ChannelConnection"]
  by (auto simp: Fleet_Start_def)

lemma quiet_track_up:
  assumes "up s"
  shows "\<exists>f' s'. fleet_track subscribe unsubscribe ctx a False f s = (f', s', None) \<and> up s'"
  using assms subscribe_all_up [OF assms, of ctx "agv_filters f a" "[]"] call_all_up
  by (auto simp: fleet_track_def track_commit_def Let_def)

lemma track_each_up:
  "up s \<Longrightarrow> \<exists>f' s'. track_each subscribe unsubscribe ctx as f s = (f', s', None) \<and> up s'"
proof (induction "as" arbitrary: f s)
  case (Cons a as)
  then show ?case using quiet_track_up [OF Cons.prems, of ctx a f] by fastforce
qed simp

lemma restore_clear_up: "up s \<Longrightarrow> up (snd (restore_clear unsubscribe ctx ks f s))"
  by (auto simp: restore_clear_def Let_def intro: unsub_entries_up unsubscribe_up split: option.split)

lemma restore_up:
  assumes "up s"
  shows "\<exists>f' s'. Fleet_Restore subscribe unsubscribe ctx ks f s = (f', s', None) \<and> up s'"
proof -
  obtain f1 s1 where one: "restore_clear unsubscribe ctx ks f s = (f1, s1)" by fastforce
  then have "up s1" using restore_clear_up [OF assms, of ctx ks f] by simp
  then obtain f2 s2 where two: "Fleet_Start subscribe ctx f1 s1 = (f2, s2, None)" and "up s2"
    using start_up [of s1 ctx f1] by blast
  from track_each_up [OF \<open>up s2\<close>, of ctx "Tracked ks f" f2] show ?thesis
    using one two assms by (auto simp: Fleet_Restore_def)
qed

lemma restore_stale:
  assumes ok: "ok s" "up s" and f: "fl_started f" "filed f" and ks: "iteration_of ks (fl_tracked f)"
  shows "\<exists>f' s'. Fleet_Restore subscribe unsubscribe ctx ks f s = (f', s', None) \<and> up s' \<and>
    session_ok ok live (live s |` (- owned f)) f' s' \<and> same_config f f' \<and> fl_started f' \<and>
    tracked_agvs f' = tracked_agvs f"
proof -
  obtain f1 s1 where one: "restore_clear unsubscribe ctx ks f s = (f1, s1)" by fastforce
  then have "up s1" using restore_clear_up [OF ok(2), of ctx ks f] by simp
  then obtain f2 s2 where two: "Fleet_Start subscribe ctx f1 s1 = (f2, s2, None)" and "up s2"
    using start_up [of s1 ctx f1] by blast
  obtain f3 s3 where three: "track_each subscribe unsubscribe ctx (Tracked ks f) f2 s2 = (f3, s3, None)"
    and "up s3" using track_each_up [OF \<open>up s2\<close>] by blast
  note st1 = restore_clear_stale [OF ok(1) ks one]
  note st2 = start_session [OF conjunct1 [OF st1] two]
  have empty: "tracked_agvs f2 = Map.empty"
    using st1 st2 by (simp add: tracked_agvs_def fun_eq_iff)
  have keys: "distinct (map agv_key (Tracked ks f))"
    using filed_keys [OF f(2) ks] ks by (simp add: iteration_of_def)
  have "session_ok ok live (live s |` (- owned f)) f3 s3 \<and> same_config f2 f3 \<and>
    fl_started f3 = fl_started f2 \<and> tracked_agvs f3 = agv_map (Tracked ks f)"
    using track_each_session [OF _ keys _ three, of "live s |` (- owned f)"] st2 empty by auto
  then show ?thesis
    using one two three st1 st2 f \<open>up s3\<close> tracked_agvs_of_list [OF f(2) ks]
      same_config_trans [of f f1 f2] same_config_trans [of f f2 f3]
    by (simp add: Fleet_Restore_def)
qed

text \<open>Hooks that leave the service up.\<close>

lemma call_hooks_up: "\<forall>h \<in> set hs. \<forall>a s. up (h a s) = up s \<Longrightarrow> up (call_hooks hs a s) = up s"
  by (rule call_hooks_pres) simp

lemma track_up:
  assumes "up s" and "\<forall>h \<in> set (fl_onOnline f). \<forall>a s. up (h a s) = up s"
  shows "\<exists>f' s'. fleet_track subscribe unsubscribe ctx a n f s = (f', s', None) \<and> up s'"
  using assms subscribe_all_up [OF assms(1), of ctx "agv_filters f a" "[]"] call_all_up
    call_hooks_up [OF assms(2)]
  by (auto simp: fleet_track_def track_commit_def Let_def)

lemma untrack_up:
  assumes "up s" and "\<forall>h \<in> set (fl_onOffline f). \<forall>a s. up (h a s) = up s"
  shows "up (fst (snd (fleet_untrack unsubscribe ctx a n f s)))"
  using assms call_all_up call_hooks_up [OF assms(2)]
  by (auto simp: fleet_untrack_def untrack_take_def Let_def split: option.split prod.split)
    (metis fst_conv)+

end

end
