(* ===== verification/Client_Subs.thy ===== *)
theory Client_Subs
  imports Client_Life Fleet_Available
begin

text \<open>
  The subscriptions of a client over its transport. The locale client_service is the contract of a
  transport that belongs to one client: each handler gives an available_service, starting brings
  the transport up, stopping forgets the subscriptions. The invariant subscribed says that the
  live subscriptions are exactly the wanted ones: one handle per wanted topic, and the session of
  the fleet, if there is one, accounts for all the others.
\<close>

definition own_subs :: "('s, 'u) client \<Rightarrow> 'u \<rightharpoonup> string" where
  "own_subs c = map_of (zip (cl_unsubs c) (map fst (wanted_topics c)))"

definition subscribed ::
  "('s \<Rightarrow> bool) \<Rightarrow> ('s \<Rightarrow> 'u \<rightharpoonup> string) \<Rightarrow> ('s, 'u) client \<Rightarrow> 's \<Rightarrow> bool" where
  "subscribed ok live c s \<longleftrightarrow>
     ok s \<and> distinct (cl_unsubs c) \<and> length (cl_unsubs c) = length (wanted_topics c) \<and>
     (case cl_fleet c of
        None \<Rightarrow> live s = own_subs c
      | Some f \<Rightarrow> session_ok ok live (own_subs c) f s \<and> fl_started f)"

text \<open>A client that may be started: nothing is live, and the fleet session holds nothing.\<close>

definition idle ::
  "('s, 'u) transport \<Rightarrow> ('s \<Rightarrow> bool) \<Rightarrow> ('s \<Rightarrow> 'u \<rightharpoonup> string) \<Rightarrow> ('s, 'u) client \<Rightarrow> 's \<Rightarrow> bool" where
  "idle tr ok live c s \<longleftrightarrow> ok s \<and> cl_transport c = tr \<and> \<not> cl_started c \<and> cl_unsubs c = [] \<and>
     live s = Map.empty \<and>
     (case cl_fleet c of None \<Rightarrow> True | Some f \<Rightarrow> session_ok ok live Map.empty f s)"

text \<open>What subscribing may change in the client.\<close>

definition same_but_subs :: "('s, 'u) client \<Rightarrow> ('s, 'u) client \<Rightarrow> bool" where
  "same_but_subs c c' \<longleftrightarrow>
     c' = c\<lparr>cl_fleet := cl_fleet c', cl_unsubs := cl_unsubs c'\<rparr> \<and>
     rel_option (\<lambda>f f'. same_config f f' \<and> tracked_agvs f' = tracked_agvs f) (cl_fleet c) (cl_fleet c')"

definition quiet_fun :: "('s \<Rightarrow> bool) \<Rightarrow> ('s \<Rightarrow> 'x) \<Rightarrow> ('s \<Rightarrow> 's) \<Rightarrow> bool" where
  "quiet_fun ok live f \<longleftrightarrow> (\<forall>s. ok (f s) = ok s \<and> live (f s) = live s)"

lemma quiet_call_opt:
  assumes "\<forall>f. h = Some f \<longrightarrow> quiet_fun ok live f"
  shows "ok (call_opt h s) = ok s \<and> live (call_opt h s) = live s"
  using assms by (auto simp: call_opt_def quiet_fun_def split: option.split)

definition quiet_closure :: "('s \<Rightarrow> bool) \<Rightarrow> ('s \<Rightarrow> 'x) \<Rightarrow> 's bus_closure \<Rightarrow> bool" where
  "quiet_closure ok live u \<longleftrightarrow>
     (\<forall>ctx s. ok (fst (u ctx s)) = ok s \<and> live (fst (u ctx s)) = live s \<and> snd (u ctx s) = None)"

lemma quiet_closures:
  "\<forall>u \<in> set us. quiet_closure ok live u \<Longrightarrow>
     ok (fst (call_all (\<lambda>u. u ctx) us s fe)) = ok s \<and>
     live (fst (call_all (\<lambda>u. u ctx) us s fe)) = live s \<and> snd (call_all (\<lambda>u. u ctx) us s fe) = fe"
proof (induction us arbitrary: s fe)
  case (Cons u us)
  then have "ok (fst (u ctx s)) = ok s \<and> live (fst (u ctx s)) = live s \<and> snd (u ctx s) = None"
    by (simp add: quiet_closure_def)
  with Cons show ?case by (cases "u ctx s") simp
qed simp

lemma wanted_topics_cong [simp]:
  "wanted_topics (c\<lparr>cl_unsubs := us\<rparr>) = wanted_topics c"
  "wanted_topics (c\<lparr>cl_started := b\<rparr>) = wanted_topics c"
  "wanted_topics (c\<lparr>cl_fleet := Some f\<rparr>) =
     (if cl_fleet c = None then wanted_topics (c\<lparr>cl_fleet := Some f\<rparr>) else wanted_topics c)"
  "wanted_topics (c\<lparr>cl_fleetStop := x\<rparr>) = wanted_topics c"
  "wanted_topics (c\<lparr>cl_fleetDone := y\<rparr>) = wanted_topics c"
  "wanted_topics (c\<lparr>cl_fleetJobs := z\<rparr>) = wanted_topics c"
  by (simp_all add: wanted_topics_def wanted_channels_def subscriptionFilter_def)

lemma subscribed_cong:
  assumes "live s' = live s" and "ok s' = ok s" and "cl_unsubs c' = cl_unsubs c"
    and "cl_fleet c' = cl_fleet c" and "wanted_topics c' = wanted_topics c"
  shows "subscribed ok live c' s' = subscribed ok live c s"
  using assms by (simp add: subscribed_def own_subs_def session_ok_def split: option.split)

lemma same_but_subs_trans:
  assumes "same_but_subs c c1" and "same_but_subs c1 c2"
    and "c1 = c\<lparr>cl_fleet := cl_fleet c1, cl_unsubs := cl_unsubs c1\<rparr>"
    and "c2 = c1\<lparr>cl_fleet := cl_fleet c2, cl_unsubs := cl_unsubs c2\<rparr>"
  shows "same_but_subs c c2"
proof -
  have "c2 = c\<lparr>cl_fleet := cl_fleet c2, cl_unsubs := cl_unsubs c2\<rparr>"
    by (subst assms(4), subst assms(3)) simp
  moreover have "rel_option (\<lambda>f f'. same_config f f' \<and> tracked_agvs f' = tracked_agvs f)
      (cl_fleet c) (cl_fleet c2)"
    using assms(1,2) by (auto simp: same_but_subs_def option_rel_Some1 same_config_def
        elim!: option.rel_cases)
  ultimately show ?thesis by (simp add: same_but_subs_def)
qed

lemma session_ok_cong:
  "live s' = live s \<Longrightarrow> ok s' = ok s \<Longrightarrow> session_ok ok live fg f s' = session_ok ok live fg f s"
  by (simp add: session_ok_def)

lemma startFleetAutoTrack_keeps:
  "cl_unsubs (startFleetAutoTrack c) = cl_unsubs c"
  "cl_fleet (startFleetAutoTrack c) = cl_fleet c"
  "cl_transport (startFleetAutoTrack c) = cl_transport c"
  "cl_onTransportUp (startFleetAutoTrack c) = cl_onTransportUp c"
  "wanted_topics (startFleetAutoTrack c) = wanted_topics c"
  by (auto simp: startFleetAutoTrack_def wanted_topics_def wanted_channels_def
      subscriptionFilter_def split: option.split)

locale client_service =
  fixes tr :: "('s, 'u) transport"
    and live :: "'s \<Rightarrow> 'u \<rightharpoonup> string"
    and issued :: "'s \<Rightarrow> 'u set"
    and ok :: "'s \<Rightarrow> bool"
    and up :: "'s \<Rightarrow> bool"
  assumes service: "available_service (\<lambda>ctx f s. tr_Subscribe tr ctx f h s) (tr_Unsubscribe tr)
      live issued ok up"
    and transport_start: "ok s \<Longrightarrow> tr_Start tr ctx s = (s', None) \<Longrightarrow> ok s' \<and> up s' \<and> live s' = live s"
    and transport_stop: "ok s \<Longrightarrow> tr_Stop tr ctx s = (s', r) \<Longrightarrow> ok s' \<and> live s' = Map.empty"

sublocale client_service \<subseteq> av: available_service "\<lambda>ctx f s. tr_Subscribe tr ctx f h s"
    "tr_Unsubscribe tr" live issued ok up for h
  by (rule service)

context client_service
begin

lemma fleetSubscribe_eq:
  "cl_transport c = tr \<Longrightarrow> fleetSubscribe c = (\<lambda>ctx f s. tr_Subscribe tr ctx f OnRawMessage s)"
  by (simp add: fleetSubscribe_def fun_eq_iff)

lemma subscribe_topics_up:
  assumes "ok s" and "up s"
  shows "\<exists>vs s'. subscribe_topics tr ctx subs us s = (us @ vs, s', None) \<and> up s' \<and> ok s' \<and>
    distinct vs \<and> length vs = length subs \<and> set vs \<inter> issued s = {} \<and> issued s' = issued s \<union> set vs \<and>
    live s' = live s ++ map_of (zip vs (map fst subs))"
  using assms
proof (induction subs arbitrary: us s)
  case (Cons sub subs)
  obtain x h where sub: "sub = (x, h)" by fastforce
  obtain s1 u where s1: "tr_Subscribe tr ctx x h s = (s1, Inr u)" "up s1"
    using av.subscribe_up [OF Cons.prems(2)] by blast
  note st = av.subscribe_done [OF Cons.prems(1) s1(1)]
  obtain vs s' where vs: "subscribe_topics tr ctx subs (us @ [u]) s1 = ((us @ [u]) @ vs, s', None)"
    "up s'" "ok s'" "distinct vs" "length vs = length subs" "set vs \<inter> issued s1 = {}"
    "issued s' = issued s1 \<union> set vs" "live s' = live s1 ++ map_of (zip vs (map fst subs))"
    using Cons.IH [OF conjunct1 [OF st] s1(2), of "us @ [u]"] by blast
  have "u \<notin> dom (map_of (zip vs (map fst subs)))"
    using st vs(5,6) by (auto simp: dom_map_of_zip)
  then have upd: "(live s)(u \<mapsto> x) ++ map_of (zip vs (map fst subs))
      = live s ++ map_of (zip (u # vs) (map fst (sub # subs)))"
    using map_add_upd [of "live s" "map_of (zip vs (map fst subs))" u x]
    by (simp add: sub map_add_upd_left del: fun_upd_apply map_add_upd)
  have "live s' = live s ++ map_of (zip (u # vs) (map fst (sub # subs)))"
    using upd vs(8) st by (simp only:)
  moreover have "subscribe_topics tr ctx (sub # subs) us s = (us @ (u # vs), s', None)"
    using s1(1) vs(1) sub by simp
  ultimately show ?case
    using vs st by (intro exI [of _ "u # vs"] exI [of _ s'])
      (auto simp del: zip_Cons_Cons map_of.simps list.map)
qed simp

text \<open>From a transport without subscriptions, subscribing establishes the invariant.\<close>

lemma subscribe_client:
  assumes "ok s" "up s" and tr: "cl_transport c = tr" and none: "cl_unsubs c = []"
    and start: "case cl_fleet c of None \<Rightarrow> live s = Map.empty
      | Some f \<Rightarrow> session_ok ok live Map.empty f s"
  shows "\<exists>c' s'. subscribeLocked ctx c s = (c', s', None) \<and> up s' \<and> subscribed ok live c' s' \<and>
    same_but_subs c c'"
proof (cases "cl_fleet c")
  case None
  obtain vs s' where vs: "subscribe_topics tr ctx (wanted_topics c) [] s = (vs, s', None)" "up s'"
    "ok s'" "distinct vs" "length vs = length (wanted_topics c)"
    "live s' = live s ++ map_of (zip vs (map fst (wanted_topics c)))"
    using subscribe_topics_up [OF assms(1,2), of ctx "wanted_topics c" "[]"] by auto
  have "subscribeLocked ctx c s = (c\<lparr>cl_unsubs := vs\<rparr>, s', None)"
    using None vs(1) tr none by (simp add: subscribeLocked_def)
  moreover have "subscribed ok live (c\<lparr>cl_unsubs := vs\<rparr>) s'"
    using None vs start by (simp add: subscribed_def own_subs_def)
  ultimately show ?thesis
    using vs(2) None by (simp add: same_but_subs_def)
next
  case (Some f)
  obtain f1 s1 where one: "Fleet_Start (fleetSubscribe c) ctx f s = (f1, s1, None)" "up s1"
    using av.start_up [OF assms(2), of OnRawMessage ctx f] fleetSubscribe_eq [OF tr] by auto
  have st: "session_ok ok live Map.empty f1 s1" "same_config f f1" "fl_tracked f1 = fl_tracked f"
    "fl_started f1"
    using av.start_session [of Map.empty f s OnRawMessage ctx f1 s1 None] one(1) start Some
      fleetSubscribe_eq [OF tr] by auto
  have ok1: "ok s1" using st(1) by (simp add: session_ok_def)
  let ?c1 = "c\<lparr>cl_fleet := Some f1\<rparr>"
  obtain vs s' where vs: "subscribe_topics tr ctx (wanted_topics c) [] s1 = (vs, s', None)" "up s'"
    "ok s'" "distinct vs" "length vs = length (wanted_topics c)" "set vs \<inter> issued s1 = {}"
    "live s' = live s1 ++ map_of (zip vs (map fst (wanted_topics c)))"
    using subscribe_topics_up [OF ok1 one(2), of ctx "wanted_topics c" "[]", unfolded append_Nil]
    by blast
  have run: "subscribeLocked ctx c s = (?c1\<lparr>cl_unsubs := vs\<rparr>, s', None)"
    using Some one(1) vs(1) tr none by (simp add: subscribeLocked_def)
  have dom: "dom (map_of (zip vs (map fst (wanted_topics c)))) = set vs"
    using vs(5) by (simp add: dom_map_of_zip)
  have disj: "set vs \<inter> owned f1 = {}"
    using owned_live [of "live s1" f1] st(1) vs(6) av.live_issued [of s1]
    by (fastforce simp: session_ok_def)
  have keep: "live s' u = live s1 u" if "u \<in> owned f1" for u
    using that disj dom vs(7) by (metis disjoint_iff map_add_dom_app_simps(3))
  have "fleet_ok (live s1) f1" using st(1) by (simp add: session_ok_def)
  then have "fleet_ok (live s') f1"
    by (rule fleet_ok_agree) (use keep in blast)
  moreover have "foreign (live s') f1 = map_of (zip vs (map fst (wanted_topics c)))"
  proof
    fix u
    have "foreign (live s1) f1 u = None" using st(1) by (simp add: session_ok_def)
    then have "u \<notin> owned f1 \<Longrightarrow> live s1 u = None" by (simp add: foreign_def)
    moreover have "u \<in> owned f1 \<Longrightarrow> map_of (zip vs (map fst (wanted_topics c))) u = None"
      using disj dom by (metis disjoint_iff domIff)
    ultimately show "foreign (live s') f1 u = map_of (zip vs (map fst (wanted_topics c))) u"
      by (cases "u \<in> owned f1") (auto simp: foreign_def vs(7) map_add_def split: option.split)
  qed
  ultimately have "subscribed ok live (?c1\<lparr>cl_unsubs := vs\<rparr>) s'"
    using vs st(4) Some by (simp add: subscribed_def own_subs_def session_ok_def)
  moreover have "tracked_agvs f1 = tracked_agvs f"
    using st(3) by (simp add: tracked_agvs_def fun_eq_iff)
  ultimately show ?thesis
    using run vs(2) Some st(2) by (simp add: same_but_subs_def)
qed

lemma start_client:
  assumes idle: "idle tr ok live c s" and conn: "tr_Start tr ctx s = (s1, None)"
    and quiet: "\<forall>f. cl_onTransportUp c = Some f \<longrightarrow> quiet_fun ok live f"
  shows "\<exists>c' s' c2. Start ctx c s = (c', s', None) \<and> subscribed ok live c' s' \<and> cl_started c' \<and>
    same_but_subs c c2 \<and> c' = (startFleetAutoTrack c2)\<lparr>cl_started := True\<rparr>"
proof -
  note ix = idle [unfolded idle_def]
  have st: "ok s1" "up s1" "live s1 = live s" using transport_start [of s ctx s1] ix conn by auto
  have "case cl_fleet c of None \<Rightarrow> live s1 = Map.empty | Some f \<Rightarrow> session_ok ok live Map.empty f s1"
    using ix st session_ok_cong [OF st(3), of ok] by (cases "cl_fleet c") auto
  moreover have "cl_transport c = tr" "cl_unsubs c = []" using ix by simp_all
  ultimately obtain c2 s2 where
    sub: "subscribeLocked ctx c s1 = (c2, s2, None)" "subscribed ok live c2 s2" "same_but_subs c c2"
    using subscribe_client [OF st(1,2), of c ctx] by blast
  let ?c3 = "(startFleetAutoTrack c2)\<lparr>cl_started := True\<rparr>"
  have c2: "c2 = c\<lparr>cl_fleet := cl_fleet c2, cl_unsubs := cl_unsubs c2\<rparr>"
    using sub(3) by (simp add: same_but_subs_def)
  have up: "cl_onTransportUp ?c3 = cl_onTransportUp c"
    by (simp add: startFleetAutoTrack_keeps, subst c2, simp)
  have "Start ctx c s = (?c3, call_opt (cl_onTransportUp c) s2, None)"
    using ix conn sub(1) up by (simp add: Start_def Let_def)
  moreover have "subscribed ok live ?c3 (call_opt (cl_onTransportUp c) s2)"
    using sub(2) quiet_call_opt [OF quiet, of s2]
    by (subst subscribed_cong [where c = c2 and s = s2]) (simp_all add: startFleetAutoTrack_keeps)
  ultimately show ?thesis using sub(3) by (intro exI [of _ ?c3] exI conjI) simp_all
qed

text \<open>The reconnect path, from a transport that has forgotten every subscription.\<close>

lemma reconnect_client:
  assumes w: "ok s" "up s" "live s = Map.empty" and c: "cl_transport c = tr" "cl_started c"
    and fleet: "\<forall>f. cl_fleet c = Some f \<longrightarrow> fl_started f \<and> filed f \<and> iteration_of ks (fl_tracked f)"
    and quiet: "\<forall>f. cl_onTransportUp c = Some f \<longrightarrow> quiet_fun ok live f"
      "\<forall>f e. cl_onSubscriptionsRestored c = Some f \<longrightarrow> quiet_fun ok live (f e)"
  shows "\<exists>c' s'. handleReconnect ks c s = (c', s') \<and> subscribed ok live c' s' \<and> same_but_subs c c'"
proof -
  let ?c1 = "c\<lparr>cl_unsubs := []\<rparr>"
  have restored: "\<exists>c2 s2. reconnect_restore ks ?c1 s = (c2, s2, None) \<and> ok s2 \<and> up s2 \<and>
      same_but_subs c c2 \<and> cl_unsubs c2 = [] \<and>
      (case cl_fleet c2 of None \<Rightarrow> live s2 = Map.empty | Some f \<Rightarrow> session_ok ok live Map.empty f s2)"
  proof (cases "cl_fleet c")
    case None
    then show ?thesis using w by (simp add: reconnect_restore_def same_but_subs_def)
  next
    case (Some f)
    obtain f' s' where "Fleet_Restore (fleetSubscribe c) (tr_Unsubscribe tr) Background ks f s = (f', s', None)"
      "up s'" "session_ok ok live (live s |` (- owned f)) f' s'" "same_config f f'"
      "tracked_agvs f' = tracked_agvs f"
      using av.restore_stale [OF w(1,2), of f ks OnRawMessage Background] fleet Some
      unfolding fleetSubscribe_eq [OF c(1)] by blast
    moreover have "fleetSubscribe ?c1 = fleetSubscribe c" by (simp add: fleetSubscribe_def fun_eq_iff)
    ultimately show ?thesis
      using Some w(3) c(1) by (simp add: reconnect_restore_def same_but_subs_def session_ok_def)
  qed
  then obtain c2 s2 where two: "reconnect_restore ks ?c1 s = (c2, s2, None)" "ok s2" "up s2"
    "same_but_subs c c2" "cl_unsubs c2 = []"
    "case cl_fleet c2 of None \<Rightarrow> live s2 = Map.empty | Some f \<Rightarrow> session_ok ok live Map.empty f s2"
    by blast
  have c2: "c2 = c\<lparr>cl_fleet := cl_fleet c2, cl_unsubs := cl_unsubs c2\<rparr>"
    using two(4) by (simp add: same_but_subs_def)
  have keep2: "cl_transport c2 = tr" "cl_started c2" using c by (subst c2; simp)+
  obtain c3 s3 where three: "subscribeLocked Background c2 s2 = (c3, s3, None)"
    "subscribed ok live c3 s3" "same_but_subs c2 c3"
    using subscribe_client [OF two(2,3) keep2(1) two(5,6)] by blast
  have c3: "c3 = c2\<lparr>cl_fleet := cl_fleet c3, cl_unsubs := cl_unsubs c3\<rparr>"
    using three(3) by (simp add: same_but_subs_def)
  have keep3: "cl_onTransportUp c3 = cl_onTransportUp c"
    "cl_onSubscriptionsRestored c3 = cl_onSubscriptionsRestored c"
    by (subst c3, subst c2, simp)+
  let ?s4 = "case cl_onSubscriptionsRestored c of None \<Rightarrow> s3 | Some h \<Rightarrow> h None s3"
  have s4: "ok ?s4 = ok s3 \<and> live ?s4 = live s3"
    using quiet(2) by (auto simp: quiet_fun_def split: option.split)
  have "handleReconnect ks c s = (c3, call_opt (cl_onTransportUp c) ?s4)"
    using c two(1) three(1) keep2 keep3
    by (simp add: handleReconnect_def reconnect_begin_def reconnect_finish_def Let_def)
  moreover have "subscribed ok live c3 (call_opt (cl_onTransportUp c) ?s4)"
    using three(2) s4 quiet_call_opt [OF quiet(1), of ?s4]
    by (subst subscribed_cong [where c = c3 and s = s3]) simp_all
  moreover have "same_but_subs c c3"
    using two(4) three(3) c2 c3 by (rule same_but_subs_trans)
  ultimately show ?thesis by blast
qed

text \<open>Stop releases every handle itself before it stops the transport.\<close>

lemma stop_client:
  assumes sub: "subscribed ok live c s" and c: "cl_transport c = tr" "cl_started c"
    and fleet: "\<forall>f. cl_fleet c = Some f \<longrightarrow>
      quiet_hooks ok live issued (fl_onOffline f) \<and> iteration_of ks (fl_tracked f)"
    and bus: "\<forall>u \<in> set (cl_busUnsubs c). quiet_closure ok live u"
  shows "\<exists>c' s' s3. Stop ctx ks c s = (c', s', snd (tr_Stop tr ctx s3)) \<and> s' = fst (tr_Stop tr ctx s3) \<and>
    live s3 = Map.empty \<and> idle tr ok live c' s' \<and>
    (\<forall>f'. cl_fleet c' = Some f' \<longrightarrow> fl_tracked f' = Map.empty \<and> \<not> fl_started f')"
proof -
  let ?p = "case cl_fleet c of None \<Rightarrow> (None, s, None)
      | Some f \<Rightarrow> (case Fleet_Stop (tr_Unsubscribe tr) ctx ks f s of (f', s', r) \<Rightarrow> (Some f', s', r))"
  obtain fl s1 where one: "?p = (fl, s1, None)" and s1: "ok s1" "live s1 = own_subs c"
    and fl: "\<forall>f'. fl = Some f' \<longrightarrow>
      fl_tracked f' = Map.empty \<and> fl_connUnsub f' = None \<and> \<not> fl_started f'"
  proof (cases "cl_fleet c")
    case None
    then show ?thesis using sub that by (simp add: subscribed_def)
  next
    case (Some f)
    obtain f' s' r where run: "Fleet_Stop (tr_Unsubscribe tr) ctx ks f s = (f', s', r)"
      using prod_cases3 by blast
    have "session_ok ok live (own_subs c) f s" using sub Some by (simp add: subscribed_def)
    from av.stop_session [OF this _ _ run] have st: "ok s'" "live s' = own_subs c" "r = None"
      "fl_tracked f' = Map.empty" "fl_connUnsub f' = None" "\<not> fl_started f'"
      using fleet Some by auto
    show ?thesis by (rule that [of "Some f'" s']) (use Some run st in simp_all)
  qed
  obtain s2 where s2: "call_all (tr_Unsubscribe tr ctx) (rev (cl_unsubs c)) s1 None = (s2, None)"
    "ok s2" "live s2 = live s1 |` (- set (cl_unsubs c))"
    using av.call_all_live [OF s1(1), of ctx "rev (cl_unsubs c)" None]
    by (cases "call_all (tr_Unsubscribe tr ctx) (rev (cl_unsubs c)) s1 None") simp
  have "dom (own_subs c) \<subseteq> set (cl_unsubs c)"
    using sub by (simp add: own_subs_def subscribed_def dom_map_of_zip)
  then have live2: "live s2 = Map.empty"
    using s1(2) s2(3) by (auto simp: restrict_map_def fun_eq_iff)
  obtain s3 where s3: "call_all (\<lambda>u. u ctx) (rev (cl_busUnsubs c)) s2 None = (s3, None)" "ok s3"
    "live s3 = Map.empty"
    using quiet_closures [of "rev (cl_busUnsubs c)" ok live ctx s2 None] bus s2(2) live2
    by (cases "call_all (\<lambda>u. u ctx) (rev (cl_busUnsubs c)) s2 None") simp
  have s4: "ok (fst (tr_Stop tr ctx s3)) \<and> live (fst (tr_Stop tr ctx s3)) = Map.empty"
    using transport_stop [OF s3(2), of ctx] by (metis prod.collapse)
  let ?c' = "(stopFleetAutoTrack (c\<lparr>cl_unsubs := [], cl_busUnsubs := [], cl_started := False\<rparr>))\<lparr>cl_fleet := fl\<rparr>"
  have "Stop ctx ks c s = (?c', fst (tr_Stop tr ctx s3), snd (tr_Stop tr ctx s3))"
    unfolding Stop_def c(1) one Let_def
    by (simp add: c(2) s2(1) s3(1) split_beta)
  moreover have "session_ok ok live Map.empty f' (fst (tr_Stop tr ctx s3))" if "fl = Some f'" for f'
    using fl that s4 by (simp add: session_ok_def fleet_ok_def foreign_def owned_def)
  then have "idle tr ok live ?c' (fst (tr_Stop tr ctx s3))"
    using c s4 by (simp add: idle_def stopFleetAutoTrack_def split: option.split)
  moreover have "\<forall>f'. cl_fleet ?c' = Some f' \<longrightarrow> fl_tracked f' = Map.empty \<and> \<not> fl_started f'"
    using fl by simp
  ultimately show ?thesis using s3(3) by blast
qed

end

end
