(* ===== verification/Filter_Service.thy ===== *)
theory Filter_Service
  imports Client_Subs
begin

text \<open>
  Subscriptions that are known by their filter alone, as on the MQTT transport: a handle is the
  filter, the broker session is a set of filters, and releasing a handle removes the filter, whoever
  subscribed it. The locale refusing_service is that contract for a service that answers, and
  filter_service for one that acknowledges everything; in them the effect of the fleet session on
  the set of filters is computed, in the second one without failures. What refusals do is in
  Filter_Refusals.
\<close>

text \<open>A context that is never cancelled and has no deadline.\<close>

definition patient :: "goctx \<Rightarrow> bool" where
  "patient ctx \<longleftrightarrow> ctx_done_at ctx = None \<and> ctx_deadline ctx = None"

lemma patient_Background [simp]: "patient Background"
  by (simp add: patient_def Background_def)

subsection \<open>The filters of a fleet session\<close>

definition conn_filter :: "('s, 'u) fleet \<Rightarrow> string" where
  "conn_filter f = Wildcard (fl_topics f) ChannelConnection"

text \<open>
  The handles of a session are the filters it subscribed, and its entries are filed under their key.
\<close>

definition wired :: "('s, string) fleet \<Rightarrow> bool" where
  "wired f \<longleftrightarrow> filed f \<and> fl_connUnsub f = (if fl_started f then Some (conn_filter f) else None) \<and>
     (\<forall>k e. fl_tracked f k = Some e \<longrightarrow> ta_unsubs e = agv_filters f (ta_agv e))"

definition tracked_filters :: "('s, 'u) fleet \<Rightarrow> string set" where
  "tracked_filters f = (\<Union>a\<in>ran (tracked_agvs f). set (agv_filters f a))"

definition fleet_filters :: "('s, 'u) fleet \<Rightarrow> string set" where
  "fleet_filters f = (if fl_started f then {conn_filter f} else {}) \<union> tracked_filters f"

lemma wired_new [simp]: "wired (NewFleetSession topics opts)"
  by (simp add: wired_def filed_def NewFleetSession_def)

lemma agv_filters_tracked [simp]:
  "agv_filters (f\<lparr>fl_tracked := t\<rparr>) a = agv_filters f a"
  "agv_filters (f\<lparr>fl_started := b\<rparr>) a = agv_filters f a"
  "agv_filters (f\<lparr>fl_connUnsub := u\<rparr>) a = agv_filters f a"
  by (simp_all add: agv_filters_def)

lemma conn_filter_upd [simp]:
  "conn_filter (f\<lparr>fl_tracked := t\<rparr>) = conn_filter f" "conn_filter (f\<lparr>fl_started := b\<rparr>) = conn_filter f"
  "conn_filter (f\<lparr>fl_connUnsub := u\<rparr>) = conn_filter f"
  by (simp_all add: conn_filter_def)

lemma tracked_agvs_cong: "fl_tracked f' = fl_tracked f \<Longrightarrow> tracked_agvs f' = tracked_agvs f"
  by (simp add: tracked_agvs_def fun_eq_iff)

lemma agv_map_fresh: "agv_key a \<notin> agv_key ` set as \<Longrightarrow> agv_key a \<notin> dom (agv_map as)"
  by (simp add: dom_map_of_conv_image_fst image_image)

text \<open>Hooks that leave the service alone.\<close>

definition calm_hooks :: "('s \<Rightarrow> bool) \<Rightarrow> ('s \<Rightarrow> string set) \<Rightarrow> ('a \<Rightarrow> 's \<Rightarrow> 's) list \<Rightarrow> bool" where
  "calm_hooks up filters hs \<longleftrightarrow> (\<forall>h\<in>set hs. \<forall>a s. up (h a s) = up s \<and> filters (h a s) = filters s)"

lemma call_hooks_calm:
  assumes "calm_hooks up filters hs"
  shows "up (call_hooks hs a s) = up s \<and> filters (call_hooks hs a s) = filters s"
  using call_hooks_pres [of hs up a s] call_hooks_pres [of hs filters a s] assms
  by (auto simp: calm_hooks_def)

lemma restrict_to_dom: "m |` dom m = m"
  by (auto simp: restrict_map_def fun_eq_iff domIff)

text \<open>
  A service that answers: a subscription is acknowledged or refused, a refused one leaves the
  session as it was, and releasing a handle is acknowledged.
\<close>

locale refusing_service =
  fixes subscribe :: "('s, string) sub_fun"
    and unsubscribe :: "('s, string) uns_fun"
    and filters :: "'s \<Rightarrow> string set"
    and up :: "'s \<Rightarrow> bool"
  assumes subscribe_answered: "up s \<Longrightarrow> patient ctx \<Longrightarrow>
      \<exists>s' r. subscribe ctx f s = (s', r) \<and> up s' \<and>
        (case r of Inr u \<Rightarrow> u = f \<and> filters s' = insert f (filters s) | Inl e \<Rightarrow> filters s' = filters s)"
    and unsubscribe_acked: "up s \<Longrightarrow> patient ctx \<Longrightarrow>
      \<exists>s'. unsubscribe ctx f s = (s', None) \<and> up s' \<and> filters s' = filters s - {f}"
begin

lemma call_all_acked:
  assumes "up s" "patient ctx"
  shows "\<exists>s'. call_all (unsubscribe ctx) us s e = (s', e) \<and> up s' \<and> filters s' = filters s - set us"
  using assms(1)
proof (induction us arbitrary: s)
  case (Cons u us)
  obtain s1 where s1: "unsubscribe ctx u s = (s1, None)" "up s1" "filters s1 = filters s - {u}"
    using unsubscribe_acked [OF Cons.prems assms(2)] by blast
  from Cons.IH [OF s1(2)] s1 show ?case by auto
qed simp

lemma untrack_acked:
  assumes "up s" "patient ctx" "wired f" and "calm_hooks up filters (fl_onOffline f)"
  shows "\<exists>f' s'. Fleet_Untrack unsubscribe ctx a f s = (f', s', None) \<and> up s' \<and> wired f' \<and>
    same_config f f' \<and> fl_started f' = fl_started f \<and>
    tracked_agvs f' = (tracked_agvs f)(agv_key a := None) \<and>
    filters s' = filters s - (case tracked_agvs f (agv_key a) of None \<Rightarrow> {} | Some b \<Rightarrow> set (agv_filters f b))"
proof (cases "fl_tracked f (agv_key a)")
  case None
  then have "tracked_agvs f (agv_key a) = None" by (simp add: tracked_agvs_def)
  then have "(tracked_agvs f)(agv_key a := None) = tracked_agvs f" by (simp add: fun_upd_idem)
  then show ?thesis using assms None
    by (simp add: Fleet_Untrack_def fleet_untrack_def untrack_take_def tracked_agvs_def)
next
  case (Some e)
  let ?f = "f\<lparr>fl_tracked := (fl_tracked f)(agv_key a := None)\<rparr>"
  have unsubs: "ta_unsubs e = agv_filters f (ta_agv e)" using assms(3) Some by (simp add: wired_def)
  obtain s1 where s1: "call_all (unsubscribe ctx) (rev (ta_unsubs e)) s None = (s1, None)" "up s1"
    "filters s1 = filters s - set (agv_filters f (ta_agv e))"
    using call_all_acked [OF assms(1,2), of "rev (ta_unsubs e)" None] by (auto simp: unsubs)
  have "Fleet_Untrack unsubscribe ctx a f s = (?f, call_hooks (fl_onOffline f) a s1, None)"
    using Some s1(1) by (simp add: Fleet_Untrack_def fleet_untrack_def untrack_take_def Let_def)
  moreover have "wired ?f" using assms(3) by (auto simp: wired_def filed_def)
  moreover have "tracked_agvs f (agv_key a) = Some (ta_agv e)" using Some by (simp add: tracked_agvs_def)
  ultimately show ?thesis using s1 call_hooks_calm [OF assms(4), of a s1] by auto
qed

lemma untrack_each_acked:
  assumes "up s" "patient ctx" "wired f" and "calm_hooks up filters (fl_onOffline f)"
  shows "\<exists>f' s'. untrack_each unsubscribe ctx as f s None = (f', s', None) \<and> up s' \<and> wired f' \<and>
    same_config f f' \<and> fl_started f' = fl_started f \<and>
    tracked_agvs f' = tracked_agvs f |` (- agv_key ` set as) \<and>
    filters s' = filters s - (\<Union>b\<in>ran (tracked_agvs f |` (agv_key ` set as)). set (agv_filters f b))"
  using assms(1,3,4)
proof (induction "as" arbitrary: f s)
  case (Cons a as)
  obtain f1 s1 where one: "Fleet_Untrack unsubscribe ctx a f s = (f1, s1, None)" and st: "up s1" "wired f1"
    "same_config f f1" "fl_started f1 = fl_started f" "tracked_agvs f1 = (tracked_agvs f)(agv_key a := None)"
    "filters s1 = filters s - (case tracked_agvs f (agv_key a) of None \<Rightarrow> {} | Some b \<Rightarrow> set (agv_filters f b))"
    using untrack_acked [OF Cons.prems(1) assms(2) Cons.prems(2,3)] by blast
  have hooks: "calm_hooks up filters (fl_onOffline f1)" using Cons.prems(3) st(3) by (simp add: same_config_def)
  obtain f' s' where rest: "untrack_each unsubscribe ctx as f1 s1 None = (f', s', None)" and ih: "up s'" "wired f'"
    "same_config f1 f'" "fl_started f' = fl_started f1" "tracked_agvs f' = tracked_agvs f1 |` (- agv_key ` set as)"
    "filters s' = filters s1 - (\<Union>b\<in>ran (tracked_agvs f1 |` (agv_key ` set as)). set (agv_filters f1 b))"
    using Cons.IH [OF st(1,2) hooks] by blast
  have "tracked_agvs f' = tracked_agvs f |` (- agv_key ` set (a # as))"
    using ih(5) st(5) by (auto simp: restrict_map_def fun_eq_iff)
  moreover have "ran (tracked_agvs f |` (agv_key ` set (a # as))) =
      ran (tracked_agvs f1 |` (agv_key ` set as)) \<union> set_option (tracked_agvs f (agv_key a))"
    using st(5) by (auto simp: ran_def restrict_map_def split: if_splits)
  ultimately show ?case
    using one rest ih st same_config_trans [OF st(3) ih(3)] agv_filters_same [OF st(3)]
    by (auto split: option.split)
qed (simp add: restrict_map_def)

lemma stop_acked:
  assumes "up s" "patient ctx" "wired f" and "calm_hooks up filters (fl_onOffline f)"
    and "iteration_of ks (fl_tracked f)"
  shows "\<exists>f' s'. Fleet_Stop unsubscribe ctx ks f s = (f', s', None) \<and> up s' \<and> wired f' \<and> \<not> fl_started f' \<and>
    same_config f f' \<and> tracked_agvs f' = Map.empty \<and> filters s' = filters s - fleet_filters f"
proof -
  have "filed f" using assms(3) by (simp add: wired_def)
  then have keys: "agv_key ` set (Tracked ks f) = dom (tracked_agvs f)"
    using filed_keys [OF _ assms(5)] assms(5)
    by (auto simp: iteration_of_def tracked_agvs_def dom_def simp flip: set_map)
  obtain f1 s1 where one: "untrack_each unsubscribe ctx (Tracked ks f) f s None = (f1, s1, None)"
    and st: "up s1" "wired f1" "same_config f f1" "fl_started f1 = fl_started f"
    "tracked_agvs f1 = tracked_agvs f |` (- dom (tracked_agvs f))"
    "filters s1 = filters s - tracked_filters f"
    using untrack_each_acked [OF assms(1-4), of "Tracked ks f"]
    unfolding keys tracked_filters_def restrict_to_dom by blast
  have empty: "tracked_agvs f1 = Map.empty" using st(5) by (auto simp: restrict_map_def fun_eq_iff)
  have conn: "conn_filter f1 = conn_filter f" using st(3) by (simp add: conn_filter_def same_config_def)
  show ?thesis
  proof (cases "fl_started f")
    case True
    then have u: "fl_connUnsub f1 = Some (conn_filter f)" using st(2,4) conn by (simp add: wired_def)
    obtain s2 where two: "unsubscribe ctx (conn_filter f) s1 = (s2, None)" "up s2"
      "filters s2 = filters s1 - {conn_filter f}"
      using unsubscribe_acked [OF st(1) assms(2)] by blast
    let ?f = "f1\<lparr>fl_connUnsub := None, fl_started := False\<rparr>"
    have "Fleet_Stop unsubscribe ctx ks f s = (?f, s2, None)"
      using one u two(1) by (simp add: Fleet_Stop_def)
    moreover have "wired ?f" "tracked_agvs ?f = Map.empty" "same_config f ?f"
      using st(2,3) empty tracked_agvs_cong [of ?f f1] by (simp_all add: wired_def filed_def same_config_def)
    moreover have "filters s2 = filters s - fleet_filters f"
      using two(3) st(6) True by (auto simp: fleet_filters_def)
    ultimately show ?thesis using two(2) by simp
  next
    case False
    then have "fl_connUnsub f1 = None" using st(2,4) by (simp add: wired_def)
    then have "Fleet_Stop unsubscribe ctx ks f s = (f1\<lparr>fl_started := False\<rparr>, s1, None)"
      using one by (simp add: Fleet_Stop_def)
    moreover have "f1\<lparr>fl_started := False\<rparr> = f1" using False st(4) by simp
    moreover have "filters s1 = filters s - fleet_filters f" using st(6) False by (simp add: fleet_filters_def)
    ultimately show ?thesis using st False empty by simp
  qed
qed

lemma unsub_entries_acked:
  assumes "up s" "patient ctx"
  shows "up (unsub_entries unsubscribe ctx es s) \<and>
    filters (unsub_entries unsubscribe ctx es s) = filters s - (\<Union>e\<in>set es. set (ta_unsubs e))"
  using assms(1)
proof (induction es arbitrary: s)
  case (Cons e es)
  obtain s1 where s1: "call_all (unsubscribe ctx) (rev (ta_unsubs e)) s None = (s1, None)" "up s1"
    "filters s1 = filters s - set (ta_unsubs e)"
    using call_all_acked [OF Cons.prems assms(2), of "rev (ta_unsubs e)" None] by auto
  then show ?case using Cons.IH [OF s1(2)] by auto
qed simp

lemma restore_clear_acked:
  assumes "up s" "patient ctx" "wired f" "iteration_of ks (fl_tracked f)"
  shows "\<exists>f' s'. restore_clear unsubscribe ctx ks f s = (f', s') \<and> up s' \<and> wired f' \<and> \<not> fl_started f' \<and>
    same_config f f' \<and> tracked_agvs f' = Map.empty \<and> filters s' = filters s - fleet_filters f"
proof -
  let ?es = "map_values ks (fl_tracked f)"
  let ?f = "f\<lparr>fl_tracked := Map.empty, fl_connUnsub := None, fl_started := False\<rparr>"
  have es: "set ?es = ran (fl_tracked f)"
    using assms(4) by (force simp: map_values_def iteration_of_def ran_def dom_def)
  have "(\<Union>e\<in>ran (fl_tracked f). set (ta_unsubs e)) = tracked_filters f"
    using assms(3) by (fastforce simp: wired_def tracked_filters_def tracked_agvs_def ran_def)
  then have s1: "up (unsub_entries unsubscribe ctx ?es s)"
    "filters (unsub_entries unsubscribe ctx ?es s) = filters s - tracked_filters f"
    using unsub_entries_acked [OF assms(1,2), of ?es] es by simp_all
  have f: "wired ?f" "\<not> fl_started ?f" "same_config f ?f" "tracked_agvs ?f = Map.empty"
    by (simp_all add: wired_def filed_def same_config_def tracked_agvs_def fun_eq_iff)
  show ?thesis
  proof (cases "fl_started f")
    case True
    then have conn: "fl_connUnsub f = Some (conn_filter f)" using assms(3) by (simp add: wired_def)
    obtain s2 where s2: "unsubscribe ctx (conn_filter f) (unsub_entries unsubscribe ctx ?es s) = (s2, None)"
      "up s2" "filters s2 = filters s - tracked_filters f - {conn_filter f}"
      using unsubscribe_acked [OF s1(1) assms(2), of "conn_filter f"] s1(2) by auto
    have "restore_clear unsubscribe ctx ks f s = (?f, s2)"
      using conn s2(1) by (simp add: restore_clear_def Let_def)
    moreover have "filters s2 = filters s - fleet_filters f" using s2(3) True by (auto simp: fleet_filters_def)
    ultimately show ?thesis using f s2(2) by (intro exI conjI)
  next
    case False
    then have "fl_connUnsub f = None" using assms(3) by (simp add: wired_def)
    then show ?thesis using f s1 False by (simp add: restore_clear_def Let_def fleet_filters_def)
  qed
qed

end

text \<open>A service that acknowledges every subscription.\<close>

locale filter_service = refusing_service +
  assumes subscribe_acked: "up s \<Longrightarrow> patient ctx \<Longrightarrow>
      \<exists>s'. subscribe ctx f s = (s', Inr f) \<and> up s' \<and> filters s' = insert f (filters s)"
begin

lemma subscribe_all_acked:
  assumes "up s" "patient ctx"
  shows "\<exists>s'. subscribe_all subscribe unsubscribe ctx fs acc s = (s', Inr (acc @ fs)) \<and> up s' \<and>
    filters s' = filters s \<union> set fs"
  using assms(1)
proof (induction fs arbitrary: acc s)
  case (Cons f fs)
  obtain s1 where s1: "subscribe ctx f s = (s1, Inr f)" "up s1" "filters s1 = insert f (filters s)"
    using subscribe_acked [OF Cons.prems assms(2)] by blast
  from Cons.IH [OF s1(2), of "acc @ [f]"] s1 show ?case by auto
qed simp

lemma start_acked:
  assumes "up s" "patient ctx" "wired f"
  shows "\<exists>f' s'. Fleet_Start subscribe ctx f s = (f', s', None) \<and> up s' \<and> wired f' \<and> fl_started f' \<and>
    fl_tracked f' = fl_tracked f \<and> same_config f f' \<and>
    filters s' = filters s \<union> (if fl_started f then {} else {conn_filter f})"
proof (cases "fl_started f")
  case False
  obtain s1 where "subscribe ctx (conn_filter f) s = (s1, Inr (conn_filter f))" "up s1"
    "filters s1 = insert (conn_filter f) (filters s)"
    using subscribe_acked [OF assms(1,2)] by blast
  with False assms(3) show ?thesis
    by (auto simp: Fleet_Start_def conn_filter_def [symmetric] wired_def filed_def)
qed (use assms in \<open>simp add: Fleet_Start_def\<close>)

lemma track_acked:
  assumes "up s" "patient ctx" "wired f" and "notify \<longrightarrow> calm_hooks up filters (fl_onOnline f)"
  shows "\<exists>f' s'. fleet_track subscribe unsubscribe ctx a notify f s = (f', s', None) \<and> up s' \<and> wired f' \<and>
    same_config f f' \<and> fl_started f' = fl_started f \<and>
    tracked_agvs f' = (if track_exists f a then tracked_agvs f else (tracked_agvs f)(agv_key a \<mapsto> a)) \<and>
    filters s' = filters s \<union> (if track_exists f a then {} else set (agv_filters f a))"
proof (cases "track_exists f a")
  case False
  let ?f = "f\<lparr>fl_tracked := (fl_tracked f)(agv_key a \<mapsto> \<lparr>ta_agv = a, ta_unsubs = agv_filters f a\<rparr>)\<rparr>"
  let ?hooks = "if notify then fl_onOnline f else []"
  obtain s1 where s1: "subscribe_all subscribe unsubscribe ctx (agv_filters f a) [] s = (s1, Inr (agv_filters f a))"
    "up s1" "filters s1 = filters s \<union> set (agv_filters f a)"
    using subscribe_all_acked [OF assms(1,2), of "agv_filters f a" "[]"] by auto
  have "calm_hooks up filters ?hooks" using assms(4) by (simp add: calm_hooks_def)
  note h = call_hooks_calm [OF this, of a s1]
  have "fleet_track subscribe unsubscribe ctx a notify f s = (?f, call_hooks ?hooks a s1, None)"
    using False s1(1) by (simp add: fleet_track_def track_commit_def Let_def)
  moreover have "wired ?f" using assms(3) by (auto simp: wired_def filed_def)
  ultimately show ?thesis using False s1 h by auto
qed (use assms in \<open>simp add: fleet_track_def\<close>)

text \<open>Restore: the filters released are subscribed again, so that none is lost on the way.\<close>

lemma track_each_acked:
  assumes "up s" "patient ctx" "wired f" "distinct (map agv_key as)"
    and "\<forall>a\<in>set as. tracked_agvs f (agv_key a) = None"
  shows "\<exists>f' s'. track_each subscribe unsubscribe ctx as f s = (f', s', None) \<and> up s' \<and> wired f' \<and>
    same_config f f' \<and> fl_started f' = fl_started f \<and> tracked_agvs f' = tracked_agvs f ++ agv_map as \<and>
    filters s' = filters s \<union> (\<Union>a\<in>set as. set (agv_filters f a))"
  using assms(1,3-5)
proof (induction "as" arbitrary: f s)
  case (Cons a as)
  have new: "\<not> track_exists f a" using Cons.prems(4) by (simp add: track_exists_iff)
  obtain f1 s1 where one: "fleet_track subscribe unsubscribe ctx a False f s = (f1, s1, None)"
    and st: "up s1" "wired f1" "same_config f f1" "fl_started f1 = fl_started f"
    "tracked_agvs f1 = (tracked_agvs f)(agv_key a \<mapsto> a)" "filters s1 = filters s \<union> set (agv_filters f a)"
    using track_acked [OF Cons.prems(1) assms(2) Cons.prems(2), of False a] new by auto
  have fresh: "\<forall>b\<in>set as. tracked_agvs f1 (agv_key b) = None"
    using Cons.prems(3,4) st(5) by (auto simp: image_iff)
  obtain f' s' where rest: "track_each subscribe unsubscribe ctx as f1 s1 = (f', s', None)" and ih: "up s'" "wired f'"
    "same_config f1 f'" "fl_started f' = fl_started f1" "tracked_agvs f' = tracked_agvs f1 ++ agv_map as"
    "filters s' = filters s1 \<union> (\<Union>a\<in>set as. set (agv_filters f1 a))"
    using Cons.IH [OF st(1,2) _ fresh] Cons.prems(3) by auto
  have "agv_key a \<notin> dom (agv_map as)" using Cons.prems(3) by (intro agv_map_fresh) simp
  then have "tracked_agvs f' = tracked_agvs f ++ agv_map (a # as)"
    using ih(5) st(5) by (simp add: map_add_upd_left)
  then have tr: "tracked_agvs f' = tracked_agvs f ++ agv_map (a # as)" .
  have "track_each subscribe unsubscribe ctx (a # as) f s = (f', s', None)" using one rest by simp
  moreover have "filters s' = filters s \<union> (\<Union>a\<in>set (a # as). set (agv_filters f a))"
    using ih(6) st(6) agv_filters_same [OF st(3)] by auto
  ultimately show ?case
    using ih(1,2) ih(4) st(4) tr same_config_trans [OF st(3) ih(3)] by (metis (no_types, lifting))
qed simp

lemma restore_acked:
  assumes "up s" "patient ctx" "wired f" "fl_started f" "iteration_of ks (fl_tracked f)"
  shows "\<exists>f' s'. Fleet_Restore subscribe unsubscribe ctx ks f s = (f', s', None) \<and> up s' \<and> wired f' \<and>
    same_config f f' \<and> fl_started f' \<and> tracked_agvs f' = tracked_agvs f \<and>
    filters s' = filters s \<union> fleet_filters f"
proof -
  obtain f1 s1 where one: "restore_clear unsubscribe ctx ks f s = (f1, s1)" and st1: "up s1" "wired f1"
    "\<not> fl_started f1" "same_config f f1" "tracked_agvs f1 = Map.empty" "filters s1 = filters s - fleet_filters f"
    using restore_clear_acked [OF assms(1-3,5)] by blast
  obtain f2 s2 where two: "Fleet_Start subscribe ctx f1 s1 = (f2, s2, None)" and st2: "up s2" "wired f2"
    "fl_started f2" "fl_tracked f2 = fl_tracked f1" "same_config f1 f2"
    "filters s2 = filters s1 \<union> {conn_filter f1}"
    using start_acked [OF st1(1) assms(2) st1(2)] st1(3) by auto
  have f: "filed f" using assms(3) by (simp add: wired_def)
  have "tracked_agvs f2 = Map.empty" using st1(5) tracked_agvs_cong [OF st2(4)] by simp
  then obtain f' s' where three: "track_each subscribe unsubscribe ctx (Tracked ks f) f2 s2 = (f', s', None)"
    and st3: "up s'" "wired f'" "same_config f2 f'" "fl_started f'" "tracked_agvs f' = agv_map (Tracked ks f)"
    "filters s' = filters s2 \<union> (\<Union>a\<in>set (Tracked ks f). set (agv_filters f2 a))"
    using track_each_acked [OF st2(1) assms(2) st2(2), of "Tracked ks f"] st2(3) filed_keys [OF f assms(5)] assms(5)
    by (auto simp: iteration_of_def)
  have same: "same_config f f2" using st1(4) st2(5) same_config_trans by blast
  have tracked: "tracked_agvs f' = tracked_agvs f" using st3(5) tracked_agvs_of_list [OF f assms(5)] by simp
  have "set (Tracked ks f) = ran (tracked_agvs f)"
    using assms(5) by (force simp: Tracked_def map_values_def iteration_of_def tracked_agvs_def ran_def dom_def)
  moreover have "conn_filter f1 = conn_filter f" using st1(4) by (simp add: conn_filter_def same_config_def)
  ultimately have "filters s' = filters s \<union> fleet_filters f"
    using st3(6) st2(6) st1(6) assms(4) agv_filters_same [OF same] by (auto simp: fleet_filters_def tracked_filters_def)
  moreover have "Fleet_Restore subscribe unsubscribe ctx ks f s = (f', s', None)"
    using assms(4) one two three by (simp add: Fleet_Restore_def Let_def)
  ultimately show ?thesis using st3 tracked same_config_trans [OF same st3(3)] by blast
qed

end

end
