(* ===== verification/Client_Filters.thy ===== *)
theory Client_Filters
  imports Filter_Service
begin

text \<open>
  A client over a transport whose handles are filters: what Start, the reconnect path and Stop do
  to the set of filters of the broker session. The locale filter_transport is the contract of the
  transport, client_wired the invariant of the client (its handles are the filters it wants), and
  client_filters the filters it needs.
\<close>

subsection \<open>The filters of a client\<close>

definition client_filters :: "('s, 'u) client \<Rightarrow> string set" where
  "client_filters c = fst ` set (wanted_topics c) \<union>
     (case cl_fleet c of None \<Rightarrow> {} | Some f \<Rightarrow> fleet_filters f)"

text \<open>Those that subscribeLocked subscribes.\<close>

definition missing_filters :: "('s, 'u) client \<Rightarrow> string set" where
  "missing_filters c = fst ` set (wanted_topics c) \<union>
     (case cl_fleet c of None \<Rightarrow> {} | Some f \<Rightarrow> if fl_started f then {} else {conn_filter f})"

definition client_wired :: "('s, string) client \<Rightarrow> bool" where
  "client_wired c \<longleftrightarrow> cl_unsubs c = map fst (wanted_topics c) \<and>
     (\<forall>f. cl_fleet c = Some f \<longrightarrow> wired f \<and> fl_started f)"

text \<open>
  What a client needs, from its registrations alone and with the topics spelled out: the filters of
  the raw topic handlers, and for the message kinds with a registered handler the topic of the
  configured vehicle (or of any, where the configuration leaves it open). A fleet listens to the
  connection messages of all vehicles instead; states and visualizations then come with the
  vehicles it tracks.
\<close>

definition kind_filter :: "resolver \<Rightarrow> string \<Rightarrow> string \<Rightarrow> string \<Rightarrow> string" where
  "kind_filter r mfr sn kind = res_Interface r @ ''/'' @ res_Version r @ ''/'' @
     (if mfr = [] then ''+'' else mfr) @ ''/'' @ (if sn = [] then ''+'' else sn) @ ''/'' @ kind"

definition registered_kinds :: "('s, 'u) client \<Rightarrow> string set" where
  "registered_kinds c = {kind. (kind, True) \<in>
     {(''state'', cl_wantState c), (''connection'', cl_wantConn c),
      (''visualization'', cl_wantViz c), (''factsheet'', cl_wantFS c)}}"

definition needed_filters :: "('s, 'u) client \<Rightarrow> string set" where
  "needed_filters c = fst ` set (cl_topicHandlers c) \<union>
     (let vehicle = kind_filter (cl_topics c) (cfg_Manufacturer (cl_cfg c)) (cfg_SerialNumber (cl_cfg c)) in
      case cl_fleet c of
        None \<Rightarrow> vehicle ` registered_kinds c
      | Some f \<Rightarrow> {kind_filter (fl_topics f) [] [] ''connection''} \<union>
          vehicle ` (registered_kinds c \<inter> {''factsheet''}))"

lemma subscriptionFilter_kind:
  "subscriptionFilter c kind =
     kind_filter (cl_topics c) (cfg_Manufacturer (cl_cfg c)) (cfg_SerialNumber (cl_cfg c)) kind"
  by (simp add: subscriptionFilter_def kind_filter_def Build_def Let_def)

lemma conn_filter_kind: "conn_filter f = kind_filter (fl_topics f) [] [] ''connection''"
  by (simp add: conn_filter_def Wildcard_def kind_filter_def Build_def channel_defs)

lemma wanted_channels_kinds:
  "set (wanted_channels c) =
     (if cl_fleet c = None then registered_kinds c else registered_kinds c \<inter> {''factsheet''})"
  by (auto simp: wanted_channels_def registered_kinds_def channel_defs)

lemma wanted_filters:
  "fst ` set (wanted_topics c) = subscriptionFilter c ` set (wanted_channels c) \<union> fst ` set (cl_topicHandlers c)"
  by (simp add: wanted_topics_def image_Un image_image case_prod_unfold)

text \<open>The filters that subscribeLocked subscribes for a client whose fleet is stopped.\<close>

lemma missing_needed:
  assumes "\<forall>f. cl_fleet c = Some f \<longrightarrow> \<not> fl_started f"
  shows "missing_filters c = needed_filters c"
proof -
  have "subscriptionFilter c = kind_filter (cl_topics c) (cfg_Manufacturer (cl_cfg c)) (cfg_SerialNumber (cl_cfg c))"
    by (simp add: subscriptionFilter_kind fun_eq_iff)
  then show ?thesis using assms
    by (auto simp: missing_filters_def needed_filters_def wanted_filters wanted_channels_kinds
        conn_filter_kind Let_def split: option.splits)
qed

text \<open>The live subscriptions of a transport with numbered handles, when they are the wanted ones.\<close>

lemma owned_filters:
  assumes "fleet_ok lv f"
  shows "{x. \<exists>u\<in>owned f. lv u = Some x} = fleet_filters f"
proof -
  have tracked: "{x. \<exists>u\<in>set (ta_unsubs e). lv u = Some x} = set (agv_filters f (ta_agv e))"
    if e: "e \<in> ran (fl_tracked f)" for e
  proof -
    obtain k where k: "fl_tracked f k = Some e" using e by (auto simp: ran_def)
    have "map lv (ta_unsubs e) = map Some (agv_filters f (ta_agv e))"
      using fleet_ok_entry [OF assms k] by (simp add: entry_ok_def)
    then have "lv ` set (ta_unsubs e) = Some ` set (agv_filters f (ta_agv e))"
      by (metis list.set_map)
    then have "(\<exists>u\<in>set (ta_unsubs e). lv u = Some x) \<longleftrightarrow> x \<in> set (agv_filters f (ta_agv e))" for x
      by (metis (no_types, lifting) imageE image_eqI option.inject)
    then show ?thesis by simp
  qed
  have "{x. \<exists>e\<in>ran (fl_tracked f). \<exists>u\<in>set (ta_unsubs e). lv u = Some x} =
      (\<Union>e\<in>ran (fl_tracked f). {x. \<exists>u\<in>set (ta_unsubs e). lv u = Some x})" by blast
  also have "\<dots> = (\<Union>e\<in>ran (fl_tracked f). set (agv_filters f (ta_agv e)))"
    by (rule SUP_cong [OF refl tracked])
  also have "\<dots> = tracked_filters f"
    by (auto simp: tracked_filters_def tracked_agvs_def ran_def)
  finally have "{x. \<exists>e\<in>ran (fl_tracked f). \<exists>u\<in>set (ta_unsubs e). lv u = Some x} = tracked_filters f" .
  moreover have "{x. \<exists>u\<in>set_option (fl_connUnsub f). lv u = Some x} =
      (if fl_started f then {conn_filter f} else {})"
    using assms by (auto simp: fleet_ok_def conn_filter_def split: option.splits)
  moreover have "{x. \<exists>u\<in>owned f. lv u = Some x} =
      {x. \<exists>u\<in>set_option (fl_connUnsub f). lv u = Some x} \<union>
      {x. \<exists>e\<in>ran (fl_tracked f). \<exists>u\<in>set (ta_unsubs e). lv u = Some x}"
    unfolding owned_def by blast
  ultimately show ?thesis by (simp only: fleet_filters_def)
qed

lemma subscribed_filters:
  assumes "subscribed ok live c s"
  shows "ran (live s) = client_filters c"
proof -
  have own: "ran (own_subs c) = fst ` set (wanted_topics c)"
    using assms by (simp add: subscribed_def own_subs_def ran_map_of_zip)
  show ?thesis
  proof (cases "cl_fleet c")
    case None
    then show ?thesis using assms own by (simp add: subscribed_def client_filters_def)
  next
    case (Some f)
    then have f: "fleet_ok (live s) f" "own_subs c = live s |` (- owned f)"
      using assms by (auto simp: subscribed_def session_ok_def foreign_def)
    have "ran (live s) = ran (live s |` (- owned f)) \<union> {x. \<exists>u\<in>owned f. live s u = Some x}"
      by (auto simp: ran_def restrict_map_def)
    then show ?thesis using own f owned_filters [OF f(1)] Some by (simp add: client_filters_def)
  qed
qed

text \<open>A client that has just been started from idle has the filters it needs.\<close>

lemma idle_fleet:
  assumes "idle tr ok live c s" and "cl_fleet c = Some f"
  shows "\<not> fl_started f" and "tracked_filters f = {}"
proof -
  have "live s = Map.empty" "fleet_ok (live s) f" using assms by (auto simp: idle_def session_ok_def)
  then have "fleet_ok Map.empty f" by metis
  from owned_filters [OF this] have "fleet_filters f = {}" by simp
  then show "\<not> fl_started f" "tracked_filters f = {}"
    by (simp_all add: fleet_filters_def split: if_splits)
qed

lemma started_filters:
  assumes "idle tr ok live c s" and same: "same_but_subs c c2" and "subscribed ok live c2 s2"
  shows "client_filters c2 = needed_filters c"
proof -
  have c2: "c2 = c\<lparr>cl_fleet := cl_fleet c2, cl_unsubs := cl_unsubs c2\<rparr>"
    and fl: "rel_option (\<lambda>f f'. same_config f f' \<and> tracked_agvs f' = tracked_agvs f) (cl_fleet c) (cl_fleet c2)"
    using same by (simp_all add: same_but_subs_def)
  have fleets: "cl_fleet c2 = None \<longleftrightarrow> cl_fleet c = None"
    using fl by (cases "cl_fleet c"; cases "cl_fleet c2") simp_all
  have wanted: "wanted_topics c2 = wanted_topics c"
    by (subst c2, cases "cl_fleet c2") (use fleets in \<open>auto simp: wanted_topics_def wanted_channels_def subscriptionFilter_def\<close>)
  have "client_filters c2 = missing_filters c"
  proof (cases "cl_fleet c")
    case None
    then show ?thesis using fl wanted by (simp add: client_filters_def missing_filters_def)
  next
    case (Some f)
    then obtain f2 where f2: "cl_fleet c2 = Some f2" "same_config f f2" "tracked_agvs f2 = tracked_agvs f"
      using fl by (cases "cl_fleet c2") auto
    have "tracked_filters f2 = tracked_filters f"
      using f2(3) agv_filters_same [OF f2(2)] by (simp add: tracked_filters_def)
    moreover have "fl_started f2" using assms(3) f2(1) by (simp add: subscribed_def)
    moreover have "conn_filter f2 = conn_filter f" using f2(2) by (simp add: conn_filter_def same_config_def)
    ultimately show ?thesis
      using Some f2(1) wanted idle_fleet [OF assms(1) Some]
      by (simp add: client_filters_def missing_filters_def fleet_filters_def)
  qed
  then show ?thesis using missing_needed idle_fleet(1) [OF assms(1)] by metis
qed

lemma client_filters_cong:
  assumes "cl_unsubs c' = cl_unsubs c" "cl_fleet c' = cl_fleet c" "wanted_topics c' = wanted_topics c"
  shows "client_filters c' = client_filters c"
  using assms by (simp add: client_filters_def)

lemma client_cong:
  assumes "cl_unsubs c' = cl_unsubs c" "cl_fleet c' = cl_fleet c" "wanted_topics c' = wanted_topics c"
  shows "client_filters c' = client_filters c" "client_wired c' = client_wired c"
  using assms by (simp_all add: client_filters_def client_wired_def)

text \<open>A transport each of whose handlers gives a filter_service.\<close>

locale filter_transport =
  fixes tr :: "('s, string) transport"
    and filters :: "'s \<Rightarrow> string set"
    and up :: "'s \<Rightarrow> bool"
  assumes service: "filter_service (\<lambda>ctx f s. tr_Subscribe tr ctx f h s) (tr_Unsubscribe tr) filters up"

sublocale filter_transport \<subseteq> fsv: filter_service "\<lambda>ctx f s. tr_Subscribe tr ctx f h s"
    "tr_Unsubscribe tr" filters up for h
  by (rule service)

context filter_transport
begin

lemma fleetSubscribe_tr:
  "cl_transport c = tr \<Longrightarrow> fleetSubscribe c = (\<lambda>ctx f s. tr_Subscribe tr ctx f OnRawMessage s)"
  by (simp add: fleetSubscribe_def fun_eq_iff)

lemma subscribe_topics_acked:
  assumes "up s" "patient ctx"
  shows "\<exists>s'. subscribe_topics tr ctx subs us s = (us @ map fst subs, s', None) \<and> up s' \<and>
    filters s' = filters s \<union> fst ` set subs"
  using assms(1)
proof (induction subs arbitrary: us s)
  case (Cons sub subs)
  obtain f h where sub: "sub = (f, h)" by fastforce
  obtain s1 where s1: "tr_Subscribe tr ctx f h s = (s1, Inr f)" "up s1" "filters s1 = insert f (filters s)"
    using fsv.subscribe_acked [OF Cons.prems assms(2)] by blast
  from Cons.IH [OF s1(2), of "us @ [f]"] s1 sub show ?case by auto
qed simp

lemma subscribeLocked_acked:
  assumes "up s" "patient ctx" "cl_transport c = tr" "cl_unsubs c = []"
    and "\<forall>f. cl_fleet c = Some f \<longrightarrow> wired f"
  shows "\<exists>c' s'. subscribeLocked ctx c s = (c', s', None) \<and> up s' \<and> client_wired c' \<and> same_but_subs c c' \<and>
    client_filters c' = client_filters c \<union> missing_filters c \<and> filters s' = filters s \<union> missing_filters c"
proof (cases "cl_fleet c")
  case None
  obtain s1 where s1: "subscribe_topics tr ctx (wanted_topics c) [] s = (map fst (wanted_topics c), s1, None)"
    "up s1" "filters s1 = filters s \<union> fst ` set (wanted_topics c)"
    using subscribe_topics_acked [OF assms(1,2), of "wanted_topics c" "[]"] by auto
  let ?c = "c\<lparr>cl_unsubs := map fst (wanted_topics c)\<rparr>"
  have "subscribeLocked ctx c s = (?c, s1, None)"
    using None s1(1) assms(3,4) by (simp add: subscribeLocked_def)
  then show ?thesis using None s1(2,3)
    by (intro exI [of _ ?c] exI [of _ s1]) (simp add: client_wired_def same_but_subs_def client_filters_def missing_filters_def)
next
  case (Some f)
  obtain f1 s0 where f1: "Fleet_Start (fleetSubscribe c) ctx f s = (f1, s0, None)" and st: "up s0" "wired f1"
    "fl_started f1" "fl_tracked f1 = fl_tracked f" "same_config f f1"
    "filters s0 = filters s \<union> (if fl_started f then {} else {conn_filter f})"
    using fsv.start_acked [OF assms(1,2), of f OnRawMessage] assms(5) Some fleetSubscribe_tr [OF assms(3)] by auto
  let ?w = "wanted_topics c"
  obtain s1 where s1: "subscribe_topics tr ctx ?w [] s0 = (map fst ?w, s1, None)"
    "up s1" "filters s1 = filters s0 \<union> fst ` set ?w"
    using subscribe_topics_acked [OF st(1) assms(2), of ?w "[]"] by auto
  let ?c = "c\<lparr>cl_fleet := Some f1, cl_unsubs := map fst ?w\<rparr>"
  have "subscribeLocked ctx c s = (?c, s1, None)"
    using Some f1 s1(1) assms(3,4) by (simp add: subscribeLocked_def)
  moreover have "conn_filter f1 = conn_filter f" using st(5) by (simp add: conn_filter_def same_config_def)
  moreover have tracked: "tracked_agvs f1 = tracked_agvs f" by (rule tracked_agvs_cong [OF st(4)])
  moreover have "tracked_filters f1 = tracked_filters f"
    using tracked agv_filters_same [OF st(5)] by (simp add: tracked_filters_def)
  ultimately show ?thesis using Some s1(2,3) st
    by (intro exI [of _ ?c] exI [of _ s1])
      (auto simp: client_wired_def same_but_subs_def client_filters_def missing_filters_def fleet_filters_def)
qed

lemma start_client_acked:
  assumes "cl_transport c = tr" "\<not> cl_started c" "cl_unsubs c = []" "patient ctx"
    and "\<forall>f. cl_fleet c = Some f \<longrightarrow> wired f \<and> \<not> fl_started f \<and> fl_tracked f = Map.empty"
    and "tr_Start tr ctx s = (s1, None)" "up s1"
    and "\<forall>f. cl_onTransportUp c = Some f \<longrightarrow> quiet_fun up filters f"
  shows "\<exists>c' s'. Start ctx c s = (c', s', None) \<and> up s' \<and> cl_started c' \<and> cl_transport c' = tr \<and>
    client_wired c' \<and> client_filters c' = missing_filters c \<and> filters s' = filters s1 \<union> missing_filters c"
proof -
  obtain c2 s2 where sub: "subscribeLocked ctx c s1 = (c2, s2, None)" and st: "up s2" "client_wired c2"
    "same_but_subs c c2" "client_filters c2 = client_filters c \<union> missing_filters c"
    "filters s2 = filters s1 \<union> missing_filters c"
    using subscribeLocked_acked [OF assms(7,4,1,3)] assms(5) by blast
  have "client_filters c \<subseteq> missing_filters c"
    using assms(5) by (auto simp: client_filters_def missing_filters_def fleet_filters_def tracked_filters_def
        tracked_agvs_def ran_def split: option.splits)
  then have fs: "client_filters c2 = missing_filters c" using st(4) by auto
  have c2: "c2 = c\<lparr>cl_fleet := cl_fleet c2, cl_unsubs := cl_unsubs c2\<rparr>"
    using st(3) by (simp add: same_but_subs_def)
  let ?c = "(startFleetAutoTrack c2)\<lparr>cl_started := True\<rparr>"
  have up: "cl_onTransportUp ?c = cl_onTransportUp c" "cl_transport ?c = tr"
    using assms(1) by (simp_all add: startFleetAutoTrack_keeps) (subst c2, simp)+
  have same: "client_filters ?c = client_filters c2" "client_wired ?c = client_wired c2"
    by (rule client_cong; simp add: startFleetAutoTrack_keeps)+
  have "Start ctx c s = (?c, call_opt (cl_onTransportUp c) s2, None)"
    using assms(1,2,6) sub up by (simp add: Start_def Let_def)
  then show ?thesis
    using quiet_call_opt [OF assms(8), of s2] st(1,2,5) same up(2) fs by simp
qed

lemma reconnect_acked:
  assumes "up s" "cl_transport c = tr" "cl_started c" "client_wired c"
    and "\<forall>f. cl_fleet c = Some f \<longrightarrow> iteration_of ks (fl_tracked f)"
    and "\<forall>f. cl_onTransportUp c = Some f \<longrightarrow> quiet_fun up filters f"
    and "\<forall>f e. cl_onSubscriptionsRestored c = Some f \<longrightarrow> quiet_fun up filters (f e)"
  shows "\<exists>c' s'. handleReconnect ks c s = (c', s') \<and> up s' \<and> client_wired c' \<and> same_but_subs c c' \<and>
    client_filters c' = client_filters c \<and> filters s' = filters s \<union> client_filters c"
proof -
  let ?c1 = "c\<lparr>cl_unsubs := []\<rparr>"
  have "\<exists>c2 s2. reconnect_restore ks ?c1 s = (c2, s2, None) \<and> up s2 \<and> same_but_subs c c2 \<and> cl_unsubs c2 = [] \<and>
      (\<forall>f. cl_fleet c2 = Some f \<longrightarrow> wired f \<and> fl_started f) \<and> client_filters c2 = client_filters c \<and>
      wanted_topics c2 = wanted_topics c \<and>
      filters s2 = filters s \<union> (case cl_fleet c of None \<Rightarrow> {} | Some f \<Rightarrow> fleet_filters f)"
  proof (cases "cl_fleet c")
    case None
    then show ?thesis using assms(1) by (simp add: reconnect_restore_def same_but_subs_def client_filters_def)
  next
    case (Some f)
    have f: "wired f" "fl_started f" using assms(4) Some by (simp_all add: client_wired_def)
    obtain f' s' where r: "Fleet_Restore (fleetSubscribe c) (tr_Unsubscribe tr) Background ks f s = (f', s', None)"
      "up s'" "wired f'" "same_config f f'" "fl_started f'" "tracked_agvs f' = tracked_agvs f"
      "filters s' = filters s \<union> fleet_filters f"
      using fsv.restore_acked [OF assms(1) patient_Background f, of ks OnRawMessage] assms(5) Some
      unfolding fleetSubscribe_tr [OF assms(2)] by blast
    have "conn_filter f' = conn_filter f" using r(4) by (simp add: conn_filter_def same_config_def)
    then have "fleet_filters f' = fleet_filters f"
      using r(5,6) f(2) agv_filters_same [OF r(4)] by (simp add: fleet_filters_def tracked_filters_def)
    moreover have "fleetSubscribe ?c1 = fleetSubscribe c" by (simp add: fleetSubscribe_def fun_eq_iff)
    ultimately show ?thesis
      using Some r assms(2) by (simp add: reconnect_restore_def same_but_subs_def client_filters_def)
  qed
  then obtain c2 s2 where two: "reconnect_restore ks ?c1 s = (c2, s2, None)" "up s2" "same_but_subs c c2"
    "cl_unsubs c2 = []" "\<forall>f. cl_fleet c2 = Some f \<longrightarrow> wired f \<and> fl_started f" "client_filters c2 = client_filters c"
    "wanted_topics c2 = wanted_topics c"
    "filters s2 = filters s \<union> (case cl_fleet c of None \<Rightarrow> {} | Some f \<Rightarrow> fleet_filters f)"
    by blast
  have c2: "c2 = c\<lparr>cl_fleet := cl_fleet c2, cl_unsubs := cl_unsubs c2\<rparr>"
    using two(3) by (simp add: same_but_subs_def)
  have keep2: "cl_transport c2 = tr" "cl_started c2" using assms(2,3) by (subst c2; simp)+
  obtain c3 s3 where three: "subscribeLocked Background c2 s2 = (c3, s3, None)" "up s3" "client_wired c3"
    "same_but_subs c2 c3" "client_filters c3 = client_filters c2 \<union> missing_filters c2"
    "filters s3 = filters s2 \<union> missing_filters c2"
    using subscribeLocked_acked [OF two(2) patient_Background keep2(1) two(4)] two(5) by blast
  have missing: "missing_filters c2 = fst ` set (wanted_topics c)"
    using two(5,7) by (auto simp: missing_filters_def split: option.splits)
  have c3: "c3 = c2\<lparr>cl_fleet := cl_fleet c3, cl_unsubs := cl_unsubs c3\<rparr>"
    using three(4) by (simp add: same_but_subs_def)
  have keep3: "cl_onTransportUp c3 = cl_onTransportUp c"
    "cl_onSubscriptionsRestored c3 = cl_onSubscriptionsRestored c"
    by (subst c3, subst c2, simp)+
  let ?s4 = "case cl_onSubscriptionsRestored c of None \<Rightarrow> s3 | Some h \<Rightarrow> h None s3"
  have s4: "up ?s4 = up s3 \<and> filters ?s4 = filters s3"
    using assms(7) by (auto simp: quiet_fun_def split: option.split)
  have "handleReconnect ks c s = (c3, call_opt (cl_onTransportUp c) ?s4)"
    using assms(2,3) two(1) three(1) keep2 keep3
    by (simp add: handleReconnect_def reconnect_begin_def reconnect_finish_def Let_def)
  moreover have "same_but_subs c c3"
    using two(3) three(4) c2 c3 by (rule same_but_subs_trans)
  moreover have "client_filters c3 = client_filters c"
    using three(5) two(6) missing by (auto simp: client_filters_def)
  moreover have "filters s3 = filters s \<union> client_filters c"
    using three(6) two(8) missing by (auto simp: client_filters_def split: option.split)
  ultimately show ?thesis using three(2,3) s4 quiet_call_opt [OF assms(6), of ?s4] by simp
qed

lemma stop_client_acked:
  assumes "up s" "patient ctx" "cl_transport c = tr" "cl_started c" "client_wired c"
    and "\<forall>f. cl_fleet c = Some f \<longrightarrow> calm_hooks up filters (fl_onOffline f) \<and> iteration_of ks (fl_tracked f)"
    and "\<forall>u\<in>set (cl_busUnsubs c). quiet_closure up filters u"
  shows "\<exists>c' s3. Stop ctx ks c s = (c', fst (tr_Stop tr ctx s3), snd (tr_Stop tr ctx s3)) \<and> up s3 \<and>
    filters s3 = filters s - client_filters c \<and> \<not> cl_started c' \<and> cl_unsubs c' = [] \<and> cl_transport c' = tr \<and>
    (\<forall>f. cl_fleet c' = Some f \<longrightarrow> wired f \<and> \<not> fl_started f \<and> fl_tracked f = Map.empty)"
proof -
  let ?p = "case cl_fleet c of None \<Rightarrow> (None, s, None)
      | Some f \<Rightarrow> (case Fleet_Stop (tr_Unsubscribe tr) ctx ks f s of (f', s', r) \<Rightarrow> (Some f', s', r))"
  obtain fl s1 where one: "?p = (fl, s1, None)" and s1: "up s1"
    "filters s1 = filters s - (case cl_fleet c of None \<Rightarrow> {} | Some f \<Rightarrow> fleet_filters f)"
    and fl: "\<forall>f. fl = Some f \<longrightarrow> wired f \<and> \<not> fl_started f \<and> fl_tracked f = Map.empty"
  proof (cases "cl_fleet c")
    case None
    then show ?thesis using assms(1) that by simp
  next
    case (Some f)
    obtain f' s' where st: "Fleet_Stop (tr_Unsubscribe tr) ctx ks f s = (f', s', None)" "up s'" "wired f'"
      "\<not> fl_started f'" "tracked_agvs f' = Map.empty" "filters s' = filters s - fleet_filters f"
      using fsv.stop_acked [OF assms(1,2), of f ks] assms(5,6) Some by (auto simp: client_wired_def)
    have "fl_tracked f' = Map.empty" using st(5) by (auto simp: tracked_agvs_def fun_eq_iff)
    then show ?thesis using that [of "Some f'" s'] st Some by simp
  qed
  obtain s2 where two: "call_all (tr_Unsubscribe tr ctx) (rev (cl_unsubs c)) s1 None = (s2, None)" "up s2"
    "filters s2 = filters s1 - set (cl_unsubs c)"
    using fsv.call_all_acked [OF s1(1) assms(2), of "rev (cl_unsubs c)" None] by auto
  obtain s3 where three: "call_all (\<lambda>u. u ctx) (rev (cl_busUnsubs c)) s2 None = (s3, None)" "up s3" "filters s3 = filters s2"
    using quiet_closures [of "rev (cl_busUnsubs c)" up filters ctx s2 None] two(2) assms(7)
    by (cases "call_all (\<lambda>u. u ctx) (rev (cl_busUnsubs c)) s2 None") auto
  have "filters s3 = filters s - client_filters c"
    using three(3) two(3) s1(2) assms(5) by (auto simp: client_filters_def client_wired_def)
  moreover have "Stop ctx ks c s = ((stopFleetAutoTrack (c\<lparr>cl_unsubs := [], cl_busUnsubs := [], cl_started := False\<rparr>))
      \<lparr>cl_fleet := fl\<rparr>, fst (tr_Stop tr ctx s3), snd (tr_Stop tr ctx s3))"
    unfolding Stop_def assms(3) using assms(4) one two(1) three(1)
    by (cases "tr_Stop tr ctx s3") (simp add: Let_def)
  ultimately show ?thesis using three(2) fl assms(3)
    by (intro exI [of _ "(stopFleetAutoTrack (c\<lparr>cl_unsubs := [], cl_busUnsubs := [], cl_started := False\<rparr>))
      \<lparr>cl_fleet := fl\<rparr>"] exI [of _ s3]) (simp add: stopFleetAutoTrack_def)
qed

end

end
