(* ===== verification/Fake_Broker.thy ===== *)
theory Fake_Broker
  imports Transport_Api Publish_Outcome
begin

text \<open>
  testkit/fake_broker.go: the in-process broker. Its state is the record broker ('h are the
  handler values it stores, 'c the callbacks); the world of its operations is the pair of the
  broker and the rest 'w, because a handler that Publish or Inject runs may call the broker
  again. Subscriptions are a Go map, so the order in which matching handlers run is the argument
  ks, an iteration order of the map. Publish can block: its result is None when it never returns
  (a hang without duration under a context that never ends); race decides which branch of the
  select wins when timer and context end at the same instant. The id counter is a Go int that
  only Subscribe increments; its wrap-around is not modelled.
\<close>

record published =
  pub_Topic :: string
  pub_Payload :: bytes
  pub_Opts :: publish_options

record ('h, 'c) broker =
  fb_running :: bool
  fb_nextID :: int
  fb_subs :: "int \<rightharpoonup> string \<times> 'h"
  fb_published :: "published list"
  fb_fail :: "goerr option"
  fb_hangFor :: duration
  fb_hang :: bool
  fb_onReconnect :: "'c option"
  fb_onLost :: "'c option"

definition NewFakeBroker :: "('h, 'c) broker" where
  "NewFakeBroker = \<lparr>fb_running = False, fb_nextID = 0, fb_subs = Map.empty, fb_published = [],
     fb_fail = None, fb_hangFor = 0, fb_hang = False, fb_onReconnect = None, fb_onLost = None\<rparr>"

definition errNotRunning :: goerr where
  "errNotRunning = ErrorsNew ''testkit: fake broker is not running''"

definition FB_Start :: "('h, 'c) broker \<Rightarrow> ('h, 'c) broker \<times> goerr option" where
  "FB_Start b = (b\<lparr>fb_running := True\<rparr>, None)"

definition FB_Stop :: "('h, 'c) broker \<Rightarrow> ('h, 'c) broker \<times> goerr option" where
  "FB_Stop b = (b\<lparr>fb_running := False, fb_subs := Map.empty\<rparr>, None)"

definition FailNextPublish :: "goerr option \<Rightarrow> ('h, 'c) broker \<Rightarrow> ('h, 'c) broker" where
  "FailNextPublish err b = b\<lparr>fb_fail := err, fb_hang := False\<rparr>"

definition HangNextPublish :: "duration \<Rightarrow> ('h, 'c) broker \<Rightarrow> ('h, 'c) broker" where
  "HangNextPublish d b = b\<lparr>fb_hang := True, fb_hangFor := d, fb_fail := None\<rparr>"

definition FB_Connected :: "('h, 'c) broker \<Rightarrow> bool" where
  "FB_Connected b = fb_running b"

definition FB_SetOnReconnect :: "'c \<Rightarrow> ('h, 'c) broker \<Rightarrow> ('h, 'c) broker" where
  "FB_SetOnReconnect fn b = b\<lparr>fb_onReconnect := Some fn\<rparr>"

definition FB_SetOnConnectionLost :: "'c \<Rightarrow> ('h, 'c) broker \<Rightarrow> ('h, 'c) broker" where
  "FB_SetOnConnectionLost fn b = b\<lparr>fb_onLost := Some fn\<rparr>"

subsection \<open>Topic filters\<close>

fun match_segments :: "string list \<Rightarrow> string list \<Rightarrow> bool" where
  "match_segments [] [] = True"
| "match_segments (f # fs) (t # ts) =
     (if f = ''+'' \<or> f = ''#'' then match_segments fs ts
      else if f \<noteq> t then False else match_segments fs ts)"
| "match_segments _ _ = True"

definition matchFilter :: "string \<Rightarrow> string \<Rightarrow> bool" where
  "matchFilter fltr topic =
     (let fp = split_on CHR ''/'' fltr; tp = split_on CHR ''/'' topic in
      if length fp \<noteq> length tp then False else match_segments fp tp)"

definition segment_matches :: "string \<Rightarrow> string \<Rightarrow> bool" where
  "segment_matches f t \<longleftrightarrow> f = ''+'' \<or> f = ''#'' \<or> f = t"

lemma matchFilter_iff:
  "matchFilter f t \<longleftrightarrow> list_all2 segment_matches (split_on CHR ''/'' f) (split_on CHR ''/'' t)"
proof -
  have "length fs = length ts \<Longrightarrow> match_segments fs ts = list_all2 segment_matches fs ts" for fs ts
    by (induction fs ts rule: match_segments.induct) (auto simp: segment_matches_def)
  then show ?thesis
    by (auto simp: matchFilter_def Let_def dest: list_all2_lengthD)
qed

subsection \<open>Publish, Subscribe, Inject\<close>

type_synonym ('h, 'c, 'w) fb_run =
  "'h \<Rightarrow> goctx \<Rightarrow> string \<Rightarrow> bytes \<Rightarrow> ('h, 'c) broker \<times> 'w \<Rightarrow> (('h, 'c) broker \<times> 'w) \<times> goerr option"

fun fb_deliver ::
  "('h, 'c, 'w) fb_run \<Rightarrow> (string \<times> 'h) list \<Rightarrow> goctx \<Rightarrow> string \<Rightarrow> bytes \<Rightarrow>
     ('h, 'c) broker \<times> 'w \<Rightarrow> (('h, 'c) broker \<times> 'w) \<times> goerr option" where
  "fb_deliver run [] ctx topic payload s = (s, None)"
| "fb_deliver run ((fltr, h) # subs) ctx topic payload s =
     (if matchFilter fltr topic
      then (case run h ctx topic payload s of
          (s', Some e) \<Rightarrow> (s', Some e)
        | (s', None) \<Rightarrow> fb_deliver run subs ctx topic payload s')
      else fb_deliver run subs ctx topic payload s)"

text \<open>The error of the select on the context and the hang timer; None when neither ever fires.\<close>

definition hang_error :: "bool \<Rightarrow> goctx \<Rightarrow> gotime \<Rightarrow> duration \<Rightarrow> goerr option" where
  "hang_error race ctx now hangFor =
     (if hangFor \<le> 0 then map_option (\<lambda>d. Ctx (ctx_cause ctx)) (ctx_done_at ctx)
      else Some (case ctx_done_at ctx of
          None \<Rightarrow> sentinel TimeoutError
        | Some d \<Rightarrow>
            if d < now + hangFor \<or> (d = now + hangFor \<and> race) then Ctx (ctx_cause ctx)
            else sentinel TimeoutError))"

definition FB_Publish ::
  "('h, 'c, 'w) fb_run \<Rightarrow> int list \<Rightarrow> bool \<Rightarrow> gotime \<Rightarrow> goctx \<Rightarrow> string \<Rightarrow> bytes \<Rightarrow> publish_options \<Rightarrow>
     ('h, 'c) broker \<times> 'w \<Rightarrow> ((('h, 'c) broker \<times> 'w) \<times> goerr option) option" where
  "FB_Publish run ks race now ctx topic payload opts s =
     (let b = fst s; w = snd s in
      if \<not> fb_running b then Some (s, Some errNotRunning)
      else let b1 = b\<lparr>fb_fail := None, fb_hang := False\<rparr> in
        case fb_fail b of
          Some e \<Rightarrow> Some ((b1, w), Some e)
        | None \<Rightarrow>
           if fb_hang b
           then (case hang_error race ctx now (fb_hangFor b) of
               None \<Rightarrow> None
             | Some e \<Rightarrow> Some ((b1, w), MarkPublishAttempted (Some e)))
           else let b2 = b1\<lparr>fb_published := fb_published b1 @
                    [\<lparr>pub_Topic = topic, pub_Payload = payload, pub_Opts = opts\<rparr>]\<rparr> in
             Some (fb_deliver run (map_values ks (fb_subs b2)) ctx topic payload (b2, w)))"

definition FB_Subscribe ::
  "string \<Rightarrow> 'h \<Rightarrow> ('h, 'c) broker \<Rightarrow> ('h, 'c) broker \<times> (goerr + int)" where
  "FB_Subscribe fltr handler b =
     (if \<not> fb_running b then (b, Inl errNotRunning)
      else let i = fb_nextID b + 1 in
        (b\<lparr>fb_nextID := i, fb_subs := (fb_subs b)(i \<mapsto> (fltr, handler))\<rparr>, Inr i))"

definition FB_Unsubscribe :: "int \<Rightarrow> ('h, 'c) broker \<Rightarrow> ('h, 'c) broker \<times> goerr option" where
  "FB_Unsubscribe i b = (b\<lparr>fb_subs := (fb_subs b)(i := None)\<rparr>, None)"

definition FB_Inject ::
  "('h, 'c, 'w) fb_run \<Rightarrow> int list \<Rightarrow> goctx \<Rightarrow> string \<Rightarrow> bytes \<Rightarrow>
     ('h, 'c) broker \<times> 'w \<Rightarrow> (('h, 'c) broker \<times> 'w) \<times> goerr option" where
  "FB_Inject run ks ctx topic payload s =
     (if \<not> fb_running (fst s) then (s, Some errNotRunning)
      else fb_deliver run (map_values ks (fb_subs (fst s))) ctx topic payload s)"

definition Published :: "('h, 'c) broker \<Rightarrow> published list" where
  "Published b = fb_published b"

definition ClearPublished :: "('h, 'c) broker \<Rightarrow> ('h, 'c) broker" where
  "ClearPublished b = b\<lparr>fb_published := []\<rparr>"

definition Filters :: "int list \<Rightarrow> ('h, 'c) broker \<Rightarrow> string list" where
  "Filters ks b = map fst (map_values ks (fb_subs b))"

text \<open>The two simulations call the stored callback, if any, on the world.\<close>

definition SimulateDisconnect ::
  "('c \<Rightarrow> goerr option \<Rightarrow> ('h, 'c) broker \<times> 'w \<Rightarrow> ('h, 'c) broker \<times> 'w) \<Rightarrow> goerr option \<Rightarrow>
     ('h, 'c) broker \<times> 'w \<Rightarrow> ('h, 'c) broker \<times> 'w" where
  "SimulateDisconnect call err s =
     (case fb_onLost (fst s) of None \<Rightarrow> s | Some h \<Rightarrow> call h err s)"

definition SimulateReconnect ::
  "('c \<Rightarrow> ('h, 'c) broker \<times> 'w \<Rightarrow> ('h, 'c) broker \<times> 'w) \<Rightarrow>
     ('h, 'c) broker \<times> 'w \<Rightarrow> ('h, 'c) broker \<times> 'w" where
  "SimulateReconnect call s =
     (let s1 = ((fst s)\<lparr>fb_subs := Map.empty\<rparr>, snd s) in
      case fb_onReconnect (fst s) of None \<Rightarrow> s1 | Some h \<Rightarrow> call h s1)"

subsection \<open>The broker as a subscription service\<close>

definition fb_live :: "('h, 'c) broker \<times> 'w \<Rightarrow> int \<rightharpoonup> string" where
  "fb_live s i = map_option fst (fb_subs (fst s) i)"

definition fb_issued :: "('h, 'c) broker \<times> 'w \<Rightarrow> int set" where
  "fb_issued s = {i. i \<le> fb_nextID (fst s)}"

definition fb_ok :: "('h, 'c) broker \<times> 'w \<Rightarrow> bool" where
  "fb_ok s \<longleftrightarrow> (\<forall>i. fb_subs (fst s) i \<noteq> None \<longrightarrow> i \<le> fb_nextID (fst s))"

definition fb_subscribe ::
  "'h \<Rightarrow> goctx \<Rightarrow> string \<Rightarrow> ('h, 'c) broker \<times> 'w \<Rightarrow> (('h, 'c) broker \<times> 'w) \<times> (goerr + int)" where
  "fb_subscribe h ctx f s = (case FB_Subscribe f h (fst s) of (b, r) \<Rightarrow> ((b, snd s), r))"

definition fb_unsubscribe ::
  "goctx \<Rightarrow> int \<Rightarrow> ('h, 'c) broker \<times> 'w \<Rightarrow> (('h, 'c) broker \<times> 'w) \<times> goerr option" where
  "fb_unsubscribe ctx i s = (case FB_Unsubscribe i (fst s) of (b, r) \<Rightarrow> ((b, snd s), r))"

interpretation fb: reliable_subscriptions "fb_subscribe h" fb_unsubscribe fb_live fb_issued fb_ok
  for h :: 'h
proof
  fix s s' :: "('h, 'c) broker \<times> 'w" and ctx f u e r
  assume ok: "fb_ok s"
  show "dom (fb_live s) \<subseteq> fb_issued s"
    using ok by (auto simp: fb_live_def fb_issued_def fb_ok_def)
  show "fb_subscribe h ctx f s = (s', Inr u) \<Longrightarrow>
      fb_ok s' \<and> u \<notin> fb_issued s \<and> fb_issued s' = insert u (fb_issued s) \<and>
      fb_live s' = (fb_live s)(u \<mapsto> f)"
    using ok
    by (auto simp: fb_subscribe_def FB_Subscribe_def Let_def fb_ok_def fb_issued_def fb_live_def
        fun_eq_iff split: if_splits; force)
  show "fb_subscribe h ctx f s = (s', Inl e) \<Longrightarrow>
      fb_ok s' \<and> fb_issued s' = fb_issued s \<and> fb_live s' = fb_live s"
    using ok by (auto simp: fb_subscribe_def FB_Subscribe_def Let_def split: if_splits)
  show "fb_unsubscribe ctx u s = (s', r) \<Longrightarrow>
      fb_ok s' \<and> fb_issued s' = fb_issued s \<and> (\<forall>v. v \<noteq> u \<longrightarrow> fb_live s' v = fb_live s v)"
    using ok
    by (auto simp: fb_unsubscribe_def FB_Unsubscribe_def fb_ok_def fb_issued_def fb_live_def
        split: if_splits)
  show "fb_unsubscribe ctx u s = (s', None) \<Longrightarrow> fb_live s' u = None"
    by (auto simp: fb_unsubscribe_def FB_Unsubscribe_def fb_live_def)
next
  show "snd (fb_unsubscribe ctx u s) = None" for ctx u and s :: "('h, 'c) broker \<times> 'w"
    by (simp add: fb_unsubscribe_def FB_Unsubscribe_def)
qed

end
