(* ===== verification/Fleet_Broker.thy ===== *)
theory Fleet_Broker
  imports Fleet_Contract Fake_Broker
begin

text \<open>
  The fleet session on the in-process broker of testkit: the contract of Fleet_Contract is used
  through the interpretation fs, with the SubscribeFunc the client injects (every filter gets the
  same handler h). The first session below, with one tracked vehicle on a running broker, is what
  the witnesses evaluate.
\<close>

interpretation fs: fleet_service "fb_subscribe h" fb_unsubscribe fb_live fb_issued fb_ok
  for h :: 'h
  by unfold_locales

definition ex_agv :: agv where
  "ex_agv = \<lparr>agv_Manufacturer = ''acme'', agv_SerialNumber = ''A1''\<rparr>"

definition ex_agv2 :: agv where
  "ex_agv2 = \<lparr>agv_Manufacturer = ''acme'', agv_SerialNumber = ''B2''\<rparr>"

definition ex_world :: "(nat, nat) broker \<times> nat" where
  "ex_world = (NewFakeBroker\<lparr>fb_running := True\<rparr>, 0)"

definition ex_new :: "((nat, nat) broker \<times> nat, int) fleet" where
  "ex_new = NewFleetSession \<lparr>res_Interface = ''uagv'', res_Version = ''v2''\<rparr>
     \<lparr>opt_SubscribeState = True, opt_SubscribeVisualization = True, opt_AutoTrackFromConnection = True\<rparr>"

definition ex_started :: "((nat, nat) broker \<times> nat, int) fleet \<times> ((nat, nat) broker \<times> nat) \<times> goerr option" where
  "ex_started = Fleet_Start (fb_subscribe 7) Background ex_new ex_world"

definition ex_tracked :: "((nat, nat) broker \<times> nat, int) fleet \<times> ((nat, nat) broker \<times> nat) \<times> goerr option" where
  "ex_tracked = fleet_track (fb_subscribe 7) fb_unsubscribe Background ex_agv True
     (fst ex_started) (fst (snd ex_started))"

abbreviation "ex_f \<equiv> fst ex_tracked"
abbreviation "ex_s \<equiv> fst (snd ex_tracked)"

lemmas ex_defs = ex_tracked_def ex_started_def ex_new_def ex_world_def ex_agv_def ex_agv2_def
  Fleet_Start_def fleet_track_def track_commit_def track_exists_def NewFleetSession_def
  fb_subscribe_def FB_Subscribe_def NewFakeBroker_def agv_filters_def fleet_channels_def

lemma ex_session_ok: "session_ok fb_ok fb_live Map.empty ex_f ex_s"
proof -
  have "fb_ok ex_world" "fb_live ex_world = Map.empty"
    by (simp_all add: ex_world_def NewFakeBroker_def fb_ok_def fb_live_def fun_eq_iff)
  then have "session_ok fb_ok fb_live Map.empty ex_new ex_world"
    using new_session_ok [of fb_ok ex_world fb_live] by (simp add: ex_new_def)
  from fs.start_session [OF this, of 7 Background "fst ex_started" "fst (snd ex_started)" "snd (snd ex_started)"]
  have st: "session_ok fb_ok fb_live Map.empty (fst ex_started) (fst (snd ex_started))"
    "same_config ex_new (fst ex_started)"
    by (simp_all add: ex_started_def)
  have "quiet_hooks fb_ok fb_live fb_issued (fl_onOnline (fst ex_started))"
    using st(2) by (simp add: same_config_def ex_new_def NewFleetSession_def)
  from fs.track_session [OF st(1) this, of 7 Background ex_agv True ex_f ex_s "snd (snd ex_tracked)"]
  show ?thesis by (simp add: ex_tracked_def)
qed

lemma ex_evaluated:
  "fl_onOnline ex_f = []" "fl_onOffline ex_f = []" "fl_started ex_f" "fb_running (fst ex_s)"
  "fl_opts ex_f = \<lparr>opt_SubscribeState = True, opt_SubscribeVisualization = True,
     opt_AutoTrackFromConnection = True\<rparr>"
  "fl_tracked ex_f = [''acme/A1'' \<mapsto> \<lparr>ta_agv = ex_agv, ta_unsubs = [2, 3]\<rparr>]"
  by (simp_all add: ex_defs Let_def agv_key_def)

lemma ex_iteration: "iteration_of [''acme/A1''] (fl_tracked ex_f)"
  by (simp add: ex_evaluated iteration_of_def)

subsection \<open>Untrack\<close>

text \<open>
  C29. Fleet.Untrack always succeeds on the in-process broker, removes exactly the subscriptions of
  that vehicle and leaves every other tracked vehicle and every foreign subscription in place.
\<close>
theorem Fleet_Untrack_exact:
  assumes "session_ok fb_ok fb_live fg f s" and "quiet_hooks fb_ok fb_live fb_issued (fl_onOffline f)"
    and "Fleet_Untrack fb_unsubscribe ctx a f s = (f', s', r)"
  shows "session_ok fb_ok fb_live fg f' s' \<and> r = None \<and>
    fl_tracked f' = (fl_tracked f)(agv_key a := None) \<and> fl_connUnsub f' = fl_connUnsub f"
  using fs.untrack_session [OF assms(1) _ assms(3) [unfolded Fleet_Untrack_def]] assms(2) by simp

theorem Fleet_Untrack_exact_witness:
  "fl_tracked (fst (Fleet_Untrack fb_unsubscribe Background ex_agv ex_f ex_s)) = Map.empty"
proof -
  obtain f' s' r where run: "Fleet_Untrack fb_unsubscribe Background ex_agv ex_f ex_s = (f', s', r)"
    using prod_cases3 by blast
  then show ?thesis
    using Fleet_Untrack_exact [OF ex_session_ok _ run] by (simp add: ex_evaluated agv_key_def ex_agv_def)
qed

text \<open>
  HandleConnection follows the connection state of a vehicle: with auto-tracking, ONLINE
  without error leaves it tracked, OFFLINE and CONNECTION_BROKEN leave it untracked, any other
  state changes nothing; without auto-tracking no state changes anything. The invariant holds
  after each.
\<close>
theorem HandleConnection_follows:
  assumes "session_ok fb_ok fb_live fg f s"
    and "quiet_hooks fb_ok fb_live fb_issued (fl_onOnline f @ fl_onOffline f)"
    and "HandleConnection (fb_subscribe h) fb_unsubscribe ctx a st f s = (f', s', r)"
  shows "session_ok fb_ok fb_live fg f' s' \<and>
    (if opt_AutoTrackFromConnection (fl_opts f)
     then (case st of
         Online \<Rightarrow> r = None \<longrightarrow> tracked_agvs f' (agv_key a) \<noteq> None
       | OtherConnectionState _ \<Rightarrow> f' = f \<and> s' = s \<and> r = None
       | _ \<Rightarrow> tracked_agvs f' (agv_key a) = None \<and> r = None)
     else f' = f \<and> s' = s \<and> r = None)"
proof -
  have quiet: "quiet_hooks fb_ok fb_live fb_issued (fl_onOnline f)"
    "quiet_hooks fb_ok fb_live fb_issued (fl_onOffline f)"
    using assms(2) by (auto simp: quiet_hooks_def)
  show ?thesis
  proof (cases "opt_AutoTrackFromConnection (fl_opts f)")
    case False
    then show ?thesis using assms(1,3) by (simp add: HandleConnection_def)
  next
    case True
    note run = assms(3) [unfolded HandleConnection_def Fleet_Track_def Fleet_Untrack_def]
    have untracked: ?thesis if "st = Offline \<or> st = ConnectionBroken"
    proof -
      have "fleet_untrack fb_unsubscribe ctx a True f s = (f', s', r)"
        using run True that by auto
      from fs.untrack_session [OF assms(1) quiet(2) this] show ?thesis
        using True that by (auto simp: tracked_agvs_def)
    qed
    show ?thesis
    proof (cases st)
      case Online
      then have "fleet_track (fb_subscribe h) fb_unsubscribe ctx a True f s = (f', s', r)"
        using run True by simp
      from fs.track_session [OF assms(1) quiet(1) this] show ?thesis
        using True Online by (cases r) (auto simp add: track_exists_iff)
    qed (use untracked run assms(1) True in simp_all)
  qed
qed

theorem HandleConnection_follows_witness:
  "tracked_agvs (fst (HandleConnection (fb_subscribe 7) fb_unsubscribe Background ex_agv Offline
     ex_f ex_s)) (agv_key ex_agv) = None"
proof -
  obtain f' s' r where run:
    "HandleConnection (fb_subscribe 7) fb_unsubscribe Background ex_agv Offline ex_f ex_s = (f', s', r)"
    using prod_cases3 by blast
  then show ?thesis
    using HandleConnection_follows [OF ex_session_ok _ run] by (simp add: ex_evaluated)
qed

subsection \<open>Stop\<close>

text \<open>
  C19. Fleet.Stop on the in-process broker releases everything the session subscribed and nothing
  else: no vehicle is tracked, the session is stopped, the live subscriptions left are the foreign
  ones, and no error is returned. The map may be ranged over in any order.
\<close>
theorem Fleet_Stop_releases:
  assumes "session_ok fb_ok fb_live fg f s" and "quiet_hooks fb_ok fb_live fb_issued (fl_onOffline f)"
    and "iteration_of ks (fl_tracked f)" and "Fleet_Stop fb_unsubscribe ctx ks f s = (f', s', r)"
  shows "fb_live s' = fg \<and> r = None \<and> fl_tracked f' = Map.empty \<and> fl_connUnsub f' = None \<and>
    \<not> fl_started f'"
  using fs.stop_session [OF assms] by simp

theorem Fleet_Stop_releases_witness:
  "fb_live (fst (snd (Fleet_Stop fb_unsubscribe Background [''acme/A1''] ex_f ex_s))) = Map.empty"
proof -
  obtain f' s' r where run: "Fleet_Stop fb_unsubscribe Background [''acme/A1''] ex_f ex_s = (f', s', r)"
    using prod_cases3 by blast
  then show ?thesis
    using Fleet_Stop_releases [OF ex_session_ok _ ex_iteration run] by (simp add: ex_evaluated)
qed

end
