(* ===== verification/Client_Broker.thy ===== *)
theory Client_Broker
  imports Client_Filters Fleet_Broker
begin

text \<open>
  A client on the in-process broker of testkit: fb_transport is the broker seen as a Transport
  (testkit's FakeBroker is handed to Config.Transport as it is), and the contract client_service
  of Client_Subs holds for it. Handlers run by Publish are the parameter run; ks, race and clock
  fix the iteration order of the subscriptions, the winner of a tied select and the current time.
\<close>

type_synonym 'w fb_world = "(raw_handler, client_callback) broker \<times> 'w"

definition fb_transport ::
  "(raw_handler, client_callback, 'w) fb_run \<Rightarrow> ('w fb_world \<Rightarrow> int list) \<Rightarrow> bool \<Rightarrow> ('w fb_world \<Rightarrow> gotime) \<Rightarrow>
     ('w fb_world, int) transport" where
  "fb_transport run ks race clock =
     \<lparr>tr_Start = (\<lambda>ctx s. case FB_Start (fst s) of (b, r) \<Rightarrow> ((b, snd s), r)),
      tr_Stop = (\<lambda>ctx s. case FB_Stop (fst s) of (b, r) \<Rightarrow> ((b, snd s), r)),
      tr_Publish = (\<lambda>ctx topic payload opts s.
        FB_Publish run (ks s) race (clock s) ctx topic payload opts s),
      tr_Subscribe = (\<lambda>ctx fltr h s. fb_subscribe h ctx fltr s),
      tr_Unsubscribe = fb_unsubscribe,
      tr_Connected = Some (\<lambda>s. FB_Connected (fst s)),
      tr_SetOnReconnect = Some (\<lambda>cb s. (FB_SetOnReconnect cb (fst s), snd s)),
      tr_SetOnConnectionLost = Some (\<lambda>cb s. (FB_SetOnConnectionLost cb (fst s), snd s))\<rparr>"

definition fb_up :: "('h, 'c) broker \<times> 'w \<Rightarrow> bool" where
  "fb_up s = fb_running (fst s)"

interpretation fav: available_service "fb_subscribe h" fb_unsubscribe fb_live fb_issued fb_ok fb_up
  for h :: 'h
proof
  show "\<exists>s' u. fb_subscribe h ctx f s = (s', Inr u) \<and> fb_up s'" if "fb_up s"
    for s :: "('h, 'c) broker \<times> 'w" and ctx f
    using that by (simp add: fb_up_def fb_subscribe_def FB_Subscribe_def Let_def)
  show "fb_up (fst (fb_unsubscribe ctx u s))" if "fb_up s"
    for s :: "('h, 'c) broker \<times> 'w" and ctx u
    using that by (simp add: fb_up_def fb_unsubscribe_def FB_Unsubscribe_def)
qed

interpretation fbc: client_service "fb_transport run ks race clock" fb_live fb_issued fb_ok fb_up
  for run :: "(raw_handler, client_callback, 'w) fb_run" and ks race clock
proof (rule client_service.intro)
  show "available_service (\<lambda>ctx f s. tr_Subscribe (fb_transport run ks race clock) ctx f h s)
     (tr_Unsubscribe (fb_transport run ks race clock)) fb_live fb_issued fb_ok fb_up" for h
    using fav.available_service_axioms [of h] by (simp add: fb_transport_def)
qed (auto simp: fb_transport_def FB_Start_def FB_Stop_def fb_ok_def fb_up_def fb_live_def fun_eq_iff)

lemmas fb_transport_sel = fb_transport_def

subsection \<open>An example client\<close>

lemma ex_nonblank: "TrimSpace ''uagv'' \<noteq> []" "TrimSpace ''v2'' \<noteq> []"
  by (simp_all add: TrimSpace_def trim_left.simps trim_right_rev.simps space_len_def
      space_len_end_def char_bytes_def is_space_bytes_def)

text \<open>
  A client with a fleet, one tracked vehicle, a state handler and a raw topic handler, for the
  witnesses: built by New on a fresh broker, started, and tracking a vehicle.
\<close>

text \<open>The rest of the example world: an event bus and a counter.\<close>

type_synonym ex_rest = "event_handler memory \<times> nat"

definition ex_rest0 :: ex_rest where
  "ex_rest0 = (NewMemory, 0)"

definition ex_transport :: "(ex_rest fb_world, int) transport" where
  "ex_transport = fb_transport (\<lambda>h ctx topic payload s. (s, None)) (\<lambda>s. []) False (\<lambda>s. 0)"

definition ex_config :: "(ex_rest fb_world, int, event_handler, payload) config" where
  "ex_config = \<lparr>cfg_Broker = [], cfg_ClientID = [], cfg_Username = [], cfg_Password = [],
     cfg_Interface = ''uagv'', cfg_Version = ''v2'', cfg_HeaderVersion = [],
     cfg_Manufacturer = [], cfg_SerialNumber = [], cfg_QoS = None, cfg_KeepAlive = 0,
     cfg_ConnectTimeout = 0, cfg_CleanSession = True, cfg_AutoReconnect = True, cfg_TLS = None,
     cfg_Will = None, cfg_InboundQueueSize = 0, cfg_OnInboundDrop = None, cfg_SlowInbound = 0,
     cfg_OnSlowInbound = None, cfg_RestoreSubscriptionsOnReconnect = None,
     cfg_StrictIdentity = None, cfg_Transport = Some ex_transport,
     cfg_Fleet = Some DefaultFleetOptions, cfg_Extensions = None, cfg_Bus = None,
     cfg_IdentityMapper = None, cfg_OutboundValidation = None, cfg_InboundPolicy = None,
     cfg_OnDecodeError = None, cfg_OnHandlerError = None, cfg_OnTransportUp = None,
     cfg_OnTransportDown = None, cfg_OnSubscriptionsRestored = None\<rparr>"

definition ex_c0 :: "(ex_rest fb_world, int) client" where
  "ex_c0 = OnTopic ''site/#'' 5 (projr (snd (New (\<lambda>_. ex_transport) ex_config (NewFakeBroker, ex_rest0))))"

definition ex_s0 :: "ex_rest fb_world" where
  "ex_s0 = fst (New (\<lambda>_. ex_transport) ex_config (NewFakeBroker, ex_rest0))"

definition ex_running :: "(ex_rest fb_world, int) client \<times> ex_rest fb_world \<times> goerr option" where
  "ex_running = Start Background ex_c0 ex_s0"

definition ex_tracking :: "(ex_rest fb_world, int) client \<times> ex_rest fb_world \<times> goerr option" where
  "ex_tracking = Track Background ''acme'' ''A1'' (fst ex_running) (fst (snd ex_running))"

subsection \<open>New\<close>

lemma ex_valid: "validate ex_config = None"
  by (simp add: validate_def ex_config_def ex_nonblank)

lemma new_client:
  assumes "cfg_Transport cfg = Some (fb_transport run ks race clock)"
    and "fb_ok s" and "fb_live s = Map.empty" and "New newMQTT cfg s = (s', r)"
  shows "case r of
      Inl e \<Rightarrow> validate cfg = Some e \<and> s' = s
    | Inr c \<Rightarrow> validate cfg = None \<and> idle (fb_transport run ks race clock) fb_ok fb_live c s' \<and>
        fb_onReconnect (fst s') =
          (if restoreOnReconnect cfg then Some HandleReconnect else fb_onReconnect (fst s)) \<and>
        fb_onLost (fst s') = Some EmitTransportDown"
proof (cases "validate cfg")
  case None
  have fleet: "session_ok fb_ok fb_live Map.empty (NewFleetSession topics opts) w"
    if "fb_ok w" "fb_live w = Map.empty" for topics opts and w :: "'a fb_world"
    using new_session_ok [of fb_ok w fb_live topics opts] that by simp
  have s': "fb_ok s'" "fb_live s' = Map.empty"
    "fb_onReconnect (fst s') =
       (if restoreOnReconnect cfg then Some HandleReconnect else fb_onReconnect (fst s))"
    "fb_onLost (fst s') = Some EmitTransportDown"
    using assms None
    by (auto simp: New_def Let_def fb_transport_def FB_SetOnReconnect_def
        FB_SetOnConnectionLost_def fb_ok_def fb_live_def fun_eq_iff split: if_splits)
  show ?thesis
    using assms None s' fleet [OF s'(1,2)]
    by (auto simp: New_def Let_def idle_def split: option.split)
qed (use assms in \<open>auto simp: New_def\<close>)

text \<open>
  New on the in-process broker fails exactly when the configuration is invalid, with that
  error and without touching the broker; otherwise the client is idle (not started, holding no
  subscription, with an empty fleet session), its reconnect path is installed unless the
  configuration turned it off, and so is the connection-lost report.
\<close>
theorem New_idle:
  assumes "cfg_Transport cfg = Some (fb_transport run ks race clock)"
    and "fb_ok s" and "fb_live s = Map.empty" and "New newMQTT cfg s = (s', r)"
  shows "case r of
      Inl e \<Rightarrow> validate cfg = Some e \<and> s' = s
    | Inr c \<Rightarrow> validate cfg = None \<and> idle (fb_transport run ks race clock) fb_ok fb_live c s' \<and>
        fb_onReconnect (fst s') =
          (if restoreOnReconnect cfg then Some HandleReconnect else fb_onReconnect (fst s)) \<and>
        fb_onLost (fst s') = Some EmitTransportDown"
  by (rule new_client [OF assms])

lemma ex_fresh: "fb_ok (NewFakeBroker, n)" "fb_live (NewFakeBroker, n) = Map.empty"
  by (simp_all add: NewFakeBroker_def fb_ok_def fb_live_def fun_eq_iff)

lemma ex_transport_cfg: "cfg_Transport ex_config = Some ex_transport"
  by (simp add: ex_config_def)

theorem New_idle_witness:
  "idle ex_transport fb_ok fb_live (projr (snd (New (\<lambda>_. ex_transport) ex_config (NewFakeBroker, ex_rest0)))) ex_s0"
proof -
  obtain s' r where run: "New (\<lambda>_. ex_transport) ex_config (NewFakeBroker, ex_rest0) = (s', r)" by fastforce
  from New_idle [OF ex_transport_cfg [unfolded ex_transport_def] ex_fresh run, folded ex_transport_def]
  have "case r of Inl e \<Rightarrow> validate ex_config = Some e \<and> s' = (NewFakeBroker, ex_rest0)
    | Inr c \<Rightarrow> idle ex_transport fb_ok fb_live c s'" by (auto split: sum.splits)
  then show ?thesis using run ex_valid by (auto simp: ex_s0_def split: sum.splits)
qed

lemmas ex_client_defs = ex_c0_def ex_s0_def ex_config_def New_def OnTopic_def

lemma ex_c0_new: "\<exists>c. New (\<lambda>_. ex_transport) ex_config (NewFakeBroker, ex_rest0) = (ex_s0, Inr c) \<and>
    ex_c0 = OnTopic ''site/#'' 5 c"
  using ex_valid by (simp add: New_def Let_def ex_c0_def ex_s0_def)

lemma ex_c0_facts:
  "cl_onTransportUp ex_c0 = None" "cl_onSubscriptionsRestored ex_c0 = None" "cl_busUnsubs ex_c0 = []"
  "cl_transport ex_c0 = ex_transport"
  "cl_fleet ex_c0 = Some (NewFleetSession \<lparr>res_Interface = ''uagv'', res_Version = ''v2''\<rparr>
     (fleetSessionOptions DefaultFleetOptions))"
  using ex_valid by (simp_all add: New_def Let_def ex_c0_def OnTopic_def ex_config_def)

lemma ex_c0_idle: "idle ex_transport fb_ok fb_live ex_c0 ex_s0"
proof -
  obtain c where c: "New (\<lambda>_. ex_transport) ex_config (NewFakeBroker, ex_rest0) = (ex_s0, Inr c)"
    "ex_c0 = OnTopic ''site/#'' 5 c" using ex_c0_new by blast
  have "idle ex_transport fb_ok fb_live c ex_s0"
    using new_client [OF ex_transport_cfg [unfolded ex_transport_def] ex_fresh c(1)]
    by (simp add: ex_transport_def)
  then show ?thesis by (simp add: c(2) OnTopic_def idle_def)
qed

lemma ex_s0_facts: "fb_onReconnect (fst ex_s0) = Some HandleReconnect"
proof -
  obtain c where c: "New (\<lambda>_. ex_transport) ex_config (NewFakeBroker, ex_rest0) = (ex_s0, Inr c)"
    using ex_c0_new by blast
  from new_client [OF ex_transport_cfg [unfolded ex_transport_def] ex_fresh this]
  show ?thesis by (simp add: ex_config_def restoreOnReconnect_def)
qed

subsection \<open>Start and Stop\<close>

lemma fb_transport_start: "\<exists>s1. tr_Start (fb_transport run ks race clock) ctx s = (s1, None)"
  by (simp add: fb_transport_def FB_Start_def)

lemmas ex_eval = Start_def Let_def subscribeLocked_def Fleet_Start_def fleetSubscribe_def
  ex_transport_def fb_transport_def FB_Start_def fb_subscribe_def FB_Subscribe_def
  wanted_topics_def wanted_channels_def startFleetAutoTrack_def call_opt_def
  NewFleetSession_def fleetSessionOptions_def DefaultFleetOptions_def zero_fleet_options_def
  DefaultOptions_def Track_def requireStarted_def Fleet_Track_def fleet_track_def track_exists_def
  agv_filters_def fleet_channels_def track_commit_def agv_key_def NewFakeBroker_def

lemma ex_s0_eval:
  "ex_s0 = (NewFakeBroker\<lparr>fb_onReconnect := Some HandleReconnect, fb_onLost := Some EmitTransportDown\<rparr>, ex_rest0)"
  by (simp add: ex_s0_def New_def ex_valid Let_def ex_transport_cfg restoreOnReconnect_def
      ex_transport_def fb_transport_def FB_SetOnReconnect_def FB_SetOnConnectionLost_def)
    (simp add: ex_config_def)

lemma ex_c0_more:
  "\<not> cl_started ex_c0" "cl_unsubs ex_c0 = []" "\<not> cl_wantFS ex_c0"
  "cl_topicHandlers ex_c0 = [(''site/#'', 5)]"
  using ex_valid by (simp_all add: New_def Let_def ex_c0_def OnTopic_def ex_config_def)

lemma ex_running_eval:
  "cl_started (fst ex_running)" "cl_transport (fst ex_running) = ex_transport"
  "snd (snd ex_running) = None" "cl_unsubs (fst ex_running) = [2]"
  "cl_busUnsubs (fst ex_running) = []"
  "cl_onTransportUp (fst ex_running) = None" "cl_onSubscriptionsRestored (fst ex_running) = None"
  "cl_fleet (fst ex_running) = Some (NewFleetSession \<lparr>res_Interface = ''uagv'', res_Version = ''v2''\<rparr>
     (fleetSessionOptions DefaultFleetOptions)\<lparr>fl_connUnsub := Some 1, fl_started := True\<rparr>)"
  by (simp_all add: ex_running_def ex_c0_facts ex_s0_eval ex_c0_more ex_eval)

lemma ex_running_broker:
  "fb_running (fst (fst (snd ex_running)))" "fb_nextID (fst (fst (snd ex_running))) = 2"
  "fb_onReconnect (fst (fst (snd ex_running))) = Some HandleReconnect"
  by (simp_all add: ex_running_def ex_c0_facts ex_s0_eval ex_c0_more ex_eval)

lemma ex_tracking_eval:
  "cl_started (fst ex_tracking)" "cl_transport (fst ex_tracking) = ex_transport"
  "cl_onTransportUp (fst ex_tracking) = None" "cl_onSubscriptionsRestored (fst ex_tracking) = None"
  "fl_started (the (cl_fleet (fst ex_tracking)))"
  "fl_tracked (the (cl_fleet (fst ex_tracking))) = [''acme/A1'' \<mapsto> \<lparr>ta_agv = ex_agv, ta_unsubs = [3]\<rparr>]"
  "fb_running (fst (fst (snd ex_tracking)))"
  "fb_onReconnect (fst (fst (snd ex_tracking))) = Some HandleReconnect"
  by (simp_all add: ex_tracking_def ex_running_eval ex_running_broker ex_eval ex_agv_def)

lemma ex_running_subscribed: "subscribed fb_ok fb_live (fst ex_running) (fst (snd ex_running))"
proof -
  obtain s1 where start: "tr_Start ex_transport Background ex_s0 = (s1, None)"
    using fb_transport_start ex_transport_def by metis
  obtain c' s' where "Start Background ex_c0 ex_s0 = (c', s', None)" "subscribed fb_ok fb_live c' s'"
    using fbc.start_client [OF ex_c0_idle [unfolded ex_transport_def] start [unfolded ex_transport_def]]
      ex_c0_facts(1) by (auto simp del: split_paired_Ex)
  then show ?thesis by (simp add: ex_running_def)
qed

text \<open>
  C18. Starting an idle client on the in-process broker succeeds, and afterwards the live
  subscriptions are exactly those the client needs: one for the configured vehicle (or all of them)
  and each kind of message that has a registered handler, one per raw topic handler, and for a
  client with a fleet the connection messages of all vehicles; each handle the client or its fleet
  keeps is live, and every live one is kept.
\<close>
theorem Start_subscribes:
  assumes "idle (fb_transport run ks race clock) fb_ok fb_live c s"
    and "\<forall>f. cl_onTransportUp c = Some f \<longrightarrow> quiet_fun fb_ok fb_live f"
  shows "\<exists>c' s'. Start ctx c s = (c', s', None) \<and> cl_started c' \<and> subscribed fb_ok fb_live c' s' \<and>
    ran (fb_live s') = needed_filters c"
proof -
  obtain s1 where "tr_Start (fb_transport run ks race clock) ctx s = (s1, None)"
    using fb_transport_start by blast
  from fbc.start_client [OF assms(1) this assms(2)] obtain c' s' c2 where
    st: "Start ctx c s = (c', s', None)" "subscribed fb_ok fb_live c' s'" "cl_started c'"
      "same_but_subs c c2" "c' = (startFleetAutoTrack c2)\<lparr>cl_started := True\<rparr>" by blast
  have eqs: "cl_unsubs c' = cl_unsubs c2" "cl_fleet c' = cl_fleet c2" "wanted_topics c' = wanted_topics c2"
    by (simp_all add: st(5) startFleetAutoTrack_keeps)
  have "subscribed fb_ok fb_live c2 s'"
    using st(2) subscribed_cong [OF refl refl eqs, where ok = fb_ok and live = fb_live] by blast
  then have "client_filters c' = needed_filters c"
    using started_filters [OF assms(1) st(4)] client_filters_cong [OF eqs] by simp
  then show ?thesis using st(1-3) subscribed_filters [OF st(2)] by blast
qed

text \<open>The example client has a fleet and one raw topic handler.\<close>

theorem Start_subscribes_witness:
  "ran (fb_live (fst (snd (Start Background ex_c0 ex_s0)))) = {''uagv/v2/+/+/connection'', ''site/#''}"
proof -
  have "needed_filters ex_c0 = {''uagv/v2/+/+/connection'', ''site/#''}"
    using ex_c0_more
    by (auto simp: needed_filters_def Let_def ex_c0_facts registered_kinds_def kind_filter_def NewFleetSession_def)
  then show ?thesis
    using Start_subscribes [OF ex_c0_idle [unfolded ex_transport_def], of Background] ex_c0_facts(1)
    by force
qed

subsection \<open>Reconnect\<close>

definition fb_forget :: "('h, 'c) broker \<times> 'w \<Rightarrow> ('h, 'c) broker \<times> 'w" where
  "fb_forget s = ((fst s)\<lparr>fb_subs := Map.empty\<rparr>, snd s)"

text \<open>
  C20. After a reconnect that lost every subscription (SimulateReconnect of the in-process broker),
  the client's handler restores all of them: the live subscriptions are again exactly the wanted
  ones, the fleet tracks the same vehicles, and no stale handle is kept.
\<close>
theorem Reconnect_restores:
  assumes "fb_running (fst s)" and "fb_onReconnect (fst s) = Some HandleReconnect"
    and "cl_transport c = fb_transport run ks race clock" and "cl_started c"
    and "\<forall>f. cl_fleet c = Some f \<longrightarrow> fl_started f \<and> filed f \<and> iteration_of order (fl_tracked f)"
    and "\<forall>f. cl_onTransportUp c = Some f \<longrightarrow> quiet_fun fb_ok fb_live f"
    and "\<forall>f e. cl_onSubscriptionsRestored c = Some f \<longrightarrow> quiet_fun fb_ok fb_live (f e)"
    and "handleReconnect order c (fb_forget s) = (c', s')"
  shows "SimulateReconnect (\<lambda>cb w. snd (handleReconnect order c w)) s = s' \<and>
    subscribed fb_ok fb_live c' s' \<and> same_but_subs c c'"
proof -
  have w: "fb_ok (fb_forget s)" "fb_up (fb_forget s)" "fb_live (fb_forget s) = Map.empty"
    using assms(1) by (simp_all add: fb_forget_def fb_ok_def fb_up_def fb_live_def fun_eq_iff)
  have "subscribed fb_ok fb_live c' s' \<and> same_but_subs c c'"
    using fbc.reconnect_client [OF w assms(3-7)] assms(8) by auto
  moreover have "SimulateReconnect (\<lambda>cb w. snd (handleReconnect order c w)) s = s'"
    using assms(2,8) by (simp add: SimulateReconnect_def fb_forget_def Let_def)
  ultimately show ?thesis by simp
qed

theorem Reconnect_restores_witness:
  "subscribed fb_ok fb_live
     (fst (handleReconnect [''acme/A1''] (fst ex_tracking) (fb_forget (fst (snd ex_tracking)))))
     (SimulateReconnect (\<lambda>cb w. snd (handleReconnect [''acme/A1''] (fst ex_tracking) w)) (fst (snd ex_tracking)))"
proof -
  obtain c' s' where run:
    "handleReconnect [''acme/A1''] (fst ex_tracking) (fb_forget (fst (snd ex_tracking))) = (c', s')"
    by (metis prod.collapse)
  have "\<forall>f. cl_fleet (fst ex_tracking) = Some f \<longrightarrow>
      fl_started f \<and> filed f \<and> iteration_of [''acme/A1''] (fl_tracked f)"
    using ex_tracking_eval(5,6)
    by (auto simp: filed_def iteration_of_def agv_key_def ex_agv_def split: if_splits)
  from Reconnect_restores [OF ex_tracking_eval(7,8) ex_tracking_eval(2) [unfolded ex_transport_def]
      ex_tracking_eval(1) this _ _ run]
  show ?thesis using run by (simp add: ex_tracking_eval)
qed

end
