(* ===== verification/Outbound.thy ===== *)
theory Outbound
  imports Client_Life
begin

text \<open>
  outbound_validate.go, agv.go and instant.go: the checks before a publish, the typed publishes of
  one vehicle and the standard instant actions. A publish mutates the message it is given, so its
  result holds the message after the call, the world, the PublishResult and the error; it is None
  when the transport never returns. json.Marshal of the vendored message types is the argument
  mo (orders) and mi (instant actions); wall is the time of day.
\<close>

definition ReasonHeaderIDZero :: string where
  "ReasonHeaderIDZero = ''headerId_zero''"
definition ReasonOrderIDEmpty :: string where
  "ReasonOrderIDEmpty = ''orderId_empty''"
definition ReasonOrderUpdateIDZero :: string where
  "ReasonOrderUpdateIDZero = ''orderUpdateId_zero''"
definition ReasonActionIDEmpty :: string where
  "ReasonActionIDEmpty = ''actionId_empty''"
definition ReasonIdentityMismatch :: string where
  "ReasonIdentityMismatch = ''identity_mismatch''"

definition outboundValidationError :: "string \<Rightarrow> string \<Rightarrow> goerr" where
  "outboundValidationError reason detail =
     (let err = gerr_With (sentinel OutboundValidationFailed) ''reason'' (ArgStr reason) in
      if detail \<noteq> [] then gerr_With err ''detail'' (ArgStr detail) else err)"

definition validateOutboundHeader ::
  "u32 \<Rightarrow> string \<Rightarrow> string \<Rightarrow> string \<Rightarrow> string \<Rightarrow> outbound_options \<Rightarrow> goerr option" where
  "validateOutboundHeader headerID msgMfr msgSN handleMfr handleSN opts =
     (if \<not> ov_AllowZeroHeaderID opts \<and> headerID = 0
      then Some (outboundValidationError ReasonHeaderIDZero [])
      else if ov_SkipIdentityCheck opts then None
      else if msgMfr \<noteq> [] \<and> msgMfr \<noteq> handleMfr
      then Some (outboundValidationError ReasonIdentityMismatch ''manufacturer'')
      else if msgSN \<noteq> [] \<and> msgSN \<noteq> handleSN
      then Some (outboundValidationError ReasonIdentityMismatch ''serialNumber'')
      else None)"

definition validateOutboundOrder ::
  "vorder \<Rightarrow> string \<Rightarrow> string \<Rightarrow> outbound_options \<Rightarrow> goerr option" where
  "validateOutboundOrder r mfr serial opts =
     (if ov_Disabled opts then None
      else (case validateOutboundHeader (h_HeaderId (o_header r)) (h_Manufacturer (o_header r))
              (h_SerialNumber (o_header r)) mfr serial opts of
          Some e \<Rightarrow> Some e
        | None \<Rightarrow>
            if TrimSpace (o_OrderId r) = [] then Some (outboundValidationError ReasonOrderIDEmpty [])
            else if o_OrderUpdateId r = 0
            then Some (outboundValidationError ReasonOrderUpdateIDZero []) else None))"

fun validateActionIds :: "nat \<Rightarrow> instant_action list \<Rightarrow> goerr option" where
  "validateActionIds i [] = None"
| "validateActionIds i (a # as) =
     (if TrimSpace (ia_ActionId a) = []
      then Some (outboundValidationError ReasonActionIDEmpty (''index='' @ itoa i))
      else validateActionIds (Suc i) as)"

definition validateOutboundInstantActions ::
  "instant_actions \<Rightarrow> string \<Rightarrow> string \<Rightarrow> outbound_options \<Rightarrow> goerr option" where
  "validateOutboundInstantActions ia mfr serial opts =
     (if ov_Disabled opts then None
      else (case validateOutboundHeader (h_HeaderId (ias_header ia)) (h_Manufacturer (ias_header ia))
              (h_SerialNumber (ias_header ia)) mfr serial opts of
          Some e \<Rightarrow> Some e
        | None \<Rightarrow> validateActionIds 0 (ias_Actions ia)))"

record publish_result =
  pr_Topic :: string
  pr_Channel :: channel
  pr_Manufacturer :: string
  pr_SerialNumber :: string
  pr_QoS :: u8
  pr_Payload :: bytes
  pr_HeaderID :: u32
  pr_OrderID :: string
  pr_OrderUpdateID :: u32
  pr_ActionIDs :: "string list"

definition zero_result :: publish_result where
  "zero_result = \<lparr>pr_Topic = [], pr_Channel = [], pr_Manufacturer = [], pr_SerialNumber = [],
     pr_QoS = 0, pr_Payload = [], pr_HeaderID = 0, pr_OrderID = [], pr_OrderUpdateID = 0,
     pr_ActionIDs = []\<rparr>"

record agv_handle =
  hd_manufacturer :: string
  hd_serial :: string

definition AGV :: "string \<Rightarrow> string \<Rightarrow> agv_handle" where
  "AGV manufacturer serial = \<lparr>hd_manufacturer = manufacturer, hd_serial = serial\<rparr>"

text \<open>An AGVHandle points to its client, which the methods here get as the argument c.\<close>

definition PublishOrder ::
  "(vorder \<Rightarrow> goerr + bytes) \<Rightarrow> gotime \<Rightarrow> ('s, 'u) client \<Rightarrow> agv_handle \<Rightarrow> goctx \<Rightarrow> vorder option \<Rightarrow> 's \<Rightarrow>
     (vorder option \<times> 's \<times> publish_result \<times> goerr option) option" where
  "PublishOrder mo wall c a ctx ord s =
     (case requireStarted c of Some e \<Rightarrow> Some (ord, s, zero_result, Some e)
      | None \<Rightarrow>
     (case ord of None \<Rightarrow> Some (None, s, zero_result, Some (NewInvalidConfigWithArgs [ArgStr ''order is nil'']))
      | Some r \<Rightarrow>
     (case validateOutboundOrder r (hd_manufacturer a) (hd_serial a) (outboundValidation (cl_cfg c)) of
        Some e \<Rightarrow> Some (Some r, s, zero_result, Some e)
      | None \<Rightarrow>
         (let ord1 = PrepareOrder (cl_builder c) wall (hd_manufacturer a) (hd_serial a) (Some r);
              r1 = the ord1 in
          case mo r1 of Inl e \<Rightarrow> Some (ord1, s, zero_result, Some e)
          | Inr payload \<Rightarrow>
             (let qos = publishQoS (cl_cfg c) in
              case validatePublishQoS qos of Some e \<Rightarrow> Some (ord1, s, zero_result, Some e)
              | None \<Rightarrow>
                 (let t = Build (cl_topics c) (hd_manufacturer a) (hd_serial a) ChannelOrder;
                      res = zero_result\<lparr>pr_Topic := t, pr_Channel := ChannelOrder,
                        pr_Manufacturer := hd_manufacturer a, pr_SerialNumber := hd_serial a,
                        pr_QoS := qos, pr_Payload := payload,
                        pr_HeaderID := h_HeaderId (o_header r1), pr_OrderID := o_OrderId r1,
                        pr_OrderUpdateID := o_OrderUpdateId r1\<rparr> in
                  map_option (\<lambda>(s', err). (ord1, s', res, err))
                    (tr_Publish (cl_transport c) ctx t payload \<lparr>po_QoS = qos, po_Retain = False\<rparr> s)))))))"

definition PublishInstantActions ::
  "(instant_actions \<Rightarrow> goerr + bytes) \<Rightarrow> gotime \<Rightarrow> ('s, 'u) client \<Rightarrow> agv_handle \<Rightarrow> goctx \<Rightarrow>
     instant_actions option \<Rightarrow> 's \<Rightarrow> (instant_actions option \<times> 's \<times> publish_result \<times> goerr option) option" where
  "PublishInstantActions mi wall c a ctx ia s =
     (case requireStarted c of Some e \<Rightarrow> Some (ia, s, zero_result, Some e)
      | None \<Rightarrow>
     (case ia of None \<Rightarrow> Some (None, s, zero_result,
          Some (NewInvalidConfigWithArgs [ArgStr ''instantActions is nil'']))
      | Some r \<Rightarrow>
     (case validateOutboundInstantActions r (hd_manufacturer a) (hd_serial a)
         (outboundValidation (cl_cfg c)) of
        Some e \<Rightarrow> Some (Some r, s, zero_result, Some e)
      | None \<Rightarrow>
         (let ia1 = PrepareInstantActions (cl_builder c) wall (hd_manufacturer a) (hd_serial a) (Some r);
              r1 = the ia1 in
          case mi r1 of Inl e \<Rightarrow> Some (ia1, s, zero_result, Some e)
          | Inr payload \<Rightarrow>
             (let qos = publishQoS (cl_cfg c) in
              case validatePublishQoS qos of Some e \<Rightarrow> Some (ia1, s, zero_result, Some e)
              | None \<Rightarrow>
                 (let t = Build (cl_topics c) (hd_manufacturer a) (hd_serial a) ChannelInstantActions;
                      res = zero_result\<lparr>pr_Topic := t, pr_Channel := ChannelInstantActions,
                        pr_Manufacturer := hd_manufacturer a, pr_SerialNumber := hd_serial a,
                        pr_QoS := qos, pr_Payload := payload,
                        pr_HeaderID := h_HeaderId (ias_header r1),
                        pr_ActionIDs := map ia_ActionId (ias_Actions r1)\<rparr> in
                  map_option (\<lambda>(s', err). (ia1, s', res, err))
                    (tr_Publish (cl_transport c) ctx t payload \<lparr>po_QoS = qos, po_Retain = False\<rparr> s)))))))"

subsection \<open>Standard instant actions\<close>

record init_position_params =
  ip_X :: u64
  ip_Y :: u64
  ip_Theta :: u64
  ip_MapID :: string
  ip_LastNodeID :: string

text \<open>
  Coordinates are float64 values, kept as their bits. A publish of a standard action has no
  message of the caller: its result drops the message. vc are the constants of the vendored
  package.
\<close>

definition publishStdInstant ::
  "vda_consts \<Rightarrow> (instant_actions \<Rightarrow> goerr + bytes) \<Rightarrow> gotime \<Rightarrow> ('s, 'u) client \<Rightarrow> agv_handle \<Rightarrow> goctx \<Rightarrow>
     u32 \<Rightarrow> string \<Rightarrow> vda_action \<Rightarrow> action_parameter list \<Rightarrow> 's \<Rightarrow> ('s \<times> publish_result \<times> goerr option) option" where
  "publishStdInstant vc mi wall c a ctx headerID actionID actionType params s =
     (if actionID = []
      then Some (s, zero_result, Some (NewInvalidConfigWithArgs [ArgStr ''actionId is required'']))
      else let ia = \<lparr>ias_header = zero_header\<lparr>h_HeaderId := headerID\<rparr>,
               ias_Actions = [\<lparr>ia_ActionType = vda_action_name vc actionType, ia_ActionId = actionID,
                 ia_BlockingType = vda_Hard vc, ia_Parameters = params, ia_rest = Opaque 0\<rparr>]\<rparr> in
        map_option snd (PublishInstantActions mi wall c a ctx (Some ia) s))"

definition CancelOrder ::
  "vda_consts \<Rightarrow> (instant_actions \<Rightarrow> goerr + bytes) \<Rightarrow> gotime \<Rightarrow> ('s, 'u) client \<Rightarrow> agv_handle \<Rightarrow> goctx \<Rightarrow>
     u32 \<Rightarrow> string \<Rightarrow> 's \<Rightarrow> ('s \<times> publish_result \<times> goerr option) option" where
  "CancelOrder vc mi wall c a ctx headerID actionID =
     publishStdInstant vc mi wall c a ctx headerID actionID ActionCancelOrder []"

definition StartPause ::
  "vda_consts \<Rightarrow> (instant_actions \<Rightarrow> goerr + bytes) \<Rightarrow> gotime \<Rightarrow> ('s, 'u) client \<Rightarrow> agv_handle \<Rightarrow> goctx \<Rightarrow>
     u32 \<Rightarrow> string \<Rightarrow> 's \<Rightarrow> ('s \<times> publish_result \<times> goerr option) option" where
  "StartPause vc mi wall c a ctx headerID actionID =
     publishStdInstant vc mi wall c a ctx headerID actionID ActionStartPause []"

definition StopPause ::
  "vda_consts \<Rightarrow> (instant_actions \<Rightarrow> goerr + bytes) \<Rightarrow> gotime \<Rightarrow> ('s, 'u) client \<Rightarrow> agv_handle \<Rightarrow> goctx \<Rightarrow>
     u32 \<Rightarrow> string \<Rightarrow> 's \<Rightarrow> ('s \<times> publish_result \<times> goerr option) option" where
  "StopPause vc mi wall c a ctx headerID actionID =
     publishStdInstant vc mi wall c a ctx headerID actionID ActionStopPause []"

definition StateRequest ::
  "vda_consts \<Rightarrow> (instant_actions \<Rightarrow> goerr + bytes) \<Rightarrow> gotime \<Rightarrow> ('s, 'u) client \<Rightarrow> agv_handle \<Rightarrow> goctx \<Rightarrow>
     u32 \<Rightarrow> string \<Rightarrow> 's \<Rightarrow> ('s \<times> publish_result \<times> goerr option) option" where
  "StateRequest vc mi wall c a ctx headerID actionID =
     publishStdInstant vc mi wall c a ctx headerID actionID ActionStateRequest []"

definition FactsheetRequest ::
  "vda_consts \<Rightarrow> (instant_actions \<Rightarrow> goerr + bytes) \<Rightarrow> gotime \<Rightarrow> ('s, 'u) client \<Rightarrow> agv_handle \<Rightarrow> goctx \<Rightarrow>
     u32 \<Rightarrow> string \<Rightarrow> 's \<Rightarrow> ('s \<times> publish_result \<times> goerr option) option" where
  "FactsheetRequest vc mi wall c a ctx headerID actionID =
     publishStdInstant vc mi wall c a ctx headerID actionID ActionFactsheetRequest []"

definition StartCharging ::
  "vda_consts \<Rightarrow> (instant_actions \<Rightarrow> goerr + bytes) \<Rightarrow> gotime \<Rightarrow> ('s, 'u) client \<Rightarrow> agv_handle \<Rightarrow> goctx \<Rightarrow>
     u32 \<Rightarrow> string \<Rightarrow> 's \<Rightarrow> ('s \<times> publish_result \<times> goerr option) option" where
  "StartCharging vc mi wall c a ctx headerID actionID =
     publishStdInstant vc mi wall c a ctx headerID actionID ActionStartCharging []"

definition StopCharging ::
  "vda_consts \<Rightarrow> (instant_actions \<Rightarrow> goerr + bytes) \<Rightarrow> gotime \<Rightarrow> ('s, 'u) client \<Rightarrow> agv_handle \<Rightarrow> goctx \<Rightarrow>
     u32 \<Rightarrow> string \<Rightarrow> 's \<Rightarrow> ('s \<times> publish_result \<times> goerr option) option" where
  "StopCharging vc mi wall c a ctx headerID actionID =
     publishStdInstant vc mi wall c a ctx headerID actionID ActionStopCharging []"

definition InitPosition ::
  "vda_consts \<Rightarrow> (instant_actions \<Rightarrow> goerr + bytes) \<Rightarrow> gotime \<Rightarrow> ('s, 'u) client \<Rightarrow> agv_handle \<Rightarrow> goctx \<Rightarrow>
     u32 \<Rightarrow> string \<Rightarrow> init_position_params \<Rightarrow> 's \<Rightarrow> ('s \<times> publish_result \<times> goerr option) option" where
  "InitPosition vc mi wall c a ctx headerID actionID p s =
     (if TrimSpace (ip_MapID p) = []
      then Some (s, zero_result, Some (NewInvalidConfigWithArgs [ArgStr ''mapId is required'']))
      else if TrimSpace (ip_LastNodeID p) = []
      then Some (s, zero_result, Some (NewInvalidConfigWithArgs [ArgStr ''lastNodeId is required'']))
      else publishStdInstant vc mi wall c a ctx headerID actionID ActionInitPosition
        [\<lparr>ap_Key = ''x'', ap_Value = AnyFloat (ip_X p)\<rparr>, \<lparr>ap_Key = ''y'', ap_Value = AnyFloat (ip_Y p)\<rparr>,
         \<lparr>ap_Key = ''theta'', ap_Value = AnyFloat (ip_Theta p)\<rparr>,
         \<lparr>ap_Key = ''mapId'', ap_Value = AnyString (ip_MapID p)\<rparr>,
         \<lparr>ap_Key = ''lastNodeId'', ap_Value = AnyString (ip_LastNodeID p)\<rparr>] s)"

end
