(* ===== verification/Outbound_Correct.thy ===== *)
theory Outbound_Correct
  imports Outbound Client_Broker
begin

text \<open>
  What a typed publish guarantees: nothing reaches the transport unless every check passed, what
  reaches it is exactly one message addressed to the vehicle of the handle, and a rejection by the
  checks classifies as not started.
\<close>

text \<open>The errors of the local checks say that nothing was sent.\<close>

definition rejected :: "goerr option \<Rightarrow> bool" where
  "rejected err \<longleftrightarrow> (\<exists>k ns. err = Some (Gerr k ns) \<and> k \<in> not_sent_codes)"

lemma rejected_not_started:
  "matches_by_code gis \<Longrightarrow> rejected err \<Longrightarrow> ClassifyPublish gis err = PublishOutcomeNotStarted"
  by (auto simp: rejected_def ClassifyPublish_spec outcome_spec_def)

lemma rejectedI [intro]: "k \<in> not_sent_codes \<Longrightarrow> rejected (Some (Gerr k ns))"
  by (auto simp: rejected_def)

lemma rejected_validation [simp]: "rejected (Some (outboundValidationError reason detail))"
  by (auto simp: outboundValidationError_def Let_def not_sent_codes_def)

lemma rejected_local [simp]:
  "rejected (Some (sentinel ClientNotStarted))" "rejected (Some (NewInvalidConfigWithArgs as))"
  by (auto simp: not_sent_codes_def gerr_constructors)

lemma header_check:
  "validateOutboundHeader i m n hm hn opts = None \<longleftrightarrow>
     (ov_AllowZeroHeaderID opts \<or> i \<noteq> 0) \<and>
     (ov_SkipIdentityCheck opts \<or> m \<in> {[], hm} \<and> n \<in> {[], hn})"
  by (auto simp: validateOutboundHeader_def)

lemma header_check_rejects: "validateOutboundHeader i m n hm hn opts = Some e \<Longrightarrow> rejected (Some e)"
  by (auto simp only: validateOutboundHeader_def rejected_validation option.inject option.distinct
      split: if_splits)

lemma action_ids_check: "validateActionIds i as = None \<longleftrightarrow> (\<forall>a \<in> set as. TrimSpace (ia_ActionId a) \<noteq> [])"
  by (induction i "as" rule: validateActionIds.induct) auto

lemma action_ids_rejects: "validateActionIds i as = Some e \<Longrightarrow> rejected (Some e)"
  by (induction i "as" rule: validateActionIds.induct) (auto split: if_splits)

lemma order_check_rejects: "validateOutboundOrder r m n opts = Some e \<Longrightarrow> rejected (Some e)"
  by (auto simp: validateOutboundOrder_def dest: header_check_rejects split: if_splits option.splits)

lemma instant_check_rejects: "validateOutboundInstantActions r m n opts = Some e \<Longrightarrow> rejected (Some e)"
  by (auto simp: validateOutboundInstantActions_def dest: header_check_rejects action_ids_rejects
      split: if_splits option.splits)

lemma qos_check: "validatePublishQoS q = None \<longleftrightarrow> q \<le> 2"
  by (auto simp: validatePublishQoS_def)

lemma qos_check_rejects: "validatePublishQoS q = Some e \<Longrightarrow> rejected (Some e)"
  by (auto simp: validatePublishQoS_def not_sent_codes_def split: if_splits)

lemmas publish_rejects = order_check_rejects instant_check_rejects qos_check_rejects

text \<open>The identity on the wire is that of the handle.\<close>

definition addressed :: "protocol_header \<Rightarrow> agv_handle \<Rightarrow> bool" where
  "addressed h a \<longleftrightarrow> h_Manufacturer h = hd_manufacturer a \<and> h_SerialNumber h = hd_serial a"

definition header_ok :: "protocol_header \<Rightarrow> agv_handle \<Rightarrow> outbound_options \<Rightarrow> bool" where
  "header_ok h a opts \<longleftrightarrow> (h_HeaderId h \<noteq> 0 \<or> ov_AllowZeroHeaderID opts) \<and>
     (addressed h a \<or> ov_SkipIdentityCheck opts)"

definition order_ok :: "vorder \<Rightarrow> agv_handle \<Rightarrow> outbound_options \<Rightarrow> bool" where
  "order_ok r a opts \<longleftrightarrow> ov_Disabled opts \<or>
     (TrimSpace (o_OrderId r) \<noteq> [] \<and> o_OrderUpdateId r \<noteq> 0 \<and> header_ok (o_header r) a opts)"

definition instant_ok :: "instant_actions \<Rightarrow> agv_handle \<Rightarrow> outbound_options \<Rightarrow> bool" where
  "instant_ok r a opts \<longleftrightarrow> ov_Disabled opts \<or>
     ((\<forall>x \<in> set (ias_Actions r). TrimSpace (ia_ActionId x) \<noteq> []) \<and> header_ok (ias_header r) a opts)"

lemma header_filled_ok:
  assumes "validateOutboundHeader (h_HeaderId h) (h_Manufacturer h) (h_SerialNumber h)
      (hd_manufacturer a) (hd_serial a) opts = None"
  shows "header_ok (ApplyHeader b wall (hd_manufacturer a) (hd_serial a) h) a opts"
  using assms by (auto simp: header_check header_ok_def addressed_def ApplyHeader_def)

lemma order_check_ok:
  assumes "validateOutboundOrder r (hd_manufacturer a) (hd_serial a) opts = None"
  shows "order_ok (r\<lparr>o_header := ApplyHeader b wall (hd_manufacturer a) (hd_serial a) (o_header r)\<rparr>) a opts"
  using assms header_filled_ok
  by (auto simp: validateOutboundOrder_def order_ok_def split: if_splits option.splits)

lemma instant_check_ok:
  assumes "validateOutboundInstantActions r (hd_manufacturer a) (hd_serial a) opts = None"
  shows "instant_ok (r\<lparr>ias_header := ApplyHeader b wall (hd_manufacturer a) (hd_serial a) (ias_header r)\<rparr>) a opts"
  using assms header_filled_ok
  by (auto simp: validateOutboundInstantActions_def instant_ok_def action_ids_check
      split: if_splits option.splits)

text \<open>The ways through the two publishes.\<close>

definition order_result :: "('s, 'u) client \<Rightarrow> agv_handle \<Rightarrow> vorder \<Rightarrow> bytes \<Rightarrow> publish_result" where
  "order_result c a r payload =
     zero_result\<lparr>pr_Topic := Build (cl_topics c) (hd_manufacturer a) (hd_serial a) ChannelOrder,
       pr_Channel := ChannelOrder, pr_Manufacturer := hd_manufacturer a,
       pr_SerialNumber := hd_serial a, pr_QoS := publishQoS (cl_cfg c), pr_Payload := payload,
       pr_HeaderID := h_HeaderId (o_header r), pr_OrderID := o_OrderId r, pr_OrderUpdateID := o_OrderUpdateId r\<rparr>"

definition order_filled :: "gotime \<Rightarrow> ('s, 'u) client \<Rightarrow> agv_handle \<Rightarrow> vorder \<Rightarrow> vorder" where
  "order_filled wall c a r =
     r\<lparr>o_header := ApplyHeader (cl_builder c) wall (hd_manufacturer a) (hd_serial a) (o_header r)\<rparr>"

lemma PublishOrder_valid:
  assumes "cl_started c"
    and "validateOutboundOrder r (hd_manufacturer a) (hd_serial a) (outboundValidation (cl_cfg c)) = None"
  shows "PublishOrder mo wall c a ctx (Some r) s =
    (case mo (order_filled wall c a r) of
       Inl e \<Rightarrow> Some (Some (order_filled wall c a r), s, zero_result, Some e)
     | Inr payload \<Rightarrow>
         (case validatePublishQoS (publishQoS (cl_cfg c)) of
            Some e \<Rightarrow> Some (Some (order_filled wall c a r), s, zero_result, Some e)
          | None \<Rightarrow> map_option (\<lambda>(s', err). (Some (order_filled wall c a r), s',
                order_result c a (order_filled wall c a r) payload, err))
              (tr_Publish (cl_transport c) ctx
                (Build (cl_topics c) (hd_manufacturer a) (hd_serial a) ChannelOrder) payload
                \<lparr>po_QoS = publishQoS (cl_cfg c), po_Retain = False\<rparr> s)))"
  by (simp add: PublishOrder_def requireStarted_def assms PrepareOrder_def Let_def order_result_def
      order_filled_def split: sum.split option.split)

lemma PublishOrder_invalid:
  assumes "PublishOrder mo wall c a ctx x s = Some (x', s', res, err)"
    and "\<not> (cl_started c \<and> (\<exists>r. x = Some r \<and>
      validateOutboundOrder r (hd_manufacturer a) (hd_serial a) (outboundValidation (cl_cfg c)) = None))"
  shows "s' = s \<and> res = zero_result \<and> rejected err"
proof (cases "cl_started c \<and> x \<noteq> None")
  case True
  then obtain r e where "x = Some r" and
    e: "validateOutboundOrder r (hd_manufacturer a) (hd_serial a) (outboundValidation (cl_cfg c)) = Some e"
    using assms(2) by (auto simp del: split_paired_Ex)
  then show ?thesis
    using assms(1) True order_check_rejects [OF e] by (simp add: PublishOrder_def requireStarted_def)
next
  case False
  then show ?thesis
    using assms(1) by (auto simp: PublishOrder_def requireStarted_def split: if_splits)
qed

lemma PublishOrder_cases:
  assumes run: "PublishOrder mo wall c a ctx x s = Some (x', s', res, err)"
  obtains (1) "s' = s" "res = zero_result" "rejected err"
  | (2) r e where "s' = s" "res = zero_result" "x' = Some r" "mo r = Inl e" "err = Some e"
  | (3) r payload where "cl_started c" "x = Some r"
    "validateOutboundOrder r (hd_manufacturer a) (hd_serial a) (outboundValidation (cl_cfg c)) = None"
    "x' = Some (order_filled wall c a r)" "mo (order_filled wall c a r) = Inr payload"
    "publishQoS (cl_cfg c) \<le> 2"
    "tr_Publish (cl_transport c) ctx (Build (cl_topics c) (hd_manufacturer a) (hd_serial a) ChannelOrder)
       payload \<lparr>po_QoS = publishQoS (cl_cfg c), po_Retain = False\<rparr> s = Some (s', err)"
    "res = order_result c a (order_filled wall c a r) payload"
proof (cases "cl_started c \<and> (\<exists>r. x = Some r \<and>
      validateOutboundOrder r (hd_manufacturer a) (hd_serial a) (outboundValidation (cl_cfg c)) = None)")
  case False
  then show ?thesis using PublishOrder_invalid [OF run] that(1) by blast
next
  case True
  then obtain r where r: "cl_started c" "x = Some r"
    "validateOutboundOrder r (hd_manufacturer a) (hd_serial a) (outboundValidation (cl_cfg c)) = None" by blast
  note run1 = run [unfolded r(2) PublishOrder_valid [OF r(1,3)]]
  show ?thesis
  proof (cases "mo (order_filled wall c a r)")
    case (Inl e)
    then show ?thesis using run1 by (auto intro: that(2))
  next
    case payload: (Inr payload)
    show ?thesis
    proof (cases "validatePublishQoS (publishQoS (cl_cfg c))")
      case (Some e)
      then show ?thesis using run1 payload qos_check_rejects [OF Some] by (auto intro: that(1))
    next
      case None
      then show ?thesis
        using run1 payload r qos_check [of "publishQoS (cl_cfg c)"] by (intro that(3) [of r payload]) auto
    qed
  qed
qed

definition instant_result :: "('s, 'u) client \<Rightarrow> agv_handle \<Rightarrow> instant_actions \<Rightarrow> bytes \<Rightarrow> publish_result" where
  "instant_result c a r payload =
     zero_result\<lparr>pr_Topic := Build (cl_topics c) (hd_manufacturer a) (hd_serial a) ChannelInstantActions,
       pr_Channel := ChannelInstantActions, pr_Manufacturer := hd_manufacturer a,
       pr_SerialNumber := hd_serial a, pr_QoS := publishQoS (cl_cfg c), pr_Payload := payload,
       pr_HeaderID := h_HeaderId (ias_header r), pr_ActionIDs := map ia_ActionId (ias_Actions r)\<rparr>"

definition instant_filled :: "gotime \<Rightarrow> ('s, 'u) client \<Rightarrow> agv_handle \<Rightarrow> instant_actions \<Rightarrow> instant_actions" where
  "instant_filled wall c a r =
     r\<lparr>ias_header := ApplyHeader (cl_builder c) wall (hd_manufacturer a) (hd_serial a) (ias_header r)\<rparr>"

lemma PublishInstantActions_valid:
  assumes "cl_started c"
    and "validateOutboundInstantActions r (hd_manufacturer a) (hd_serial a) (outboundValidation (cl_cfg c)) = None"
  shows "PublishInstantActions mi wall c a ctx (Some r) s =
    (case mi (instant_filled wall c a r) of
       Inl e \<Rightarrow> Some (Some (instant_filled wall c a r), s, zero_result, Some e)
     | Inr payload \<Rightarrow>
         (case validatePublishQoS (publishQoS (cl_cfg c)) of
            Some e \<Rightarrow> Some (Some (instant_filled wall c a r), s, zero_result, Some e)
          | None \<Rightarrow> map_option (\<lambda>(s', err). (Some (instant_filled wall c a r), s',
                instant_result c a (instant_filled wall c a r) payload, err))
              (tr_Publish (cl_transport c) ctx
                (Build (cl_topics c) (hd_manufacturer a) (hd_serial a) ChannelInstantActions) payload
                \<lparr>po_QoS = publishQoS (cl_cfg c), po_Retain = False\<rparr> s)))"
  by (simp add: PublishInstantActions_def requireStarted_def assms PrepareInstantActions_def Let_def instant_result_def
      instant_filled_def split: sum.split option.split)

lemma PublishInstantActions_invalid:
  assumes "PublishInstantActions mi wall c a ctx x s = Some (x', s', res, err)"
    and "\<not> (cl_started c \<and> (\<exists>r. x = Some r \<and>
      validateOutboundInstantActions r (hd_manufacturer a) (hd_serial a) (outboundValidation (cl_cfg c)) = None))"
  shows "s' = s \<and> res = zero_result \<and> rejected err"
proof (cases "cl_started c \<and> x \<noteq> None")
  case True
  then obtain r e where "x = Some r" and
    e: "validateOutboundInstantActions r (hd_manufacturer a) (hd_serial a) (outboundValidation (cl_cfg c)) = Some e"
    using assms(2) by (auto simp del: split_paired_Ex)
  then show ?thesis
    using assms(1) True instant_check_rejects [OF e] by (simp add: PublishInstantActions_def requireStarted_def)
next
  case False
  then show ?thesis
    using assms(1) by (auto simp: PublishInstantActions_def requireStarted_def split: if_splits)
qed

lemma PublishInstantActions_cases:
  assumes run: "PublishInstantActions mi wall c a ctx x s = Some (x', s', res, err)"
  obtains (1) "s' = s" "res = zero_result" "rejected err"
  | (2) r e where "s' = s" "res = zero_result" "x' = Some r" "mi r = Inl e" "err = Some e"
  | (3) r payload where "cl_started c" "x = Some r"
    "validateOutboundInstantActions r (hd_manufacturer a) (hd_serial a) (outboundValidation (cl_cfg c)) = None"
    "x' = Some (instant_filled wall c a r)" "mi (instant_filled wall c a r) = Inr payload"
    "publishQoS (cl_cfg c) \<le> 2"
    "tr_Publish (cl_transport c) ctx (Build (cl_topics c) (hd_manufacturer a) (hd_serial a) ChannelInstantActions)
       payload \<lparr>po_QoS = publishQoS (cl_cfg c), po_Retain = False\<rparr> s = Some (s', err)"
    "res = instant_result c a (instant_filled wall c a r) payload"
proof (cases "cl_started c \<and> (\<exists>r. x = Some r \<and>
      validateOutboundInstantActions r (hd_manufacturer a) (hd_serial a) (outboundValidation (cl_cfg c)) = None)")
  case False
  then show ?thesis using PublishInstantActions_invalid [OF run] that(1) by blast
next
  case True
  then obtain r where r: "cl_started c" "x = Some r"
    "validateOutboundInstantActions r (hd_manufacturer a) (hd_serial a) (outboundValidation (cl_cfg c)) = None" by blast
  note run1 = run [unfolded r(2) PublishInstantActions_valid [OF r(1,3)]]
  show ?thesis
  proof (cases "mi (instant_filled wall c a r)")
    case (Inl e)
    then show ?thesis using run1 by (auto intro: that(2))
  next
    case payload: (Inr payload)
    show ?thesis
    proof (cases "validatePublishQoS (publishQoS (cl_cfg c))")
      case (Some e)
      then show ?thesis using run1 payload qos_check_rejects [OF Some] by (auto intro: that(1))
    next
      case None
      then show ?thesis
        using run1 payload r qos_check [of "publishQoS (cl_cfg c)"] by (intro that(3) [of r payload]) auto
    qed
  qed
qed

text \<open>
  C11. PublishOrder reaches the transport only with a valid order: either it returns an error and
  a zero result without any effect on the world, and that error is a local rejection or the
  marshalling error; or it made exactly one transport publish, of the marshalled order, on the
  order topic of the vehicle, not retained, with the configured QoS (at most 2), and the result it
  returns describes that message. With validation on, that order has a header id (unless zero is
  allowed), a non-blank order id, a non-zero update id and, unless the check is skipped, the
  identity of the handle; its header version is the client's.
\<close>
theorem PublishOrder_sends_valid:
  assumes "PublishOrder mo wall c a ctx ord s = Some (ord', s', res, err)"
  shows "(s' = s \<and> res = zero_result \<and> (rejected err \<or> (\<exists>r. ord' = Some r \<and> (\<exists>e. mo r = Inl e \<and> err = Some e))))
    \<or> (\<exists>r. ord' = Some r \<and> cl_started c \<and> mo r = Inr (pr_Payload res) \<and>
        tr_Publish (cl_transport c) ctx (pr_Topic res) (pr_Payload res)
          \<lparr>po_QoS = pr_QoS res, po_Retain = False\<rparr> s = Some (s', err) \<and>
        pr_Topic res = Build (cl_topics c) (hd_manufacturer a) (hd_serial a) ChannelOrder \<and>
        pr_QoS res = publishQoS (cl_cfg c) \<and> pr_QoS res \<le> 2 \<and>
        pr_HeaderID res = h_HeaderId (o_header r) \<and> pr_OrderID res = o_OrderId r \<and>
        pr_OrderUpdateID res = o_OrderUpdateId r \<and>
        h_Version (o_header r) = bd_Version (cl_builder c) \<and>
        order_ok r a (outboundValidation (cl_cfg c)))"
proof (cases rule: PublishOrder_cases [OF assms])
  case (3 r payload)
  then show ?thesis
    using order_check_ok [OF 3(3), of "cl_builder c" wall]
    by (intro disjI2 exI [of _ "order_filled wall c a r"])
      (simp add: order_result_def order_filled_def ApplyHeader_def)
qed auto

definition ex_order :: vorder where
  "ex_order = \<lparr>o_header = zero_header\<lparr>h_HeaderId := 1\<rparr>, o_OrderId = ''uagv'', o_OrderUpdateId = 2,
     o_rest = Opaque 0\<rparr>"

lemma ex_running_cfg:
  "cl_cfg (fst ex_running) = ex_config"
  "cl_topics (fst ex_running) = \<lparr>res_Interface = ''uagv'', res_Version = ''v2''\<rparr>"
proof -
  have "cl_cfg ex_c0 = ex_config" "cl_topics ex_c0 = \<lparr>res_Interface = ''uagv'', res_Version = ''v2''\<rparr>"
    using ex_valid by (simp_all add: New_def Let_def ex_c0_def OnTopic_def) (simp_all add: ex_config_def)
  then show "cl_cfg (fst ex_running) = ex_config"
    "cl_topics (fst ex_running) = \<lparr>res_Interface = ''uagv'', res_Version = ''v2''\<rparr>"
    by (simp_all add: ex_running_def ex_c0_facts ex_s0_eval ex_c0_more ex_eval)
qed

lemma ex_options:
  "outboundValidation ex_config = \<lparr>ov_Disabled = False, ov_AllowZeroHeaderID = False, ov_SkipIdentityCheck = False\<rparr>"
  "publishQoS ex_config = 1"
  by (simp_all add: outboundValidation_def publishQoS_def ex_config_def DefaultOrderQoS_def)

lemma ex_order_valid:
  "validateOutboundOrder ex_order m n (outboundValidation ex_config) = None"
  using ex_nonblank by (simp add: validateOutboundOrder_def validateOutboundHeader_def ex_options
      ex_order_def zero_header_def)

text \<open>The publish of the example order returns, with the message recorded by the broker.\<close>

lemma ex_publish:
  "\<exists>s' err. PublishOrder (\<lambda>r. Inr [1]) 0 (fst ex_running) (AGV ''acme'' ''A1'') Background (Some ex_order)
      (fst (snd ex_running))
    = Some (Some (order_filled 0 (fst ex_running) (AGV ''acme'' ''A1'') ex_order), s',
        order_result (fst ex_running) (AGV ''acme'' ''A1'')
          (order_filled 0 (fst ex_running) (AGV ''acme'' ''A1'') ex_order) [1], err)"
proof -
  have st: "fb_fail (fst (fst (snd ex_running))) = None" "\<not> fb_hang (fst (fst (snd ex_running)))"
    by (simp_all add: ex_running_def ex_c0_facts ex_s0_eval ex_c0_more ex_eval)
  have "validatePublishQoS (publishQoS ex_config) = None" by (simp add: qos_check ex_options)
  then show ?thesis
    using ex_order_valid ex_running_eval(1,2) ex_running_broker(1) st
    by (simp add: PublishOrder_valid ex_running_cfg ex_transport_def fb_transport_def FB_Publish_def Let_def
        split: prod.split)
qed

theorem PublishOrder_sends_valid_witness:
  "pr_OrderID (order_result (fst ex_running) (AGV ''acme'' ''A1'')
     (order_filled 0 (fst ex_running) (AGV ''acme'' ''A1'') ex_order) [1]) = ''uagv''"
proof -
  obtain s' err where "PublishOrder (\<lambda>r. Inr [1]) 0 (fst ex_running) (AGV ''acme'' ''A1'') Background
      (Some ex_order) (fst (snd ex_running))
    = Some (Some (order_filled 0 (fst ex_running) (AGV ''acme'' ''A1'') ex_order), s',
        order_result (fst ex_running) (AGV ''acme'' ''A1'')
          (order_filled 0 (fst ex_running) (AGV ''acme'' ''A1'') ex_order) [1], err)"
    using ex_publish by blast
  from PublishOrder_sends_valid [OF this] show ?thesis
    by (auto simp: order_result_def order_filled_def ex_order_def zero_result_def)
qed

text \<open>
  C12. PublishInstantActions has the same guarantee for instant actions: no effect on the world
  unless every check passed, and otherwise exactly one publish, on the instantActions topic of the
  vehicle, of a message whose actions all carry a non-blank action id (with validation on) and
  whose ids are the ones the result reports.
\<close>
theorem PublishInstantActions_sends_valid:
  assumes "PublishInstantActions mi wall c a ctx ia s = Some (ia', s', res, err)"
  shows "(s' = s \<and> res = zero_result \<and> (rejected err \<or> (\<exists>r. ia' = Some r \<and> (\<exists>e. mi r = Inl e \<and> err = Some e))))
    \<or> (\<exists>r. ia' = Some r \<and> cl_started c \<and> mi r = Inr (pr_Payload res) \<and>
        tr_Publish (cl_transport c) ctx (pr_Topic res) (pr_Payload res)
          \<lparr>po_QoS = pr_QoS res, po_Retain = False\<rparr> s = Some (s', err) \<and>
        pr_Topic res = Build (cl_topics c) (hd_manufacturer a) (hd_serial a) ChannelInstantActions \<and>
        pr_QoS res = publishQoS (cl_cfg c) \<and> pr_QoS res \<le> 2 \<and>
        pr_HeaderID res = h_HeaderId (ias_header r) \<and>
        pr_ActionIDs res = map ia_ActionId (ias_Actions r) \<and>
        h_Version (ias_header r) = bd_Version (cl_builder c) \<and>
        instant_ok r a (outboundValidation (cl_cfg c)))"
proof (cases rule: PublishInstantActions_cases [OF assms])
  case (3 r payload)
  then show ?thesis
    using instant_check_ok [OF 3(3), of "cl_builder c" wall]
    by (intro disjI2 exI [of _ "instant_filled wall c a r"])
      (simp add: instant_result_def instant_filled_def ApplyHeader_def)
qed auto

definition ex_instant :: instant_actions where
  "ex_instant = \<lparr>ias_header = zero_header\<lparr>h_HeaderId := 1\<rparr>,
     ias_Actions = [\<lparr>ia_ActionType = ''x'', ia_ActionId = ''v2'', ia_BlockingType = ''HARD'',
       ia_Parameters = [], ia_rest = Opaque 0\<rparr>]\<rparr>"

lemma ex_publish_instant:
  "\<exists>s' err. PublishInstantActions (\<lambda>r. Inr [1]) 0 (fst ex_running) (AGV ''acme'' ''A1'') Background
      (Some ex_instant) (fst (snd ex_running))
    = Some (Some (instant_filled 0 (fst ex_running) (AGV ''acme'' ''A1'') ex_instant), s',
        instant_result (fst ex_running) (AGV ''acme'' ''A1'')
          (instant_filled 0 (fst ex_running) (AGV ''acme'' ''A1'') ex_instant) [1], err)"
proof -
  have st: "fb_fail (fst (fst (snd ex_running))) = None" "\<not> fb_hang (fst (fst (snd ex_running)))"
    by (simp_all add: ex_running_def ex_c0_facts ex_s0_eval ex_c0_more ex_eval)
  have "validatePublishQoS (publishQoS ex_config) = None" by (simp add: qos_check ex_options)
  moreover have "validateOutboundInstantActions ex_instant m n (outboundValidation ex_config) = None"
    for m n
    using ex_nonblank by (simp add: validateOutboundInstantActions_def validateOutboundHeader_def
        ex_options ex_instant_def zero_header_def)
  ultimately show ?thesis
    using ex_running_eval(1,2) ex_running_broker(1) st
    by (simp add: PublishInstantActions_valid ex_running_cfg ex_transport_def fb_transport_def
        FB_Publish_def Let_def split: prod.split)
qed

theorem PublishInstantActions_sends_valid_witness:
  "pr_ActionIDs (instant_result (fst ex_running) (AGV ''acme'' ''A1'')
     (instant_filled 0 (fst ex_running) (AGV ''acme'' ''A1'') ex_instant) [1]) = [''v2'']"
proof -
  obtain s' err where "PublishInstantActions (\<lambda>r. Inr [1]) 0 (fst ex_running) (AGV ''acme'' ''A1'')
      Background (Some ex_instant) (fst (snd ex_running))
    = Some (Some (instant_filled 0 (fst ex_running) (AGV ''acme'' ''A1'') ex_instant), s',
        instant_result (fst ex_running) (AGV ''acme'' ''A1'')
          (instant_filled 0 (fst ex_running) (AGV ''acme'' ''A1'') ex_instant) [1], err)"
    using ex_publish_instant by blast
  from PublishInstantActions_sends_valid [OF this] show ?thesis
    by (auto simp: instant_result_def instant_filled_def ex_instant_def zero_result_def)
qed

subsection \<open>Standard instant actions\<close>

text \<open>
  C31. A standard instant action is published as one message with exactly one action: the given
  action id and type name, blocking type HARD and the given parameters, under the given header id;
  an empty action id is rejected before anything is sent. The identity on the wire is that of the
  handle, because the message starts without one.
\<close>
theorem StdInstant_single_action:
  assumes "publishStdInstant vc mi wall c a ctx i x act params s = Some (s', res, err)"
  shows "(s' = s \<and> res = zero_result \<and> (rejected err \<or> (\<exists>r e. mi r = Inl e \<and> err = Some e)))
    \<or> (\<exists>r. cl_started c \<and> x \<noteq> [] \<and> mi r = Inr (pr_Payload res) \<and>
        ias_Actions r = [\<lparr>ia_ActionType = vda_action_name vc act, ia_ActionId = x,
          ia_BlockingType = vda_Hard vc, ia_Parameters = params, ia_rest = Opaque 0\<rparr>] \<and>
        h_HeaderId (ias_header r) = i \<and> addressed (ias_header r) a \<and>
        tr_Publish (cl_transport c) ctx
          (Build (cl_topics c) (hd_manufacturer a) (hd_serial a) ChannelInstantActions) (pr_Payload res)
          \<lparr>po_QoS = publishQoS (cl_cfg c), po_Retain = False\<rparr> s = Some (s', err))"
proof (cases "x = []")
  case True
  then show ?thesis using assms by (auto simp: publishStdInstant_def)
next
  case False
  let ?ia = "\<lparr>ias_header = zero_header\<lparr>h_HeaderId := i\<rparr>,
    ias_Actions = [\<lparr>ia_ActionType = vda_action_name vc act, ia_ActionId = x,
      ia_BlockingType = vda_Hard vc, ia_Parameters = params, ia_rest = Opaque 0\<rparr>]\<rparr>"
  obtain ia' where run: "PublishInstantActions mi wall c a ctx (Some ?ia) s = Some (ia', s', res, err)"
    using assms False by (auto simp: publishStdInstant_def)
  show ?thesis
  proof (cases rule: PublishInstantActions_cases [OF run])
    case (3 r payload)
    then show ?thesis
      using False by (intro disjI2 exI [of _ "instant_filled wall c a ?ia"])
        (auto simp: instant_result_def instant_filled_def addressed_def ApplyHeader_def zero_header_def)
  qed auto
qed

definition ex_consts :: vda_consts where
  "ex_consts = \<lparr>vda_action_name = (\<lambda>_. ''cancelOrder''), vda_Hard = ''HARD''\<rparr>"

theorem StdInstant_single_action_witness:
  "fst (snd (the (publishStdInstant ex_consts (\<lambda>r. Inr [1]) 0 ex_c0 (AGV ''acme'' ''A1'') Background 1 ''v2''
     ActionCancelOrder [] ex_s0))) = zero_result"
proof -
  have "publishStdInstant ex_consts (\<lambda>r. Inr [1]) 0 ex_c0 (AGV ''acme'' ''A1'') Background 1 ''v2''
      ActionCancelOrder [] ex_s0 = Some (ex_s0, zero_result, Some (sentinel ClientNotStarted))"
    by (simp add: publishStdInstant_def PublishInstantActions_def requireStarted_def ex_c0_more Let_def)
  from StdInstant_single_action [OF this] this show ?thesis by (auto simp: ex_c0_more)
qed

subsection \<open>A publish on the in-process broker\<close>

lemma fb_deliver_published:
  assumes "\<And>h ctx t p s. fb_published (fst (fst (run h ctx t p s))) = fb_published (fst s)"
  shows "fb_published (fst (fst (fb_deliver run subs ctx topic payload s))) = fb_published (fst s)"
proof (induction subs arbitrary: s)
  case (Cons sub subs)
  obtain f h where sub: "sub = (f, h)" by fastforce
  obtain s1 r where "run h ctx topic payload s = (s1, r)" by fastforce
  then show ?case using Cons [of s1] Cons [of s] assms [of h ctx topic payload s]
    by (cases r) (auto simp: sub)
qed simp

lemma fb_publish_sel:
  "tr_Publish (fb_transport run ks race clock) ctx topic payload opts s =
     FB_Publish run (ks s) race (clock s) ctx topic payload opts s"
  by (simp add: fb_transport_def)

lemma FB_Publish_ready:
  assumes "fb_running (fst s)" and "fb_fail (fst s) = None" and "fb_hang (fst s)"
  shows "FB_Publish run ks race now ctx topic payload opts s =
    map_option (\<lambda>e. (((fst s)\<lparr>fb_fail := None, fb_hang := False\<rparr>, snd s), MarkPublishAttempted (Some e)))
      (hang_error race ctx now (fb_hangFor (fst s)))"
  using assms by (simp add: FB_Publish_def Let_def split: option.split)

lemma FB_Publish_recorded:
  assumes "fb_running (fst s)" and "fb_fail (fst s) = None" and "\<not> fb_hang (fst s)"
    and "\<forall>h ctx t p s. fb_published (fst (fst (run h ctx t p s))) = fb_published (fst s)"
  shows "\<exists>s' err. FB_Publish run ks race now ctx topic payload opts s = Some (s', err) \<and>
    fb_published (fst s') = fb_published (fst s) @
      [\<lparr>pub_Topic = topic, pub_Payload = payload, pub_Opts = opts\<rparr>]"
proof -
  let ?b = "(fst s)\<lparr>fb_fail := None, fb_hang := False, fb_published := fb_published (fst s) @
      [\<lparr>pub_Topic = topic, pub_Payload = payload, pub_Opts = opts\<rparr>]\<rparr>"
  let ?d = "fb_deliver run (map_values ks (fb_subs (fst s))) ctx topic payload (?b, snd s)"
  have "FB_Publish run ks race now ctx topic payload opts s = Some (fst ?d, snd ?d)"
    using assms(1-3) by (simp add: FB_Publish_def Let_def)
  moreover have "fb_published (fst (fst ?d)) = fb_published ?b"
    using fb_deliver_published [of run] assms(4) by simp
  then have "fb_published (fst (fst ?d)) = fb_published (fst s) @
      [\<lparr>pub_Topic = topic, pub_Payload = payload, pub_Opts = opts\<rparr>]" by simp
  ultimately show ?thesis by blast
qed

lemma hang_uncertain:
  assumes "matches_by_code gis" and "hang_error race ctx now limit = Some e"
  shows "ClassifyPublish gis (MarkPublishAttempted (Some e)) = PublishOutcomeUncertain"
  using assms
  by (auto simp: hang_error_def MarkPublishAttempted_def ClassifyPublish_spec outcome_spec_def
      not_sent_codes_def split: if_splits option.splits)

text \<open>
  C32. A valid order on the running in-process broker: a call that is armed to hang records nothing
  and, when it returns, its error classifies as Uncertain; it never returns only if it hangs
  without a limit under a context that never ends. Otherwise the call returns and exactly one
  message is recorded: topic, payload and QoS of the result, not retained.
\<close>
theorem PublishOrder_on_broker:
  assumes "cl_transport c = fb_transport run ks race clock" and "cl_started c"
    and "validateOutboundOrder r (hd_manufacturer a) (hd_serial a) (outboundValidation (cl_cfg c)) = None"
    and "mo (order_filled wall c a r) = Inr payload" and "publishQoS (cl_cfg c) \<le> 2"
    and "fb_running (fst s)" and "fb_fail (fst s) = None" and "matches_by_code gis"
    and "\<forall>h ctx t p s. fb_published (fst (fst (run h ctx t p s))) = fb_published (fst s)"
  shows "case PublishOrder mo wall c a ctx (Some r) s of
      None \<Rightarrow> fb_hang (fst s) \<and> fb_hangFor (fst s) \<le> 0 \<and> ctx_done_at ctx = None
    | Some (ord', s', res, err) \<Rightarrow>
        if fb_hang (fst s)
        then Published (fst s') = Published (fst s) \<and>
          ClassifyPublish gis err = PublishOutcomeUncertain
        else Published (fst s') = Published (fst s) @
          [\<lparr>pub_Topic = pr_Topic res, pub_Payload = pr_Payload res,
             pub_Opts = \<lparr>po_QoS = pr_QoS res, po_Retain = False\<rparr>\<rparr>]"
proof -
  have qos: "validatePublishQoS (publishQoS (cl_cfg c)) = None" using assms(5) by (simp add: qos_check)
  note hang = hang_uncertain [OF assms(8)]
  have never: "hang_error race ctx (clock s) (fb_hangFor (fst s)) = None \<longleftrightarrow>
      fb_hangFor (fst s) \<le> 0 \<and> ctx_done_at ctx = None"
    by (auto simp: hang_error_def)
  note eq = PublishOrder_valid [OF assms(2,3), where mo = mo and wall = wall and ctx = ctx and s = s]
  note eq' = eq [unfolded assms(1,4) fb_publish_sel, simplified qos, simplified]
  show ?thesis
  proof (cases "fb_hang (fst s)")
    case True
    then show ?thesis
      using assms(6,7) never hang by (auto simp: eq' FB_Publish_ready Published_def split: option.split)
  next
    case False
    let ?p = "FB_Publish run (ks s) race (clock s) ctx
      (Build (cl_topics c) (hd_manufacturer a) (hd_serial a) ChannelOrder) payload
      \<lparr>po_QoS = publishQoS (cl_cfg c), po_Retain = False\<rparr> s"
    obtain s' err where p: "?p = Some (s', err)" "fb_published (fst s') = fb_published (fst s) @
        [\<lparr>pub_Topic = Build (cl_topics c) (hd_manufacturer a) (hd_serial a) ChannelOrder,
          pub_Payload = payload, pub_Opts = \<lparr>po_QoS = publishQoS (cl_cfg c), po_Retain = False\<rparr>\<rparr>]"
      using FB_Publish_recorded [OF assms(6,7) False assms(9)] by blast
    show ?thesis
      unfolding eq' p(1) using False p(2) by (simp add: Published_def order_result_def)
  qed
qed

theorem PublishOrder_on_broker_witness:
  "case PublishOrder (\<lambda>r. Inr [1]) 0 (fst ex_running) (AGV ''acme'' ''A1'') Background (Some ex_order)
      (fst (snd ex_running)) of
     None \<Rightarrow> False
   | Some (ord', s', res, err) \<Rightarrow> Published (fst s') \<noteq> []"
proof -
  have st: "fb_fail (fst (fst (snd ex_running))) = None" "\<not> fb_hang (fst (fst (snd ex_running)))"
    by (simp_all add: ex_running_def ex_c0_facts ex_s0_eval ex_c0_more ex_eval)
  have v: "validateOutboundOrder ex_order m n (outboundValidation (cl_cfg (fst ex_running))) = None" for m n
    using ex_order_valid by (simp add: ex_running_cfg)
  from PublishOrder_on_broker [OF ex_running_eval(2) [unfolded ex_transport_def] ex_running_eval(1) v,
      where gis = by_code and mo = "\<lambda>r. Inr [1]" and payload = "[1]" and wall = 0 and ctx = Background
        and s = "fst (snd ex_running)" and a = "AGV ''acme'' ''A1''"]
  show ?thesis
    using st ex_running_broker(1) by (auto simp: ex_running_cfg ex_options split: option.splits)
qed

end
