(* ===== verification/Mqtt_Classify.thy ===== *)
theory Mqtt_Classify
  imports Topics
begin

text \<open>
  internal/mqtt/classify.go: which inbound lane a topic goes to, and which topics may be
  discarded under backpressure.
\<close>

datatype lane = laneConnection | laneAGV | laneTopic

definition classifyInbound :: "string \<Rightarrow> lane \<times> string" where
  "classifyInbound topic =
     (let parts = split_on CHR ''/'' topic; n = length parts in
      if n < 5 then (laneTopic, [])
      else let channel = parts ! (n - 1); mfr = parts ! (n - 3); sn = parts ! (n - 2) in
        if channel = ''connection'' then (laneConnection, mfr @ ''/'' @ sn)
        else if channel \<in> set [''state'', ''visualization'', ''factsheet'']
        then (laneAGV, mfr @ ''/'' @ sn)
        else (laneTopic, []))"

definition droppableTopic :: "string \<Rightarrow> bool" where
  "droppableTopic topic =
     (let parts = split_on CHR ''/'' topic in
      5 \<le> length parts \<and> parts ! (length parts - 1) = ''visualization'')"

text \<open>A shard key determines manufacturer and serial number, because segments hold no slash.\<close>

lemma key_inject:
  assumes "segment m" "segment s" "segment m'" "segment s'"
  shows "m @ ''/'' @ s = m' @ ''/'' @ s' \<longleftrightarrow> m = m' \<and> s = s'"
proof
  assume "m @ ''/'' @ s = m' @ ''/'' @ s'"
  then have "split_on CHR ''/'' (m @ ''/'' @ s) = split_on CHR ''/'' (m' @ ''/'' @ s')"
    by simp
  with assms show "m = m' \<and> s = s'"
    by (simp add: split_on_append split_on_free segment_def)
qed simp

lemma droppable_lane: "droppableTopic t \<Longrightarrow> fst (classifyInbound t) = laneAGV"
  by (auto simp: droppableTopic_def classifyInbound_def Let_def)

lemma connection_key_nonempty: "classifyInbound t = (laneConnection, k) \<Longrightarrow> k \<noteq> []"
  by (auto simp: classifyInbound_def Let_def split: if_splits)

lemma classify_parsed:
  assumes "Parse r t = Inr p"
  shows "classifyInbound t =
    (if pt_Channel p = ChannelConnection
     then (laneConnection, pt_Manufacturer p @ ''/'' @ pt_SerialNumber p)
     else if pt_Channel p \<in> {ChannelState, ChannelVisualization, ChannelFactsheet}
     then (laneAGV, pt_Manufacturer p @ ''/'' @ pt_SerialNumber p)
     else (laneTopic, []))"
    and "droppableTopic t \<longleftrightarrow> pt_Channel p = ChannelVisualization"
  using assms
  by (auto simp: Parse_Inr_iff classifyInbound_def droppableTopic_def Let_def channel_defs)

text \<open>
  C10. Lane routing agrees with the topic resolver: on a topic that parses, the lane is the one of
  its channel, only visualization may be discarded, and two parsed topics of vehicle channels
  share a shard exactly when they come from the same manufacturer and serial number.
\<close>

theorem classify_agrees_with_Parse:
  assumes "Parse r t = Inr p" and "Parse r t' = Inr p'"
  shows "(fst (classifyInbound t) = laneConnection \<longleftrightarrow> pt_Channel p = ChannelConnection) \<and>
    (fst (classifyInbound t) = laneAGV \<longleftrightarrow>
       pt_Channel p \<in> {ChannelState, ChannelVisualization, ChannelFactsheet}) \<and>
    (droppableTopic t \<longleftrightarrow> pt_Channel p = ChannelVisualization) \<and>
    (fst (classifyInbound t) \<noteq> laneTopic \<longrightarrow> fst (classifyInbound t') \<noteq> laneTopic \<longrightarrow>
       (snd (classifyInbound t) = snd (classifyInbound t') \<longleftrightarrow>
          pt_Manufacturer p = pt_Manufacturer p' \<and> pt_SerialNumber p = pt_SerialNumber p'))"
  using classify_parsed [OF assms(1)] classify_parsed [OF assms(2)]
    key_inject [OF Parse_segments(3,4) [OF assms(1)] Parse_segments(3,4) [OF assms(2)]]
  by (auto simp: channel_defs)

theorem classify_agrees_with_Parse_witness:
  "snd (classifyInbound ''uagv/v2/M/S1/state'') = snd (classifyInbound ''x/y/M/S1/factsheet'')"
proof -
  have t: "Parse \<lparr>res_Interface = [], res_Version = []\<rparr> ''uagv/v2/M/S1/state'' =
     Inr \<lparr>pt_Interface = ''uagv'', pt_Version = ''v2'', pt_Manufacturer = ''M'',
          pt_SerialNumber = ''S1'', pt_Channel = ''state''\<rparr>"
    by (simp add: Parse_Inr_iff ValidChannel_def channel_defs)
  have t': "Parse \<lparr>res_Interface = [], res_Version = []\<rparr> ''x/y/M/S1/factsheet'' =
     Inr \<lparr>pt_Interface = ''x'', pt_Version = ''y'', pt_Manufacturer = ''M'',
          pt_SerialNumber = ''S1'', pt_Channel = ''factsheet''\<rparr>"
    by (simp add: Parse_Inr_iff ValidChannel_def channel_defs)
  have "fst (classifyInbound ''uagv/v2/M/S1/state'') \<noteq> laneTopic"
    "fst (classifyInbound ''x/y/M/S1/factsheet'') \<noteq> laneTopic"
    by (simp_all add: classifyInbound_def)
  then show ?thesis using classify_agrees_with_Parse [OF t t'] by simp
qed

end
