(* ===== verification/Mqtt_Dispatch.thy ===== *)
theory Mqtt_Dispatch
  imports Channels Mqtt_Classify Mqtt_Config Transport_Api "HOL-Library.Multiset"
begin

text \<open>
  internal/mqtt/dispatch.go: the inbound dispatcher of the MQTT transport, one lane for connection
  messages (latest wins), one queue for other topics and one queue per vehicle, each with a worker
  goroutine. Any number of enqueue calls, the workers and a stop run concurrently; a step is one
  region under the transport's lock or one channel operation, so every interleaving of these is a
  run. A call of enqueue in progress is a program counter with the locals the code holds there
  (done tells whether the Done channel it captured is that of the dispatch context; the one
  ctxDone makes for a nil context is closed).

  One run of the dispatcher is modelled, from startDispatchLocked to the stop that cancels its
  context: the fields that startDispatchLocked makes and the stop clears under the lock
  (dispatchCtx, connLatest, connWake, topicQ, shards) are nil exactly when dp_open is false. A
  queue outlives the field that names it, so dp_queue is the heap of the queues made so far. The
  handlers and the two callbacks act on the world 's. The last six fields are auxiliary logs: no
  step reads them.
\<close>

record inbound =
  in_topic :: string
  in_payload :: bytes
  in_handler :: raw_handler
  in_receivedAt :: gotime

datatype queue_id = TopicQueue | Shard string

datatype queue_worker = QIdle | QBusy inbound | QExited

datatype conn_worker = CWaiting | CDraining | CBusy inbound | CExited

record queue =
  qu_chan :: "inbound chan"
  qu_worker :: queue_worker

datatype enqueue_call =
    PutConn string inbound
  | SendWake
  | FindQueue inbound bool
  | TrySend queue_id inbound bool
  | Blocked queue_id inbound bool

record 's dispatcher =
  dp_qsize :: nat
  dp_open :: bool
  dp_cancelled :: bool
  dp_connLatest :: "string \<rightharpoonup> inbound"
  dp_connWake :: "unit chan"
  dp_connWorker :: conn_worker
  dp_queue :: "queue_id \<rightharpoonup> queue"
  dp_calls :: "enqueue_call multiset"
  dp_world :: 's
  lg_offered :: "inbound list"
  lg_accepted :: "inbound list"
  lg_put :: "inbound list"
  lg_handled :: "inbound list"
  lg_discarded :: "inbound list"
  lg_abandoned :: "inbound list"

type_synonym 's handler_run = "inbound \<Rightarrow> 's \<Rightarrow> 's \<times> goerr option"

subsection \<open>Starting\<close>

definition queueSize :: "('s, 'c) mqtt_config \<Rightarrow> int" where
  "queueSize cfg = (if mc_InboundQueueSize cfg \<le> 0 then defaultInboundQueue else mc_InboundQueueSize cfg)"

definition new_queue :: "nat \<Rightarrow> queue" where
  "new_queue n = \<lparr>qu_chan = chan_make n, qu_worker = QIdle\<rparr>"

definition startDispatchLocked :: "('s, 'c) mqtt_config \<Rightarrow> 's \<Rightarrow> 's dispatcher" where
  "startDispatchLocked cfg s =
     (let qsize = nat (queueSize cfg) in
      \<lparr>dp_qsize = qsize, dp_open = True, dp_cancelled = False, dp_connLatest = Map.empty,
       dp_connWake = chan_make 1, dp_connWorker = CWaiting,
       dp_queue = [TopicQueue \<mapsto> new_queue qsize], dp_calls = {#}, dp_world = s,
       lg_offered = [], lg_accepted = [], lg_put = [], lg_handled = [], lg_discarded = [],
       lg_abandoned = []\<rparr>)"

subsection \<open>Handling one message\<close>

definition dispatchOne :: "('s, 'c) mqtt_config \<Rightarrow> 's handler_run \<Rightarrow> inbound \<Rightarrow> 's \<Rightarrow> 's" where
  "dispatchOne cfg run m s =
     (case run m s of
        (s', None) \<Rightarrow> s'
      | (s', Some e) \<Rightarrow> (case mc_OnHandlerError cfg of None \<Rightarrow> s' | Some h \<Rightarrow> h (in_topic m) e s'))"

definition handle :: "('s, 'c) mqtt_config \<Rightarrow> 's handler_run \<Rightarrow> inbound \<Rightarrow> 's dispatcher \<Rightarrow> 's dispatcher" where
  "handle cfg run m d =
     d\<lparr>dp_world := dispatchOne cfg run m (dp_world d), lg_handled := lg_handled d @ [m]\<rparr>"

subsection \<open>The regions of enqueue\<close>

definition first_call :: "'s dispatcher \<Rightarrow> inbound \<Rightarrow> enqueue_call" where
  "first_call d m =
     (case classifyInbound (in_topic m) of
        (laneConnection, key) \<Rightarrow> PutConn (if key = [] then in_topic m else key) m
      | _ \<Rightarrow> FindQueue m (dp_open d))"

definition put_latest :: "string \<Rightarrow> inbound \<Rightarrow> 's dispatcher \<Rightarrow> 's dispatcher" where
  "put_latest key m d = d\<lparr>dp_connLatest := (dp_connLatest d)(key \<mapsto> m), lg_put := lg_put d @ [m]\<rparr>"

definition send_wake :: "'s dispatcher \<Rightarrow> 's dispatcher" where
  "send_wake d =
     (case chan_send () (dp_connWake d) of None \<Rightarrow> d | Some w \<Rightarrow> d\<lparr>dp_connWake := w\<rparr>)"

definition agvQueue :: "string \<Rightarrow> 's dispatcher \<Rightarrow> queue_id option \<times> 's dispatcher" where
  "agvQueue key d =
     (if \<not> dp_open d then (None, d)
      else case dp_queue d (Shard key) of
          Some _ \<Rightarrow> (Some (Shard key), d)
        | None \<Rightarrow> (Some (Shard key),
            d\<lparr>dp_queue := (dp_queue d)(Shard key \<mapsto> new_queue (dp_qsize d))\<rparr>))"

definition queueFor :: "string \<Rightarrow> 's dispatcher \<Rightarrow> queue_id option \<times> 's dispatcher" where
  "queueFor topic d =
     (case classifyInbound topic of
        (laneConnection, _) \<Rightarrow> (None, d)
      | (laneTopic, _) \<Rightarrow> (if dp_open d then Some TopicQueue else None, d)
      | (laneAGV, key) \<Rightarrow> agvQueue key d)"

definition push :: "queue_id \<Rightarrow> inbound \<Rightarrow> 's dispatcher \<Rightarrow> 's dispatcher option" where
  "push q m d =
     (case dp_queue d q of None \<Rightarrow> None
      | Some u \<Rightarrow> (case chan_send m (qu_chan u) of None \<Rightarrow> None
          | Some c \<Rightarrow> Some (d\<lparr>dp_queue := (dp_queue d)(q \<mapsto> u\<lparr>qu_chan := c\<rparr>),
              lg_accepted := lg_accepted d @ [m]\<rparr>)))"

definition drop_reason_of :: "string \<Rightarrow> drop_reason" where
  "drop_reason_of topic = (if droppableTopic topic then DropDiscarded else DropBackpressured)"

definition notify_drop :: "('s, 'c) mqtt_config \<Rightarrow> string \<Rightarrow> 's dispatcher \<Rightarrow> 's dispatcher" where
  "notify_drop cfg topic d =
     (case mc_OnInboundDrop cfg of None \<Rightarrow> d
      | Some f \<Rightarrow> d\<lparr>dp_world := f topic (drop_reason_of topic) (dp_world d)\<rparr>)"

definition abandon :: "inbound \<Rightarrow> 's dispatcher \<Rightarrow> 's dispatcher" where
  "abandon m d = d\<lparr>lg_abandoned := lg_abandoned d @ [m]\<rparr>"

definition discard :: "inbound \<Rightarrow> 's dispatcher \<Rightarrow> 's dispatcher" where
  "discard m d = d\<lparr>lg_discarded := lg_discarded d @ [m]\<rparr>"

subsection \<open>The steps\<close>

text \<open>
  A call of enqueue. In M the other calls in progress stay as they are. The blocking select may
  take its Done branch as soon as that channel is closed, and its send branch whenever there is
  room.
\<close>

inductive call_step :: "('s, 'c) mqtt_config \<Rightarrow> 's dispatcher \<Rightarrow> 's dispatcher \<Rightarrow> bool" for cfg where
  call: "call_step cfg d (d\<lparr>dp_calls := add_mset (first_call d m) (dp_calls d),
      lg_offered := lg_offered d @ [m]\<rparr>)"
| put_closed: "dp_calls d = add_mset (PutConn k m) M \<Longrightarrow> \<not> dp_open d \<Longrightarrow>
    call_step cfg d (abandon m (d\<lparr>dp_calls := M\<rparr>))"
| put: "dp_calls d = add_mset (PutConn k m) M \<Longrightarrow> dp_open d \<Longrightarrow>
    call_step cfg d (put_latest k m (d\<lparr>dp_calls := add_mset SendWake M\<rparr>))"
| wake: "dp_calls d = add_mset SendWake M \<Longrightarrow>
    call_step cfg d (send_wake (d\<lparr>dp_calls := M\<rparr>))"
| no_queue: "dp_calls d = add_mset (FindQueue m b) M \<Longrightarrow>
    queueFor (in_topic m) (d\<lparr>dp_calls := M\<rparr>) = (None, d') \<Longrightarrow> call_step cfg d (abandon m d')"
| find_queue: "dp_calls d = add_mset (FindQueue m b) M \<Longrightarrow>
    queueFor (in_topic m) (d\<lparr>dp_calls := add_mset (TrySend q m b) M\<rparr>) = (Some q, d') \<Longrightarrow>
    call_step cfg d d'"
| send: "dp_calls d = add_mset (TrySend q m b) M \<Longrightarrow>
    push q m (d\<lparr>dp_calls := M\<rparr>) = Some d' \<Longrightarrow> call_step cfg d d'"
| full_drop: "dp_calls d = add_mset (TrySend q m b) M \<Longrightarrow>
    push q m d = None \<Longrightarrow> drop_reason_of (in_topic m) = DropDiscarded \<Longrightarrow>
    call_step cfg d (discard m (notify_drop cfg (in_topic m) (d\<lparr>dp_calls := M\<rparr>)))"
| full_block: "dp_calls d = add_mset (TrySend q m b) M \<Longrightarrow>
    push q m d = None \<Longrightarrow> drop_reason_of (in_topic m) \<noteq> DropDiscarded \<Longrightarrow>
    call_step cfg d (notify_drop cfg (in_topic m) (d\<lparr>dp_calls := add_mset (Blocked q m b) M\<rparr>))"
| block_send: "dp_calls d = add_mset (Blocked q m b) M \<Longrightarrow>
    push q m (d\<lparr>dp_calls := M\<rparr>) = Some d' \<Longrightarrow> call_step cfg d d'"
| block_done: "dp_calls d = add_mset (Blocked q m b) M \<Longrightarrow> \<not> b \<or> dp_cancelled d \<Longrightarrow>
    call_step cfg d (abandon m (d\<lparr>dp_calls := M\<rparr>))"

text \<open>
  The workers: runQueue for each queue, runConnectionCoalesce with takeConn for the connection
  lane. Between taking a message and returning to its select a worker runs dispatchOne.
  takeConn takes any entry of the map.
\<close>

inductive work_step ::
  "('s, 'c) mqtt_config \<Rightarrow> 's handler_run \<Rightarrow> 's dispatcher \<Rightarrow> 's dispatcher \<Rightarrow> bool" for cfg run where
  take: "dp_queue d q = Some u \<Longrightarrow> qu_worker u = QIdle \<Longrightarrow> chan_recv (qu_chan u) = Some (m, c) \<Longrightarrow>
    work_step cfg run d (d\<lparr>dp_queue := (dp_queue d)(q \<mapsto> \<lparr>qu_chan = c, qu_worker = QBusy m\<rparr>)\<rparr>)"
| handle: "dp_queue d q = Some u \<Longrightarrow> qu_worker u = QBusy m \<Longrightarrow>
    work_step cfg run d (handle cfg run m (d\<lparr>dp_queue := (dp_queue d)(q \<mapsto> u\<lparr>qu_worker := QIdle\<rparr>)\<rparr>))"
| exit: "dp_queue d q = Some u \<Longrightarrow> qu_worker u = QIdle \<Longrightarrow> dp_cancelled d \<Longrightarrow>
    work_step cfg run d (d\<lparr>dp_queue := (dp_queue d)(q \<mapsto> u\<lparr>qu_worker := QExited\<rparr>)\<rparr>)"
| conn_wake: "dp_connWorker d = CWaiting \<Longrightarrow> chan_recv (dp_connWake d) = Some (x, w) \<Longrightarrow>
    work_step cfg run d (d\<lparr>dp_connWake := w, dp_connWorker := CDraining\<rparr>)"
| conn_take: "dp_connWorker d = CDraining \<Longrightarrow> dp_connLatest d k = Some m \<Longrightarrow>
    work_step cfg run d (d\<lparr>dp_connLatest := (dp_connLatest d)(k := None), dp_connWorker := CBusy m\<rparr>)"
| conn_empty: "dp_connWorker d = CDraining \<Longrightarrow> dp_connLatest d = Map.empty \<Longrightarrow>
    work_step cfg run d (d\<lparr>dp_connWorker := CWaiting\<rparr>)"
| conn_handle: "dp_connWorker d = CBusy m \<Longrightarrow>
    work_step cfg run d (handle cfg run m (d\<lparr>dp_connWorker := CDraining\<rparr>))"
| conn_exit: "dp_connWorker d = CWaiting \<Longrightarrow> dp_cancelled d \<Longrightarrow>
    work_step cfg run d (d\<lparr>dp_connWorker := CExited\<rparr>)"

text \<open>
  Stop and shutdownDispatch clear the fields under the lock and cancel the context after it.
\<close>

inductive stop_step :: "'s dispatcher \<Rightarrow> 's dispatcher \<Rightarrow> bool" where
  close: "dp_open d \<Longrightarrow> stop_step d (d\<lparr>dp_open := False, dp_connLatest := Map.empty\<rparr>)"
| cancel: "\<not> dp_open d \<Longrightarrow> stop_step d (d\<lparr>dp_cancelled := True\<rparr>)"

inductive dispatching ::
  "('s, 'c) mqtt_config \<Rightarrow> 's handler_run \<Rightarrow> 's \<Rightarrow> 's dispatcher \<Rightarrow> bool" for cfg run s0 where
  start: "dispatching cfg run s0 (startDispatchLocked cfg s0)"
| call: "dispatching cfg run s0 d \<Longrightarrow> call_step cfg d d' \<Longrightarrow> dispatching cfg run s0 d'"
| work: "dispatching cfg run s0 d \<Longrightarrow> work_step cfg run d d' \<Longrightarrow> dispatching cfg run s0 d'"
| stop: "dispatching cfg run s0 d \<Longrightarrow> stop_step d d' \<Longrightarrow> dispatching cfg run s0 d'"

inductive_cases work_stepE: "work_step cfg run d d'"

lemmas region_defs = put_latest_def send_wake_def abandon_def discard_def notify_drop_def handle_def
  new_queue_def

end
