(* ===== verification/Mqtt_Transport.thy ===== *)
theory Mqtt_Transport
  imports Mqtt_Dispatch Publish_Outcome Envelope
begin

text \<open>
  internal/mqtt/transport.go, wait.go and attempted.go, and the adapter mqtt_adapter.go: the MQTT
  transport around the paho client. paho is not under src/: the record paho holds its operations
  on the rest of the world 'w, and a token is when it completes (if ever) and the error text it
  then carries. The world of the transport's operations is the pair of its own state and that
  rest. While a call waits for a token other goroutines run: ph_pass t is what they have done to
  the whole world by the instant t. The choices a select makes between branches that are ready at
  the same instant are ph_tie_timer (the token against its timer) and ph_tie_ctx (the context
  against the wait). The dispatcher inside the transport is the one of Mqtt_Dispatch; here only
  whether it is open is kept (mt_open is its dp_open).
\<close>

subsection \<open>State and collaborators\<close>

record 'c mqtt =
  mt_running :: bool
  mt_stopping :: bool
  mt_wasConnected :: bool
  mt_client :: bool
  mt_onReconnect :: "'c option"
  mt_onLost :: "'c option"
  mt_open :: bool

record token =
  tk_done :: "gotime option"
  tk_err :: "string option"

record client_options =
  po_Broker :: string
  po_ClientID :: string
  po_Username :: string
  po_Password :: string
  po_KeepAlive :: duration
  po_CleanSession :: bool
  po_AutoReconnect :: bool
  po_ConnectRetry :: bool
  po_ConnectTimeout :: "duration option"
  po_TLS :: "opaque option"
  po_Will :: "(string \<times> bytes \<times> u8 \<times> bool) option"

type_synonym ('c, 'w) mqtt_world = "'c mqtt \<times> 'w"

record ('c, 'w) paho =
  ph_NewClient :: "client_options \<Rightarrow> 'w \<Rightarrow> 'w"
  ph_Connect :: "'w \<Rightarrow> 'w \<times> token"
  ph_Disconnect :: "nat \<Rightarrow> 'w \<Rightarrow> 'w"
  ph_IsConnected :: "'w \<Rightarrow> bool"
  ph_Publish :: "string \<Rightarrow> u8 \<Rightarrow> bool \<Rightarrow> bytes \<Rightarrow> 'w \<Rightarrow> 'w \<times> token"
  ph_Subscribe :: "string \<Rightarrow> u8 \<Rightarrow> raw_handler \<Rightarrow> 'w \<Rightarrow> 'w \<times> token"
  ph_Unsubscribe :: "string \<Rightarrow> 'w \<Rightarrow> 'w \<times> token"
  ph_now :: "'w \<Rightarrow> gotime"
  ph_pass :: "gotime \<Rightarrow> ('c, 'w) mqtt_world \<Rightarrow> ('c, 'w) mqtt_world"
  ph_tie_timer :: bool
  ph_tie_ctx :: bool

definition mqtt_New :: "('s, 'c) mqtt_config \<Rightarrow> 'c mqtt" where
  "mqtt_New cfg = \<lparr>mt_running = False, mt_stopping = False, mt_wasConnected = False, mt_client = False,
     mt_onReconnect = mc_OnReconnect cfg, mt_onLost = mc_OnConnectionLost cfg, mt_open = False\<rparr>"

definition mqtt_SetOnReconnect :: "'c \<Rightarrow> ('c, 'w) mqtt_world \<Rightarrow> ('c, 'w) mqtt_world" where
  "mqtt_SetOnReconnect fn s = ((fst s)\<lparr>mt_onReconnect := Some fn\<rparr>, snd s)"

definition mqtt_SetOnConnectionLost :: "'c \<Rightarrow> ('c, 'w) mqtt_world \<Rightarrow> ('c, 'w) mqtt_world" where
  "mqtt_SetOnConnectionLost fn s = ((fst s)\<lparr>mt_onLost := Some fn\<rparr>, snd s)"

definition mqtt_Connected :: "('c, 'w) paho \<Rightarrow> ('c, 'w) mqtt_world \<Rightarrow> bool" where
  "mqtt_Connected ph s \<longleftrightarrow> mt_running (fst s) \<and> mt_client (fst s) \<and> ph_IsConnected ph (snd s)"

subsection \<open>Waiting for a token\<close>

definition defaultTokenWait :: duration where
  "defaultTokenWait = 30 * Second"

text \<open>
  What WaitTimeout answers and when, as its documentation has it (it returns once the token has
  completed or the time is over, whichever is first; a tie is open): completed, or the timer. The
  clock is read once for the entry check, the time left and the start of the timer. The result of
  waitToken is the instant it returns and its error.
\<close>

definition token_wait :: "bool \<Rightarrow> gotime \<Rightarrow> duration \<Rightarrow> token \<Rightarrow> gotime \<times> bool" where
  "token_wait tie now timeout tk =
     (case tk_done tk of
        None \<Rightarrow> (now + timeout, False)
      | Some t \<Rightarrow> if t < now + timeout \<or> t = now + timeout \<and> tie then (max now t, True)
                  else (now + timeout, False))"

definition waitToken :: "bool \<Rightarrow> bool \<Rightarrow> gotime \<Rightarrow> goctx \<Rightarrow> token \<Rightarrow> gotime \<times> goerr option" where
  "waitToken tie_timer tie_ctx now ctx tk =
     (case ctx_Err ctx now of
        Some c \<Rightarrow> (now, Some (Ctx c))
      | None \<Rightarrow>
         (case (case ctx_deadline ctx of
                  None \<Rightarrow> Some defaultTokenWait
                | Some dl \<Rightarrow>
                    (let d = time_Sub dl now in
                     if d \<le> 0 then None
                     else Some (if d < defaultTokenWait then d else defaultTokenWait))) of
            None \<Rightarrow> (now, Some (Ctx DeadlineExceeded))
          | Some timeout \<Rightarrow>
             (case token_wait tie_timer now timeout tk of
                (at, completed) \<Rightarrow>
                  (case ctx_done_at ctx of
                     Some t \<Rightarrow>
                       if t < at \<or> t = at \<and> tie_ctx then (t, Some (Ctx (ctx_cause ctx)))
                       else (at, if completed then None else Some (sentinel TimeoutError))
                   | None \<Rightarrow> (at, if completed then None else Some (sentinel TimeoutError))))))"

definition attempted :: "goerr option \<Rightarrow> goerr option" where
  "attempted err = (case err of None \<Rightarrow> None | Some e \<Rightarrow> Some (MqttAttempted (Some e)))"

text \<open>A call that waits: the world when the wait is over, and its result.\<close>

definition await_token ::
  "('c, 'w) paho \<Rightarrow> goctx \<Rightarrow> token \<Rightarrow> ('c, 'w) mqtt_world \<Rightarrow> ('c, 'w) mqtt_world \<times> goerr option" where
  "await_token ph ctx tk s =
     (case waitToken (ph_tie_timer ph) (ph_tie_ctx ph) (ph_now ph (snd s)) ctx tk of
        (t, r) \<Rightarrow> (ph_pass ph t s, r))"

subsection \<open>Start and Stop\<close>

definition paho_options :: "('s, 'c) mqtt_config \<Rightarrow> client_options" where
  "paho_options cfg =
     \<lparr>po_Broker = mc_Broker cfg, po_ClientID = mc_ClientID cfg, po_Username = mc_Username cfg,
      po_Password = mc_Password cfg,
      po_KeepAlive = (if mc_KeepAlive cfg = 0 then 30 * Second else mc_KeepAlive cfg),
      po_CleanSession = mc_CleanSession cfg, po_AutoReconnect = mc_AutoReconnect cfg,
      po_ConnectRetry = mc_AutoReconnect cfg,
      po_ConnectTimeout = (if mc_ConnectTimeout cfg > 0 then Some (mc_ConnectTimeout cfg) else None),
      po_TLS = mc_TLS cfg,
      po_Will = map_option (\<lambda>w. (w_Topic w, w_Payload w, w_QoS w, w_Retain w)) (mc_Will cfg)\<rparr>"

definition shutdownDispatch :: "('c, 'w) mqtt_world \<Rightarrow> ('c, 'w) mqtt_world" where
  "shutdownDispatch s =
     ((fst s)\<lparr>mt_open := False, mt_client := False, mt_running := False, mt_wasConnected := False\<rparr>, snd s)"

definition mqtt_Start ::
  "('c, 'w) paho \<Rightarrow> ('s, 'c) mqtt_config \<Rightarrow> goctx \<Rightarrow> ('c, 'w) mqtt_world \<Rightarrow> ('c, 'w) mqtt_world \<times> goerr option" where
  "mqtt_Start ph cfg ctx s =
     (if mt_running (fst s) then (s, Some (sentinel MQTTTransportAlreadyRunning))
      else if mc_Broker cfg = [] \<or> mc_ClientID cfg = []
      then (s, Some (NewConfigurationErrorWithArgs [ArgStr ''broker and clientId are required'']))
      else (case validateWill (mc_Will cfg) of Some e \<Rightarrow> (s, Some e)
        | None \<Rightarrow>
           (let m1 = (fst s)\<lparr>mt_stopping := False, mt_client := True, mt_open := True\<rparr>;
                w1 = ph_NewClient ph (paho_options cfg) (snd s) in
            case ph_Connect ph w1 of (w2, tk) \<Rightarrow>
            (case await_token ph ctx tk (m1, w2) of
               (s3, Some e) \<Rightarrow> (shutdownDispatch s3, Some e)
             | (s3, None) \<Rightarrow>
                 (case tk_err tk of
                    Some cause \<Rightarrow> (shutdownDispatch s3,
                      Some (gerr_With (sentinel ConnectionFailed) ''cause'' (ArgStr cause)))
                  | None \<Rightarrow> (((fst s3)\<lparr>mt_running := True\<rparr>, snd s3), None))))))"

definition mqtt_Stop :: "('c, 'w) paho \<Rightarrow> ('c, 'w) mqtt_world \<Rightarrow> ('c, 'w) mqtt_world \<times> goerr option" where
  "mqtt_Stop ph s =
     (if \<not> mt_running (fst s) then (s, None)
      else (((fst s)\<lparr>mt_stopping := True, mt_running := False, mt_wasConnected := False, mt_open := False\<rparr>,
             if mt_client (fst s) then ph_Disconnect ph 250 (snd s) else snd s), None))"

subsection \<open>Publish and Subscribe\<close>

definition ready :: "('c, 'w) mqtt_world \<Rightarrow> bool" where
  "ready s \<longleftrightarrow> mt_running (fst s) \<and> mt_client (fst s)"

definition mqtt_Publish ::
  "('c, 'w) paho \<Rightarrow> goctx \<Rightarrow> string \<Rightarrow> bytes \<Rightarrow> u8 \<Rightarrow> bool \<Rightarrow>
     ('c, 'w) mqtt_world \<Rightarrow> ('c, 'w) mqtt_world \<times> goerr option" where
  "mqtt_Publish ph ctx topic payload qos retain s =
     (if \<not> ready s then (s, Some (sentinel MQTTTransportNotRunning))
      else (case ctx_Err ctx (ph_now ph (snd s)) of
          Some c \<Rightarrow> (s, Some (Ctx c))
        | None \<Rightarrow>
           (case ph_Publish ph topic qos retain payload (snd s) of (w1, tk) \<Rightarrow>
            (case await_token ph ctx tk (fst s, w1) of
               (s2, Some e) \<Rightarrow> (s2, attempted (Some e))
             | (s2, None) \<Rightarrow>
                (case tk_err tk of
                   None \<Rightarrow> (s2, None)
                 | Some cause \<Rightarrow> (s2, Some (gerr_With (gerr_With (sentinel PublishFailed) ''cause'' (ArgStr cause))
                     ''topic'' (ArgStr topic))))))))"

text \<open>
  The Unsubscribe closure captures the filter only, so the filter is the handle. Its UnsubscribeFailed
  error carries the filter and the token's error.
\<close>

definition mqtt_Subscribe ::
  "('c, 'w) paho \<Rightarrow> ('s, 'c) mqtt_config \<Rightarrow> goctx \<Rightarrow> string \<Rightarrow> raw_handler \<Rightarrow>
     ('c, 'w) mqtt_world \<Rightarrow> ('c, 'w) mqtt_world \<times> (goerr + string)" where
  "mqtt_Subscribe ph cfg ctx fltr handler s =
     (if \<not> ready s then (s, Inl (sentinel MQTTTransportNotRunning))
      else
       (case ph_Subscribe ph fltr (subscribeQoS cfg fltr) handler (snd s) of (w1, tk) \<Rightarrow>
        (case await_token ph ctx tk (fst s, w1) of
           (s2, Some e) \<Rightarrow> (s2, Inl e)
         | (s2, None) \<Rightarrow>
            (case tk_err tk of
               Some cause \<Rightarrow> (s2, Inl (gerr_With (sentinel SubscriptionFailed) ''cause'' (ArgStr cause)))
             | None \<Rightarrow> (s2, Inr fltr)))))"

definition mqtt_Unsubscribe ::
  "('c, 'w) paho \<Rightarrow> goctx \<Rightarrow> string \<Rightarrow> ('c, 'w) mqtt_world \<Rightarrow> ('c, 'w) mqtt_world \<times> goerr option" where
  "mqtt_Unsubscribe ph ctx fltr s =
     (if \<not> ready s then (s, None)
      else
       (case ph_Unsubscribe ph fltr (snd s) of (w1, tk) \<Rightarrow>
        (case await_token ph ctx tk (fst s, w1) of
           (s2, Some e) \<Rightarrow> (s2, Some e)
         | (s2, None) \<Rightarrow>
            (case tk_err tk of
               Some cause \<Rightarrow> (s2, Some (NewUnsubscribeFailedWithArgs [ArgStr fltr, ArgErr (ErrorsNew cause)]))
             | None \<Rightarrow> (s2, None)))))"

text \<open>The callback paho runs for a message of a subscription: it hands enqueue this value.\<close>

definition on_message :: "raw_handler \<Rightarrow> string \<Rightarrow> bytes \<Rightarrow> gotime \<Rightarrow> inbound" where
  "on_message handler topic payload now =
     \<lparr>in_topic = topic, in_payload = payload, in_handler = handler, in_receivedAt = now\<rparr>"

subsection \<open>Connection callbacks\<close>

definition onConnect ::
  "('c \<Rightarrow> ('c, 'w) mqtt_world \<Rightarrow> ('c, 'w) mqtt_world) \<Rightarrow> ('c, 'w) mqtt_world \<Rightarrow> ('c, 'w) mqtt_world" where
  "onConnect call s =
     (let first = (\<not> mt_wasConnected (fst s)); s1 = ((fst s)\<lparr>mt_wasConnected := True\<rparr>, snd s) in
      case mt_onReconnect (fst s) of
        None \<Rightarrow> s1
      | Some handler \<Rightarrow> if \<not> first then call handler s1 else s1)"

definition onConnectionLost ::
  "('c \<Rightarrow> goerr option \<Rightarrow> ('c, 'w) mqtt_world \<Rightarrow> ('c, 'w) mqtt_world) \<Rightarrow> goerr option \<Rightarrow>
     ('c, 'w) mqtt_world \<Rightarrow> ('c, 'w) mqtt_world" where
  "onConnectionLost call err s =
     (case mt_onLost (fst s) of
        None \<Rightarrow> s
      | Some handler \<Rightarrow> if mt_stopping (fst s) then s else call handler err s)"

subsection \<open>The adapter\<close>

definition adapter_Publish ::
  "('c, 'w) paho \<Rightarrow> goctx \<Rightarrow> string \<Rightarrow> bytes \<Rightarrow> publish_options \<Rightarrow>
     ('c, 'w) mqtt_world \<Rightarrow> ('c, 'w) mqtt_world \<times> goerr option" where
  "adapter_Publish ph ctx topic payload opts s =
     (case mqtt_Publish ph ctx topic payload (po_QoS opts) (po_Retain opts) s of
        (s', err) \<Rightarrow>
          (s', case err of None \<Rightarrow> None
             | Some e \<Rightarrow> (case as_MqttAttempted e of
                 Some att \<Rightarrow> MarkPublishAttempted att
               | None \<Rightarrow> err)))"

definition newMQTTTransport ::
  "(client_callback, 'w) paho \<Rightarrow> ('s, client_callback) mqtt_config \<Rightarrow>
     ((client_callback, 'w) mqtt_world, string) transport" where
  "newMQTTTransport ph cfg =
     \<lparr>tr_Start = mqtt_Start ph cfg, tr_Stop = (\<lambda>ctx. mqtt_Stop ph),
      tr_Publish = (\<lambda>ctx topic payload opts s. Some (adapter_Publish ph ctx topic payload opts s)),
      tr_Subscribe = mqtt_Subscribe ph cfg, tr_Unsubscribe = mqtt_Unsubscribe ph,
      tr_Connected = Some (mqtt_Connected ph),
      tr_SetOnReconnect = Some mqtt_SetOnReconnect,
      tr_SetOnConnectionLost = Some mqtt_SetOnConnectionLost\<rparr>"

text \<open>
  The handler the adapter gives the transport: it runs the client's RawHandler under a context that
  carries the enqueue time. It is the run of the dispatcher's workers.
\<close>

definition adapter_run ::
  "(raw_handler \<Rightarrow> goctx \<Rightarrow> string \<Rightarrow> bytes \<Rightarrow> 's \<Rightarrow> 's \<times> goerr option) \<Rightarrow> goctx \<Rightarrow> 's handler_run" where
  "adapter_run run ctx m =
     run (in_handler m) (contextWithInboundReceivedAt (Some ctx) (in_receivedAt m)) (in_topic m) (in_payload m)"

end
