(* ===== verification/Mqtt_Transport_Correct.thy ===== *)
theory Mqtt_Transport_Correct
  imports Mqtt_Transport Client
begin

text \<open>
  What the MQTT transport promises: a wait for a token ends in time, the outcome of a publish is
  what the token and the context say, the life cycle of the transport, when the reconnect callback
  runs, and the QoS of a subscription.
\<close>

subsection \<open>Waiting\<close>

lemma token_wait_bound:
  assumes "token_wait tie now timeout tk = (t, completed)" "0 < timeout"
  shows "now \<le> t \<and> t \<le> now + timeout \<and> (completed \<longrightarrow> (\<exists>t'. tk_done tk = Some t' \<and> t' \<le> t)) \<and>
    (\<not> completed \<longrightarrow> t = now + timeout)"
  using assms by (auto simp: token_wait_def split: option.splits if_splits)

lemma time_left: "0 < time_Sub dl now \<Longrightarrow> now + time_Sub dl now \<le> dl"
  by (auto simp: time_Sub_def minDuration_def maxDuration_def)

lemma wait_ends:
  assumes alive: "\<forall>d. ctx_done_at ctx = Some d \<longrightarrow> now < d" and "0 < timeout"
    and "(case token_wait tie_timer now timeout tk of
        (at, completed) \<Rightarrow> (case ctx_done_at ctx of
           Some t \<Rightarrow> if t < at \<or> t = at \<and> tie_ctx then (t, Some (Ctx (ctx_cause ctx)))
                     else (at, if completed then None else Some (sentinel TimeoutError))
         | None \<Rightarrow> (at, if completed then None else Some (sentinel TimeoutError)))) = (t, r)"
  shows "now \<le> t \<and> t \<le> now + timeout \<and> (r = None \<longrightarrow> (\<exists>t'. tk_done tk = Some t' \<and> t' \<le> t)) \<and>
    r \<in> {None, Some (Ctx (ctx_cause ctx)), Some (sentinel TimeoutError)}"
proof -
  obtain at completed where w: "token_wait tie_timer now timeout tk = (at, completed)" by (metis prod.collapse)
  show ?thesis
    using token_wait_bound [OF w assms(2)] assms(3) w alive
    by (auto split: option.splits if_splits)
qed

text \<open>
  C23. waitToken always returns: not later than 30 seconds after the call and not later than the
  deadline of its context; it reports success only for a token that has completed by then, and
  otherwise exactly one of the context's error, an expired deadline or TimeoutError.
\<close>
theorem waitToken_in_time:
  assumes "waitToken tie_timer tie_ctx now ctx tk = (t, r)"
  shows "now \<le> t \<and> t \<le> now + defaultTokenWait \<and>
    (\<forall>dl. ctx_deadline ctx = Some dl \<longrightarrow> now < dl \<longrightarrow> t \<le> dl) \<and>
    (r = None \<longrightarrow> (\<exists>t'. tk_done tk = Some t' \<and> t' \<le> t)) \<and>
    r \<in> {None, Some (Ctx (ctx_cause ctx)), Some (Ctx DeadlineExceeded), Some (sentinel TimeoutError)}"
proof (cases "ctx_Err ctx now")
  case (Some c)
  then have "c = ctx_cause ctx" by (auto simp: ctx_Err_def split: option.splits if_splits)
  with Some assms show ?thesis by (auto simp: waitToken_def defaultTokenWait_def Second_def)
next
  case None
  then have alive: "\<forall>d. ctx_done_at ctx = Some d \<longrightarrow> now < d" by (auto simp: ctx_Err_def split: if_splits)
  note ends = wait_ends [OF alive]
  have pos: "0 < defaultTokenWait" by (simp add: defaultTokenWait_def Second_def)
  show ?thesis
  proof (cases "ctx_deadline ctx")
    case None
    then have "now \<le> t \<and> t \<le> now + defaultTokenWait \<and> (r = None \<longrightarrow> (\<exists>t'. tk_done tk = Some t' \<and> t' \<le> t)) \<and>
      r \<in> {None, Some (Ctx (ctx_cause ctx)), Some (sentinel TimeoutError)}"
      using assms \<open>ctx_Err ctx now = None\<close> by (intro ends [OF pos]) (simp add: waitToken_def)
    with None show ?thesis by auto
  next
    case (Some dl)
    let ?d = "time_Sub dl now"
    show ?thesis
    proof (cases "?d \<le> 0")
      case True
      then have "\<not> now < dl" by (auto simp: time_Sub_def minDuration_def maxDuration_def)
      with True Some assms None pos show ?thesis by (auto simp: waitToken_def Let_def)
    next
      case False
      let ?timeout = "if ?d < defaultTokenWait then ?d else defaultTokenWait"
      have "now \<le> t \<and> t \<le> now + ?timeout \<and> (r = None \<longrightarrow> (\<exists>t'. tk_done tk = Some t' \<and> t' \<le> t)) \<and>
        r \<in> {None, Some (Ctx (ctx_cause ctx)), Some (sentinel TimeoutError)}"
        using assms None Some False pos by (intro ends) (auto simp: waitToken_def Let_def)
      moreover have "now + ?d \<le> dl" using False by (intro time_left) simp
      ultimately show ?thesis using Some by (auto split: if_splits)
    qed
  qed
qed

theorem waitToken_in_time_witness:
  "fst (waitToken True True 100 (Background\<lparr>ctx_deadline := Some 150\<rparr>) \<lparr>tk_done = None, tk_err = None\<rparr>) \<le> 150"
proof -
  obtain t r where "waitToken True True 100 (Background\<lparr>ctx_deadline := Some 150\<rparr>)
      \<lparr>tk_done = None, tk_err = None\<rparr> = (t, r)" by (metis prod.collapse)
  with waitToken_in_time [OF this] show ?thesis by simp
qed

lemma waitToken_errors:
  "waitToken tt tc now ctx tk = (t, Some e) \<Longrightarrow> \<exists>c. e = Ctx c \<or> e = sentinel TimeoutError"
  using waitToken_in_time [of tt tc now ctx tk t "Some e"] by auto

subsection \<open>The outcome of a publish\<close>

text \<open>How the wait for the token of a publish ends.\<close>

definition publish_wait :: "('c, 'w) paho \<Rightarrow> goctx \<Rightarrow> token \<Rightarrow> 'w \<Rightarrow> goerr option" where
  "publish_wait ph ctx tk w = snd (waitToken (ph_tie_timer ph) (ph_tie_ctx ph) (ph_now ph w) ctx tk)"

lemma adapter_not_ready: "\<not> ready s \<Longrightarrow>
    adapter_Publish ph ctx t p o' s = (s, Some (sentinel MQTTTransportNotRunning))"
  by (simp add: adapter_Publish_def mqtt_Publish_def)

lemma adapter_ended: "ready s \<Longrightarrow> ctx_Err ctx (ph_now ph (snd s)) = Some c \<Longrightarrow>
    adapter_Publish ph ctx t p o' s = (s, Some (Ctx c))"
  by (simp add: adapter_Publish_def mqtt_Publish_def)

lemma adapter_sent:
  assumes "ready s" "ctx_Err ctx (ph_now ph (snd s)) = None"
    and "ph_Publish ph t (po_QoS o') (po_Retain o') p (snd s) = (w1, tk)"
  shows "snd (adapter_Publish ph ctx t p o' s) =
    (case publish_wait ph ctx tk w1 of
       Some e \<Rightarrow> Some (PublishAttempted e)
     | None \<Rightarrow> map_option (\<lambda>cause. gerr_With (gerr_With (sentinel PublishFailed) ''cause'' (ArgStr cause))
         ''topic'' (ArgStr t)) (tk_err tk))"
proof (cases "publish_wait ph ctx tk w1")
  case None
  with assms show ?thesis
    by (auto simp: adapter_Publish_def mqtt_Publish_def await_token_def publish_wait_def split: prod.splits option.splits)
next
  case (Some e)
  then obtain t' where w: "waitToken (ph_tie_timer ph) (ph_tie_ctx ph) (ph_now ph w1) ctx tk = (t', Some e)"
    by (metis prod.collapse publish_wait_def)
  from waitToken_errors [OF w] have "\<not> as_PublishAttempted e" by auto
  with assms w Some show ?thesis
    by (simp add: adapter_Publish_def mqtt_Publish_def await_token_def attempted_def MarkPublishAttempted_def)
qed

text \<open>A publish that is handed over makes one call of the client's Publish and waits for its token.\<close>

lemma adapter_sent_world:
  assumes "ready s" "ctx_Err ctx (ph_now ph (snd s)) = None"
    and "ph_Publish ph t (po_QoS o') (po_Retain o') p (snd s) = (w1, tk)"
  shows "fst (adapter_Publish ph ctx t p o' s) = fst (await_token ph ctx tk (fst s, w1))"
  using assms by (simp add: adapter_Publish_def mqtt_Publish_def split: prod.splits option.splits)

lemma adapter_outcome:
  assumes "matches_by_code gis"
  shows "ClassifyPublish gis (snd (adapter_Publish ph ctx topic payload opts s)) =
    (if \<not> ready s \<or> ctx_Err ctx (ph_now ph (snd s)) \<noteq> None then PublishOutcomeNotStarted
     else case ph_Publish ph topic (po_QoS opts) (po_Retain opts) payload (snd s) of
       (w1, tk) \<Rightarrow>
         if publish_wait ph ctx tk w1 \<noteq> None then PublishOutcomeUncertain
         else if tk_err tk = None then PublishOutcomeAccepted else PublishOutcomeNotStarted) \<and>
    (\<not> ready s \<or> ctx_Err ctx (ph_now ph (snd s)) \<noteq> None \<longrightarrow>
       fst (adapter_Publish ph ctx topic payload opts s) = s)"
proof -
  note spec = ClassifyPublish_spec [OF assms]
  consider (down) "\<not> ready s" | (ended) c where "ready s" "ctx_Err ctx (ph_now ph (snd s)) = Some c"
    | (sent) "ready s" "ctx_Err ctx (ph_now ph (snd s)) = None" by fastforce
  then show ?thesis
  proof cases
    case down
    then show ?thesis by (simp add: adapter_not_ready spec outcome_spec_def not_sent_codes_def)
  next
    case ended
    then show ?thesis by (simp add: adapter_ended spec outcome_spec_def)
  next
    case sent
    obtain w1 tk where p: "ph_Publish ph topic (po_QoS opts) (po_Retain opts) payload (snd s) = (w1, tk)"
      by (metis prod.collapse)
    have err: "\<exists>c. e = Ctx c \<or> e = sentinel TimeoutError" if "publish_wait ph ctx tk w1 = Some e" for e
      using that waitToken_errors by (metis prod.collapse publish_wait_def)
    have attempted: "ClassifyPublish gis (Some (PublishAttempted e)) = PublishOutcomeUncertain"
      if "publish_wait ph ctx tk w1 = Some e" for e
      using err [OF that] by (auto simp: spec outcome_spec_def not_sent_codes_def)
    have refused: "ClassifyPublish gis (Some (Gerr PublishFailed ns)) = PublishOutcomeNotStarted" for ns
      by (simp add: spec outcome_spec_def not_sent_codes_def)
    note r = adapter_sent [OF sent p]
    show ?thesis
    proof (cases "publish_wait ph ctx tk w1")
      case (Some e)
      then show ?thesis by (simp add: r sent p attempted)
    next
      case None
      then show ?thesis by (cases "tk_err tk") (simp_all add: r sent p refused, simp add: ClassifyPublish_def)
    qed
  qed
qed

text \<open>
  The outcome that ClassifyPublish gives the error of an MQTT publish says what happened:
  NotStarted without a call of the client's Publish when the transport is not running or the
  context has already ended; otherwise the packet was handed to the client, and the outcome is
  Uncertain exactly when the wait for the token was cut short, Accepted exactly when the token
  completed without error, and NotStarted when it completed with one.
\<close>
theorem mqtt_publish_outcome:
  assumes "matches_by_code gis"
  shows "ClassifyPublish gis (snd (adapter_Publish ph ctx topic payload opts s)) =
    (if \<not> ready s \<or> ctx_Err ctx (ph_now ph (snd s)) \<noteq> None then PublishOutcomeNotStarted
     else case ph_Publish ph topic (po_QoS opts) (po_Retain opts) payload (snd s) of
       (w1, tk) \<Rightarrow>
         if publish_wait ph ctx tk w1 \<noteq> None then PublishOutcomeUncertain
         else if tk_err tk = None then PublishOutcomeAccepted else PublishOutcomeNotStarted) \<and>
    (\<not> ready s \<or> ctx_Err ctx (ph_now ph (snd s)) \<noteq> None \<longrightarrow>
       fst (adapter_Publish ph ctx topic payload opts s) = s)"
  by (rule adapter_outcome [OF assms])

text \<open>A concrete client: it answers each call with the same token and counts its calls.\<close>

definition ex_paho :: "token \<Rightarrow> (client_callback, nat) paho" where
  "ex_paho tk = \<lparr>ph_NewClient = (\<lambda>o' w. w), ph_Connect = (\<lambda>w. (w, tk)), ph_Disconnect = (\<lambda>n w. w),
     ph_IsConnected = (\<lambda>w. True), ph_Publish = (\<lambda>t q r p w. (Suc w, tk)),
     ph_Subscribe = (\<lambda>f q h w. (w, tk)), ph_Unsubscribe = (\<lambda>f w. (w, tk)), ph_now = (\<lambda>w. 10),
     ph_pass = (\<lambda>t s. s), ph_tie_timer = True, ph_tie_ctx = True\<rparr>"

definition ex_up :: "(client_callback, nat) mqtt_world" where
  "ex_up = (\<lparr>mt_running = True, mt_stopping = False, mt_wasConnected = True, mt_client = True,
     mt_onReconnect = Some HandleReconnect, mt_onLost = None, mt_open = True\<rparr>, 0)"

theorem mqtt_publish_outcome_witness:
  "ClassifyPublish by_code (snd (adapter_Publish (ex_paho \<lparr>tk_done = None, tk_err = None\<rparr>) Background
     ''t'' [] \<lparr>po_QoS = 1, po_Retain = False\<rparr> ex_up)) = PublishOutcomeUncertain"
  unfolding conjunct1 [OF mqtt_publish_outcome [OF matches_by_code_by_code]]
  by (simp add: ex_paho_def ex_up_def ready_def publish_wait_def waitToken_def token_wait_def
      Background_def ctx_Err_def)

subsection \<open>The life cycle\<close>

text \<open>No Start or Stop runs while a call waits: only the connection callbacks do.\<close>

definition calm :: "('c, 'w) paho \<Rightarrow> bool" where
  "calm ph \<longleftrightarrow> (\<forall>t s. mt_running (fst (ph_pass ph t s)) = mt_running (fst s) \<and>
     mt_client (fst (ph_pass ph t s)) = mt_client (fst s) \<and> mt_open (fst (ph_pass ph t s)) = mt_open (fst s) \<and>
     mt_stopping (fst (ph_pass ph t s)) = mt_stopping (fst s))"

lemma await_calm:
  assumes "calm ph" "await_token ph ctx tk s = (s', r)"
  shows "mt_running (fst s') = mt_running (fst s) \<and> mt_client (fst s') = mt_client (fst s) \<and>
    mt_open (fst s') = mt_open (fst s) \<and> mt_stopping (fst s') = mt_stopping (fst s)"
proof -
  obtain t where "s' = ph_pass ph t s" using assms(2) by (auto simp: await_token_def split: prod.splits)
  then show ?thesis using assms(1) unfolding calm_def by (simp del: split_paired_All)
qed

lemma mqtt_Start_outcome:
  assumes "calm ph"
  shows "case mqtt_Start ph cfg ctx s of
      (s', None) \<Rightarrow> \<not> mt_running (fst s) \<and> ready s' \<and> mt_open (fst s') \<and> \<not> mt_stopping (fst s')
    | (s', Some e) \<Rightarrow> if mt_running (fst s) then s' = s \<and> e = sentinel MQTTTransportAlreadyRunning
        else \<not> ready s' \<and> (s' = s \<or> \<not> mt_open (fst s'))"
proof -
  let ?m1 = "(fst s)\<lparr>mt_stopping := False, mt_client := True, mt_open := True\<rparr>"
  obtain w2 tk where c: "ph_Connect ph (ph_NewClient ph (paho_options cfg) (snd s)) = (w2, tk)"
    by (metis prod.collapse)
  obtain s3 res where a: "await_token ph ctx tk (?m1, w2) = (s3, res)" by (metis prod.collapse)
  show ?thesis using await_calm [OF assms a] a c
    by (auto simp: mqtt_Start_def ready_def shutdownDispatch_def split: option.split)
qed

text \<open>
  C22. The life cycle of the transport. Start of a stopped transport either succeeds, and then the
  transport is ready, its dispatcher is open and losing the connection is reported, or it fails and
  leaves a transport that is not ready; a Start of a running one is refused and changes nothing.
  Stop always succeeds: a ready transport disconnects its paho client and closes its dispatcher, one
  that is not running is left as it is. After Stop the transport is not connected; publishing
  and subscribing are refused with MQTTTransportNotRunning and without any effect, while a late
  Unsubscribe and a second Stop succeed silently, without any effect either; and Start is possible
  again, with the outcomes above.
\<close>
theorem mqtt_life_cycle:
  assumes "calm ph"
  shows "(case mqtt_Start ph cfg ctx s of
      (s', None) \<Rightarrow> \<not> mt_running (fst s) \<and> ready s' \<and> mt_open (fst s') \<and> \<not> mt_stopping (fst s')
    | (s', Some e) \<Rightarrow> if mt_running (fst s) then s' = s \<and> e = sentinel MQTTTransportAlreadyRunning
        else \<not> ready s' \<and> (s' = s \<or> \<not> mt_open (fst s'))) \<and>
    (let s' = fst (mqtt_Stop ph s) in
       snd (mqtt_Stop ph s) = None \<and> \<not> mt_running (fst s') \<and> \<not> mqtt_Connected ph s' \<and>
       (if mt_running (fst s) then \<not> mt_open (fst s') \<and> mt_stopping (fst s') \<and> \<not> mt_wasConnected (fst s') else s' = s) \<and>
       (ready s \<longrightarrow> snd s' = ph_Disconnect ph 250 (snd s)) \<and>
       mqtt_Publish ph ctx topic payload q r s' = (s', Some (sentinel MQTTTransportNotRunning)) \<and>
       mqtt_Subscribe ph cfg ctx f h s' = (s', Inl (sentinel MQTTTransportNotRunning)) \<and>
       mqtt_Unsubscribe ph ctx f s' = (s', None) \<and> mqtt_Stop ph s' = (s', None) \<and>
       (case mqtt_Start ph cfg ctx s' of
          (s2, None) \<Rightarrow> ready s2 \<and> mt_open (fst s2) \<and> \<not> mt_stopping (fst s2)
        | (s2, Some e) \<Rightarrow> \<not> ready s2 \<and> (s2 = s' \<or> \<not> mt_open (fst s2))))"
proof (intro conjI)
  show "case mqtt_Start ph cfg ctx s of
      (s', None) \<Rightarrow> \<not> mt_running (fst s) \<and> ready s' \<and> mt_open (fst s') \<and> \<not> mt_stopping (fst s')
    | (s', Some e) \<Rightarrow> if mt_running (fst s) then s' = s \<and> e = sentinel MQTTTransportAlreadyRunning
        else \<not> ready s' \<and> (s' = s \<or> \<not> mt_open (fst s'))"
    by (rule mqtt_Start_outcome [OF assms])
  let ?s = "fst (mqtt_Stop ph s)"
  have down: "\<not> mt_running (fst ?s)" by (simp add: mqtt_Stop_def)
  then have "\<not> ready ?s" "\<not> mqtt_Connected ph ?s" "mqtt_Stop ph ?s = (?s, None)"
    by (simp_all add: ready_def mqtt_Connected_def mqtt_Stop_def)
  moreover have "case mqtt_Start ph cfg ctx ?s of
      (s2, None) \<Rightarrow> ready s2 \<and> mt_open (fst s2) \<and> \<not> mt_stopping (fst s2)
    | (s2, Some e) \<Rightarrow> \<not> ready s2 \<and> (s2 = ?s \<or> \<not> mt_open (fst s2))"
    using mqtt_Start_outcome [OF assms, where cfg = cfg and ctx = ctx and s = ?s] down
    by (cases "mqtt_Start ph cfg ctx ?s") (simp split: option.splits)
  moreover have "snd (mqtt_Stop ph s) = None" "ready s \<longrightarrow> snd ?s = ph_Disconnect ph 250 (snd s)"
    "if mt_running (fst s) then \<not> mt_open (fst ?s) \<and> mt_stopping (fst ?s) \<and> \<not> mt_wasConnected (fst ?s) else ?s = s"
    by (simp_all add: mqtt_Stop_def ready_def)
  ultimately show "let s' = ?s in
       snd (mqtt_Stop ph s) = None \<and> \<not> mt_running (fst s') \<and> \<not> mqtt_Connected ph s' \<and>
       (if mt_running (fst s) then \<not> mt_open (fst s') \<and> mt_stopping (fst s') \<and> \<not> mt_wasConnected (fst s') else s' = s) \<and>
       (ready s \<longrightarrow> snd s' = ph_Disconnect ph 250 (snd s)) \<and>
       mqtt_Publish ph ctx topic payload q r s' = (s', Some (sentinel MQTTTransportNotRunning)) \<and>
       mqtt_Subscribe ph cfg ctx f h s' = (s', Inl (sentinel MQTTTransportNotRunning)) \<and>
       mqtt_Unsubscribe ph ctx f s' = (s', None) \<and> mqtt_Stop ph s' = (s', None) \<and>
       (case mqtt_Start ph cfg ctx s' of
          (s2, None) \<Rightarrow> ready s2 \<and> mt_open (fst s2) \<and> \<not> mt_stopping (fst s2)
        | (s2, Some e) \<Rightarrow> \<not> ready s2 \<and> (s2 = s' \<or> \<not> mt_open (fst s2)))"
    using down by (simp add: Let_def mqtt_Publish_def mqtt_Subscribe_def mqtt_Unsubscribe_def)
qed

theorem mqtt_life_cycle_witness:
  "let ph = ex_paho \<lparr>tk_done = None, tk_err = None\<rparr>; s' = fst (mqtt_Stop ph ex_up) in
     mqtt_Unsubscribe ph Background ''f'' s' = (s', None) \<and> mqtt_Stop ph s' = (s', None) \<and>
     mqtt_Publish ph Background ''t'' [1] 0 False s' = (s', Some (sentinel MQTTTransportNotRunning))"
proof -
  have "calm (ex_paho \<lparr>tk_done = None, tk_err = None\<rparr>)" by (simp add: calm_def ex_paho_def)
  from mqtt_life_cycle [OF this, where ctx = Background and s = ex_up and topic = "''t''" and payload = "[1]"
    and q = 0 and r = False] show ?thesis
    unfolding Let_def by blast
qed

subsection \<open>Reconnects\<close>

lemma was_connected_upd: "mt_wasConnected m \<Longrightarrow> m\<lparr>mt_wasConnected := True\<rparr> = m"
  by (cases m) simp

lemma onConnect_again:
  "mt_wasConnected (fst s) \<Longrightarrow> mt_onReconnect (fst s) = Some h \<Longrightarrow> onConnect call s = call h s"
  by (simp add: onConnect_def Let_def was_connected_upd)

lemma onConnect_iterate:
  assumes "\<And>w. mt_wasConnected (fst (call h w)) = mt_wasConnected (fst w) \<and>
      mt_onReconnect (fst (call h w)) = mt_onReconnect (fst w)"
    and "mt_wasConnected (fst s)" "mt_onReconnect (fst s) = Some h"
  shows "(onConnect call ^^ n) s = (call h ^^ n) s"
  using assms(2,3)
proof (induction n arbitrary: s)
  case (Suc n)
  have "onConnect call s = call h s" using Suc.prems by (rule onConnect_again)
  moreover have "(onConnect call ^^ n) (call h s) = (call h ^^ n) (call h s)"
    using Suc.prems assms(1) [of s] by (intro Suc.IH) simp_all
  ultimately show ?case by (simp add: funpow_Suc_right del: funpow.simps)
qed simp

text \<open>
  C24. The reconnect callback runs on every connect of a started transport except the first: after
  Suc n connects it has run n times. Losing the connection is reported to the callback exactly
  while the transport is not stopping.
\<close>
theorem reconnect_callback_runs:
  assumes "\<not> mt_wasConnected (fst s)" and "mt_onReconnect (fst s) = Some h"
    and "\<And>w. mt_wasConnected (fst (call h w)) = mt_wasConnected (fst w) \<and>
      mt_onReconnect (fst (call h w)) = mt_onReconnect (fst w)"
  shows "(onConnect call ^^ Suc n) s = (call h ^^ n) ((fst s)\<lparr>mt_wasConnected := True\<rparr>, snd s) \<and>
    onConnectionLost lost err s =
      (case mt_onLost (fst s) of
         Some h' \<Rightarrow> if mt_stopping (fst s) then s else lost h' err s | None \<Rightarrow> s)"
proof -
  let ?s1 = "((fst s)\<lparr>mt_wasConnected := True\<rparr>, snd s)"
  have "onConnect call s = ?s1" using assms(1,2) by (simp add: onConnect_def Let_def)
  moreover have "(onConnect call ^^ n) ?s1 = (call h ^^ n) ?s1"
    using onConnect_iterate [of call h ?s1 n, OF assms(3)] assms(2) by simp
  ultimately show ?thesis
    by (simp add: funpow_Suc_right onConnectionLost_def del: funpow.simps split: option.split)
qed

theorem reconnect_callback_runs_witness:
  "(onConnect (\<lambda>h (m, w). (m, Suc w)) ^^ 3) ((fst ex_up)\<lparr>mt_wasConnected := False\<rparr>, 0 :: nat) = (fst ex_up, 2)"
  using reconnect_callback_runs [of "((fst ex_up)\<lparr>mt_wasConnected := False\<rparr>, 0 :: nat)" HandleReconnect
      "\<lambda>h (m, w). (m, Suc w)" 2]
  by (simp add: ex_up_def case_prod_beta numeral_eq_Suc)

subsection \<open>Subscription QoS\<close>

text \<open>
  A client without a configured QoS subscribes visualization topics with QoS 0 and all others
  with QoS 1; a configured QoS, zero included, is used for every subscription.
\<close>
theorem client_subscribe_qos:
  "subscribeQoS (client_mqtt_config cfg) fltr =
     (case cfg_QoS cfg of
        Some q \<Rightarrow> q
      | None \<Rightarrow> if HasSuffix fltr ''/visualization'' then 0 else 1)"
  by (simp add: subscribeQoS_def client_mqtt_config_def subscribeQoSExplicit_def DefaultOrderQoS_def
      split: option.split)

end
