(* ===== verification/Outbound_Mqtt.thy ===== *)
theory Outbound_Mqtt
  imports Outbound_Correct Mqtt_Transport_Correct
begin

text \<open>
  The outbound path over the MQTT transport: what the outcome of PublishOrder and
  PublishInstantActions says about the packet that went to the broker. json.Marshal of the message
  types is a parameter that may fail.
\<close>

lemma mqtt_tr_Publish [simp]:
  "tr_Publish (newMQTTTransport ph cfg) ctx t p o' s = Some (adapter_Publish ph ctx t p o' s)"
  by (simp add: newMQTTTransport_def)

text \<open>
  A hand-over of the message that a result describes: from the world s to s' there is one call of
  the client's Publish, with that topic, QoS and payload, and the wait for its token, nothing else;
  the error err classifies by how the wait ended and what the token carries.
\<close>

definition handed_over ::
  "gerr_is \<Rightarrow> ('c, 'w) paho \<Rightarrow> goctx \<Rightarrow> publish_result \<Rightarrow> goerr option \<Rightarrow>
     ('c, 'w) mqtt_world \<Rightarrow> ('c, 'w) mqtt_world \<Rightarrow> bool" where
  "handed_over gis ph ctx res err s s' \<longleftrightarrow>
     (case ph_Publish ph (pr_Topic res) (pr_QoS res) False (pr_Payload res) (snd s) of
        (w1, tk) \<Rightarrow> s' = fst (await_token ph ctx tk (fst s, w1)) \<and>
          ClassifyPublish gis err =
            (if publish_wait ph ctx tk w1 \<noteq> None then PublishOutcomeUncertain
             else if tk_err tk = None then PublishOutcomeAccepted else PublishOutcomeNotStarted))"

lemma adapter_ready:
  assumes "matches_by_code gis" and "ready s" and "ctx_Err ctx (ph_now ph (snd s)) = None"
    and "adapter_Publish ph ctx (pr_Topic res) (pr_Payload res) \<lparr>po_QoS = pr_QoS res, po_Retain = False\<rparr> s = (s', err)"
  shows "handed_over gis ph ctx res err s s'"
proof -
  let ?o = "\<lparr>po_QoS = pr_QoS res, po_Retain = False\<rparr>"
  obtain w1 tk where pub: "ph_Publish ph (pr_Topic res) (pr_QoS res) False (pr_Payload res) (snd s) = (w1, tk)"
    by fastforce
  have "s' = fst (await_token ph ctx tk (fst s, w1))"
    using adapter_sent_world [of s ctx ph "pr_Topic res" ?o "pr_Payload res" w1 tk] pub assms(2-4) by simp
  then show ?thesis
    using adapter_outcome [OF assms(1), of ph ctx "pr_Topic res" "pr_Payload res" ?o s] assms(2-4) pub
    by (simp add: handed_over_def)
qed

lemma adapter_cases:
  assumes "matches_by_code gis"
    and "adapter_Publish ph ctx (pr_Topic res) (pr_Payload res) \<lparr>po_QoS = pr_QoS res, po_Retain = False\<rparr> s = (s', err)"
  shows "s' = s \<and> ClassifyPublish gis err = PublishOutcomeNotStarted \<or> handed_over gis ph ctx res err s s'"
proof (cases "ready s \<and> ctx_Err ctx (ph_now ph (snd s)) = None")
  case True
  then show ?thesis using adapter_ready [OF assms(1) _ _ assms(2)] by blast
next
  case False
  then show ?thesis
    using adapter_outcome [OF assms(1), of ph ctx "pr_Topic res" "pr_Payload res"
        "\<lparr>po_QoS = pr_QoS res, po_Retain = False\<rparr>" s] assms(2) by auto
qed

text \<open>What the caller controls: everything that is checked before the transport is asked.\<close>

definition publishable ::
  "(vorder \<Rightarrow> goerr + bytes) \<Rightarrow> gotime \<Rightarrow> ('s, 'u) client \<Rightarrow> agv_handle \<Rightarrow> vorder option \<Rightarrow> bool" where
  "publishable mo wall c a ord \<longleftrightarrow> cl_started c \<and> publishQoS (cl_cfg c) \<le> 2 \<and>
     (case ord of None \<Rightarrow> False
      | Some r \<Rightarrow> validateOutboundOrder r (hd_manufacturer a) (hd_serial a) (outboundValidation (cl_cfg c)) = None \<and>
          \<not> isl (mo (order_filled wall c a r)))"

lemma publishable_sent:
  assumes "publishable mo wall c a ord" and "PublishOrder mo wall c a ctx ord s = Some (ord', s', res, err)"
  shows "tr_Publish (cl_transport c) ctx (pr_Topic res) (pr_Payload res)
    \<lparr>po_QoS = pr_QoS res, po_Retain = False\<rparr> s = Some (s', err)"
proof -
  obtain r where r: "ord = Some r" "cl_started c"
    "validateOutboundOrder r (hd_manufacturer a) (hd_serial a) (outboundValidation (cl_cfg c)) = None"
    "\<not> isl (mo (order_filled wall c a r))" "validatePublishQoS (publishQoS (cl_cfg c)) = None"
    using assms(1) by (auto simp: publishable_def qos_check split: option.splits)
  then obtain p where "mo (order_filled wall c a r) = Inr p" by (cases "mo (order_filled wall c a r)") simp_all
  then show ?thesis
    using assms(2) r(1,5) by (auto simp: PublishOrder_valid [OF r(2,3)] order_result_def)
qed

text \<open>
  C2. The outcome of PublishOrder over MQTT is trustworthy, with one exception. Either the world is
  untouched, so nothing was handed to the MQTT client, and the outcome is NotStarted (the exception:
  when json.Marshal fails on the filled order, its error is returned as it is, and a plain error
  counts as Uncertain although nothing was sent); or exactly one message was handed over, the
  marshalled valid order of the result, and the outcome is Accepted if the broker acknowledged it,
  Uncertain if the wait was cut short, and NotStarted if the client reported that it was refused.
  The latter is what happens whenever the client is started, the order is valid and can be marshalled,
  the configured QoS is valid, the transport is ready and the context has not ended.
\<close>
theorem order_outcome_over_mqtt:
  assumes "matches_by_code gis" and "cl_transport c = newMQTTTransport ph cfg"
    and "PublishOrder mo wall c a ctx ord s = Some (ord', s', res, err)"
  shows "(s' = s \<and> ClassifyPublish gis err = PublishOutcomeNotStarted \<or>
    s' = s \<and> (\<exists>r e. ord' = Some r \<and> mo r = Inl e \<and> err = Some e) \<or>
    (\<exists>r. ord' = Some r \<and> mo r = Inr (pr_Payload res) \<and> order_ok r a (outboundValidation (cl_cfg c)) \<and>
       pr_Topic res = Build (cl_topics c) (hd_manufacturer a) (hd_serial a) ChannelOrder \<and>
       handed_over gis ph ctx res err s s')) \<and>
    (publishable mo wall c a ord \<and> ready s \<and> ctx_Err ctx (ph_now ph (snd s)) = None \<longrightarrow>
       handed_over gis ph ctx res err s s')"
proof (intro conjI impI)
  assume sent: "publishable mo wall c a ord \<and> ready s \<and> ctx_Err ctx (ph_now ph (snd s)) = None"
  have "adapter_Publish ph ctx (pr_Topic res) (pr_Payload res) \<lparr>po_QoS = pr_QoS res, po_Retain = False\<rparr> s = (s', err)"
    using publishable_sent [OF _ assms(3)] sent assms(2) by simp
  then show "handed_over gis ph ctx res err s s'" using adapter_ready [OF assms(1)] sent by blast
next
  show "s' = s \<and> ClassifyPublish gis err = PublishOutcomeNotStarted \<or>
    s' = s \<and> (\<exists>r e. ord' = Some r \<and> mo r = Inl e \<and> err = Some e) \<or>
    (\<exists>r. ord' = Some r \<and> mo r = Inr (pr_Payload res) \<and> order_ok r a (outboundValidation (cl_cfg c)) \<and>
       pr_Topic res = Build (cl_topics c) (hd_manufacturer a) (hd_serial a) ChannelOrder \<and>
       handed_over gis ph ctx res err s s')"
  proof (cases rule: PublishOrder_cases [OF assms(3)])
    case 1
    then show ?thesis using rejected_not_started [OF assms(1)] by blast
  next
    case (2 r e)
    then show ?thesis by blast
  next
    case (3 r payload)
    have fields: "pr_Topic res = Build (cl_topics c) (hd_manufacturer a) (hd_serial a) ChannelOrder"
      "pr_Payload res = payload" "pr_QoS res = publishQoS (cl_cfg c)"
      using 3(8) by (simp_all add: order_result_def)
    then have "adapter_Publish ph ctx (pr_Topic res) (pr_Payload res)
        \<lparr>po_QoS = pr_QoS res, po_Retain = False\<rparr> s = (s', err)"
      using 3(7) assms(2) by simp
    from adapter_cases [OF assms(1) this] show ?thesis
      using 3(4,5) fields order_check_ok [OF 3(3), of "cl_builder c" wall]
      by (auto simp: order_filled_def)
  qed
qed

text \<open>
  The same holds for instant actions.
\<close>
theorem instant_outcome_over_mqtt:
  assumes "matches_by_code gis" and "cl_transport c = newMQTTTransport ph cfg"
    and "PublishInstantActions mi wall c a ctx ia s = Some (ia', s', res, err)"
  shows "s' = s \<and> ClassifyPublish gis err = PublishOutcomeNotStarted \<or>
    s' = s \<and> (\<exists>r e. ia' = Some r \<and> mi r = Inl e \<and> err = Some e) \<or>
    (\<exists>r. ia' = Some r \<and> mi r = Inr (pr_Payload res) \<and> instant_ok r a (outboundValidation (cl_cfg c)) \<and>
       pr_Topic res = Build (cl_topics c) (hd_manufacturer a) (hd_serial a) ChannelInstantActions \<and>
       handed_over gis ph ctx res err s s')"
proof (cases rule: PublishInstantActions_cases [OF assms(3)])
  case 1
  then show ?thesis using rejected_not_started [OF assms(1)] by blast
next
  case (2 r e)
  then show ?thesis by blast
next
  case (3 r payload)
  have fields: "pr_Topic res = Build (cl_topics c) (hd_manufacturer a) (hd_serial a) ChannelInstantActions"
    "pr_Payload res = payload" "pr_QoS res = publishQoS (cl_cfg c)"
    using 3(8) by (simp_all add: instant_result_def)
  then have "adapter_Publish ph ctx (pr_Topic res) (pr_Payload res)
      \<lparr>po_QoS = pr_QoS res, po_Retain = False\<rparr> s = (s', err)"
    using 3(7) assms(2) by simp
  from adapter_cases [OF assms(1) this] show ?thesis
    using 3(4,5) fields instant_check_ok [OF 3(3), of "cl_builder c" wall]
    by (auto simp: instant_filled_def)
qed

subsection \<open>A client that New and Start made\<close>

text \<open>The token of a call that is acknowledged at once, and a configuration without a transport.\<close>

definition ex_acked :: token where
  "ex_acked = \<lparr>tk_done = Some 10, tk_err = None\<rparr>"

definition ex_settings :: "('s, 'u, event_handler, payload) config" where
  "ex_settings = \<lparr>cfg_Broker = ''uagv'', cfg_ClientID = ''v2'', cfg_Username = [], cfg_Password = [],
     cfg_Interface = ''uagv'', cfg_Version = ''v2'', cfg_HeaderVersion = [],
     cfg_Manufacturer = [], cfg_SerialNumber = [], cfg_QoS = None, cfg_KeepAlive = 0,
     cfg_ConnectTimeout = 0, cfg_CleanSession = True, cfg_AutoReconnect = True, cfg_TLS = None,
     cfg_Will = None, cfg_InboundQueueSize = 0, cfg_OnInboundDrop = None, cfg_SlowInbound = 0,
     cfg_OnSlowInbound = None, cfg_RestoreSubscriptionsOnReconnect = None,
     cfg_StrictIdentity = None, cfg_Transport = None,
     cfg_Fleet = None, cfg_Extensions = None, cfg_Bus = None,
     cfg_IdentityMapper = None, cfg_OutboundValidation = None, cfg_InboundPolicy = None,
     cfg_OnDecodeError = None, cfg_OnHandlerError = None, cfg_OnTransportUp = None,
     cfg_OnTransportDown = None, cfg_OnSubscriptionsRestored = None\<rparr>"

definition ex_mqtt_settings :: "((client_callback, nat) mqtt_world, string, event_handler, payload) config" where
  "ex_mqtt_settings = ex_settings"

definition ex_mqtt_new :: "(client_callback, nat) mqtt_world \<times> (goerr + ((client_callback, nat) mqtt_world, string) client)" where
  "ex_mqtt_new = New (newMQTTTransport (ex_paho ex_acked)) ex_mqtt_settings
     (mqtt_New (client_mqtt_config ex_mqtt_settings), 0)"

definition ex_mqtt_started :: "((client_callback, nat) mqtt_world, string) client \<times> (client_callback, nat) mqtt_world \<times> goerr option" where
  "ex_mqtt_started = Start Background (projr (snd ex_mqtt_new)) (fst ex_mqtt_new)"

lemma ex_settings_valid: "validate ex_settings = None"
  using ex_nonblank by (simp add: validate_def ex_settings_def)

lemma ex_mqtt_settings_valid: "validate ex_mqtt_settings = None"
  by (simp add: ex_mqtt_settings_def ex_settings_valid)

lemmas ex_mqtt_new_eval = ex_mqtt_new_def New_def Let_def ex_mqtt_settings_valid restoreOnReconnect_def

lemma ex_mqtt_fields:
  "cfg_Transport ex_mqtt_settings = None" "cfg_Fleet ex_mqtt_settings = None"
  "cfg_OnTransportUp ex_mqtt_settings = None" "cfg_Interface ex_mqtt_settings = ''uagv''"
  "cfg_Version ex_mqtt_settings = ''v2''" "cfg_OutboundValidation ex_mqtt_settings = None"
  "cfg_QoS ex_mqtt_settings = None"
  by (simp_all add: ex_mqtt_settings_def ex_settings_def)

lemma newMQTT_sel:
  "tr_Start (newMQTTTransport ph cfg) = mqtt_Start ph cfg"
  "tr_SetOnReconnect (newMQTTTransport ph cfg) = Some mqtt_SetOnReconnect"
  "tr_SetOnConnectionLost (newMQTTTransport ph cfg) = Some mqtt_SetOnConnectionLost"
  by (simp_all add: newMQTTTransport_def)

lemma ex_mqtt_new_client:
  "\<exists>c s. ex_mqtt_new = (s, Inr c) \<and>
    cl_transport c = newMQTTTransport (ex_paho ex_acked) (client_mqtt_config ex_mqtt_settings) \<and>
    cl_fleet c = None \<and> cl_onTransportUp c = None \<and> \<not> cl_started c \<and> cl_topicHandlers c = [] \<and>
    \<not> cl_wantState c \<and> \<not> cl_wantConn c \<and> \<not> cl_wantViz c \<and> \<not> cl_wantFS c \<and>
    cl_cfg c = ex_mqtt_settings \<and> cl_topics c = \<lparr>res_Interface = ''uagv'', res_Version = ''v2''\<rparr> \<and>
    \<not> mt_running (fst s)"
  by (simp add: ex_mqtt_new_def New_def Let_def ex_mqtt_settings_valid ex_mqtt_fields newMQTT_sel
    mqtt_SetOnReconnect_def mqtt_SetOnConnectionLost_def mqtt_New_def)

lemma ex_acked_start: "\<not> mt_running (fst s) \<Longrightarrow>
  mqtt_Start (ex_paho ex_acked) (client_mqtt_config ex_mqtt_settings) Background s =
  (((fst s)\<lparr>mt_stopping := False, mt_client := True, mt_open := True, mt_running := True\<rparr>, snd s), None)"
  by (simp add: mqtt_Start_def client_mqtt_config_def ex_mqtt_settings_def ex_settings_def validateWill_def
    Let_def ex_paho_def ex_acked_def await_token_def waitToken_def token_wait_def Background_def ctx_Err_def
    defaultTokenWait_def Second_def)

lemma ex_mqtt_up:
  "cl_started (fst ex_mqtt_started)" "snd (snd ex_mqtt_started) = None" "ready (fst (snd ex_mqtt_started))"
  "cl_transport (fst ex_mqtt_started) = newMQTTTransport (ex_paho ex_acked) (client_mqtt_config ex_mqtt_settings)"
  "cl_cfg (fst ex_mqtt_started) = ex_mqtt_settings"
proof -
  obtain s c where new: "ex_mqtt_new = (s, Inr c)" and c: "\<not> mt_running (fst s)"
    "cl_transport c = newMQTTTransport (ex_paho ex_acked) (client_mqtt_config ex_mqtt_settings)"
    "cl_fleet c = None" "cl_onTransportUp c = None" "\<not> cl_started c" "cl_topicHandlers c = []"
    "\<not> cl_wantState c" "\<not> cl_wantConn c" "\<not> cl_wantViz c" "\<not> cl_wantFS c" "cl_cfg c = ex_mqtt_settings"
    using ex_mqtt_new_client by blast
  have "ex_mqtt_started = Start Background c s" unfolding ex_mqtt_started_def new by simp
  also have "\<dots> = (c\<lparr>cl_started := True\<rparr>, ((fst s)\<lparr>mt_stopping := False, mt_client := True,
      mt_open := True, mt_running := True\<rparr>, snd s), None)"
    by (simp add: c newMQTT_sel Start_def ex_acked_start subscribeLocked_def
      wanted_channels_def wanted_topics_def startFleetAutoTrack_def call_opt_def Let_def)
  finally have st: "ex_mqtt_started = (c\<lparr>cl_started := True\<rparr>, ((fst s)\<lparr>mt_stopping := False,
      mt_client := True, mt_open := True, mt_running := True\<rparr>, snd s), None)" .
  show "cl_started (fst ex_mqtt_started)" "snd (snd ex_mqtt_started) = None"
    "ready (fst (snd ex_mqtt_started))"
    "cl_transport (fst ex_mqtt_started) = newMQTTTransport (ex_paho ex_acked) (client_mqtt_config ex_mqtt_settings)"
    "cl_cfg (fst ex_mqtt_started) = ex_mqtt_settings"
    unfolding st by (simp_all add: c ready_def)
qed

lemma ex_mqtt_publish:
  "\<exists>ord' s' res. PublishOrder (\<lambda>r. Inr [1]) 0 (fst ex_mqtt_started) (AGV ''acme'' ''A1'') Background
    (Some ex_order) (fst (snd ex_mqtt_started)) = Some (ord', s', res, None)"
proof -
  have v: "validateOutboundOrder ex_order m n (outboundValidation ex_mqtt_settings) = None" for m n :: string
    using ex_nonblank by (simp add: validateOutboundOrder_def validateOutboundHeader_def outboundValidation_def
      ex_mqtt_fields ex_order_def zero_header_def)
  have q: "publishQoS ex_mqtt_settings = 1" by (simp add: publishQoS_def ex_mqtt_fields DefaultOrderQoS_def)
  have "validatePublishQoS 1 = None" by (simp add: qos_check)
  then show ?thesis using v q ex_mqtt_up
    by (simp add: PublishOrder_valid adapter_Publish_def mqtt_Publish_def ready_def ctx_Err_def Background_def
      await_token_def ex_paho_def ex_acked_def waitToken_def token_wait_def defaultTokenWait_def Second_def)
qed

text \<open>ex_paho counts the calls of its Publish: the order below is handed over once.\<close>

theorem order_outcome_over_mqtt_witness:
  "case PublishOrder (\<lambda>r. Inr [1]) 0 (fst ex_mqtt_started) (AGV ''acme'' ''A1'') Background
      (Some ex_order) (fst (snd ex_mqtt_started)) of
     None \<Rightarrow> False
   | Some (ord', s', res, err) \<Rightarrow> pr_Payload res = [1] \<and> snd s' = Suc (snd (fst (snd ex_mqtt_started))) \<and>
       handed_over by_code (ex_paho ex_acked) Background res err (fst (snd ex_mqtt_started)) s'"
proof -
  let ?s = "fst (snd ex_mqtt_started)"
  obtain ord' s' res where run: "PublishOrder (\<lambda>r. Inr [1]) 0 (fst ex_mqtt_started) (AGV ''acme'' ''A1'') Background
    (Some ex_order) ?s = Some (ord', s', res, None)"
    using ex_mqtt_publish by blast
  have "ClassifyPublish by_code None \<noteq> PublishOutcomeNotStarted"
    by (simp add: ClassifyPublish_def outcome_defs)
  then have "pr_Payload res = [1]" "handed_over by_code (ex_paho ex_acked) Background res None ?s s'"
    using order_outcome_over_mqtt [OF matches_by_code_by_code ex_mqtt_up(4) run] by auto
  moreover from this(2) have "snd s' = Suc (snd ?s)"
    by (simp add: handed_over_def await_token_def ex_paho_def split: prod.splits)
  ultimately show ?thesis using run by simp
qed

end
