(* ===== verification/Client_Mqtt.thy ===== *)
theory Client_Mqtt
  imports Client_Filters Outbound_Mqtt
begin

text \<open>
  A client over the production transport: the MQTT transport of internal/mqtt behind its adapter,
  over a paho client that answers. What the client needs of paho and the broker is the predicate
  responsive: every operation is acknowledged within the 30 seconds of a token wait, Subscribe and
  Unsubscribe add and remove one filter of the session, connecting and disconnecting add none, and
  other goroutines leave the session and the life cycle of the transport alone while a call waits.
\<close>

definition acked :: "gotime \<Rightarrow> token \<Rightarrow> bool" where
  "acked now tk \<longleftrightarrow> tk_err tk = None \<and> (\<exists>t. tk_done tk = Some t \<and> t < now + defaultTokenWait)"

definition responsive :: "('c, 'w) paho \<Rightarrow> ('w \<Rightarrow> string set) \<Rightarrow> bool" where
  "responsive ph session \<longleftrightarrow> calm ph \<and>
     (\<forall>t s. session (snd (ph_pass ph t s)) = session (snd s)) \<and>
     (\<forall>o' w. session (ph_NewClient ph o' w) = session w) \<and>
     (\<forall>w w' tk. ph_Connect ph w = (w', tk) \<longrightarrow> acked (ph_now ph w') tk \<and> session w' \<subseteq> session w) \<and>
     (\<forall>n w. session (ph_Disconnect ph n w) \<subseteq> session w) \<and>
     (\<forall>f q h w w' tk. ph_Subscribe ph f q h w = (w', tk) \<longrightarrow>
        acked (ph_now ph w') tk \<and> session w' = insert f (session w)) \<and>
     (\<forall>f w w' tk. ph_Unsubscribe ph f w = (w', tk) \<longrightarrow>
        acked (ph_now ph w') tk \<and> session w' = session w - {f})"

lemma wait_acked:
  assumes "patient ctx" "acked now tk"
  shows "\<exists>t. waitToken tt tc now ctx tk = (t, None)"
proof -
  obtain t where "tk_done tk = Some t" "t < now + defaultTokenWait" using assms(2) by (auto simp: acked_def)
  then show ?thesis using assms(1)
    by (simp add: waitToken_def patient_def ctx_Err_def token_wait_def)
qed

lemma await_acked:
  assumes "patient ctx" "acked (ph_now ph (snd s)) tk"
  shows "\<exists>t. await_token ph ctx tk s = (ph_pass ph t s, None)"
  using wait_acked [OF assms, of "ph_tie_timer ph" "ph_tie_ctx ph"] by (auto simp: await_token_def)

text \<open>The transport is up when it is ready and its paho client answers.\<close>

definition mqtt_up :: "('c, 'w) paho \<Rightarrow> ('w \<Rightarrow> string set) \<Rightarrow> ('c, 'w) mqtt_world \<Rightarrow> bool" where
  "mqtt_up ph session s \<longleftrightarrow> ready s \<and> responsive ph session"

lemma pass_keeps:
  assumes "responsive ph session"
  shows "ready (ph_pass ph t s) = ready s \<and> session (snd (ph_pass ph t s)) = session (snd s)"
  using assms unfolding responsive_def calm_def ready_def by (simp del: split_paired_All)

interpretation mqtt: filter_service "\<lambda>ctx f s. mqtt_Subscribe ph cfg ctx f h s" "mqtt_Unsubscribe ph"
    "\<lambda>s. session (snd s)" "mqtt_up ph session" for ph :: "('c, 'w) paho" and cfg h session
proof
  fix s :: "('c, 'w) mqtt_world" and ctx f
  assume up: "mqtt_up ph session s" and ctx: "patient ctx"
  then have r: "ready s" "responsive ph session" by (simp_all add: mqtt_up_def)
  have ready': "ready (fst s, w)" for w using r(1) by (simp add: ready_def)
  obtain w1 tk where sub: "ph_Subscribe ph f (subscribeQoS cfg f) h (snd s) = (w1, tk)" by fastforce
  then have a: "acked (ph_now ph w1) tk" "session w1 = insert f (session (snd s))"
    using r(2) by (simp_all add: responsive_def)
  obtain t where "await_token ph ctx tk (fst s, w1) = (ph_pass ph t (fst s, w1), None)"
    using await_acked [OF ctx, of ph "(fst s, w1)" tk] a(1) by auto
  then show "\<exists>s'. mqtt_Subscribe ph cfg ctx f h s = (s', Inr f) \<and> mqtt_up ph session s' \<and>
      session (snd s') = insert f (session (snd s))"
    using sub a r pass_keeps [OF r(2), of t "(fst s, w1)"] ready' by (simp add: mqtt_Subscribe_def mqtt_up_def acked_def)
  then show "\<exists>s' q. mqtt_Subscribe ph cfg ctx f h s = (s', q) \<and> mqtt_up ph session s' \<and>
      (case q of Inr u \<Rightarrow> u = f \<and> session (snd s') = insert f (session (snd s))
         | Inl e \<Rightarrow> session (snd s') = session (snd s))"
    by (elim exE conjE) (intro exI conjI, assumption+, simp)
  obtain w2 tk' where uns: "ph_Unsubscribe ph f (snd s) = (w2, tk')" by fastforce
  then have b: "acked (ph_now ph w2) tk'" "session w2 = session (snd s) - {f}"
    using r(2) by (simp_all add: responsive_def)
  obtain t where "await_token ph ctx tk' (fst s, w2) = (ph_pass ph t (fst s, w2), None)"
    using await_acked [OF ctx, of ph "(fst s, w2)" tk'] b(1) by auto
  then show "\<exists>s'. mqtt_Unsubscribe ph ctx f s = (s', None) \<and> mqtt_up ph session s' \<and>
      session (snd s') = session (snd s) - {f}"
    using uns b r pass_keeps [OF r(2), of t "(fst s, w2)"] ready' by (simp add: mqtt_Unsubscribe_def mqtt_up_def acked_def)
qed

interpretation mqc: filter_transport "newMQTTTransport ph cfg" "\<lambda>s. session (snd s)" "mqtt_up ph session"
  for ph :: "(client_callback, 'w) paho" and cfg session
  by (rule filter_transport.intro)
    (use mqtt.filter_service_axioms in \<open>simp add: newMQTTTransport_def\<close>)

subsection \<open>Start, reconnect, Stop\<close>

lemma mqtt_start_acked:
  assumes "responsive ph session" "patient ctx" "\<not> mt_running (fst s)"
    and "mc_Broker cfg \<noteq> []" "mc_ClientID cfg \<noteq> []" "validateWill (mc_Will cfg) = None"
  shows "\<exists>s'. mqtt_Start ph cfg ctx s = (s', None) \<and> mqtt_up ph session s' \<and> session (snd s') \<subseteq> session (snd s)"
proof -
  let ?m = "(fst s)\<lparr>mt_stopping := False, mt_client := True, mt_open := True\<rparr>"
  let ?w = "ph_NewClient ph (paho_options cfg) (snd s)"
  obtain w2 tk where con: "ph_Connect ph ?w = (w2, tk)" by fastforce
  then have a: "acked (ph_now ph w2) tk" "session w2 \<subseteq> session ?w"
    using assms(1) unfolding responsive_def by blast+
  have new: "session ?w = session (snd s)" using assms(1) by (simp add: responsive_def)
  obtain t where aw: "await_token ph ctx tk (?m, w2) = (ph_pass ph t (?m, w2), None)"
    using await_acked [OF assms(2), of ph "(?m, w2)" tk] a(1) by auto
  let ?s = "ph_pass ph t (?m, w2)"
  have "mt_client (fst ?s)" "session (snd ?s) = session w2"
    using assms(1) unfolding responsive_def calm_def by (simp_all del: split_paired_All)
  moreover have "mqtt_Start ph cfg ctx s = (((fst ?s)\<lparr>mt_running := True\<rparr>, snd ?s), None)"
    using assms(3-6) con aw a(1) by (simp add: mqtt_Start_def Let_def acked_def)
  ultimately show ?thesis using a new assms(1) by (simp add: mqtt_up_def ready_def)
qed

text \<open>
  C14. A client over the MQTT transport, started against a broker that answers, comes up with every
  subscription it needs: Start succeeds, and the filters of the broker session are those that it
  kept on connecting (none that it did not have before) and exactly the filters the client needs:
  one for the configured vehicle (or all of them) and each kind of message that has a registered
  handler, those of the raw topic handlers, and the connection messages of all vehicles for a client
  with a fleet. Its handles are its filters.
\<close>
theorem Start_over_mqtt:
  assumes "responsive ph session" and "patient ctx"
    and "cl_transport c = newMQTTTransport ph cfg" and "\<not> cl_started c" and "cl_unsubs c = []"
    and "\<forall>f. cl_fleet c = Some f \<longrightarrow> wired f \<and> \<not> fl_started f \<and> fl_tracked f = Map.empty"
    and "\<forall>f. cl_onTransportUp c = Some f \<longrightarrow> quiet_fun (mqtt_up ph session) (session \<circ> snd) f"
    and "\<not> mt_running (fst s)" and "mc_Broker cfg \<noteq> []" and "mc_ClientID cfg \<noteq> []"
    and "validateWill (mc_Will cfg) = None"
  shows "\<exists>c' s' kept. Start ctx c s = (c', s', None) \<and> cl_started c' \<and> client_wired c' \<and> ready s' \<and>
    client_filters c' = needed_filters c \<and>
    session (snd s') = kept \<union> needed_filters c \<and> kept \<subseteq> session (snd s)"
proof -
  obtain s1 where s1: "mqtt_Start ph cfg ctx s = (s1, None)" "mqtt_up ph session s1"
    "session (snd s1) \<subseteq> session (snd s)"
    using mqtt_start_acked [OF assms(1,2,8-11)] by blast
  have "tr_Start (newMQTTTransport ph cfg) ctx s = (s1, None)" using s1(1) by (simp add: newMQTTTransport_def)
  from mqc.start_client_acked [OF assms(3-5,2,6) this s1(2) assms(7) [unfolded comp_def]]
  have "\<exists>c' s'. Start ctx c s = (c', s', None) \<and> cl_started c' \<and> client_wired c' \<and> ready s' \<and>
      client_filters c' = missing_filters c \<and> session (snd s') = session (snd s1) \<union> missing_filters c"
    by (auto simp: mqtt_up_def)
  moreover have "missing_filters c = needed_filters c" using assms(6) by (intro missing_needed) simp
  ultimately show ?thesis using s1(3) by metis
qed

text \<open>A paho client whose world is the session: every call is acknowledged at once.\<close>

definition ex_session :: "(client_callback, string set) paho" where
  "ex_session = \<lparr>ph_NewClient = (\<lambda>o' w. w), ph_Connect = (\<lambda>w. (w, ex_acked)), ph_Disconnect = (\<lambda>n w. w),
     ph_IsConnected = (\<lambda>w. True), ph_Publish = (\<lambda>t q r p w. (w, ex_acked)),
     ph_Subscribe = (\<lambda>f q h w. (insert f w, ex_acked)), ph_Unsubscribe = (\<lambda>f w. (w - {f}, ex_acked)),
     ph_now = (\<lambda>w. 10), ph_pass = (\<lambda>t s. s), ph_tie_timer = True, ph_tie_ctx = True\<rparr>"

lemma ex_session_responsive: "responsive ex_session id"
  by (simp add: responsive_def ex_session_def calm_def acked_def ex_acked_def defaultTokenWait_def Second_def)

type_synonym ex_session_world = "(client_callback, string set) mqtt_world"

definition ex_fleet_settings :: "(ex_session_world, string, event_handler, payload) config" where
  "ex_fleet_settings = ex_settings\<lparr>cfg_Fleet := Some DefaultFleetOptions\<rparr>"

definition ex_fleet_tr :: "(ex_session_world, string) transport" where
  "ex_fleet_tr = newMQTTTransport ex_session (client_mqtt_config ex_fleet_settings)"

definition ex_fleet_world :: ex_session_world where
  "ex_fleet_world = (mqtt_New (client_mqtt_config ex_fleet_settings), {})"

definition ex_fleet_client :: "(ex_session_world, string) client" where
  "ex_fleet_client = projr (snd (New (newMQTTTransport ex_session) ex_fleet_settings ex_fleet_world))"

lemma ex_fleet_client_fields:
  "cl_transport ex_fleet_client = ex_fleet_tr" "\<not> cl_started ex_fleet_client" "cl_unsubs ex_fleet_client = []"
  "cl_fleet ex_fleet_client = Some (NewFleetSession \<lparr>res_Interface = ''uagv'', res_Version = ''v2''\<rparr>
     (fleetSessionOptions DefaultFleetOptions))"
  "cl_onTransportUp ex_fleet_client = None" "cl_onSubscriptionsRestored ex_fleet_client = None"
  "wanted_topics ex_fleet_client = []" "cl_busUnsubs ex_fleet_client = []"
proof -
  have v: "validate ex_fleet_settings = None"
    using ex_nonblank by (simp add: validate_def ex_fleet_settings_def ex_settings_def)
  have f: "cfg_Transport ex_fleet_settings = None" "cfg_Fleet ex_fleet_settings = Some DefaultFleetOptions"
    "cfg_OnTransportUp ex_fleet_settings = None" "cfg_OnSubscriptionsRestored ex_fleet_settings = None"
    "cfg_Interface ex_fleet_settings = ''uagv''" "cfg_Version ex_fleet_settings = ''v2''"
    by (simp_all add: ex_fleet_settings_def ex_settings_def)
  show "cl_transport ex_fleet_client = ex_fleet_tr" "\<not> cl_started ex_fleet_client" "cl_unsubs ex_fleet_client = []"
    "cl_fleet ex_fleet_client = Some (NewFleetSession \<lparr>res_Interface = ''uagv'', res_Version = ''v2''\<rparr>
       (fleetSessionOptions DefaultFleetOptions))"
    "cl_onTransportUp ex_fleet_client = None" "cl_onSubscriptionsRestored ex_fleet_client = None"
    "wanted_topics ex_fleet_client = []" "cl_busUnsubs ex_fleet_client = []"
    by (simp_all add: ex_fleet_client_def New_def Let_def v f ex_fleet_tr_def wanted_topics_def wanted_channels_def)
qed

lemma ex_fleet_client_rest:
  "cl_topics ex_fleet_client = \<lparr>res_Interface = ''uagv'', res_Version = ''v2''\<rparr>"
  "cl_cfg ex_fleet_client = ex_fleet_settings" "\<not> cl_wantConn ex_fleet_client" "\<not> cl_wantFS ex_fleet_client"
  "cfg_Manufacturer ex_fleet_settings = []" "cfg_SerialNumber ex_fleet_settings = []"
proof -
  have v: "validate ex_fleet_settings = None"
    using ex_nonblank by (simp add: validate_def ex_fleet_settings_def ex_settings_def)
  have f: "cfg_Interface ex_fleet_settings = ''uagv''" "cfg_Version ex_fleet_settings = ''v2''"
    by (simp_all add: ex_fleet_settings_def ex_settings_def)
  show "cl_topics ex_fleet_client = \<lparr>res_Interface = ''uagv'', res_Version = ''v2''\<rparr>"
    "cl_cfg ex_fleet_client = ex_fleet_settings" "\<not> cl_wantConn ex_fleet_client" "\<not> cl_wantFS ex_fleet_client"
    by (simp_all add: ex_fleet_client_def New_def Let_def v f)
  show "cfg_Manufacturer ex_fleet_settings = []" "cfg_SerialNumber ex_fleet_settings = []"
    by (simp_all add: ex_fleet_settings_def ex_settings_def)
qed

lemma ex_fleet_cfg:
  "mc_Broker (client_mqtt_config ex_fleet_settings) \<noteq> []" "mc_ClientID (client_mqtt_config ex_fleet_settings) \<noteq> []"
  "validateWill (mc_Will (client_mqtt_config ex_fleet_settings)) = None"
  by (simp_all add: client_mqtt_config_def ex_fleet_settings_def ex_settings_def validateWill_def)

text \<open>
  The same client with registrations: without the fleet it has state and visualization handlers and
  a raw handler.
\<close>

definition ex_vehicle_client :: "(ex_session_world, string) client" where
  "ex_vehicle_client = ex_fleet_client\<lparr>cl_fleet := None, cl_wantState := True, cl_wantViz := True,
     cl_topicHandlers := [(''site/x'', 1)]\<rparr>"

lemma ex_vehicle_fields:
  "cl_transport ex_vehicle_client = newMQTTTransport ex_session (client_mqtt_config ex_fleet_settings)"
  "\<not> cl_started ex_vehicle_client" "cl_unsubs ex_vehicle_client = []" "cl_fleet ex_vehicle_client = None"
  "cl_onTransportUp ex_vehicle_client = None"
  using ex_fleet_client_fields by (simp_all add: ex_vehicle_client_def ex_fleet_tr_def)

lemma ex_vehicle_needs:
  "needed_filters ex_vehicle_client = {''site/x'', ''uagv/v2/+/+/state'', ''uagv/v2/+/+/visualization''}"
  by (auto simp: needed_filters_def Let_def registered_kinds_def kind_filter_def ex_vehicle_client_def
      ex_fleet_client_rest)

theorem Start_over_mqtt_witness:
  "\<exists>c' s'. Start Background ex_vehicle_client ex_fleet_world = (c', s', None) \<and>
     snd s' = {''site/x'', ''uagv/v2/+/+/state'', ''uagv/v2/+/+/visualization''}"
proof -
  have down: "\<not> mt_running (fst ex_fleet_world)" by (simp add: ex_fleet_world_def mqtt_New_def)
  have fleet: "\<forall>f. cl_fleet ex_vehicle_client = Some f \<longrightarrow> wired f \<and> \<not> fl_started f \<and> fl_tracked f = Map.empty"
    and hook: "\<forall>f. cl_onTransportUp ex_vehicle_client = Some f \<longrightarrow> quiet_fun (mqtt_up ex_session id) (id \<circ> snd) f"
    by (simp_all add: ex_vehicle_fields)
  obtain c' s' kept where "Start Background ex_vehicle_client ex_fleet_world = (c', s', None)"
    "id (snd s') = kept \<union> needed_filters ex_vehicle_client" "kept \<subseteq> id (snd ex_fleet_world)"
    using Start_over_mqtt [OF ex_session_responsive patient_Background
      ex_vehicle_fields(1-3) fleet hook down ex_fleet_cfg]
    by (elim exE conjE) (rule that, assumption+)
  moreover have "snd ex_fleet_world = {}" by (simp add: ex_fleet_world_def)
  ultimately show ?thesis by (auto simp: ex_vehicle_needs)
qed

text \<open>The client once it is started and tracks a vehicle, and its transport.\<close>

definition ex_tracking_fleet :: "(ex_session_world, string) fleet" where
  "ex_tracking_fleet = (NewFleetSession \<lparr>res_Interface = ''uagv'', res_Version = ''v2''\<rparr>
     (fleetSessionOptions DefaultFleetOptions))
       \<lparr>fl_started := True, fl_connUnsub := Some ''uagv/v2/+/+/connection'',
        fl_tracked := [''acme/A1'' \<mapsto> \<lparr>ta_agv = ex_agv, ta_unsubs = [''uagv/v2/acme/A1/state'']\<rparr>]\<rparr>"

definition ex_tracking_client :: "(ex_session_world, string) client" where
  "ex_tracking_client = ex_fleet_client\<lparr>cl_started := True, cl_fleet := Some ex_tracking_fleet\<rparr>"

definition ex_ready_world :: "string set \<Rightarrow> ex_session_world" where
  "ex_ready_world fs = ((fst ex_fleet_world)\<lparr>mt_running := True, mt_client := True, mt_open := True,
     mt_wasConnected := True\<rparr>, fs)"

lemma ex_tracking_fields:
  "cl_transport ex_tracking_client = newMQTTTransport ex_session (client_mqtt_config ex_fleet_settings)"
  "cl_started ex_tracking_client" "cl_fleet ex_tracking_client = Some ex_tracking_fleet"
  "cl_onTransportUp ex_tracking_client = None" "cl_onSubscriptionsRestored ex_tracking_client = None"
  "cl_busUnsubs ex_tracking_client = []" "cl_unsubs ex_tracking_client = []"
  using ex_fleet_client_fields by (simp_all add: ex_tracking_client_def ex_fleet_tr_def)

lemma ex_tracking_wanted: "wanted_topics ex_tracking_client = []"
  using ex_fleet_client_fields(4,7)
  by (simp add: ex_tracking_client_def wanted_topics_def wanted_channels_def split: if_splits)

lemma ex_tracking_fleet_fields:
  "fl_started ex_tracking_fleet" "fl_connUnsub ex_tracking_fleet = Some (conn_filter ex_tracking_fleet)"
  "fl_tracked ex_tracking_fleet = [''acme/A1'' \<mapsto> \<lparr>ta_agv = ex_agv, ta_unsubs = [''uagv/v2/acme/A1/state'']\<rparr>]"
  "conn_filter ex_tracking_fleet = ''uagv/v2/+/+/connection''"
  "agv_filters ex_tracking_fleet ex_agv = [''uagv/v2/acme/A1/state'']" "agv_key ex_agv = ''acme/A1''"
  "fl_onOffline ex_tracking_fleet = []"
  by (simp_all add: ex_tracking_fleet_def NewFleetSession_def conn_filter_def agv_filters_def Wildcard_def Build_def
      channel_defs fleetSessionOptions_def DefaultFleetOptions_def zero_fleet_options_def fleet_channels_def
      DefaultOptions_def ex_agv_def agv_key_def)

lemma ex_tracking_wired: "client_wired ex_tracking_client"
  by (auto simp: client_wired_def ex_tracking_fields ex_tracking_wanted wired_def filed_def ex_tracking_fleet_fields)

lemma ex_tracking_filters:
  "client_filters ex_tracking_client = {''uagv/v2/+/+/connection'', ''uagv/v2/acme/A1/state''}"
  by (auto simp: client_filters_def ex_tracking_fields ex_tracking_wanted fleet_filters_def tracked_filters_def
      tracked_agvs_def ran_def ex_tracking_fleet_fields)

lemma ex_tracking_keys:
  "\<forall>f. cl_fleet ex_tracking_client = Some f \<longrightarrow> iteration_of [''acme/A1''] (fl_tracked f)"
  by (simp add: ex_tracking_fields iteration_of_def ex_tracking_fleet_fields)

lemma ex_ready: "ready (ex_ready_world fs)"
  by (simp add: ex_ready_world_def ready_def)

text \<open>
  C15. The reconnect path over the MQTT transport restores every subscription: whatever the broker
  kept of the session, after handleReconnect it holds every filter the client needs and no other
  new one, the fleet tracks the same vehicles, and the client's handles are again its filters.
\<close>
theorem Reconnect_over_mqtt:
  assumes "responsive ph session" and "ready s"
    and "cl_transport c = newMQTTTransport ph cfg" and "cl_started c" and "client_wired c"
    and "\<forall>f. cl_fleet c = Some f \<longrightarrow> iteration_of ks (fl_tracked f)"
    and "\<forall>f. cl_onTransportUp c = Some f \<longrightarrow> quiet_fun (mqtt_up ph session) (session \<circ> snd) f"
    and "\<forall>f e. cl_onSubscriptionsRestored c = Some f \<longrightarrow> quiet_fun (mqtt_up ph session) (session \<circ> snd) (f e)"
  shows "\<exists>c' s'. handleReconnect ks c s = (c', s') \<and> ready s' \<and> client_wired c' \<and> same_but_subs c c' \<and>
    client_filters c' = client_filters c \<and> session (snd s') = session (snd s) \<union> client_filters c"
  using mqc.reconnect_acked [OF _ assms(3-6) assms(7,8) [unfolded comp_def], of s] assms(1,2)
  by (auto simp: mqtt_up_def)

theorem Reconnect_over_mqtt_witness:
  "snd (snd (handleReconnect [''acme/A1''] ex_tracking_client (ex_ready_world {}))) =
     {''uagv/v2/+/+/connection'', ''uagv/v2/acme/A1/state''}"
proof -
  have "\<exists>c' s'. handleReconnect [''acme/A1''] ex_tracking_client (ex_ready_world {}) = (c', s') \<and>
      id (snd s') = id (snd (ex_ready_world {})) \<union> client_filters ex_tracking_client"
    using Reconnect_over_mqtt [OF ex_session_responsive ex_ready ex_tracking_fields(1,2) ex_tracking_wired
        ex_tracking_keys, of "{}"]
    by (simp add: ex_tracking_fields) blast
  then show ?thesis by (auto simp: ex_tracking_filters ex_ready_world_def)
qed

text \<open>
  C16. Stop over the MQTT transport leaves nothing behind: it succeeds, every filter of the client
  and of its fleet session is gone from the broker session before the transport disconnects (so
  a session that is not clean delivers nothing later), the fleet tracks no vehicle, and the client
  can be started again.
\<close>
theorem Stop_over_mqtt:
  assumes "responsive ph session" and "ready s" and "patient ctx"
    and "cl_transport c = newMQTTTransport ph cfg" and "cl_started c" and "client_wired c"
    and "\<forall>f. cl_fleet c = Some f \<longrightarrow>
      calm_hooks (mqtt_up ph session) (session \<circ> snd) (fl_onOffline f) \<and> iteration_of ks (fl_tracked f)"
    and "\<forall>u\<in>set (cl_busUnsubs c). quiet_closure (mqtt_up ph session) (session \<circ> snd) u"
  shows "\<exists>c' s'. Stop ctx ks c s = (c', s', None) \<and> session (snd s') \<subseteq> session (snd s) - client_filters c \<and>
    \<not> ready s' \<and> \<not> cl_started c' \<and> cl_unsubs c' = [] \<and> cl_transport c' = newMQTTTransport ph cfg \<and>
    (\<forall>f. cl_fleet c' = Some f \<longrightarrow> wired f \<and> \<not> fl_started f \<and> fl_tracked f = Map.empty)"
proof -
  have up: "mqtt_up ph session s" using assms(1,2) by (simp add: mqtt_up_def)
  obtain c' s3 where stop: "Stop ctx ks c s =
      (c', fst (mqtt_Stop ph s3), snd (mqtt_Stop ph s3))" and st: "mqtt_up ph session s3"
    "session (snd s3) = session (snd s) - client_filters c" "\<not> cl_started c'" "cl_unsubs c' = []"
    "cl_transport c' = newMQTTTransport ph cfg"
    "\<forall>f. cl_fleet c' = Some f \<longrightarrow> wired f \<and> \<not> fl_started f \<and> fl_tracked f = Map.empty"
    using mqc.stop_client_acked [OF up assms(3-6) assms(7,8) [unfolded comp_def]]
    by (auto simp: newMQTTTransport_def)
  have "session (ph_Disconnect ph n (snd s3)) \<subseteq> session (snd s3)" for n
    using assms(1) by (simp add: responsive_def)
  then have "session (snd (fst (mqtt_Stop ph s3))) \<subseteq> session (snd s) - client_filters c"
    "\<not> ready (fst (mqtt_Stop ph s3))" "snd (mqtt_Stop ph s3) = None"
    using st(2) by (auto simp: mqtt_Stop_def ready_def)
  with stop st show ?thesis by (intro exI [of _ c'] exI [of _ "fst (mqtt_Stop ph s3)"]) simp
qed

theorem Stop_over_mqtt_witness:
  "snd (fst (snd (Stop Background [''acme/A1''] ex_tracking_client
     (ex_ready_world {''uagv/v2/+/+/connection'', ''uagv/v2/acme/A1/state'', ''site/x''})))) \<subseteq> {''site/x''}"
proof -
  let ?s = "ex_ready_world {''uagv/v2/+/+/connection'', ''uagv/v2/acme/A1/state'', ''site/x''}"
  have fleet: "\<forall>f. cl_fleet ex_tracking_client = Some f \<longrightarrow>
      calm_hooks (mqtt_up ex_session id) (id \<circ> snd) (fl_onOffline f) \<and> iteration_of [''acme/A1''] (fl_tracked f)"
    using ex_tracking_keys by (simp add: ex_tracking_fields ex_tracking_fleet_fields calm_hooks_def)
  have bus: "\<forall>u\<in>set (cl_busUnsubs ex_tracking_client). quiet_closure (mqtt_up ex_session id) (id \<circ> snd) u"
    by (simp add: ex_tracking_fields)
  obtain c' s' where "Stop Background [''acme/A1''] ex_tracking_client ?s = (c', s', None)"
    "id (snd s') \<subseteq> id (snd ?s) - client_filters ex_tracking_client"
    using Stop_over_mqtt [OF ex_session_responsive
        ex_ready [of "{''uagv/v2/+/+/connection'', ''uagv/v2/acme/A1/state'', ''site/x''}"]
        patient_Background ex_tracking_fields(1,2)
        ex_tracking_wired fleet bus]
    by (elim exE conjE) (rule that, assumption+)
  then show ?thesis by (auto simp: ex_tracking_filters ex_ready_world_def)
qed

subsection \<open>Filters that two subscribers share\<close>

text \<open>
  C38. A flaw of handles that are filters: when a raw topic handler of the client has the very
  filter of a tracked vehicle, untracking the vehicle takes it from the broker session although the
  client still wants it and still holds its handle; nothing subscribes it again before the next
  reconnect. The in-process broker, whose handles are numbers, keeps the other subscription.
\<close>
theorem Untrack_drops_shared_filter:
  assumes "responsive ph session" and "ready s" and "patient ctx"
    and "cl_transport c = newMQTTTransport ph cfg" and "cl_started c" and "client_wired c"
    and "cl_fleet c = Some f" and "calm_hooks (mqtt_up ph session) (session \<circ> snd) (fl_onOffline f)"
    and "tracked_agvs f (mfr @ ''/'' @ sn) = Some b" and "x \<in> set (agv_filters f b)"
    and "x \<in> fst ` set (wanted_topics c)"
  shows "case Untrack ctx mfr sn c s of (c', s', r) \<Rightarrow>
    r = None \<and> x \<notin> session (snd s') \<and> x \<in> client_filters c' \<and> x \<in> set (cl_unsubs c')"
proof -
  let ?a = "\<lparr>agv_Manufacturer = mfr, agv_SerialNumber = sn\<rparr>"
  have up: "mqtt_up ph session s" using assms(1,2) by (simp add: mqtt_up_def)
  have "wired f" using assms(6,7) by (simp add: client_wired_def)
  then obtain f' s' where st: "Fleet_Untrack (tr_Unsubscribe (newMQTTTransport ph cfg)) ctx ?a f s = (f', s', None)"
    "session (snd s') = session (snd s) - set (agv_filters f b)"
    using mqc.fsv.untrack_acked [OF up assms(3), where f = f and a = ?a and cfg = cfg] assms(8,9) by (auto simp: agv_key_def comp_def)
  have "Untrack ctx mfr sn c s = (c\<lparr>cl_fleet := Some f'\<rparr>, s', None)"
    using assms(4,5,7) st(1) by (simp add: Untrack_def requireStarted_def)
  moreover have "cl_unsubs c = map fst (wanted_topics c)" using assms(6) by (simp add: client_wired_def)
  ultimately show ?thesis using st(2) assms(7,10,11) by (auto simp: client_filters_def)
qed

text \<open>A client with a raw handler on the state topic of the vehicle it tracks.\<close>

definition ex_shared_client :: "(ex_session_world, string) client" where
  "ex_shared_client = ex_tracking_client\<lparr>cl_topicHandlers := [(''uagv/v2/acme/A1/state'', 1)],
     cl_unsubs := [''uagv/v2/acme/A1/state'']\<rparr>"

theorem Untrack_drops_shared_filter_witness:
  "case Untrack Background ''acme'' ''A1'' ex_shared_client
      (ex_ready_world {''uagv/v2/+/+/connection'', ''uagv/v2/acme/A1/state''}) of
     (c', s', r) \<Rightarrow> ''uagv/v2/acme/A1/state'' \<notin> snd s' \<and> ''uagv/v2/acme/A1/state'' \<in> client_filters c'"
proof -
  have w: "wanted_topics ex_shared_client = [(''uagv/v2/acme/A1/state'', DispatchTopic 1)]"
    using ex_tracking_wanted ex_tracking_fields(3)
    by (simp add: ex_shared_client_def wanted_topics_def wanted_channels_def split: if_splits)
  have c: "cl_transport ex_shared_client = newMQTTTransport ex_session (client_mqtt_config ex_fleet_settings)"
    "cl_started ex_shared_client" "cl_fleet ex_shared_client = Some ex_tracking_fleet"
    using ex_tracking_fields by (simp_all add: ex_shared_client_def)
  have wired: "client_wired ex_shared_client"
    using ex_tracking_wired by (simp add: client_wired_def w c ex_tracking_fields) (simp add: ex_shared_client_def)
  have tracked: "tracked_agvs ex_tracking_fleet (''acme'' @ ''/'' @ ''A1'') = Some ex_agv"
    by (simp add: tracked_agvs_def ex_tracking_fleet_fields)
  have calm: "calm_hooks (mqtt_up ex_session id) (id \<circ> snd) (fl_onOffline ex_tracking_fleet)"
    by (simp add: calm_hooks_def ex_tracking_fleet_fields)
  have x: "''uagv/v2/acme/A1/state'' \<in> set (agv_filters ex_tracking_fleet ex_agv)"
    "''uagv/v2/acme/A1/state'' \<in> fst ` set (wanted_topics ex_shared_client)"
    by (simp_all add: w ex_tracking_fleet_fields)
  from Untrack_drops_shared_filter [OF ex_session_responsive
      ex_ready [of "{''uagv/v2/+/+/connection'', ''uagv/v2/acme/A1/state''}"] patient_Background
      c(1,2) wired c(3) calm tracked x]
  show ?thesis by (auto split: prod.splits)
qed

end
