(* ===== verification/Filter_Refusals.thy ===== *)
theory Filter_Refusals
  imports Filter_Service
begin

text \<open>
  The fleet session over a service that may refuse a subscription. Track takes back what it had
  subscribed when one of the filters of a vehicle is refused; Restore gives up at the first vehicle
  it cannot subscribe again, and from then on knows nothing of that vehicle and those after it.
\<close>

subsection \<open>Filters of different vehicles are different\<close>

lemma build_key: "Build r (agv_Manufacturer a) (agv_SerialNumber a) ch =
    res_Interface r @ ''/'' @ res_Version r @ ''/'' @ agv_key a @ ''/'' @ ch"
  by (simp add: Build_def agv_key_def)

lemma suffixes_differ:
  "x @ ''/state'' \<noteq> y @ ''/visualization''" "x @ ''/state'' \<noteq> y @ ''/connection''"
  "x @ ''/visualization'' \<noteq> y @ ''/connection''"
  by (auto dest: arg_cong [where f = rev])

lemma agv_filters_iff:
  "x \<in> set (agv_filters f a) \<longleftrightarrow>
     (\<exists>ch\<in>set (fleet_channels (fl_opts f)). x = Build (fl_topics f) (agv_Manufacturer a) (agv_SerialNumber a) ch)"
  by (auto simp: agv_filters_def)

lemma fleet_channels_known: "ch \<in> set (fleet_channels opts) \<Longrightarrow> ch = ''state'' \<or> ch = ''visualization''"
  by (auto simp: fleet_channels_def channel_defs split: if_splits)

lemma agv_filters_disjoint:
  assumes "agv_key a \<noteq> agv_key b"
  shows "set (agv_filters f a) \<inter> set (agv_filters f b) = {}"
proof -
  have "agv_key a @ ''/'' @ ch \<noteq> agv_key b @ ''/'' @ ch'"
    if "ch \<in> set (fleet_channels (fl_opts f))" "ch' \<in> set (fleet_channels (fl_opts f))" for ch ch'
    using that [THEN fleet_channels_known] assms suffixes_differ(1) suffixes_differ(1) [symmetric] by auto
  then show ?thesis by (auto simp: agv_filters_iff build_key)
qed

lemma conn_filter_separate: "conn_filter f \<notin> set (agv_filters f a)"
proof -
  have "''+/+/connection'' \<noteq> agv_key a @ ''/'' @ ch" if "ch \<in> set (fleet_channels (fl_opts f))" for ch
    using fleet_channels_known [OF that] suffixes_differ(2,3) [of "agv_key a" "''+/+''"] by auto
  moreover have "conn_filter f = res_Interface (fl_topics f) @ ''/'' @ res_Version (fl_topics f) @ ''/'' @ ''+/+/connection''"
    by (simp add: conn_filter_def Wildcard_def Build_def channel_defs)
  ultimately show ?thesis unfolding agv_filters_iff build_key by simp
qed

context refusing_service
begin

subsection \<open>Track\<close>

text \<open>A loop that is refused releases the handles it started with and those it got.\<close>

lemma subscribe_all_answered:
  assumes "up s" "patient ctx"
  shows "\<exists>s' r. subscribe_all subscribe unsubscribe ctx fs acc s = (s', r) \<and> up s' \<and>
    (case r of Inr us \<Rightarrow> us = acc @ fs \<and> filters s' = filters s \<union> set fs
     | Inl e \<Rightarrow> \<exists>n < length fs. filters s' = filters s - set acc - set (take n fs))"
  using assms(1)
proof (induction fs arbitrary: acc s)
  case (Cons f fs)
  obtain s1 q where s1: "subscribe ctx f s = (s1, q)" "up s1"
    and q: "case q of Inr u \<Rightarrow> u = f \<and> filters s1 = insert f (filters s) | Inl e \<Rightarrow> filters s1 = filters s"
    using subscribe_answered [OF Cons.prems assms(2), of f] by blast
  show ?case
  proof (cases q)
    case (Inl e)
    obtain s2 where s2: "call_all (unsubscribe ctx) (rev acc) s1 None = (s2, None)" "up s2"
      "filters s2 = filters s1 - set acc"
      using call_all_acked [OF s1(2) assms(2), of "rev acc" None] by auto
    then show ?thesis using s1(1) q Inl by (auto intro: exI [of _ 0])
  next
    case (Inr u)
    obtain s2 r where s2: "subscribe_all subscribe unsubscribe ctx fs (acc @ [f]) s1 = (s2, r)" "up s2"
      and r: "case r of Inr us \<Rightarrow> us = (acc @ [f]) @ fs \<and> filters s2 = filters s1 \<union> set fs
        | Inl e \<Rightarrow> \<exists>n < length fs. filters s2 = filters s1 - set (acc @ [f]) - set (take n fs)"
      using Cons.IH [OF s1(2)] by blast
    show ?thesis
    proof (cases r)
      case (Inl e)
      then obtain n where n: "n < length fs" "filters s2 = filters s1 - set (acc @ [f]) - set (take n fs)"
        using r by auto
      then have "filters s2 = filters s - set acc - set (take (Suc n) (f # fs))" using q Inr by auto
      then show ?thesis using s1(1) s2 Inl \<open>q = Inr u\<close> q n(1) by (auto intro: exI [of _ "Suc n"])
    qed (use s1(1) s2 r q Inr in auto)
  qed
qed simp

lemma track_answered:
  assumes "up s" "patient ctx" "wired f" and "notify \<longrightarrow> calm_hooks up filters (fl_onOnline f)"
  shows "\<exists>f' s' r. fleet_track subscribe unsubscribe ctx a notify f s = (f', s', r) \<and> up s' \<and> wired f' \<and>
    same_config f f' \<and> fl_started f' = fl_started f \<and>
    (case r of
       None \<Rightarrow> tracked_agvs f' = (if track_exists f a then tracked_agvs f else (tracked_agvs f)(agv_key a \<mapsto> a)) \<and>
         filters s' = filters s \<union> (if track_exists f a then {} else set (agv_filters f a))
     | Some e \<Rightarrow> f' = f \<and> \<not> track_exists f a \<and>
         (\<exists>n < length (agv_filters f a). filters s' = filters s - set (take n (agv_filters f a))))"
proof (cases "track_exists f a")
  case False
  obtain s1 q where s1: "subscribe_all subscribe unsubscribe ctx (agv_filters f a) [] s = (s1, q)" "up s1"
    and q: "case q of Inr us \<Rightarrow> us = [] @ agv_filters f a \<and> filters s1 = filters s \<union> set (agv_filters f a)
      | Inl e \<Rightarrow> \<exists>n < length (agv_filters f a). filters s1 = filters s - set [] - set (take n (agv_filters f a))"
    using subscribe_all_answered [OF assms(1,2)] by blast
  show ?thesis
  proof (cases q)
    case (Inl e)
    then have "fleet_track subscribe unsubscribe ctx a notify f s = (f, s1, Some e)"
      using False s1(1) by (simp add: fleet_track_def)
    then show ?thesis using s1(2) q Inl False assms(3) by auto
  next
    case (Inr us)
    let ?f = "f\<lparr>fl_tracked := (fl_tracked f)(agv_key a \<mapsto> \<lparr>ta_agv = a, ta_unsubs = agv_filters f a\<rparr>)\<rparr>"
    let ?hooks = "if notify then fl_onOnline f else []"
    have "calm_hooks up filters ?hooks" using assms(4) by (simp add: calm_hooks_def)
    note h = call_hooks_calm [OF this, of a s1]
    have "fleet_track subscribe unsubscribe ctx a notify f s = (?f, call_hooks ?hooks a s1, None)"
      using False s1(1) q Inr by (simp add: fleet_track_def track_commit_def Let_def)
    moreover have "wired ?f" using assms(3) by (auto simp: wired_def filed_def)
    ultimately show ?thesis using False s1 h q Inr by auto
  qed
qed (use assms in \<open>simp add: fleet_track_def\<close>)

subsection \<open>Restore\<close>

lemma track_each_answered:
  assumes "up s" "patient ctx" "wired f" "distinct (map agv_key as)"
    and "\<forall>a\<in>set as. tracked_agvs f (agv_key a) = None \<and> set (agv_filters f a) \<inter> filters s = {}"
  shows "\<exists>f' s' r kept lost. track_each subscribe unsubscribe ctx as f s = (f', s', r) \<and> up s' \<and> wired f' \<and>
    same_config f f' \<and> fl_started f' = fl_started f \<and> as = kept @ lost \<and> (r = None \<longleftrightarrow> lost = []) \<and>
    tracked_agvs f' = tracked_agvs f ++ agv_map kept \<and>
    filters s' = filters s \<union> (\<Union>a\<in>set kept. set (agv_filters f a))"
  using assms(1,3-5)
proof (induction "as" arbitrary: f s)
  case (Cons a as)
  have new: "\<not> track_exists f a" using Cons.prems(4) by (simp add: track_exists_iff)
  obtain f1 s1 r1 where one: "fleet_track subscribe unsubscribe ctx a False f s = (f1, s1, r1)"
    and st: "up s1" "wired f1" "same_config f f1" "fl_started f1 = fl_started f"
    and case_r1: "case r1 of
       None \<Rightarrow> tracked_agvs f1 = (if track_exists f a then tracked_agvs f else (tracked_agvs f)(agv_key a \<mapsto> a)) \<and>
         filters s1 = filters s \<union> (if track_exists f a then {} else set (agv_filters f a))
     | Some e \<Rightarrow> f1 = f \<and> \<not> track_exists f a \<and>
         (\<exists>n < length (agv_filters f a). filters s1 = filters s - set (take n (agv_filters f a)))"
    using track_answered [OF Cons.prems(1) assms(2) Cons.prems(2), of False a] by blast
  have r1: "case r1 of None \<Rightarrow> tracked_agvs f1 = (tracked_agvs f)(agv_key a \<mapsto> a) \<and>
        filters s1 = filters s \<union> set (agv_filters f a)
      | Some e \<Rightarrow> f1 = f \<and> (\<exists>n < length (agv_filters f a). filters s1 = filters s - set (take n (agv_filters f a)))"
    using case_r1 new by (cases r1) simp_all
  show ?case
  proof (cases r1)
    case (Some e)
    then obtain n where n: "f1 = f" "filters s1 = filters s - set (take n (agv_filters f a))" using r1 by auto
    have "filters s1 = filters s" using n(2) Cons.prems(4) set_take_subset [of n "agv_filters f a"] by auto
    moreover have "track_each subscribe unsubscribe ctx (a # as) f s = (f1, s1, Some e)" using one Some by simp
    moreover have "tracked_agvs f1 = tracked_agvs f ++ agv_map []" "a # as = [] @ a # as" using n(1) by simp_all
    ultimately show ?thesis using st
      by (intro ex5I [of _ f1 s1 "Some e" "[]" "a # as"]) simp
  next
    case None
    then have f1: "tracked_agvs f1 = (tracked_agvs f)(agv_key a \<mapsto> a)" "filters s1 = filters s \<union> set (agv_filters f a)"
      using r1 by simp_all
    have ne: "agv_key b \<noteq> agv_key a" if "b \<in> set as" for b using Cons.prems(3) that by (metis distinct.simps(2) image_eqI list.set_map list.simps(9))
    have dist: "distinct (map agv_key as)" using Cons.prems(3) by simp
    have fresh: "\<forall>b\<in>set as. tracked_agvs f1 (agv_key b) = None \<and> set (agv_filters f1 b) \<inter> filters s1 = {}"
      using Cons.prems(4) f1 ne agv_filters_disjoint [of _ a f] agv_filters_same [OF st(3)] by auto
    obtain f' s' r kept lost where
      rest: "track_each subscribe unsubscribe ctx as f1 s1 = (f', s', r)" and ih: "up s'" "wired f'"
        "same_config f1 f'" "fl_started f' = fl_started f1" "as = kept @ lost" "r = None \<longleftrightarrow> lost = []"
        "tracked_agvs f' = tracked_agvs f1 ++ agv_map kept"
        "filters s' = filters s1 \<union> (\<Union>a\<in>set kept. set (agv_filters f1 a))"
      using Cons.IH [OF st(1,2) dist fresh] by (elim exE conjE) (rule that, assumption+)
    have "agv_key a \<notin> dom (agv_map kept)" using ne ih(5) by (intro agv_map_fresh) force
    then have "tracked_agvs f' = tracked_agvs f ++ agv_map (a # kept)" using ih(7) f1(1) by (simp add: map_add_upd_left)
    moreover have "filters s' = filters s \<union> (\<Union>b\<in>set (a # kept). set (agv_filters f b))"
      using ih(8) f1(2) agv_filters_same [OF st(3)] by auto
    moreover have "track_each subscribe unsubscribe ctx (a # as) f s = (f', s', r)" using one None rest by simp
    moreover have "a # as = (a # kept) @ lost" using ih(5) by simp
    moreover have "same_config f f'" "fl_started f' = fl_started f"
      using same_config_trans [OF st(3) ih(3)] ih(4) st(4) by simp_all
    ultimately show ?thesis using ih(1,2,6)
      by (intro ex5I [of _ f' s' r "a # kept" lost] conjI) assumption+
  qed
qed (auto intro!: exI [of _ "[]"])

lemma filters_after_clear:
  assumes "wired f" "iteration_of ks (fl_tracked f)" "a \<in> set (Tracked ks f)"
  shows "set (agv_filters f a) \<subseteq> tracked_filters f"
proof -
  have "a \<in> ran (tracked_agvs f)"
    using assms(2,3) by (force simp: Tracked_def map_values_def iteration_of_def tracked_agvs_def ran_def dom_def)
  then show ?thesis by (auto simp: tracked_filters_def)
qed

text \<open>
  Restore, whatever is refused: the vehicles tracked afterwards are those before the first one that
  was refused, in the order of the iteration, and the filters of the session are what they were
  with the old ones of the fleet replaced by the new ones.
\<close>

lemma restore_answered:
  assumes "up s" "patient ctx" "wired f" "fl_started f" "iteration_of ks (fl_tracked f)"
  shows "\<exists>f' s' r kept lost. Fleet_Restore subscribe unsubscribe ctx ks f s = (f', s', r) \<and> up s' \<and>
    wired f' \<and> same_config f f' \<and> Tracked ks f = kept @ lost \<and> tracked_agvs f' = agv_map kept \<and>
    (r = None \<longrightarrow> fl_started f' \<and> lost = []) \<and>
    (r \<noteq> None \<longrightarrow> (if fl_started f' then lost \<noteq> [] else kept = [])) \<and>
    filters s' = (filters s - fleet_filters f) \<union> fleet_filters f'"
proof -
  let ?base = "filters s - fleet_filters f" and ?as = "Tracked ks f"
  obtain f1 s1 where one: "restore_clear unsubscribe ctx ks f s = (f1, s1)" and st1: "up s1" "wired f1"
    "\<not> fl_started f1" "same_config f f1" "tracked_agvs f1 = Map.empty" "filters s1 = ?base"
    using restore_clear_acked [OF assms(1-3,5)] by blast
  have conn: "conn_filter f1 = conn_filter f" using st1(4) by (simp add: conn_filter_def same_config_def)
  obtain s2 q where two: "subscribe ctx (conn_filter f) s1 = (s2, q)" "up s2"
    and q: "case q of Inr u \<Rightarrow> u = conn_filter f \<and> filters s2 = insert (conn_filter f) ?base | Inl e \<Rightarrow> filters s2 = ?base"
    using subscribe_answered [OF st1(1) assms(2), of "conn_filter f"] unfolding st1(6) by blast
  show ?thesis
  proof (cases q)
    case (Inl e)
    have "Fleet_Restore subscribe unsubscribe ctx ks f s = (f1, s2, Some e)"
      using assms(4) one two(1) Inl st1(3) conn
      by (simp add: Fleet_Restore_def Fleet_Start_def conn_filter_def [symmetric])
    moreover have "fleet_filters f1 = {}"
      using st1(3,5) by (simp add: fleet_filters_def tracked_filters_def)
    moreover have "?as = [] @ ?as" "tracked_agvs f1 = agv_map []" using st1(5) by simp_all
    ultimately show ?thesis using st1 two(2) q Inl
      by (intro ex5I [of _ f1 s2 "Some e" "[]" ?as]) simp
  next
    case (Inr u)
    let ?f = "f1\<lparr>fl_connUnsub := Some (conn_filter f), fl_started := True\<rparr>"
    have w: "wired ?f" "same_config f1 ?f" "tracked_agvs ?f = Map.empty" "fl_started ?f"
      using st1(2,5) conn tracked_agvs_cong [of ?f f1]
      by (auto simp: wired_def filed_def same_config_def conn_filter_def agv_filters_def)
    have same: "same_config f ?f" using st1(4) w(2) same_config_trans by blast
    have filed: "filed f" using assms(3) by (simp add: wired_def)
    have distinct: "distinct (map agv_key ?as)"
      using filed_keys [OF filed assms(5)] assms(5) by (simp add: iteration_of_def)
    have fresh: "\<forall>a\<in>set ?as. tracked_agvs ?f (agv_key a) = None \<and> set (agv_filters ?f a) \<inter> filters s2 = {}"
      using w(3) q Inr conn_filter_separate [of f] filters_after_clear [OF assms(3,5)] agv_filters_same [OF same]
      by (fastforce simp: fleet_filters_def)
    obtain f' s' r kept lost where three: "track_each subscribe unsubscribe ctx ?as ?f s2 = (f', s', r)"
      and st3: "up s'" "wired f'" "same_config ?f f'" "fl_started f' = fl_started ?f" "?as = kept @ lost"
      "r = None \<longleftrightarrow> lost = []" "tracked_agvs f' = tracked_agvs ?f ++ agv_map kept"
      "filters s' = filters s2 \<union> (\<Union>a\<in>set kept. set (agv_filters ?f a))"
      using track_each_answered [OF two(2) assms(2) w(1) distinct fresh] by (elim exE conjE) (rule that, assumption+)
    have tracked: "tracked_agvs f' = agv_map kept" using st3(7) w(3) by simp
    have same': "same_config f f'" using same st3(3) same_config_trans by blast
    have "distinct (map agv_key kept)" using distinct st3(5) by simp
    then have "ran (agv_map kept) = set kept"
      by (simp add: ran_distinct comp_def) (auto simp: image_iff)
    then have "tracked_filters f' = (\<Union>a\<in>set kept. set (agv_filters ?f a))"
      using tracked agv_filters_same [OF st3(3)] by (simp add: tracked_filters_def)
    moreover have "conn_filter f' = conn_filter f" using same' by (simp add: conn_filter_def same_config_def)
    ultimately have "filters s' = ?base \<union> fleet_filters f'"
      using st3(4,8) w(4) q Inr by (auto simp: fleet_filters_def)
    moreover have "Fleet_Restore subscribe unsubscribe ctx ks f s = (f', s', r)"
      using assms(4) one two(1) Inr q st1(3) conn three
      by (simp add: Fleet_Restore_def Fleet_Start_def conn_filter_def [symmetric])
    ultimately show ?thesis using st3(1,2,4-6) w(4) same' tracked
      by (intro ex5I [of _ f' s' r kept lost]) simp
  qed
qed

end

end
