(* ===== verification/Fleet_Mqtt.thy ===== *)
theory Fleet_Mqtt
  imports Client_Mqtt Filter_Refusals
begin

















subsection \<open>Track\<close>



subsection \<open>Restore\<close>



end
