(* ===== verification/Auto_Track.thy ===== *)
theory Auto_Track
  imports Client_Life
begin

text \<open>
  fleet_autotrack.go: connection messages of a client with auto-tracking are queued on a channel of
  64 jobs and handled by one worker, so that the inbound path never subscribes. scheduleAutoTrack is
  the producer: its select sends if there is room, gives up silently once the worker's context is
  done (pick_done decides when both are possible) and reports a full queue as a handler error.
  autotrack_step is one round of the worker; drain runs it until the queue is empty.
\<close>

definition errFleetAutoTrackQueueFull :: goerr where
  "errFleetAutoTrackQueueFull = ErrorsNew ''navlink: fleet auto-track queue full''"

definition sessionAGV :: "identity \<Rightarrow> agv" where
  "sessionAGV i = \<lparr>agv_Manufacturer = id_Manufacturer i, agv_SerialNumber = id_SerialNumber i\<rparr>"

definition reportFleetTrackError :: "envelope \<Rightarrow> goerr \<Rightarrow> ('s, 'u) client \<Rightarrow> 's \<Rightarrow> 's" where
  "reportFleetTrackError env err c s =
     (case cl_onHandlerError c of None \<Rightarrow> s | Some h \<Rightarrow> h env err s)"

definition auto_tracking :: "('s, 'u) client \<Rightarrow> bool" where
  "auto_tracking c \<longleftrightarrow>
     (case cl_fleet c of None \<Rightarrow> False | Some f \<Rightarrow> opt_AutoTrackFromConnection (fl_opts f))"

definition scheduleAutoTrack ::
  "bool \<Rightarrow> envelope \<Rightarrow> connection_state \<Rightarrow> ('s, 'u) client \<Rightarrow> 's \<Rightarrow> ('s, 'u) client \<times> 's" where
  "scheduleAutoTrack pick_done env st c s =
     (if \<not> auto_tracking c then (c, s)
      else (case cl_fleetJobs c of
          None \<Rightarrow> (c, s)
        | Some jobs \<Rightarrow>
           (let done = (cl_fleetDone c = Some True);
                job = \<lparr>job_agv = sessionAGV (env_AGV env), job_state = st, job_env = env\<rparr> in
            case chan_send job jobs of
              Some jobs' \<Rightarrow>
                if done \<and> pick_done then (c, s) else (c\<lparr>cl_fleetJobs := Some jobs'\<rparr>, s)
            | None \<Rightarrow>
                if done then (c, s)
                else (c, reportFleetTrackError env errFleetAutoTrackQueueFull c s))))"

definition autotrack_handle ::
  "goctx \<Rightarrow> fleet_conn_job \<Rightarrow> ('s, 'u) client \<Rightarrow> 's \<Rightarrow> ('s, 'u) client \<times> 's" where
  "autotrack_handle ctx job c s =
     (case cl_fleet c of None \<Rightarrow> (c, s)
      | Some f \<Rightarrow>
         (case HandleConnection (fleetSubscribe c) (tr_Unsubscribe (cl_transport c)) ctx
             (job_agv job) (job_state job) f s of
            (f', s', err) \<Rightarrow>
              (let c' = c\<lparr>cl_fleet := Some f'\<rparr> in
               (c', case err of None \<Rightarrow> s' | Some e \<Rightarrow> reportFleetTrackError (job_env job) e c' s'))))"

definition autotrack_step :: "goctx \<Rightarrow> ('s, 'u) client \<Rightarrow> 's \<Rightarrow> (('s, 'u) client \<times> 's) option" where
  "autotrack_step ctx c s =
     (case cl_fleetJobs c of None \<Rightarrow> None
      | Some jobs \<Rightarrow>
         (case chan_recv jobs of None \<Rightarrow> None
          | Some (job, jobs') \<Rightarrow> Some (autotrack_handle ctx job (c\<lparr>cl_fleetJobs := Some jobs'\<rparr>) s)))"

text \<open>At most one round per queued job: the fuel of drain is the length of the queue.\<close>

fun drain :: "nat \<Rightarrow> goctx \<Rightarrow> ('s, 'u) client \<Rightarrow> 's \<Rightarrow> ('s, 'u) client \<times> 's" where
  "drain 0 ctx c s = (c, s)"
| "drain (Suc n) ctx c s =
     (case autotrack_step ctx c s of None \<Rightarrow> (c, s) | Some (c', s') \<Rightarrow> drain n ctx c' s')"

definition queued :: "('s, 'u) client \<Rightarrow> fleet_conn_job list" where
  "queued c = (case cl_fleetJobs c of None \<Rightarrow> [] | Some ch \<Rightarrow> ch_buf ch)"

lemma autotrack_handle_queue [simp]:
  "cl_fleetJobs (fst (autotrack_handle ctx job c s)) = cl_fleetJobs c"
  by (auto simp: autotrack_handle_def Let_def split: option.split prod.split)

lemma autotrack_step_None: "autotrack_step ctx c s = None \<longleftrightarrow> queued c = []"
  by (auto simp: autotrack_step_def queued_def chan_recv_def split: option.splits list.splits)

lemma autotrack_step_job:
  assumes "queued c = job # rest"
  shows "\<exists>c1. autotrack_step ctx c s = Some (autotrack_handle ctx job c1 s) \<and>
    queued (fst (autotrack_handle ctx job c1 s)) = rest \<and>
    (\<exists>jobs. c1 = c\<lparr>cl_fleetJobs := jobs\<rparr>)"
proof -
  obtain ch where ch: "cl_fleetJobs c = Some ch" "ch_buf ch = job # rest"
    using assms by (auto simp: queued_def split: option.splits)
  let ?c1 = "c\<lparr>cl_fleetJobs := Some (ch\<lparr>ch_buf := rest\<rparr>)\<rparr>"
  have "autotrack_step ctx c s = Some (autotrack_handle ctx job ?c1 s)"
    using ch by (simp add: autotrack_step_def chan_recv_def)
  moreover have "queued (fst (autotrack_handle ctx job ?c1 s)) = rest"
    by (simp add: queued_def)
  ultimately show ?thesis by blast
qed

text \<open>With that fuel nothing is left in the queue.\<close>

lemma drain_empties: "length (queued c) \<le> n \<Longrightarrow> queued (fst (drain n ctx c s)) = []"
proof (induction n arbitrary: c s)
  case (Suc n)
  show ?case
  proof (cases "queued c")
    case Nil
    then have "autotrack_step ctx c s = None" by (simp add: autotrack_step_None)
    then show ?thesis using Nil by simp
  next
    case (Cons job rest)
    then obtain c1 where "autotrack_step ctx c s = Some (autotrack_handle ctx job c1 s)"
      "queued (fst (autotrack_handle ctx job c1 s)) = rest"
      using autotrack_step_job [OF Cons, of ctx s] by blast
    then show ?thesis using Suc Cons by (cases "autotrack_handle ctx job c1 s") simp
  qed
qed simp

lemma scheduleAutoTrack_within:
  assumes "\<forall>ch. cl_fleetJobs c = Some ch \<longrightarrow> chan.within ch"
  shows "\<forall>ch. cl_fleetJobs (fst (scheduleAutoTrack pick_done env st c s)) = Some ch \<longrightarrow> chan.within ch"
  using assms by (auto simp: scheduleAutoTrack_def Let_def split: option.splits dest: chan.send_within)

end
