(* ===== verification/Inbound.thy ===== *)
theory Inbound
  imports Auto_Track
begin

text \<open>
  inbound.go and noteInbound: from a raw MQTT message to the typed handlers. json.Unmarshal into the
  vendored message types is the record decoders; user_code runs handlers; clock reads the time
  from the world. The only client state an inbound message changes is the auto-tracking queue, so
  the methods return the client, the world and the error. pick_done is the choice of the select in
  scheduleAutoTrack.
\<close>

record decoders =
  dec_header :: "bytes \<Rightarrow> goerr + protocol_header"
  dec_state :: "bytes \<Rightarrow> goerr + vstate"
  dec_connection :: "bytes \<Rightarrow> goerr + connection"
  dec_visualization :: "bytes \<Rightarrow> goerr + opaque"
  dec_factsheet :: "bytes \<Rightarrow> goerr + opaque"

record 's inbound_env =
  ie_dec :: decoders
  ie_uc :: "'s user_code"
  ie_clock :: "'s \<Rightarrow> gotime"
  ie_pick_done :: bool

definition extractHeader :: "decoders \<Rightarrow> bytes \<Rightarrow> goerr + protocol_header" where
  "extractHeader d payload = dec_header d payload"

definition noteInbound :: "('s \<Rightarrow> gotime) \<Rightarrow> ('s, 'u) client \<Rightarrow> envelope \<Rightarrow> 's \<Rightarrow> 's" where
  "noteInbound clock c env s =
     (let cfg = cl_cfg c in
      case cfg_OnSlowInbound cfg of None \<Rightarrow> s
      | Some f \<Rightarrow>
         if cfg_SlowInbound cfg \<le> 0 then s
         else let w = QueueWait env;
                  s1 = (if cfg_SlowInbound cfg \<le> w then f env InboundSlowQueue w s else s) in
           if IsZero (env_DispatchedAt env) then s1
           else let d = time_Sub (clock s1) (env_DispatchedAt env) in
             if cfg_SlowInbound cfg \<le> d then f env InboundSlowHandler d s1 else s1)"

definition checkIdentity :: "('s, 'u) client \<Rightarrow> envelope \<Rightarrow> goerr option" where
  "checkIdentity c env =
     (if \<not> strictIdentity (cl_cfg c) then None
      else if hs_Manufacturer (env_Header env) = [] \<and> hs_SerialNumber (env_Header env) = [] then None
      else if hs_Manufacturer (env_Header env) \<noteq> id_Manufacturer (env_AGV env) \<or>
              hs_SerialNumber (env_Header env) \<noteq> id_SerialNumber (env_AGV env)
      then Some (sentinel IdentityMismatch) else None)"

definition applyInboundPolicy :: "('s, 'u) client \<Rightarrow> envelope \<Rightarrow> 's \<Rightarrow> envelope \<times> 's" where
  "applyInboundPolicy c env s =
     (case cfg_InboundPolicy (cl_cfg c) of None \<Rightarrow> (env, s)
      | Some classify \<Rightarrow>
         (case classify (env_AGV env) (env_Channel env) (hs_HeaderID (env_Header env)) s of
            (s', d0) \<Rightarrow>
              (let d = (if d0 = [] then InboundAccept else d0);
                   meta = (case env_Meta env of None \<Rightarrow> Map.empty | Some m \<Rightarrow> m) in
               (env\<lparr>env_InboundDisposition := d,
                    env_Meta := Some (meta(MetaInboundDisposition \<mapsto> AnyString d))\<rparr>, s'))))"

definition reportDecode :: "goctx \<Rightarrow> ('s, 'u) client \<Rightarrow> envelope \<Rightarrow> goerr \<Rightarrow> 's \<Rightarrow> 's" where
  "reportDecode ctx c env err s =
     (let s1 = fst (publishEvent ctx EventDecodeFailed (DecodeFailedEvent env err) c s) in
      case cfg_OnDecodeError (cl_cfg c) of None \<Rightarrow> s1 | Some h \<Rightarrow> h env err s1)"

text \<open>Direct handlers run in order up to the first error.\<close>

fun run_handlers :: "('h \<Rightarrow> 's \<Rightarrow> 's \<times> goerr option) \<Rightarrow> 'h list \<Rightarrow> 's \<Rightarrow> 's \<times> goerr option" where
  "run_handlers run [] s = (s, None)"
| "run_handlers run (h # hs) s =
     (case run h s of (s', Some e) \<Rightarrow> (s', Some e) | (s', None) \<Rightarrow> run_handlers run hs s')"

definition invokeState ::
  "'s user_code \<Rightarrow> goctx \<Rightarrow> ('s, 'u) client \<Rightarrow> envelope \<Rightarrow> vstate \<Rightarrow> 's \<Rightarrow> 's \<times> goerr option" where
  "invokeState uc ctx c env msg s =
     (case cl_bus c of
        Some bus \<Rightarrow> eb_Publish bus ctx EventStateReceived (StateEvent env msg) s
      | None \<Rightarrow> run_handlers (\<lambda>h. run_state uc h ctx env msg) (cl_stateHandlers c) s)"

definition invokeConnection ::
  "bool \<Rightarrow> 's user_code \<Rightarrow> goctx \<Rightarrow> ('s, 'u) client \<Rightarrow> envelope \<Rightarrow> connection \<Rightarrow> 's \<Rightarrow>
     ('s, 'u) client \<times> 's \<times> goerr option" where
  "invokeConnection pick_done uc ctx c env msg s =
     (case scheduleAutoTrack pick_done env (cn_ConnectionState msg) c s of
        (c1, s1) \<Rightarrow>
          (c1, case cl_bus c1 of
             Some bus \<Rightarrow> eb_Publish bus ctx EventConnectionChanged (ConnectionEvent env msg) s1
           | None \<Rightarrow> run_handlers (\<lambda>h. run_connection uc h ctx env msg) (cl_connHandlers c1) s1))"

definition invokeVisualization ::
  "'s user_code \<Rightarrow> goctx \<Rightarrow> ('s, 'u) client \<Rightarrow> envelope \<Rightarrow> opaque \<Rightarrow> 's \<Rightarrow> 's \<times> goerr option" where
  "invokeVisualization uc ctx c env msg s =
     (case cl_bus c of
        Some bus \<Rightarrow> eb_Publish bus ctx EventVisualizationReceived (VisualizationEvent env msg) s
      | None \<Rightarrow> run_handlers (\<lambda>h. run_visualization uc h ctx env msg) (cl_vizHandlers c) s)"

definition invokeFactsheet ::
  "'s user_code \<Rightarrow> goctx \<Rightarrow> ('s, 'u) client \<Rightarrow> envelope \<Rightarrow> opaque \<Rightarrow> 's \<Rightarrow> 's \<times> goerr option" where
  "invokeFactsheet uc ctx c env msg s =
     (case cl_bus c of
        Some bus \<Rightarrow> eb_Publish bus ctx EventFactsheetReceived (FactsheetEvent env msg) s
      | None \<Rightarrow> run_handlers (\<lambda>h. run_factsheet uc h ctx env msg) (cl_fsHandlers c) s)"

definition finishHandler :: "('s, 'u) client \<Rightarrow> envelope \<Rightarrow> 's \<times> goerr option \<Rightarrow> 's \<times> goerr option" where
  "finishHandler c env r =
     (case r of (s, None) \<Rightarrow> (s, None) | (s, Some e) \<Rightarrow> (reportHandlerError env (Some e) c s, Some e))"

definition decode_failed :: "goerr \<Rightarrow> goerr" where
  "decode_failed err = NewDecodeFailedWithArgs [ArgText err]"

text \<open>
  The switch of onRawMessage on the channel, for the final envelope: a decoding error is reported
  and not returned.
\<close>

definition dispatch_channel ::
  "'s inbound_env \<Rightarrow> goctx \<Rightarrow> ('s, 'u) client \<Rightarrow> envelope \<Rightarrow> 's \<Rightarrow> ('s, 'u) client \<times> 's \<times> goerr option" where
  "dispatch_channel ie ctx c env s =
     (let d = ie_dec ie; uc = ie_uc ie; p = env_Raw env;
          failed = (\<lambda>err. (c, reportDecode ctx c env (decode_failed err) s, None)) in
      if env_Channel env = ChannelState
      then (case dec_state d p of Inl err \<Rightarrow> failed err
            | Inr msg \<Rightarrow> (c, finishHandler c env (invokeState uc ctx c env msg s)))
      else if env_Channel env = ChannelConnection
      then (case dec_connection d p of Inl err \<Rightarrow> failed err
            | Inr msg \<Rightarrow>
               (case invokeConnection (ie_pick_done ie) uc ctx c env msg s of
                  (c1, r) \<Rightarrow> (c1, finishHandler c1 env r)))
      else if env_Channel env = ChannelVisualization
      then (case dec_visualization d p of Inl err \<Rightarrow> failed err
            | Inr msg \<Rightarrow> (c, finishHandler c env (invokeVisualization uc ctx c env msg s)))
      else if env_Channel env = ChannelFactsheet
      then (case dec_factsheet d p of Inl err \<Rightarrow> failed err
            | Inr msg \<Rightarrow> (c, finishHandler c env (invokeFactsheet uc ctx c env msg s)))
      else (c, s, None))"

definition summary_of :: "protocol_header \<Rightarrow> header_summary" where
  "summary_of h = \<lparr>hs_HeaderID = h_HeaderId h, hs_Timestamp = h_Timestamp h, hs_Version = h_Version h,
     hs_Manufacturer = h_Manufacturer h, hs_SerialNumber = h_SerialNumber h\<rparr>"

text \<open>
  The envelope as it is before the header is looked at: identity and channel of the topic, the
  mapped robot id, and the vendor fields, whose extraction may fail.
\<close>

definition base_envelope ::
  "('s, 'u) client \<Rightarrow> string \<Rightarrow> bytes \<Rightarrow> gotime \<Rightarrow> gotime \<Rightarrow> parsed_topic \<Rightarrow> envelope" where
  "base_envelope c rawTopic payload receivedAt dispatchedAt parsed =
     (new_envelope rawTopic payload receivedAt dispatchedAt)
       \<lparr>env_AGV := \<lparr>id_Manufacturer = pt_Manufacturer parsed, id_SerialNumber = pt_SerialNumber parsed\<rparr>,
        env_Channel := pt_Channel parsed, env_Meta := Some Map.empty,
        env_RobotID := (case cfg_IdentityMapper (cl_cfg c) of None \<Rightarrow> []
           | Some f \<Rightarrow> f (pt_Manufacturer parsed) (pt_SerialNumber parsed))\<rparr>"

definition extended_envelope ::
  "('s, 'u) client \<Rightarrow> envelope \<Rightarrow> goerr + envelope" where
  "extended_envelope c env =
     (case cl_extensions c of None \<Rightarrow> Inr env
      | Some reg \<Rightarrow>
         (case Registry_Apply (Some reg) (env_Channel env) (env_Raw env) of
            Inl err \<Rightarrow> Inl (decode_failed err)
          | Inr meta \<Rightarrow> Inr (env\<lparr>env_Meta := Some meta\<rparr>)))"

definition onRawMessage ::
  "'s inbound_env \<Rightarrow> goctx \<Rightarrow> string \<Rightarrow> bytes \<Rightarrow> ('s, 'u) client \<Rightarrow> 's \<Rightarrow> ('s, 'u) client \<times> 's \<times> goerr option" where
  "onRawMessage ie ctx rawTopic payload c s =
     (case envelopeTimes (Some ctx) (ie_clock ie s) of (receivedAt, dispatchedAt) \<Rightarrow>
      case Parse (cl_topics c) rawTopic of
        Inl err \<Rightarrow>
          (let env = new_envelope rawTopic payload receivedAt dispatchedAt in
           (c, noteInbound (ie_clock ie) c env (reportDecode ctx c env err s), None))
      | Inr parsed \<Rightarrow>
          (let env = base_envelope c rawTopic payload receivedAt dispatchedAt parsed in
           case extended_envelope c env of
             Inl err \<Rightarrow> (c, noteInbound (ie_clock ie) c env (reportDecode ctx c env err s), None)
           | Inr env1 \<Rightarrow>
              (case extractHeader (ie_dec ie) payload of
                 Inl herr \<Rightarrow>
                   (case dispatch_channel ie ctx c env1 s of
                      (c', s', r) \<Rightarrow> (c', noteInbound (ie_clock ie) c' env1 s', r))
               | Inr header \<Rightarrow>
                   (let env2 = env1\<lparr>env_Header := summary_of header\<rparr> in
                    case checkIdentity c env2 of
                      Some err \<Rightarrow> (c, noteInbound (ie_clock ie) c env2 (reportDecode ctx c env2 err s), None)
                    | None \<Rightarrow>
                       (case applyInboundPolicy c env2 s of (env3, s1) \<Rightarrow>
                        case dispatch_channel ie ctx c env3 s1 of
                          (c', s', r) \<Rightarrow> (c', noteInbound (ie_clock ie) c' env3 s', r))))))"

definition dispatchTopic ::
  "'s inbound_env \<Rightarrow> goctx \<Rightarrow> string \<Rightarrow> bytes \<Rightarrow> handler \<Rightarrow> ('s, 'u) client \<Rightarrow> 's \<Rightarrow> 's \<times> goerr option" where
  "dispatchTopic ie ctx rawTopic payload h c s =
     (case envelopeTimes (Some ctx) (ie_clock ie s) of (receivedAt, dispatchedAt) \<Rightarrow>
      let env0 = (new_envelope rawTopic payload receivedAt dispatchedAt)\<lparr>env_Meta := Some Map.empty\<rparr>;
          env = (case Parse (cl_topics c) rawTopic of
              Inl _ \<Rightarrow> env0
            | Inr parsed \<Rightarrow> base_envelope c rawTopic payload receivedAt dispatchedAt parsed) in
      case finishHandler c env (run_topic (ie_uc ie) h ctx env s) of
        (s', err) \<Rightarrow> (noteInbound (ie_clock ie) c env s', err))"

end
