(* ===== verification/Inbound_Correct.thy ===== *)
theory Inbound_Correct
  imports Inbound Client_Broker
begin

text \<open>
  The inbound path: what a handler may rely on, what becomes of a message that is rejected, and
  that moving the handlers to an event bus changes nothing. The first is stated by preservation: a
  property of the world that every handler keeps for consistent envelopes is kept by a whole
  inbound message, so handlers never run on anything else.
\<close>

definition consistent :: "decoders \<Rightarrow> ('s, 'u) client \<Rightarrow> string \<Rightarrow> bytes \<Rightarrow> envelope \<Rightarrow> bool" where
  "consistent d c rawTopic payload env \<longleftrightarrow>
     env_Topic env = rawTopic \<and> env_Raw env = payload \<and>
     (\<exists>parsed. Parse (cl_topics c) rawTopic = Inr parsed \<and> env_Channel env = pt_Channel parsed \<and>
        env_AGV env = \<lparr>id_Manufacturer = pt_Manufacturer parsed, id_SerialNumber = pt_SerialNumber parsed\<rparr> \<and>
        (\<forall>reg. cl_extensions c = Some reg \<longrightarrow> \<not> isl (Registry_Apply (Some reg) (pt_Channel parsed) payload)) \<and>
        (case dec_header d payload of
           Inl e \<Rightarrow> env_Header env = zero_summary
         | Inr h \<Rightarrow>
             env_Header env = \<lparr>hs_HeaderID = h_HeaderId h, hs_Timestamp = h_Timestamp h,
               hs_Version = h_Version h, hs_Manufacturer = h_Manufacturer h,
               hs_SerialNumber = h_SerialNumber h\<rparr> \<and>
             (strictIdentity (cl_cfg c) \<longrightarrow> (h_Manufacturer h, h_SerialNumber h) \<in>
               {([], []), (pt_Manufacturer parsed, pt_SerialNumber parsed)})))"

text \<open>
  A typed event of the message: the envelope is consistent, the event is that of its channel and
  the typed message is what the decoder of the channel reads from its payload.
\<close>

fun genuine :: "decoders \<Rightarrow> (envelope \<Rightarrow> bool) \<Rightarrow> string \<Rightarrow> payload \<Rightarrow> bool" where
  "genuine d ok event (StateEvent env m) \<longleftrightarrow> ok env \<and> event = EventStateReceived \<and>
     env_Channel env = ChannelState \<and> dec_state d (env_Raw env) = Inr m"
| "genuine d ok event (ConnectionEvent env m) \<longleftrightarrow> ok env \<and> event = EventConnectionChanged \<and>
     env_Channel env = ChannelConnection \<and> dec_connection d (env_Raw env) = Inr m"
| "genuine d ok event (VisualizationEvent env m) \<longleftrightarrow> ok env \<and> event = EventVisualizationReceived \<and>
     env_Channel env = ChannelVisualization \<and> dec_visualization d (env_Raw env) = Inr m"
| "genuine d ok event (FactsheetEvent env m) \<longleftrightarrow> ok env \<and> event = EventFactsheetReceived \<and>
     env_Channel env = ChannelFactsheet \<and> dec_factsheet d (env_Raw env) = Inr m"
| "genuine d ok event (DecodeFailedEvent env e) \<longleftrightarrow> event = EventDecodeFailed"
| "genuine d ok event (CustomPayload x) \<longleftrightarrow> False"

definition pres :: "('s \<Rightarrow> bool) \<Rightarrow> ('s \<Rightarrow> 's) \<Rightarrow> bool" where
  "pres P f \<longleftrightarrow> (\<forall>s. P s \<longrightarrow> P (f s))"

definition callbacks_keep :: "('s \<Rightarrow> bool) \<Rightarrow> ('s, 'u) client \<Rightarrow> bool" where
  "callbacks_keep P c \<longleftrightarrow>
     (\<forall>f env cause d. cfg_OnSlowInbound (cl_cfg c) = Some f \<longrightarrow> pres P (f env cause d)) \<and>
     (\<forall>f env e. cfg_OnDecodeError (cl_cfg c) = Some f \<longrightarrow> pres P (f env e)) \<and>
     (\<forall>f env e. cl_onHandlerError c = Some f \<longrightarrow> pres P (f env e)) \<and>
     (\<forall>f a ch i s. cfg_InboundPolicy (cl_cfg c) = Some f \<longrightarrow> P s \<longrightarrow> P (fst (f a ch i s)))"

text \<open>Every registered handler keeps P when it is called with a typed event of the message.\<close>

definition handlers_keep ::
  "('s \<Rightarrow> bool) \<Rightarrow> (envelope \<Rightarrow> bool) \<Rightarrow> goctx \<Rightarrow> ('s, 'u) client \<Rightarrow> 's inbound_env \<Rightarrow> bool" where
  "handlers_keep P ok ctx c ie \<longleftrightarrow> (\<forall>h env s. P s \<longrightarrow>
     (\<forall>m. h \<in> set (cl_stateHandlers c) \<and> genuine (ie_dec ie) ok EventStateReceived (StateEvent env m) \<longrightarrow>
        P (fst (run_state (ie_uc ie) h ctx env m s))) \<and>
     (\<forall>m. h \<in> set (cl_connHandlers c) \<and> genuine (ie_dec ie) ok EventConnectionChanged (ConnectionEvent env m) \<longrightarrow>
        P (fst (run_connection (ie_uc ie) h ctx env m s))) \<and>
     (\<forall>m. h \<in> set (cl_vizHandlers c) \<and> genuine (ie_dec ie) ok EventVisualizationReceived (VisualizationEvent env m) \<longrightarrow>
        P (fst (run_visualization (ie_uc ie) h ctx env m s))) \<and>
     (\<forall>m. h \<in> set (cl_fsHandlers c) \<and> genuine (ie_dec ie) ok EventFactsheetReceived (FactsheetEvent env m) \<longrightarrow>
        P (fst (run_factsheet (ie_uc ie) h ctx env m s))))"

text \<open>So does the event bus, where the client has one, when it is given such an event.\<close>

definition bus_keeps ::
  "('s \<Rightarrow> bool) \<Rightarrow> (envelope \<Rightarrow> bool) \<Rightarrow> goctx \<Rightarrow> ('s, 'u) client \<Rightarrow> decoders \<Rightarrow> bool" where
  "bus_keeps P ok ctx c d \<longleftrightarrow> (\<forall>bus event p s. cl_bus c = Some bus \<and> genuine d ok event p \<and> P s \<longrightarrow>
     P (fst (eb_Publish bus ctx event p s)))"

lemma note_keep: "callbacks_keep P c \<Longrightarrow> P s \<Longrightarrow> P (noteInbound clock c env s)"
  by (auto simp: noteInbound_def callbacks_keep_def pres_def Let_def split: option.split)

lemma report_keep:
  "callbacks_keep P c \<Longrightarrow> bus_keeps P ok ctx c d \<Longrightarrow> P s \<Longrightarrow> P (reportDecode ctx c env err s)"
  by (auto simp: reportDecode_def publishEvent_def callbacks_keep_def bus_keeps_def pres_def Let_def split: option.split)

lemma run_handlers_keep:
  assumes "\<And>h s. h \<in> set hs \<Longrightarrow> P s \<Longrightarrow> P (fst (run h s))"
  shows "P s \<Longrightarrow> P (fst (run_handlers run hs s))"
  using assms
proof (induction hs arbitrary: s)
  case (Cons h hs)
  show ?case using Cons.prems(2) [of h s] Cons.prems Cons.IH by (cases "run h s") (auto split: option.split)
qed simp

lemma finish_keep: "callbacks_keep P c \<Longrightarrow> P (fst r) \<Longrightarrow> P (fst (finishHandler c env r))"
  by (cases r) (auto simp: finishHandler_def reportHandlerError_def callbacks_keep_def pres_def split: option.split)

lemma schedule_keep:
  "callbacks_keep P c \<Longrightarrow> P s \<Longrightarrow> scheduleAutoTrack pd env st c s = (c', s') \<Longrightarrow>
     P s' \<and> callbacks_keep P c' \<and> cl_bus c' = cl_bus c \<and> cl_connHandlers c' = cl_connHandlers c"
  by (auto simp: scheduleAutoTrack_def reportFleetTrackError_def callbacks_keep_def pres_def Let_def
      split: if_splits option.splits)

lemma invoke_keep:
  assumes "handlers_keep P ok ctx c ie" "bus_keeps P ok ctx c (ie_dec ie)" "P s"
  shows "genuine (ie_dec ie) ok EventStateReceived (StateEvent env m1) \<Longrightarrow>
      P (fst (invokeState (ie_uc ie) ctx c env m1 s))"
    and "genuine (ie_dec ie) ok EventVisualizationReceived (VisualizationEvent env m3) \<Longrightarrow>
      P (fst (invokeVisualization (ie_uc ie) ctx c env m3 s))"
    and "genuine (ie_dec ie) ok EventFactsheetReceived (FactsheetEvent env m4) \<Longrightarrow>
      P (fst (invokeFactsheet (ie_uc ie) ctx c env m4 s))"
proof -
  note bus = assms(2) [unfolded bus_keeps_def, rule_format]
  show "P (fst (invokeState (ie_uc ie) ctx c env m1 s))"
    if g: "genuine (ie_dec ie) ok EventStateReceived (StateEvent env m1)"
  proof (cases "cl_bus c")
    case None
    show ?thesis unfolding invokeState_def None option.case
      by (rule run_handlers_keep [of _ P]) (use g assms(1) in \<open>simp add: handlers_keep_def\<close>, rule assms(3))
  qed (use bus g assms(3) in \<open>auto simp: invokeState_def\<close>)
  show "P (fst (invokeVisualization (ie_uc ie) ctx c env m3 s))"
    if g: "genuine (ie_dec ie) ok EventVisualizationReceived (VisualizationEvent env m3)"
  proof (cases "cl_bus c")
    case None
    show ?thesis unfolding invokeVisualization_def None option.case
      by (rule run_handlers_keep [of _ P]) (use g assms(1) in \<open>simp add: handlers_keep_def\<close>, rule assms(3))
  qed (use bus g assms(3) in \<open>auto simp: invokeVisualization_def\<close>)
  show "P (fst (invokeFactsheet (ie_uc ie) ctx c env m4 s))"
    if g: "genuine (ie_dec ie) ok EventFactsheetReceived (FactsheetEvent env m4)"
  proof (cases "cl_bus c")
    case None
    show ?thesis unfolding invokeFactsheet_def None option.case
      by (rule run_handlers_keep [of _ P]) (use g assms(1) in \<open>simp add: handlers_keep_def\<close>, rule assms(3))
  qed (use bus g assms(3) in \<open>auto simp: invokeFactsheet_def\<close>)
qed

lemma invokeConnection_keep:
  assumes "callbacks_keep P c" "handlers_keep P ok ctx c ie" "bus_keeps P ok ctx c (ie_dec ie)" "P s"
    and g: "genuine (ie_dec ie) ok EventConnectionChanged (ConnectionEvent env m)"
    and run: "invokeConnection pd (ie_uc ie) ctx c env m s = (c', r)"
  shows "P (fst r) \<and> callbacks_keep P c'"
proof -
  obtain c1 s1 where sch: "scheduleAutoTrack pd env (cn_ConnectionState m) c s = (c1, s1)"
    by fastforce
  note sk = schedule_keep [OF assms(1,4) sch]
  note bus = assms(3) [unfolded bus_keeps_def, rule_format]
  have "P (fst (run_handlers (\<lambda>h. run_connection (ie_uc ie) h ctx env m) (cl_connHandlers c1) s1))"
    by (rule run_handlers_keep [of _ P]) (use sk g assms(2) in \<open>simp_all add: handlers_keep_def\<close>)
  moreover have "P (fst (eb_Publish b ctx EventConnectionChanged (ConnectionEvent env m) s1))"
    if "cl_bus c = Some b" for b using bus g sk that by blast
  ultimately show ?thesis using run sch sk by (auto simp: invokeConnection_def split: option.splits)
qed

lemma dispatch_keep:
  assumes "callbacks_keep P c" "handlers_keep P ok ctx c ie" "bus_keeps P ok ctx c (ie_dec ie)" "ok env" "P s"
    and run: "dispatch_channel ie ctx c env s = (c', s', r)"
  shows "P s' \<and> callbacks_keep P c'"
proof (cases "env_Channel env = ChannelConnection \<and> (\<exists>m. dec_connection (ie_dec ie) (env_Raw env) = Inr m)")
  case True
  then obtain m where m: "dec_connection (ie_dec ie) (env_Raw env) = Inr m" by blast
  obtain c1 q where inv: "invokeConnection (ie_pick_done ie) (ie_uc ie) ctx c env m s = (c1, q)"
    by (metis prod.collapse)
  have "genuine (ie_dec ie) ok EventConnectionChanged (ConnectionEvent env m)" using True m assms(4) by simp
  note ik = invokeConnection_keep [OF assms(1-3,5) this inv]
  have "(c', s', r) = (c1, finishHandler c1 env q)"
    using run True m inv by (auto simp: dispatch_channel_def Let_def channel_defs)
  then show ?thesis using ik finish_keep [of P c1 q env] by (metis fst_conv prod.inject)
next
  case False
  note keeps = invoke_keep [OF assms(2,3,5), THEN finish_keep [OF assms(1), where env = env]]
    report_keep [OF assms(1,3,5)]
  have "c' = c \<and> P s'"
    using run False keeps assms(4,5)
    by (auto simp: dispatch_channel_def Let_def split: if_splits sum.splits) (metis fst_conv)+
  then show ?thesis using assms(1) by simp
qed

lemma policy_fields:
  "\<exists>d m. fst (applyInboundPolicy c env s) = env\<lparr>env_InboundDisposition := d, env_Meta := m\<rparr>"
proof (cases "cfg_InboundPolicy (cl_cfg c)")
  case None
  then have "fst (applyInboundPolicy c env s) =
      env\<lparr>env_InboundDisposition := env_InboundDisposition env, env_Meta := env_Meta env\<rparr>"
    by (simp add: applyInboundPolicy_def)
  then show ?thesis by (intro exI)
next
  case (Some f)
  let ?r = "f (env_AGV env) (env_Channel env) (hs_HeaderID (env_Header env)) s"
  obtain s1 d where "?r = (s1, d)" by (cases ?r)
  then have "fst (applyInboundPolicy c env s) = env\<lparr>env_InboundDisposition := (if d = [] then InboundAccept else d),
      env_Meta := Some ((case env_Meta env of None \<Rightarrow> Map.empty | Some m \<Rightarrow> m)
        (MetaInboundDisposition \<mapsto> AnyString (if d = [] then InboundAccept else d)))\<rparr>"
    using Some by (simp add: applyInboundPolicy_def Let_def)
  then show ?thesis by blast
qed

lemma policy_state:
  assumes "callbacks_keep P c" "P s"
  shows "P (snd (applyInboundPolicy c env s))"
proof (cases "cfg_InboundPolicy (cl_cfg c)")
  case (Some f)
  have "P (fst (f (env_AGV env) (env_Channel env) (hs_HeaderID (env_Header env)) s))"
    using assms Some by (simp add: callbacks_keep_def)
  then show ?thesis
    using Some by (simp add: applyInboundPolicy_def Let_def case_prod_beta)
qed (use assms in \<open>simp add: applyInboundPolicy_def\<close>)

lemma policy_keep:
  assumes "callbacks_keep P c" "P s" and pol: "applyInboundPolicy c env s = (env', s')"
  shows "P s' \<and> env_Header env' = env_Header env \<and> env_Topic env' = env_Topic env \<and>
    env_Raw env' = env_Raw env \<and> env_Channel env' = env_Channel env \<and> env_AGV env' = env_AGV env"
proof -
  have "P s'" using policy_state [OF assms(1,2), of env] pol by simp
  moreover obtain d m where "env' = env\<lparr>env_InboundDisposition := d, env_Meta := m\<rparr>"
    using policy_fields [of c env s] pol by auto
  ultimately show ?thesis by simp
qed

lemma extended_keep:
  "extended_envelope c env = Inr env' \<Longrightarrow> env_Topic env' = env_Topic env \<and> env_Raw env' = env_Raw env \<and>
     env_Channel env' = env_Channel env \<and> env_AGV env' = env_AGV env \<and> env_Header env' = env_Header env \<and>
     (\<forall>reg. cl_extensions c = Some reg \<longrightarrow> \<not> isl (Registry_Apply (Some reg) (env_Channel env) (env_Raw env)))"
  by (auto simp: extended_envelope_def split: option.splits sum.splits)

lemma base_fields [simp]:
  "env_Topic (base_envelope c t p ra da parsed) = t" "env_Raw (base_envelope c t p ra da parsed) = p"
  "env_Channel (base_envelope c t p ra da parsed) = pt_Channel parsed"
  "env_AGV (base_envelope c t p ra da parsed) =
     \<lparr>id_Manufacturer = pt_Manufacturer parsed, id_SerialNumber = pt_SerialNumber parsed\<rparr>"
  "env_Header (base_envelope c t p ra da parsed) = zero_summary"
  by (simp_all add: base_envelope_def new_envelope_def)

text \<open>The last step of every path: dispatch a consistent envelope, then report slow handling.\<close>

lemma dispatch_note_keep:
  assumes "callbacks_keep P c" "handlers_keep P ok ctx c ie" "bus_keeps P ok ctx c (ie_dec ie)" "ok env" "P s"
  shows "P (fst (snd (case dispatch_channel ie ctx c env s of
      (c', s', r) \<Rightarrow> (c', noteInbound (ie_clock ie) c' env s', r))))"
proof -
  obtain c' s' r where run: "dispatch_channel ie ctx c env s = (c', s', r)"
    using prod_cases3 by blast
  from dispatch_keep [OF assms run] show ?thesis using note_keep [of P c' s'] run by simp
qed

text \<open>A message with a parsed topic and extracted vendor fields: header, identity, policy, dispatch.\<close>

lemma header_keep:
  assumes "callbacks_keep P c" and "P s"
    and "handlers_keep P (consistent (ie_dec ie) c rawTopic payload) ctx c ie"
    and "bus_keeps P (consistent (ie_dec ie) c rawTopic payload) ctx c (ie_dec ie)"
    and "Parse (cl_topics c) rawTopic = Inr parsed"
    and env1: "extended_envelope c (base_envelope c rawTopic payload ra da parsed) = Inr env1"
    and header: "extractHeader (ie_dec ie) payload = Inr header"
  shows "P (fst (snd (case checkIdentity c (env1\<lparr>env_Header := summary_of header\<rparr>) of
      Some err \<Rightarrow> (c, noteInbound (ie_clock ie) c (env1\<lparr>env_Header := summary_of header\<rparr>)
        (reportDecode ctx c (env1\<lparr>env_Header := summary_of header\<rparr>) err s), None)
    | None \<Rightarrow> (case applyInboundPolicy c (env1\<lparr>env_Header := summary_of header\<rparr>) s of (env3, s1) \<Rightarrow>
        case dispatch_channel ie ctx c env3 s1 of
          (c', s', r) \<Rightarrow> (c', noteInbound (ie_clock ie) c' env3 s', r)))))"
proof (cases "checkIdentity c (env1\<lparr>env_Header := summary_of header\<rparr>)")
  case (Some err)
  then show ?thesis using note_keep [OF assms(1) report_keep [OF assms(1,4,2)]] by simp
next
  case None
  note fields = extended_keep [OF env1, unfolded base_fields]
  obtain env3 s1 where pol: "applyInboundPolicy c (env1\<lparr>env_Header := summary_of header\<rparr>) s = (env3, s1)"
    by fastforce
  note pk = policy_keep [OF assms(1,2) pol]
  have "strictIdentity (cl_cfg c) \<longrightarrow> (h_Manufacturer header, h_SerialNumber header) \<in>
      {([], []), (pt_Manufacturer parsed, pt_SerialNumber parsed)}"
    using None fields by (auto simp: checkIdentity_def summary_of_def split: if_splits)
  then have "consistent (ie_dec ie) c rawTopic payload env3"
    using fields assms(5) pk header by (simp add: consistent_def extractHeader_def summary_of_def)
  from dispatch_note_keep [where ok = "consistent (ie_dec ie) c rawTopic payload", OF assms(1,3,4) this] pk
  show ?thesis using None pol by simp
qed

text \<open>
  C17. Typed handlers only ever see what the message says. Take any property of the world that the
  client's callbacks keep, that every registered typed handler keeps when it is called with a typed
  event of the message, and that the event bus (where one is attached) keeps when it is given such
  an event or a decoding failure; then a raw message keeps it, whatever its topic and payload are.
  A typed event of the message is one of the channel of its topic, with what the decoder of that
  channel reads from its payload, in an envelope whose topic, payload, channel and identity are
  those of the message and whose header is the one decoded from the payload (blank when that
  fails): vendor fields could be extracted, and with StrictIdentity the header's identity is blank
  or the one of the topic.
\<close>
theorem handlers_see_consistent:
  assumes "callbacks_keep P c" and "P s"
    and "handlers_keep P (consistent (ie_dec ie) c rawTopic payload) ctx c ie"
    and "bus_keeps P (consistent (ie_dec ie) c rawTopic payload) ctx c (ie_dec ie)"
  shows "P (fst (snd (onRawMessage ie ctx rawTopic payload c s)))"
proof -
  obtain ra da where times: "envelopeTimes (Some ctx) (ie_clock ie s) = (ra, da)" by fastforce
  note report = note_keep [OF assms(1) report_keep [OF assms(1,4,2)]]
  note eqs = onRawMessage_def times prod.case Let_def
  show ?thesis
  proof (cases "Parse (cl_topics c) rawTopic")
    case (Inl err)
    then show ?thesis using report by (simp add: eqs)
  next
    case parsed: (Inr parsed)
    let ?env = "base_envelope c rawTopic payload ra da parsed"
    show ?thesis
    proof (cases "extended_envelope c ?env")
      case (Inl err)
      then show ?thesis using report parsed by (simp add: eqs)
    next
      case env1: (Inr env1)
      note fields = extended_keep [OF env1, unfolded base_fields]
      show ?thesis
      proof (cases "extractHeader (ie_dec ie) payload")
        case (Inl e)
        have "consistent (ie_dec ie) c rawTopic payload env1"
          using fields parsed Inl by (simp add: consistent_def extractHeader_def)
        from dispatch_note_keep [where ok = "consistent (ie_dec ie) c rawTopic payload", OF assms(1,3,4) this assms(2)]
        show ?thesis using parsed env1 Inl by (simp add: eqs)
      next
        case header: (Inr header)
        from header_keep [OF assms(1-4) parsed env1 header] show ?thesis
          using parsed env1 header by (simp add: eqs)
      qed
    qed
  qed
qed

text \<open>
  A concrete environment. The payload [1] is a state whose header names the vehicle of the topic,
  any other payload is the same state with a header that names another vehicle; the state handler
  adds two to a counter for what the first one says and one for anything else.
\<close>

definition ex_topic :: string where
  "ex_topic = ''uagv/v2/acme/A1/state''"

definition ex_vstate :: vstate where
  "ex_vstate = \<lparr>st_LastNodeId = ''n1'', st_OrderId = ''o1'', st_OrderUpdateId = 0, st_ActionStates = [], st_rest = Opaque 0\<rparr>"

definition ex_user :: "ex_rest fb_world user_code" where
  "ex_user = \<lparr>run_state = (\<lambda>h ctx env m s.
       ((fst s, fst (snd s), snd (snd s) +
          (if m = ex_vstate \<and> env_AGV env = \<lparr>id_Manufacturer = ''acme'', id_SerialNumber = ''A1''\<rparr> \<and>
              hs_Manufacturer (env_Header env) = ''acme'' \<and> hs_SerialNumber (env_Header env) = ''A1''
           then 2 else 1)), None)),
     run_connection = (\<lambda>h ctx env m s. (s, None)), run_visualization = (\<lambda>h ctx env m s. (s, None)),
     run_factsheet = (\<lambda>h ctx env m s. (s, None)), run_topic = (\<lambda>h ctx env s. (s, None)),
     run_event = (\<lambda>h ctx p s. (s, None))\<rparr>"

definition ex_header :: "bytes \<Rightarrow> protocol_header" where
  "ex_header p = zero_header\<lparr>h_Manufacturer := ''acme'', h_SerialNumber := if p = [1] then ''A1'' else ''B2''\<rparr>"

definition ex_env :: "ex_rest fb_world inbound_env" where
  "ex_env = \<lparr>ie_dec = \<lparr>dec_header = (\<lambda>p. Inr (ex_header p)),
       dec_state = (\<lambda>p. Inr ex_vstate), dec_connection = (\<lambda>p. Inl (ErrorsNew ''eof'')),
       dec_visualization = (\<lambda>p. Inl (ErrorsNew ''eof'')), dec_factsheet = (\<lambda>p. Inl (ErrorsNew ''eof''))\<rparr>,
     ie_uc = ex_user, ie_clock = (\<lambda>s. 0), ie_pick_done = False\<rparr>"

lemma ex_parse:
  "Parse \<lparr>res_Interface = ''uagv'', res_Version = ''v2''\<rparr> ex_topic =
     Inr \<lparr>pt_Interface = ''uagv'', pt_Version = ''v2'', pt_Manufacturer = ''acme'',
       pt_SerialNumber = ''A1'', pt_Channel = ChannelState\<rparr>"
  by (simp add: Parse_def ex_topic_def Let_def ValidChannel_def channel_defs)

lemma ex_c0_cfg:
  "cl_cfg ex_c0 = ex_config" "cl_topics ex_c0 = \<lparr>res_Interface = ''uagv'', res_Version = ''v2''\<rparr>"
  "cl_bus ex_c0 = None" "cl_onHandlerError ex_c0 = None" "cl_extensions ex_c0 = None"
  using ex_valid by (simp_all add: New_def Let_def ex_c0_def OnTopic_def) (simp_all add: ex_config_def)

text \<open>A client with one state handler, which runs on the payload [1].\<close>

definition ex_one_handler :: "(ex_rest fb_world, int) client" where
  "ex_one_handler = ex_c0\<lparr>cl_stateHandlers := [1]\<rparr>"

lemma ex_one_handler_cfg:
  "cl_cfg ex_one_handler = ex_config" "cl_topics ex_one_handler = \<lparr>res_Interface = ''uagv'', res_Version = ''v2''\<rparr>"
  "cl_bus ex_one_handler = None" "cl_onHandlerError ex_one_handler = None" "cl_extensions ex_one_handler = None"
  "cl_stateHandlers ex_one_handler = [1]"
  by (simp_all add: ex_one_handler_def ex_c0_cfg)

lemma ex_one_handler_runs:
  "snd (snd (fst (snd (onRawMessage ex_env Background ex_topic [1] ex_one_handler (NewFakeBroker, ex_rest0))))) = 2"
  by (simp add: onRawMessage_def envelopeTimes_def Background_def ex_one_handler_cfg ex_parse extended_envelope_def
      extractHeader_def ex_env_def ex_header_def checkIdentity_def summary_of_def applyInboundPolicy_def
      dispatch_channel_def base_envelope_def new_envelope_def invokeState_def finishHandler_def ex_user_def
      noteInbound_def Let_def ex_rest0_def ex_config_def zero_header_def)

theorem handlers_see_consistent_witness:
  "let count = (\<lambda>p. snd (snd (fst (snd (onRawMessage ex_env Background ex_topic p ex_one_handler
      (NewFakeBroker, ex_rest0)))))) in
     even (count [1]) \<and> even (count [2]) \<and> count [1] \<noteq> 0"
proof -
  have "even (snd (snd (fst (snd (onRawMessage ex_env Background ex_topic p ex_one_handler (NewFakeBroker, ex_rest0))))))" for p
  proof (rule handlers_see_consistent [where P = "\<lambda>s. even (snd (snd s))"])
    show "callbacks_keep (\<lambda>s. even (snd (snd s))) ex_one_handler"
      by (simp add: callbacks_keep_def ex_one_handler_cfg) (simp add: ex_config_def)
    show "bus_keeps (\<lambda>s. even (snd (snd s))) (consistent (ie_dec ex_env) ex_one_handler ex_topic p) Background
        ex_one_handler (ie_dec ex_env)" by (simp add: bus_keeps_def ex_one_handler_cfg)
    have strict: "strictIdentity ex_config" by (simp add: strictIdentity_def ex_config_def)
    have "hs_Manufacturer (env_Header env) = ''acme'' \<and> hs_SerialNumber (env_Header env) = ''A1'' \<and>
        env_AGV env = \<lparr>id_Manufacturer = ''acme'', id_SerialNumber = ''A1''\<rparr>"
      if "consistent (ie_dec ex_env) ex_one_handler ex_topic p env" for env
      using that strict
      by (auto simp: consistent_def ex_one_handler_cfg ex_parse ex_env_def ex_header_def split: if_splits)
    then show "handlers_keep (\<lambda>s. even (snd (snd s))) (consistent (ie_dec ex_env) ex_one_handler ex_topic p)
        Background ex_one_handler ex_env"
      by (auto simp: handlers_keep_def ex_env_def ex_user_def)
  qed (simp add: ex_rest0_def)
  then show ?thesis using ex_one_handler_runs by (simp add: Let_def)
qed

text \<open>
  A message whose header names another vehicle than its topic is rejected (with
  StrictIdentity): exactly one decode report with IdentityMismatch, on the bus event and to
  OnDecodeError, for an envelope that carries the offending header; the slow-handling report; the
  client is unchanged and the transport sees no error.
\<close>
theorem identity_mismatch_rejected:
  assumes "Parse (cl_topics c) rawTopic = Inr parsed" and "cl_extensions c = None"
    and "strictIdentity (cl_cfg c)" and "dec_header (ie_dec ie) payload = Inr h"
    and "(h_Manufacturer h, h_SerialNumber h) \<notin>
      {([], []), (pt_Manufacturer parsed, pt_SerialNumber parsed)}"
  shows "let (ra, da) = envelopeTimes (Some ctx) (ie_clock ie s);
      env = (base_envelope c rawTopic payload ra da parsed)\<lparr>env_Header := summary_of h\<rparr> in
    onRawMessage ie ctx rawTopic payload c s =
      (c, noteInbound (ie_clock ie) c env (reportDecode ctx c env (sentinel IdentityMismatch) s), None)"
proof -
  have "checkIdentity c ((base_envelope c rawTopic payload ra da parsed)\<lparr>env_Header := summary_of h\<rparr>)
      = Some (sentinel IdentityMismatch)" for ra da
    using assms(3,5) by (auto simp: checkIdentity_def summary_of_def)
  then show ?thesis
    using assms(1,2,4)
    by (simp add: onRawMessage_def extended_envelope_def extractHeader_def Let_def split: prod.split)
qed

theorem identity_mismatch_rejected_witness:
  "onRawMessage ex_env Background ex_topic [2] ex_c0 (NewFakeBroker, ex_rest0) = (ex_c0, (NewFakeBroker, ex_rest0), None)"
proof -
  have "strictIdentity (cl_cfg ex_c0)" by (simp add: ex_c0_cfg strictIdentity_def ex_config_def)
  moreover have "dec_header (ie_dec ex_env) [2] =
      Inr (zero_header\<lparr>h_Manufacturer := ''acme'', h_SerialNumber := ''B2''\<rparr>)" by (simp add: ex_env_def ex_header_def)
  ultimately show ?thesis
    using identity_mismatch_rejected [OF ex_parse [folded ex_c0_cfg(2)] ex_c0_cfg(5), of ex_env "[2]" _
        Background "(NewFakeBroker, ex_rest0)"]
    by (simp add: envelopeTimes_def Background_def reportDecode_def publishEvent_def ex_c0_cfg
        noteInbound_def Let_def) (simp add: ex_config_def)
qed

subsection \<open>Handlers on an event bus\<close>

lemma deliver_handlers: "deliver run subs p s = run_handlers (\<lambda>h. run h p) (map snd subs) s"
  by (induction subs arbitrary: s) (auto split: prod.split option.split)

lemma run_handlers_map: "run_handlers f (map g hs) s = run_handlers (\<lambda>h. f (g h)) hs s"
  by (induction hs arbitrary: s) (auto split: prod.split option.split)

definition bus_lens :: "('s \<Rightarrow> 'm) \<Rightarrow> ('m \<Rightarrow> 's \<Rightarrow> 's) \<Rightarrow> bool" where
  "bus_lens get put \<longleftrightarrow> (\<forall>m s. get (put m s) = m)"

text \<open>The handlers of an event, in the order of subscription.\<close>

definition bus_handlers :: "'h memory \<Rightarrow> string \<Rightarrow> 'h list" where
  "bus_handlers m e = map snd (subs_of m e)"

definition same_but_bus :: "('s, 'u) client \<Rightarrow> ('s, 'u) client \<Rightarrow> bool" where
  "same_but_bus c c' \<longleftrightarrow> cl_bus c' = cl_bus c \<and> cl_stateHandlers c' = cl_stateHandlers c \<and>
     cl_connHandlers c' = cl_connHandlers c \<and> cl_vizHandlers c' = cl_vizHandlers c \<and>
     cl_fsHandlers c' = cl_fsHandlers c \<and> cl_fleet c' = cl_fleet c"

lemma subscribe_wrapped_memory:
  assumes "bus_lens get put" and "cl_bus c = Some (NewMemoryEventBus get put uc)"
    and "subscribe_wrapped event hs c s = (c', s')"
  shows "same_but_bus c c' \<and> bus_handlers (get s') e =
    bus_handlers (get s) e @ (if e = event then hs else [])"
  using assms(2,3)
proof (induction hs arbitrary: c s)
  case Nil
  then show ?case by (simp add: same_but_bus_def)
next
  case (Cons h hs)
  let ?m = "fst (Memory_Subscribe event (Some h) (get s))"
  obtain u where one: "subscribeTypedLocked event (Some h) c s =
      (c\<lparr>cl_busUnsubs := cl_busUnsubs c @ [u]\<rparr>, put ?m s, Inr (Some u))"
    using Cons.prems(1)
    by (simp add: subscribeTypedLocked_def NewMemoryEventBus_def Shim_Subscribe_def Memory_Subscribe_def Let_def)
  let ?c1 = "c\<lparr>cl_busUnsubs := cl_busUnsubs c @ [u]\<rparr>"
  have "subscribe_wrapped event hs ?c1 (put ?m s) = (c', s')"
    using Cons.prems(2) one by simp
  from Cons.IH [OF _ this] Cons.prems(1) show ?case
    using assms(1)
    by (auto simp: same_but_bus_def bus_lens_def bus_handlers_def Memory_Subscribe_def Let_def subs_of_def
        split: if_splits)
qed

lemma UseEventBus_handlers:
  assumes "bus_lens get put" and "UseEventBus (Some (NewMemoryEventBus get put uc)) c s = (c', s')"
    and "\<forall>e. bus_handlers (get s) e = []"
  shows "cl_bus c' = Some (NewMemoryEventBus get put uc) \<and> cl_fleet c' = cl_fleet c \<and>
    bus_handlers (get s') EventStateReceived = map WrapState (cl_stateHandlers c) \<and>
    bus_handlers (get s') EventConnectionChanged = map WrapConnection (cl_connHandlers c) \<and>
    bus_handlers (get s') EventVisualizationReceived = map WrapVisualization (cl_vizHandlers c) \<and>
    bus_handlers (get s') EventFactsheetReceived = map WrapFactsheet (cl_fsHandlers c)"
proof -
  let ?b = "Some (NewMemoryEventBus get put uc)"
  obtain c1 s1 where one: "subscribe_wrapped EventStateReceived (map WrapState (cl_stateHandlers c))
      (c\<lparr>cl_bus := ?b\<rparr>) s = (c1, s1)" by fastforce
  note w1 = subscribe_wrapped_memory [OF assms(1) _ one, of uc]
  obtain c2 s2 where two: "subscribe_wrapped EventConnectionChanged (map WrapConnection (cl_connHandlers c1))
      (c1\<lparr>cl_stateHandlers := []\<rparr>) s1 = (c2, s2)" by fastforce
  note w2 = subscribe_wrapped_memory [OF assms(1) _ two, of uc]
  obtain c3 s3 where three: "subscribe_wrapped EventVisualizationReceived
      (map WrapVisualization (cl_vizHandlers c2)) (c2\<lparr>cl_connHandlers := []\<rparr>) s2 = (c3, s3)" by fastforce
  note w3 = subscribe_wrapped_memory [OF assms(1) _ three, of uc]
  obtain c4 s4 where four: "subscribe_wrapped EventFactsheetReceived
      (map WrapFactsheet (cl_fsHandlers c3)) (c3\<lparr>cl_vizHandlers := []\<rparr>) s3 = (c4, s4)" by fastforce
  note w4 = subscribe_wrapped_memory [OF assms(1) _ four, of uc]
  have res: "c' = c4\<lparr>cl_fsHandlers := []\<rparr>" "s' = s4"
    using assms(2) one two three four by (simp_all add: UseEventBus_def)
  show ?thesis
    using w1 w2 w3 w4 assms(3) by (simp add: res same_but_bus_def event_names)
qed

lemma publish_handlers:
  assumes "bus_handlers (get w) event = map wrap hs"
    and "\<And>h. run_event_handler uc ctx (wrap h) p = f h"
  shows "eb_Publish (NewMemoryEventBus get put uc) ctx event p w = run_handlers f hs w"
  using assms(1)
  by (simp add: NewMemoryEventBus_def Shim_Publish_def Memory_Publish_def deliver_handlers
      bus_handlers_def run_handlers_map assms(2))

lemma wrap_runs:
  "run_event_handler uc ctx (WrapState h) (StateEvent env m1) = run_state uc h ctx env m1"
  "run_event_handler uc ctx (WrapConnection h) (ConnectionEvent env m2) = run_connection uc h ctx env m2"
  "run_event_handler uc ctx (WrapVisualization h) (VisualizationEvent env m3) = run_visualization uc h ctx env m3"
  "run_event_handler uc ctx (WrapFactsheet h) (FactsheetEvent env m4) = run_factsheet uc h ctx env m4"
  by (simp_all add: run_event_handler_def wrap_defs fun_eq_iff)

text \<open>
  C27. Attaching the in-process event bus does not change what happens to typed messages: after
  UseEventBus with a fresh bus, every state, connection, visualization and factsheet message runs
  the same handlers, in the order they were registered, with the same effect and error as on the
  client without bus (for connection messages of a client without auto-tracking).
\<close>
theorem bus_dispatch_equivalent:
  assumes "bus_lens get put" and "\<forall>e. bus_handlers (get s) e = []" and "cl_bus c = None"
    and "UseEventBus (Some (NewMemoryEventBus get put uc)) c s = (c', s')" and "get w = get s'"
  shows "invokeState uc ctx c' env m1 w = invokeState uc ctx c env m1 w \<and>
    invokeVisualization uc ctx c' env m3 w = invokeVisualization uc ctx c env m3 w \<and>
    invokeFactsheet uc ctx c' env m4 w = invokeFactsheet uc ctx c env m4 w \<and>
    (\<not> auto_tracking c \<longrightarrow> snd (invokeConnection pick uc ctx c' env m2 w) =
       snd (invokeConnection pick uc ctx c env m2 w))"
proof -
  note h = UseEventBus_handlers [OF assms(1,4,2), folded assms(5)]
  have auto: "auto_tracking c' = auto_tracking c" using h by (simp add: auto_tracking_def)
  have "eb_Publish (NewMemoryEventBus get put uc) ctx EventStateReceived (StateEvent env m1) w
      = run_handlers (\<lambda>h. run_state uc h ctx env m1) (cl_stateHandlers c) w"
    by (rule publish_handlers [where wrap = WrapState]) (simp_all add: h wrap_runs)
  moreover have "eb_Publish (NewMemoryEventBus get put uc) ctx EventConnectionChanged (ConnectionEvent env m2) w
      = run_handlers (\<lambda>h. run_connection uc h ctx env m2) (cl_connHandlers c) w"
    by (rule publish_handlers [where wrap = WrapConnection]) (simp_all add: h wrap_runs)
  moreover have "eb_Publish (NewMemoryEventBus get put uc) ctx EventVisualizationReceived (VisualizationEvent env m3) w
      = run_handlers (\<lambda>h. run_visualization uc h ctx env m3) (cl_vizHandlers c) w"
    by (rule publish_handlers [where wrap = WrapVisualization]) (simp_all add: h wrap_runs)
  moreover have "eb_Publish (NewMemoryEventBus get put uc) ctx EventFactsheetReceived (FactsheetEvent env m4) w
      = run_handlers (\<lambda>h. run_factsheet uc h ctx env m4) (cl_fsHandlers c) w"
    by (rule publish_handlers [where wrap = WrapFactsheet]) (simp_all add: h wrap_runs)
  ultimately show ?thesis
    using h assms(3) auto
    by (simp add: invokeState_def invokeVisualization_def invokeFactsheet_def invokeConnection_def
        scheduleAutoTrack_def)
qed

definition ex_put :: "event_handler memory \<Rightarrow> ex_rest fb_world \<Rightarrow> ex_rest fb_world" where
  "ex_put m s = (fst s, m, snd (snd s))"

theorem bus_dispatch_equivalent_witness:
  "case UseEventBus (Some (NewMemoryEventBus (\<lambda>s. fst (snd s)) ex_put ex_user))
      (ex_c0\<lparr>cl_stateHandlers := [1, 2]\<rparr>) (NewFakeBroker, ex_rest0) of
     (c', s') \<Rightarrow> \<forall>m. snd (invokeState ex_user Background c' (new_envelope [] [] 0 0) m s') = None \<and>
       snd (snd (fst (invokeState ex_user Background c' (new_envelope [] [] 0 0) m s'))) = snd (snd s') + 2"
proof -
  let ?c = "ex_c0\<lparr>cl_stateHandlers := [1, 2]\<rparr>"
  let ?b = "NewMemoryEventBus (\<lambda>s. fst (snd s)) ex_put ex_user"
  obtain c' s' where run: "UseEventBus (Some ?b) ?c (NewFakeBroker, ex_rest0) = (c', s')"
    by (metis prod.collapse)
  have lens: "bus_lens (\<lambda>s. fst (snd s)) ex_put" by (simp add: bus_lens_def ex_put_def)
  have empty: "\<forall>e. bus_handlers (fst (snd (NewFakeBroker, ex_rest0))) e = []"
    by (simp add: ex_rest0_def NewMemory_def bus_handlers_def subs_of_def)
  have none: "cl_bus ?c = None" by (simp add: ex_c0_cfg)
  have "invokeState ex_user Background c' (new_envelope [] [] 0 0) m s' =
      invokeState ex_user Background ?c (new_envelope [] [] 0 0) m s'" for m
    using bus_dispatch_equivalent [OF lens empty none run refl] by blast
  then show ?thesis
    using run by (simp add: invokeState_def ex_c0_cfg ex_user_def new_envelope_def zero_identity_def)
qed

end
