(* ===== verification/Mqtt_Dispatch_Route.thy ===== *)
theory Mqtt_Dispatch_Route
  imports Mqtt_Dispatch_Inv
begin

text \<open>
  Routing and the FIFO logs of the dispatcher. Every message sits in the queue its topic routes
  to, only messages that may be discarded are, and while the dispatcher runs no message is
  abandoned; for each queue, what was accepted is what was handled, what the worker has in hand
  and what waits, in this order.
\<close>

subsection \<open>Calls in progress, routing, the running flags\<close>

fun call_ok :: "'s dispatcher \<Rightarrow> enqueue_call \<Rightarrow> bool" where
  "call_ok d (PutConn k m) \<longleftrightarrow> conn_key m = Some k"
| "call_ok d SendWake \<longleftrightarrow> True"
| "call_ok d (FindQueue m b) \<longleftrightarrow> conn_key m = None \<and> (dp_open d \<longrightarrow> b)"
| "call_ok d (TrySend q m b) \<longleftrightarrow> route m = Some q \<and> dp_queue d q \<noteq> None \<and> (dp_open d \<longrightarrow> b)"
| "call_ok d (Blocked q m b) \<longleftrightarrow> route m = Some q \<and> dp_queue d q \<noteq> None \<and> (dp_open d \<longrightarrow> b) \<and>
     \<not> droppableTopic (in_topic m)"

definition calls_ok :: "'s dispatcher \<Rightarrow> bool" where
  "calls_ok d \<longleftrightarrow> (\<forall>c \<in># dp_calls d. call_ok d c)"

definition running_ok :: "'s dispatcher \<Rightarrow> bool" where
  "running_ok d \<longleftrightarrow> (dp_open d \<longrightarrow> \<not> dp_cancelled d \<and> lg_abandoned d = []) \<and>
     (\<not> dp_cancelled d \<longrightarrow> dp_connWorker d \<noteq> CExited \<and>
        (\<forall>q u. dp_queue d q = Some u \<longrightarrow> qu_worker u \<noteq> QExited)) \<and>
     (\<forall>m \<in> set (lg_discarded d). droppableTopic (in_topic m))"

definition conn_ok :: "'s dispatcher \<Rightarrow> bool" where
  "conn_ok d \<longleftrightarrow> (\<forall>k m. dp_connLatest d k = Some m \<longrightarrow> conn_key m = Some k) \<and>
     (\<forall>m \<in> set (conn_busy (dp_connWorker d)). \<exists>k. conn_key m = Some k)"

lemma call_ok_mono:
  "call_ok d c \<Longrightarrow> (dp_open d' \<Longrightarrow> dp_open d) \<Longrightarrow> (\<And>q. dp_queue d q \<noteq> None \<Longrightarrow> dp_queue d' q \<noteq> None) \<Longrightarrow>
     call_ok d' c"
  by (cases c) auto

lemma calls_ok_mono:
  assumes "calls_ok d" "dp_calls d' \<subseteq># dp_calls d" "dp_open d' \<Longrightarrow> dp_open d"
    and "\<And>q. dp_queue d q \<noteq> None \<Longrightarrow> dp_queue d' q \<noteq> None"
  shows "calls_ok d'"
  using assms call_ok_mono [of d _ d'] by (auto simp: calls_ok_def dest: mset_subset_eqD)

lemma calls_ok_add:
  "dp_calls d = add_mset c M \<Longrightarrow> calls_ok d \<longleftrightarrow> call_ok d c \<and> calls_ok (d\<lparr>dp_calls := M\<rparr>)"
proof -
  have "call_ok (d\<lparr>dp_calls := M\<rparr>) x = call_ok d x" for x by (cases x) auto
  then show "dp_calls d = add_mset c M \<Longrightarrow> ?thesis" by (auto simp: calls_ok_def)
qed

lemma call_step_frame:
  "call_step cfg d d' \<Longrightarrow> dp_open d' = dp_open d \<and> dp_cancelled d' = dp_cancelled d \<and>
     dp_connWorker d' = dp_connWorker d \<and> lg_handled d' = lg_handled d \<and>
     (\<forall>q. dp_queue d q \<noteq> None \<longrightarrow> dp_queue d' q \<noteq> None)"
  by (induction rule: call_step.induct)
    (auto simp: abandon_def discard_def put_latest_def queueFor_None elim!: pushE queueFor_SomeE)

lemma call_step_calls:
  "call_step cfg d d' \<Longrightarrow> bounded d \<Longrightarrow> calls_ok d \<Longrightarrow> calls_ok d'"
proof (induction rule: call_step.induct)
  case (call d m)
  have "call_ok d (first_call d m)"
    by (auto simp: first_call_eq split: option.split)
  moreover have "call_ok (d\<lparr>dp_calls := M, lg_offered := xs\<rparr>) c = call_ok d c" for M xs c
    by (cases c) auto
  ultimately show ?case using call by (simp add: calls_ok_def)
next
  case (find_queue d m b M q d')
  note ok = find_queue.prems(2) [unfolded calls_ok_add [OF find_queue.hyps(1)]]
  from find_queue.hyps(2) show ?case
  proof (cases rule: queueFor_SomeE)
    case same
    then have "dp_queue d q \<noteq> None" using find_queue.prems(1) by (auto simp: bounded_def)
    then show ?thesis using ok same by (simp add: calls_ok_add)
  next
    case (new k)
    have "calls_ok (d'\<lparr>dp_calls := M\<rparr>)"
      by (rule calls_ok_mono [OF conjunct2 [OF ok]]) (use new in auto)
    then show ?thesis using ok new by (simp add: calls_ok_add)
  qed
next
  case (no_queue d m b M d')
  then show ?case
    by (auto simp: queueFor_None abandon_def calls_ok_add intro: calls_ok_mono)
next
  case (send d q m b M d')
  then show ?case by (auto elim!: pushE simp: calls_ok_add intro: calls_ok_mono)
next
  case (block_send d q m b M d')
  then show ?case by (auto elim!: pushE simp: calls_ok_add intro: calls_ok_mono)
next
  case (full_block d q m b M)
  then show ?case by (auto simp: calls_ok_add drop_reason_discard intro: calls_ok_mono)
qed (auto simp: calls_ok_add put_latest_def abandon_def discard_def intro: calls_ok_mono)

lemma work_step_frame:
  "work_step cfg run d d' \<Longrightarrow> dp_open d' = dp_open d \<and> dp_cancelled d' = dp_cancelled d \<and>
     dp_calls d' = dp_calls d \<and> lg_accepted d' = lg_accepted d \<and> lg_put d' = lg_put d \<and>
     lg_offered d' = lg_offered d \<and> lg_discarded d' = lg_discarded d \<and>
     lg_abandoned d' = lg_abandoned d \<and> (\<forall>q. dp_queue d' q = None \<longleftrightarrow> dp_queue d q = None)"
  by (induction rule: work_step.induct) (auto simp: handle_def)

lemma stop_step_frame:
  "stop_step d d' \<Longrightarrow> dp_queue d' = dp_queue d \<and> dp_calls d' = dp_calls d \<and> \<not> dp_open d' \<and>
     dp_connWorker d' = dp_connWorker d \<and> dp_connWake d' = dp_connWake d \<and>
     lg_accepted d' = lg_accepted d \<and> lg_put d' = lg_put d \<and> lg_handled d' = lg_handled d \<and>
     lg_offered d' = lg_offered d \<and> lg_discarded d' = lg_discarded d \<and> lg_abandoned d' = lg_abandoned d \<and>
     (dp_cancelled d \<longrightarrow> dp_cancelled d') \<and> (dp_connLatest d' = dp_connLatest d \<or> dp_connLatest d' = Map.empty)"
  by (induction rule: stop_step.induct) auto

lemma dispatching_calls: "dispatching cfg run s0 d \<Longrightarrow> calls_ok d"
proof (induction rule: dispatching.induct)
  case start
  show ?case by (simp add: calls_ok_def startDispatchLocked_def Let_def)
next
  case (call d d')
  then show ?case by (blast intro: call_step_calls dispatching_bounded)
next
  case (work d d')
  show ?case
    by (rule calls_ok_mono [OF work.IH]) (use work_step_frame [OF work.hyps(2)] in auto)
next
  case (stop d d')
  show ?case
    by (rule calls_ok_mono [OF stop.IH]) (use stop_step_frame [OF stop.hyps(2)] in auto)
qed

lemma running_start: "running_ok (startDispatchLocked cfg s)"
  by (simp add: running_ok_def startDispatchLocked_def Let_def new_queue_def)

lemma running_call: "call_step cfg d d' \<Longrightarrow> calls_ok d \<Longrightarrow> running_ok d \<Longrightarrow> running_ok d'"
proof (induction rule: call_step.induct)
  case (no_queue d m b M d')
  then have "\<not> dp_open d"
    by (auto simp: queueFor_None calls_ok_add conn_key_def route_def split: lane.splits prod.splits)
  with no_queue show ?case by (simp add: queueFor_None abandon_def running_ok_def)
next
  case (find_queue d m b M q d')
  from find_queue.hyps(2) find_queue.prems(2) show ?case
    by (cases rule: queueFor_SomeE) (auto simp: running_ok_def new_queue_def split: if_splits)
next
  case (send d q m b M d')
  then show ?case by (auto elim!: pushE simp: running_ok_def split: if_splits)
next
  case (block_send d q m b M d')
  then show ?case by (auto elim!: pushE simp: running_ok_def split: if_splits)
next
  case (block_done d q m b M)
  then have "\<not> dp_open d" by (auto simp: calls_ok_add running_ok_def)
  with block_done show ?case by (simp add: abandon_def running_ok_def)
qed (auto simp: running_ok_def abandon_def discard_def put_latest_def drop_reason_discard)

lemma running_work: "work_step cfg run d d' \<Longrightarrow> running_ok d \<Longrightarrow> running_ok d'"
  by (induction rule: work_step.induct) (auto simp: running_ok_def handle_def split: if_splits)

lemma running_stop: "stop_step d d' \<Longrightarrow> running_ok d \<Longrightarrow> running_ok d'"
  by (induction rule: stop_step.induct) (auto simp: running_ok_def)

lemma dispatching_running: "dispatching cfg run s0 d \<Longrightarrow> running_ok d"
  by (induction rule: dispatching.induct)
    (blast intro: running_start running_call running_work running_stop dispatching_calls)+

lemma conn_call: "call_step cfg d d' \<Longrightarrow> calls_ok d \<Longrightarrow> conn_ok d \<Longrightarrow> conn_ok d'"
  by (induction rule: call_step.induct)
    (auto simp: conn_ok_def abandon_def discard_def put_latest_def queueFor_None calls_ok_add
      elim!: pushE queueFor_SomeE split: if_splits)

lemma conn_work: "work_step cfg run d d' \<Longrightarrow> conn_ok d \<Longrightarrow> conn_ok d'"
  by (induction rule: work_step.induct) (auto simp: conn_ok_def handle_def split: if_splits)

lemma dispatching_conn: "dispatching cfg run s0 d \<Longrightarrow> conn_ok d"
proof (induction rule: dispatching.induct)
  case (stop d d')
  with stop_step_frame [OF stop.hyps(2)] show ?case by (auto simp: conn_ok_def)
qed (auto simp: conn_ok_def startDispatchLocked_def Let_def
    dest: conn_call conn_work dispatching_calls)

end
