(* ===== verification/Mqtt_Dispatch_Logs.thy ===== *)
theory Mqtt_Dispatch_Logs
  imports Mqtt_Dispatch_Route
begin

text \<open>
  The logs of the dispatcher: the FIFO log of every queue, the accounting of all messages handed
  to enqueue, and the latest-wins log of every vehicle on the connection lane.
\<close>

subsection \<open>FIFO\<close>

definition fifo :: "'s dispatcher \<Rightarrow> bool" where
  "fifo d \<longleftrightarrow> (\<forall>q. of_queue q (lg_accepted d) =
     of_queue q (lg_handled d) @ in_hand d q @ waiting d q)"

lemma fifo_start: "fifo (startDispatchLocked cfg s)"
  by (simp add: fifo_def startDispatchLocked_def Let_def content_defs new_queue_def)

lemma fifo_same: "fifo d \<Longrightarrow> dp_queue d' = dp_queue d \<Longrightarrow> lg_accepted d' = lg_accepted d \<Longrightarrow>
    lg_handled d' = lg_handled d \<Longrightarrow> fifo d'"
  by (simp add: fifo_def content_defs)

lemma fifo_push:
  assumes "fifo d" "push q m d = Some d'" "route m = Some q"
  shows "fifo d'"
proof -
  obtain u c where u: "dp_queue d q = Some u" "chan_send m (qu_chan u) = Some c"
    "d' = d\<lparr>dp_queue := (dp_queue d)(q \<mapsto> u\<lparr>qu_chan := c\<rparr>), lg_accepted := lg_accepted d @ [m]\<rparr>"
    using assms(2) by (rule pushE)
  show ?thesis
    using assms(1,3) u(1,3) chan.send_contents [OF u(2)]
    by (auto simp: fifo_def content_defs)
qed

lemma fifo_find: "fifo d \<Longrightarrow> queueFor (in_topic (m :: inbound)) d = (Some q, d') \<Longrightarrow> fifo d'"
  by (elim queueFor_SomeE) (auto simp: fifo_def content_defs new_queue_def)

lemma fifo_call: "call_step cfg d d' \<Longrightarrow> calls_ok d \<Longrightarrow> fifo d \<Longrightarrow> fifo d'"
proof (induction rule: call_step.induct)
  case (send d q m b M d')
  have "fifo (d\<lparr>dp_calls := M\<rparr>)" using send.prems(2) by (rule fifo_same) simp_all
  then show ?case using send.hyps(2)
    by (rule fifo_push) (use send.prems(1) calls_ok_add [OF send.hyps(1)] in simp)
next
  case (block_send d q m b M d')
  have "fifo (d\<lparr>dp_calls := M\<rparr>)" using block_send.prems(2) by (rule fifo_same) simp_all
  then show ?case using block_send.hyps(2)
    by (rule fifo_push) (use block_send.prems(1) calls_ok_add [OF block_send.hyps(1)] in simp)
next
  case (find_queue d m b M q d')
  have "fifo (d\<lparr>dp_calls := add_mset (TrySend q m b) M\<rparr>)" using find_queue.prems(2) by (rule fifo_same) simp_all
  then show ?case using find_queue.hyps(2) by (rule fifo_find)
qed (auto simp: queueFor_None put_latest_def abandon_def discard_def elim: fifo_same)

lemma fifo_work: "work_step cfg run d d' \<Longrightarrow> conn_ok d \<Longrightarrow> calls_ok d \<Longrightarrow>
    (\<forall>q. \<forall>m \<in> set (in_hand d q). route m = Some q) \<Longrightarrow> fifo d \<Longrightarrow> fifo d'"
proof (induction rule: work_step.induct)
  case (take d q u m c)
  then show ?case using chan.recv_contents [OF take.hyps(3)]
    by (auto simp: fifo_def content_defs)
next
  case (handle d q u m)
  then have "route m = Some q" by (auto simp: in_hand_def)
  with handle.hyps handle.prems(4) show ?case by (auto simp: fifo_def content_defs handle_def)
next
  case (conn_handle d m)
  then have "route m = None" by (auto simp: conn_ok_def dest: conn_key_route)
  with conn_handle.prems(4) show ?case by (auto simp: fifo_def content_defs handle_def)
qed (auto simp: fifo_def content_defs)

text \<open>The message a worker has in hand came out of its own queue, so it is in the accepted log.\<close>

lemma fifo_routes:
  assumes "fifo d"
  shows "\<forall>q. \<forall>m \<in> set (in_hand d q) \<union> set (waiting d q). route m = Some q"
proof (intro allI ballI)
  fix q m
  assume "m \<in> set (in_hand d q) \<union> set (waiting d q)"
  with assms have "m \<in> set (of_queue q (lg_accepted d))" by (simp add: fifo_def)
  then show "route m = Some q" by (simp add: of_queue_def)
qed

lemma dispatching_fifo: "dispatching cfg run s0 d \<Longrightarrow> fifo d"
proof (induction rule: dispatching.induct)
  case (call d d')
  then show ?case by (blast intro: fifo_call dispatching_calls)
next
  case (work d d')
  show ?case
    by (rule fifo_work [OF work.hyps(2) dispatching_conn [OF work.hyps(1)]
          dispatching_calls [OF work.hyps(1)] _ work.IH]) (use fifo_routes [OF work.IH] in auto)
next
  case (stop d d')
  show ?case by (rule fifo_same [OF stop.IH]) (use stop_step_frame [OF stop.hyps(2)] in auto)
qed (rule fifo_start)

subsection \<open>Accounting\<close>

fun call_msgs :: "enqueue_call \<Rightarrow> inbound multiset" where
  "call_msgs (PutConn k m) = {#m#}"
| "call_msgs SendWake = {#}"
| "call_msgs (FindQueue m b) = {#m#}"
| "call_msgs (TrySend q m b) = {#m#}"
| "call_msgs (Blocked q m b) = {#m#}"

definition in_calls :: "'s dispatcher \<Rightarrow> inbound multiset" where
  "in_calls d = \<Sum>\<^sub># (image_mset call_msgs (dp_calls d))"

definition accounted :: "'s dispatcher \<Rightarrow> bool" where
  "accounted d \<longleftrightarrow> mset (lg_offered d) =
     mset (lg_accepted d) + mset (lg_put d) + mset (lg_discarded d) + mset (lg_abandoned d) + in_calls d"

lemma call_msgs_first [simp]: "call_msgs (first_call d m) = {#m#}"
  by (simp add: first_call_eq split: option.split)

lemma accounted_call: "call_step cfg d d' \<Longrightarrow> accounted d \<Longrightarrow> accounted d'"
  by (induction rule: call_step.induct)
    (auto simp: accounted_def in_calls_def put_latest_def abandon_def discard_def queueFor_None
      elim!: pushE queueFor_SomeE)

lemma dispatching_accounted: "dispatching cfg run s0 d \<Longrightarrow> accounted d"
proof (induction rule: dispatching.induct)
  case start
  show ?case by (simp add: accounted_def in_calls_def startDispatchLocked_def Let_def)
next
  case (call d d')
  then show ?case by (blast intro: accounted_call)
next
  case (work d d')
  with work_step_frame [OF work.hyps(2)] show ?case by (simp add: accounted_def in_calls_def)
next
  case (stop d d')
  with stop_step_frame [OF stop.hyps(2)] show ?case by (simp add: accounted_def in_calls_def)
qed

subsection \<open>The connection lane: latest wins\<close>

text \<open>
  For one vehicle: what has been handled, is in hand and is pending. It is a subsequence of what
  was put, and while the dispatcher runs it ends with the last message put.
\<close>

definition conn_seen :: "'s dispatcher \<Rightarrow> string \<Rightarrow> inbound list" where
  "conn_seen d k = of_conn k (lg_handled d) @ of_conn k (conn_busy (dp_connWorker d)) @ pending d k"

definition latest_wins :: "'s dispatcher \<Rightarrow> bool" where
  "latest_wins d \<longleftrightarrow> (\<forall>k. subseq (conn_seen d k) (of_conn k (lg_put d)) \<and>
     (dp_open d \<longrightarrow> of_conn k (lg_put d) \<noteq> [] \<longrightarrow>
        conn_seen d k \<noteq> [] \<and> last (conn_seen d k) = last (of_conn k (lg_put d))))"

lemma subseq_front: "subseq (xs @ ys) zs \<Longrightarrow> subseq xs zs"
  by (metis prefixI prefix_imp_subseq subseq_order.trans)

lemma latest_wins_same:
  "latest_wins d \<Longrightarrow> dp_connLatest d' = dp_connLatest d \<Longrightarrow> dp_connWorker d' = dp_connWorker d \<Longrightarrow>
     dp_open d' = dp_open d \<Longrightarrow> lg_put d' = lg_put d \<Longrightarrow> lg_handled d' = lg_handled d \<Longrightarrow> latest_wins d'"
  by (simp add: latest_wins_def conn_seen_def pending_def)

lemma latest_wins_put:
  assumes "latest_wins d" "conn_key m = Some k"
  shows "latest_wins (put_latest k m d)"
proof -
  have "subseq (conn_seen (put_latest k m d) k') (of_conn k' (lg_put (put_latest k m d))) \<and>
    (of_conn k' (lg_put (put_latest k m d)) \<noteq> [] \<longrightarrow> dp_open d \<longrightarrow> conn_seen (put_latest k m d) k' \<noteq> [] \<and>
      last (conn_seen (put_latest k m d) k') = last (of_conn k' (lg_put (put_latest k m d))))" for k'
  proof (cases "k' = k")
    case True
    let ?old = "of_conn k (lg_handled d) @ of_conn k (conn_busy (dp_connWorker d))"
    have "subseq (?old @ pending d k) (of_conn k (lg_put d))"
      using assms(1) by (simp add: latest_wins_def conn_seen_def)
    then have "subseq ?old (of_conn k (lg_put d))" by (rule subseq_front)
    then have "subseq (?old @ [m]) (of_conn k (lg_put d) @ [m])" by (rule list_emb_append_mono) simp
    with True assms(2) show ?thesis by (simp add: conn_seen_def pending_def put_latest_def)
  next
    case False
    with assms show ?thesis by (simp add: latest_wins_def conn_seen_def pending_def put_latest_def)
  qed
  then show ?thesis by (auto simp: latest_wins_def put_latest_def)
qed

lemma latest_wins_call: "call_step cfg d d' \<Longrightarrow> calls_ok d \<Longrightarrow> latest_wins d \<Longrightarrow> latest_wins d'"
proof (induction rule: call_step.induct)
  case (put d k m M)
  have "latest_wins (d\<lparr>dp_calls := add_mset SendWake M\<rparr>)" using put.prems(2) by (rule latest_wins_same) simp_all
  then show ?case using put.prems(1) calls_ok_add [OF put.hyps(1)] by (intro latest_wins_put) simp_all
next
  case (find_queue d m b M q d')
  from find_queue.hyps(2) find_queue.prems(2) show ?case
    by (cases rule: queueFor_SomeE) (auto elim: latest_wins_same)
next
  case (send d q m b M d')
  from send.hyps(2) send.prems(2) show ?case by (cases rule: pushE) (auto elim: latest_wins_same)
next
  case (block_send d q m b M d')
  from block_send.hyps(2) block_send.prems(2) show ?case by (cases rule: pushE) (auto elim: latest_wins_same)
qed (auto simp: queueFor_None abandon_def discard_def elim: latest_wins_same)

lemma latest_wins_seen:
  "latest_wins d \<Longrightarrow> (\<forall>k. conn_seen d' k = conn_seen d k) \<Longrightarrow> dp_open d' = dp_open d \<Longrightarrow> lg_put d' = lg_put d \<Longrightarrow>
     latest_wins d'"
  by (simp add: latest_wins_def)

lemma latest_wins_work:
  "work_step cfg run d d' \<Longrightarrow> conn_ok d \<Longrightarrow> (\<forall>q. \<forall>m \<in> set (in_hand d q). route m = Some q) \<Longrightarrow>
     latest_wins d \<Longrightarrow> latest_wins d'"
proof (induction rule: work_step.induct)
  case (handle d q u m)
  then have "route m = Some q" by (auto simp: in_hand_def)
  then have "conn_key m = None" by (cases "conn_key m") (auto dest: conn_key_route)
  with handle.prems(3) show ?case
    by (elim latest_wins_seen) (simp_all add: conn_seen_def pending_def handle_def)
next
  case (conn_take d k m)
  then have "conn_key m = Some k" by (simp add: conn_ok_def)
  with conn_take show ?case
    by (elim latest_wins_seen) (auto simp: conn_seen_def pending_def)
next
  case (conn_handle d m)
  from conn_handle.prems(3) show ?case
    by (rule latest_wins_seen) (simp_all add: conn_seen_def pending_def handle_def conn_handle.hyps)
qed (auto simp: conn_seen_def pending_def elim!: latest_wins_seen)

lemma latest_wins_stop: "stop_step d d' \<Longrightarrow> latest_wins d \<Longrightarrow> latest_wins d'"
proof (induction rule: stop_step.induct)
  case (close d)
  have "subseq (of_conn k (lg_handled d) @ of_conn k (conn_busy (dp_connWorker d))) (of_conn k (lg_put d))" for k
    by (rule subseq_front [of _ "pending d k"])
      (use close.prems in \<open>simp add: latest_wins_def conn_seen_def\<close>)
  then show ?case by (simp add: latest_wins_def conn_seen_def pending_def)
next
  case (cancel d)
  then show ?case by (elim latest_wins_same) simp_all
qed

lemma latest_wins_start: "latest_wins (startDispatchLocked cfg s)"
  by (simp add: latest_wins_def conn_seen_def pending_def startDispatchLocked_def Let_def)

lemma dispatching_latest: "dispatching cfg run s0 d \<Longrightarrow> latest_wins d"
proof (induction rule: dispatching.induct)
  case (call d d')
  then show ?case by (blast intro: latest_wins_call dispatching_calls)
next
  case (work d d')
  show ?case
    by (rule latest_wins_work [OF work.hyps(2) dispatching_conn [OF work.hyps(1)] _ work.IH])
      (use fifo_routes [OF dispatching_fifo [OF work.hyps(1)]] in auto)
qed (auto intro: latest_wins_start latest_wins_stop)

end
