(* ===== verification/Mqtt_Dispatch_Live.thy ===== *)
theory Mqtt_Dispatch_Live
  imports Mqtt_Dispatch_Logs
begin

text \<open>
  No wake-up is lost, the workers make progress, and every run of worker steps is bounded by a
  measure of the backlog; with them, the properties of the inbound dispatcher.
\<close>

subsection \<open>No lost wake-up\<close>

definition awake :: "'s dispatcher \<Rightarrow> bool" where
  "awake d \<longleftrightarrow> (dp_open d \<longrightarrow> dp_connLatest d \<noteq> Map.empty \<longrightarrow>
     ch_buf (dp_connWake d) \<noteq> [] \<or> dp_connWorker d \<notin> {CWaiting, CExited} \<or> SendWake \<in># dp_calls d)"

lemma send_wake_token: "bounded d \<Longrightarrow> ch_buf (dp_connWake (send_wake d)) \<noteq> []"
  using chan.send_contents [of "()" "dp_connWake d"] chan.send_full [of "()" "dp_connWake d"]
  by (auto simp: send_wake_def bounded_def split: option.split)

lemma awake_call: "call_step cfg d d' \<Longrightarrow> bounded d \<Longrightarrow> awake d \<Longrightarrow> awake d'"
proof (induction rule: call_step.induct)
  case (wake d M)
  then show ?case using send_wake_token [of "d\<lparr>dp_calls := M\<rparr>"] by (simp add: awake_def)
next
  case (put d k m M)
  then show ?case by (simp add: awake_def put_latest_def)
qed (auto simp: awake_def abandon_def discard_def queueFor_None elim!: pushE queueFor_SomeE)

lemma awake_work: "work_step cfg run d d' \<Longrightarrow> running_ok d \<Longrightarrow> awake d \<Longrightarrow> awake d'"
  by (induction rule: work_step.induct) (auto simp: awake_def handle_def running_ok_def)

lemma dispatching_awake: "dispatching cfg run s0 d \<Longrightarrow> awake d"
proof (induction rule: dispatching.induct)
  case start
  show ?case by (simp add: awake_def startDispatchLocked_def Let_def)
next
  case (call d d')
  then show ?case by (blast intro: awake_call dispatching_bounded)
next
  case (work d d')
  then show ?case by (blast intro: awake_work dispatching_running)
next
  case (stop d d')
  with stop_step_frame [OF stop.hyps(2)] show ?case by (simp add: awake_def)
qed

subsection \<open>The workload\<close>

fun worker_load :: "queue_worker \<Rightarrow> nat" where
  "worker_load QExited = 0"
| "worker_load QIdle = 1"
| "worker_load (QBusy m) = 2"

fun conn_load :: "conn_worker \<Rightarrow> nat" where
  "conn_load CExited = 0"
| "conn_load CWaiting = 1"
| "conn_load CDraining = 2"
| "conn_load (CBusy m) = 3"

definition queue_load :: "queue \<Rightarrow> nat" where
  "queue_load u = 2 * length (ch_buf (qu_chan u)) + worker_load (qu_worker u)"

definition workload :: "'s dispatcher \<Rightarrow> nat" where
  "workload d = (\<Sum>q \<in> dom (dp_queue d). queue_load (the (dp_queue d q))) +
     conn_load (dp_connWorker d) + 2 * length (ch_buf (dp_connWake d)) + 2 * card (dom (dp_connLatest d))"

lemma queues_load_less:
  assumes "finite (dom f)" "f q = Some u" "queue_load u' < queue_load u"
  shows "(\<Sum>x \<in> dom (f(q \<mapsto> u')). queue_load (the ((f(q \<mapsto> u')) x))) < (\<Sum>x \<in> dom f. queue_load (the (f x)))"
proof -
  have "dom (f(q \<mapsto> u')) = dom f" using assms(2) by auto
  moreover have "(\<Sum>x \<in> dom f. queue_load (the ((f(q \<mapsto> u')) x))) < (\<Sum>x \<in> dom f. queue_load (the (f x)))"
    by (rule sum_strict_mono_ex1) (use assms in \<open>auto intro!: bexI [of _ q]\<close>)
  ultimately show ?thesis by simp
qed

lemma work_decreases: "work_step cfg run d d' \<Longrightarrow> bounded d \<Longrightarrow> workload d' < workload d"
proof (induction rule: work_step.induct)
  case (take d q u m c)
  have "queue_load \<lparr>qu_chan = c, qu_worker = QBusy m\<rparr> < queue_load u"
    using take.hyps(2) chan.recv_contents [OF take.hyps(3)] by (simp add: queue_load_def)
  with take.prems take.hyps(1) queues_load_less [of "dp_queue d" q u] show ?case
    by (simp add: workload_def bounded_def)
next
  case (handle d q u m)
  then have "queue_load (u\<lparr>qu_worker := QIdle\<rparr>) < queue_load u" by (simp add: queue_load_def)
  with handle.prems handle.hyps(1) queues_load_less [of "dp_queue d" q u] show ?case
    by (simp add: workload_def bounded_def handle_def)
next
  case (exit d q u)
  then have "queue_load (u\<lparr>qu_worker := QExited\<rparr>) < queue_load u" by (simp add: queue_load_def)
  with exit.prems exit.hyps(1) queues_load_less [of "dp_queue d" q u] show ?case
    by (simp add: workload_def bounded_def)
next
  case (conn_wake d x w)
  then show ?case using chan.recv_contents [OF conn_wake.hyps(2)] by (simp add: workload_def)
next
  case (conn_take d k m)
  have "k \<in> dom (dp_connLatest d)" "finite (dom (dp_connLatest d))"
    using conn_take by (auto simp: bounded_def)
  then have "card (dom (dp_connLatest d)) = Suc (card (dom (dp_connLatest d) - {k}))"
    by (metis card_Suc_Diff1)
  with conn_take.hyps(1) show ?case by (simp add: workload_def)
qed (simp_all add: workload_def handle_def)

lemma work_bounded: "bounded d \<Longrightarrow> (work_step cfg run ^^ n) d d' \<Longrightarrow> n + workload d' \<le> workload d \<and> bounded d'"
proof (induction n arbitrary: d')
  case (Suc n)
  then obtain e where e: "(work_step cfg run ^^ n) d e" "work_step cfg run e d'" by auto
  with Suc.IH [of e] Suc.prems(1) have "n + workload e \<le> workload d" "bounded e" by auto
  with work_decreases [OF e(2)] bounded_work [OF e(2)] show ?case by simp
qed simp

subsection \<open>Progress\<close>

text \<open>A running dispatcher whose workers cannot step, with no call in progress, has handled everything.\<close>

lemma stuck_queue:
  assumes "dispatching cfg run s0 d" "dp_open d" "\<nexists>d'. work_step cfg run d d'"
  shows "waiting d q = [] \<and> in_hand d q = []"
proof (cases "dp_queue d q")
  case None
  then show ?thesis by (simp add: content_defs)
next
  case (Some u)
  have "qu_worker u \<noteq> QExited"
    using dispatching_running [OF assms(1)] assms(2) Some by (auto simp: running_ok_def)
  moreover have "qu_worker u \<noteq> QBusy m" for m using assms(3) work_step.handle [OF Some] by blast
  ultimately have idle: "qu_worker u = QIdle" by (cases "qu_worker u") auto
  then have "chan_recv (qu_chan u) = None"
    using assms(3) work_step.take [OF Some] by (metis option.exhaust surj_pair)
  with idle Some show ?thesis by (simp add: content_defs chan.recv_empty)
qed

lemma stuck_conn:
  assumes "dispatching cfg run s0 d" "dp_open d" "dp_calls d = {#}" "\<nexists>d'. work_step cfg run d d'"
  shows "dp_connLatest d = Map.empty \<and> conn_busy (dp_connWorker d) = []"
proof -
  have "dp_connWorker d \<noteq> CExited"
    using dispatching_running [OF assms(1)] assms(2) by (auto simp: running_ok_def)
  moreover have "dp_connWorker d \<noteq> CBusy m" for m using assms(4) work_step.conn_handle by blast
  moreover have "dp_connWorker d \<noteq> CDraining"
  proof
    assume w: "dp_connWorker d = CDraining"
    show False
    proof (cases "dp_connLatest d = Map.empty")
      case True
      then show False using assms(4) work_step.conn_empty [OF w] by blast
    next
      case False
      then obtain k m where "dp_connLatest d k = Some m" by (auto simp: fun_eq_iff)
      then show False using assms(4) work_step.conn_take [OF w] by blast
    qed
  qed
  ultimately have w: "dp_connWorker d = CWaiting" by (cases "dp_connWorker d") auto
  have "chan_recv (dp_connWake d) = None"
    using assms(4) work_step.conn_wake [OF w] by (metis option.exhaust surj_pair)
  then have "ch_buf (dp_connWake d) = []" by (rule chan.recv_empty)
  with dispatching_awake [OF assms(1)] assms(2,3) w show ?thesis by (simp add: awake_def)
qed

lemma work_run:
  assumes "(work_step cfg run)\<^sup>*\<^sup>* d d'" "dispatching cfg run s0 d"
  shows "dispatching cfg run s0 d' \<and> dp_open d' = dp_open d \<and> dp_calls d' = dp_calls d \<and>
    lg_accepted d' = lg_accepted d \<and> lg_put d' = lg_put d"
  using assms
proof (induction rule: rtranclp_induct)
  case (step e d')
  then show ?case
    using work_step_frame [OF step.hyps(2)] dispatching.work [OF _ step.hyps(2)] by simp
qed simp

lemma work_drains:
  assumes "dispatching cfg run s0 d" "dp_open d" "dp_calls d = {#}"
    and "(work_step cfg run)\<^sup>*\<^sup>* d d'" "\<nexists>d''. work_step cfg run d' d''"
  shows "of_queue q (lg_handled d') = of_queue q (lg_accepted d) \<and>
    (of_conn k (lg_put d) \<noteq> [] \<longrightarrow> of_conn k (lg_handled d') \<noteq> [] \<and>
       last (of_conn k (lg_handled d')) = last (of_conn k (lg_put d)))"
proof -
  note r = work_run [OF assms(4,1)]
  have "waiting d' q = []" "in_hand d' q = []"
    using stuck_queue [of cfg run s0 d' q] r assms(2,5) by simp_all
  moreover have "dp_connLatest d' = Map.empty" "conn_busy (dp_connWorker d') = []"
    using stuck_conn [of cfg run s0 d'] r assms(2,3,5) by simp_all
  moreover have "fifo d'" "latest_wins d'"
    using dispatching_fifo [of cfg run s0 d'] dispatching_latest [of cfg run s0 d'] r by simp_all
  ultimately show ?thesis using r assms(2)
    by (auto simp: fifo_def latest_wins_def conn_seen_def pending_def)
qed

text \<open>The workers come to rest from every reachable state.\<close>

lemma bounded_runs_end:
  assumes "\<forall>n d'. (R ^^ n) d d' \<longrightarrow> n \<le> B"
  shows "\<exists>d'. R\<^sup>*\<^sup>* d d' \<and> (\<nexists>d''. R d' d'')"
proof -
  have "\<exists>d'. (R ^^ 0) d d'" by auto
  then obtain n d' where run: "(R ^^ n) d d'" and most: "\<And>k d''. (R ^^ k) d d'' \<Longrightarrow> k \<le> n"
    using Nat.ex_has_greatest_nat [of "\<lambda>n. \<exists>d'. (R ^^ n) d d'" 0 B] assms by blast
  have "\<not> R d' d''" for d'' using most [of "Suc n" d''] run by auto
  with run show ?thesis by (blast intro: relpowp_imp_rtranclp)
qed

lemma workers_come_to_rest:
  assumes "dispatching cfg run s0 d"
  shows "\<exists>d'. (work_step cfg run)\<^sup>*\<^sup>* d d' \<and> (\<nexists>d''. work_step cfg run d' d'')"
proof (rule bounded_runs_end)
  show "\<forall>n d'. (work_step cfg run ^^ n) d d' \<longrightarrow> n \<le> workload d"
    using work_bounded [OF dispatching_bounded [OF assms]] by fastforce
qed

end
