(* ===== verification/Mqtt_Dispatch_Correct.thy ===== *)
theory Mqtt_Dispatch_Correct
  imports Mqtt_Dispatch_Live
begin

text \<open>
  The properties of the inbound dispatcher, over every reachable state of its interleavings, and
  a concrete run for their witnesses.
\<close>

lemma dispatching_qsize: "dispatching cfg run s0 d \<Longrightarrow> dp_qsize d = nat (queueSize cfg)"
proof (induction rule: dispatching.induct)
  case (call d d')
  from call.hyps(2) call.IH show ?case
    by (induction rule: call_step.induct)
      (auto simp: abandon_def discard_def put_latest_def queueFor_None elim!: pushE queueFor_SomeE)
next
  case (work d d')
  from work.hyps(2) work.IH show ?case by (induction rule: work_step.induct) (auto simp: handle_def)
next
  case (stop d d')
  from stop.hyps(2) stop.IH show ?case by (induction rule: stop_step.induct) auto
qed (simp add: startDispatchLocked_def Let_def)

subsection \<open>A concrete run\<close>

text \<open>A message of the vehicle lane, enqueued on a fresh dispatcher, is accepted.\<close>

lemma first_accepted:
  assumes "classifyInbound (in_topic (m :: inbound)) = (laneAGV, k)"
  shows "\<exists>d. dispatching cfg run s d \<and> dp_open d \<and> lg_accepted d = [m]"
proof -
  let ?d0 = "startDispatchLocked cfg s"
  let ?d1 = "?d0\<lparr>dp_calls := {#FindQueue m True#}, lg_offered := [m]\<rparr>"
  let ?n = "nat (queueSize cfg)"
  let ?d2 = "?d1\<lparr>dp_calls := {#TrySend (Shard k) m True#},
    dp_queue := [TopicQueue \<mapsto> new_queue ?n, Shard k \<mapsto> new_queue ?n]\<rparr>"
  have size: "0 < ?n" by (auto simp: queueSize_def defaultInboundQueue_def)
  have start: "dp_qsize ?d0 = ?n" "dp_open ?d0" "dp_queue ?d0 = [TopicQueue \<mapsto> new_queue ?n]" "dp_calls ?d0 = {#}"
    "lg_offered ?d0 = []" "lg_accepted ?d0 = []"
    by (simp_all add: startDispatchLocked_def Let_def)
  have "first_call ?d0 m = FindQueue m True" using assms start by (simp add: first_call_def)
  then have 1: "dispatching cfg run s ?d1"
    using dispatching.call [OF dispatching.start call_step.call [of cfg ?d0 m]] start by simp
  have "call_step cfg ?d1 ?d2"
    by (rule call_step.find_queue [where M = "{#}" and m = m and b = True and q = "Shard k"])
      (use assms start in \<open>simp_all add: queueFor_def agvQueue_def\<close>)
  with 1 have 2: "dispatching cfg run s ?d2" by (rule dispatching.call)
  obtain d3 where push: "push (Shard k) m (?d2\<lparr>dp_calls := {#}\<rparr>) = Some d3"
    "dp_open d3" "lg_accepted d3 = [m]"
    using size start by (simp add: push_def new_queue_def chan_ops chan_make_def)
  have "call_step cfg ?d2 d3"
    by (rule call_step.send [where M = "{#}" and m = m and b = True and q = "Shard k"]) (use push in simp_all)
  with 2 have "dispatching cfg run s d3" by (rule dispatching.call)
  with push(2,3) show ?thesis by (intro exI conjI)
qed

definition ex_mqtt :: "(nat, client_callback) mqtt_config" where
  "ex_mqtt = \<lparr>mc_Broker = ''b'', mc_ClientID = ''c'', mc_Username = [], mc_Password = [], mc_QoS = 1,
     mc_QoSExplicit = False, mc_KeepAlive = 0, mc_ConnectTimeout = 0, mc_CleanSession = True,
     mc_AutoReconnect = True, mc_TLS = None, mc_Will = None, mc_InboundQueueSize = 2,
     mc_OnInboundDrop = None, mc_OnHandlerError = None, mc_OnConnectionLost = None, mc_OnReconnect = None\<rparr>"

definition ex_count :: "nat handler_run" where
  "ex_count m s = (Suc s, None)"

definition ex_msg :: "string \<Rightarrow> inbound" where
  "ex_msg t = \<lparr>in_topic = t, in_payload = [], in_handler = OnRawMessage, in_receivedAt = 1\<rparr>"

definition ex_state :: inbound where "ex_state = ex_msg ''u/v/M/S/state''"
definition ex_conn :: inbound where "ex_conn = ex_msg ''u/v/M/S/connection''"

text \<open>A state message accepted into the queue of its vehicle, then a connection message put.\<close>

definition ex_disp1 :: "nat dispatcher" where
  "ex_disp1 = (startDispatchLocked ex_mqtt 0)\<lparr>
     dp_queue := [TopicQueue \<mapsto> new_queue 2,
       Shard ''M/S'' \<mapsto> \<lparr>qu_chan = \<lparr>ch_cap = 2, ch_buf = [ex_state]\<rparr>, qu_worker = QIdle\<rparr>],
     lg_offered := [ex_state], lg_accepted := [ex_state]\<rparr>"

definition ex_disp2 :: "nat dispatcher" where
  "ex_disp2 = ex_disp1\<lparr>dp_connLatest := [''M/S'' \<mapsto> ex_conn],
     dp_connWake := \<lparr>ch_cap = 1, ch_buf = [()]\<rparr>,
     lg_offered := [ex_state, ex_conn], lg_put := [ex_conn]\<rparr>"

lemma ex_routes [simp]:
  "classifyInbound ''u/v/M/S/state'' = (laneAGV, ''M/S'')"
  "classifyInbound ''u/v/M/S/connection'' = (laneConnection, ''M/S'')"
  "route ex_state = Some (Shard ''M/S'')" "conn_key ex_conn = Some ''M/S''" "conn_key ex_state = None"
  "in_topic ex_state = ''u/v/M/S/state''" "in_topic ex_conn = ''u/v/M/S/connection''"
  by (simp_all add: classifyInbound_def route_def conn_key_def ex_state_def ex_conn_def ex_msg_def)

lemma ex_start_fields [simp]:
  "dp_qsize (startDispatchLocked ex_mqtt s) = 2" "dp_open (startDispatchLocked ex_mqtt s)"
  "dp_queue (startDispatchLocked ex_mqtt s) = [TopicQueue \<mapsto> new_queue 2]"
  "dp_calls (startDispatchLocked ex_mqtt s) = {#}" "dp_connLatest (startDispatchLocked ex_mqtt s) = Map.empty"
  "dp_connWake (startDispatchLocked ex_mqtt s) = chan_make 1"
  "lg_offered (startDispatchLocked ex_mqtt s) = []" "lg_accepted (startDispatchLocked ex_mqtt s) = []"
  "lg_put (startDispatchLocked ex_mqtt s) = []" "lg_handled (startDispatchLocked ex_mqtt s) = []"
  by (simp_all add: startDispatchLocked_def Let_def queueSize_def ex_mqtt_def)

lemma ex_run1: "dispatching ex_mqtt ex_count 0 ex_disp1"
proof -
  let ?d0 = "startDispatchLocked ex_mqtt 0 :: nat dispatcher"
  let ?d1 = "?d0\<lparr>dp_calls := {#FindQueue ex_state True#}, lg_offered := [ex_state]\<rparr>"
  have 1: "dispatching ex_mqtt ex_count 0 ?d1"
    using dispatching.call [OF dispatching.start call_step.call [of ex_mqtt ?d0 ex_state]]
    by (simp add: first_call_eq)
  let ?d2 = "?d1\<lparr>dp_calls := {#TrySend (Shard ''M/S'') ex_state True#},
    dp_queue := [TopicQueue \<mapsto> new_queue 2, Shard ''M/S'' \<mapsto> new_queue 2]\<rparr>"
  have "call_step ex_mqtt ?d1 ?d2"
    by (rule call_step.find_queue [where M = "{#}" and m = ex_state and b = True and q = "Shard ''M/S''"])
      (simp_all add: queueFor_def agvQueue_def)
  with 1 have 2: "dispatching ex_mqtt ex_count 0 ?d2" by (rule dispatching.call)
  have "call_step ex_mqtt ?d2 ex_disp1"
    by (rule call_step.send [where M = "{#}" and m = ex_state and b = True and q = "Shard ''M/S''"])
      (simp_all add: push_def ex_disp1_def new_queue_def chan_ops chan_make_def)
  with 2 show ?thesis by (rule dispatching.call)
qed

lemma ex_run2: "dispatching ex_mqtt ex_count 0 ex_disp2"
proof -
  let ?d1 = "ex_disp1\<lparr>dp_calls := {#PutConn ''M/S'' ex_conn#}, lg_offered := [ex_state, ex_conn]\<rparr>"
  have "call_step ex_mqtt ex_disp1 ?d1"
    using call_step.call [of ex_mqtt ex_disp1 ex_conn]
    by (simp add: first_call_eq) (simp add: ex_disp1_def)
  with ex_run1 have 1: "dispatching ex_mqtt ex_count 0 ?d1" by (rule dispatching.call)
  let ?d2 = "put_latest ''M/S'' ex_conn (?d1\<lparr>dp_calls := {#SendWake#}\<rparr>)"
  have "call_step ex_mqtt ?d1 ?d2"
    by (rule call_step.put) (simp_all add: ex_disp1_def)
  with 1 have 2: "dispatching ex_mqtt ex_count 0 ?d2" by (rule dispatching.call)
  have "ex_disp2 = send_wake (?d2\<lparr>dp_calls := {#}\<rparr>)"
    by (simp add: ex_disp2_def send_wake_def put_latest_def ex_disp1_def chan_ops chan_make_def)
  then have "call_step ex_mqtt ?d2 ex_disp2"
    using call_step.wake [of ?d2 "{#}" ex_mqtt] by (simp add: put_latest_def)
  with 2 show ?thesis by (rule dispatching.call)
qed

lemma ex_disp2_fields [simp]:
  "dp_open ex_disp2" "dp_calls ex_disp2 = {#}" "lg_accepted ex_disp2 = [ex_state]"
  "lg_put ex_disp2 = [ex_conn]" "lg_handled ex_disp2 = []" "waiting ex_disp2 (Shard ''M/S'') = [ex_state]"
  by (simp_all add: ex_disp2_def ex_disp1_def waiting_def)

subsection \<open>Properties\<close>

text \<open>The messages of one vehicle on its three queued channels.\<close>

definition from_vehicle :: "resolver \<Rightarrow> string \<Rightarrow> string \<Rightarrow> inbound \<Rightarrow> bool" where
  "from_vehicle r mfr sn m =
     (case Parse r (in_topic m) of
        Inl e \<Rightarrow> False
      | Inr p \<Rightarrow> pt_Manufacturer p = mfr \<and> pt_SerialNumber p = sn \<and>
          pt_Channel p \<in> {ChannelState, ChannelVisualization, ChannelFactsheet})"

lemma from_vehicle_route: "from_vehicle r mfr sn m \<Longrightarrow> route m = Some (Shard (mfr @ ''/'' @ sn))"
  using classify_parsed(1) [of r "in_topic m"]
  by (auto simp: from_vehicle_def route_def channel_defs split: sum.splits if_splits)

lemma from_vehicle_queue:
  "filter (from_vehicle r mfr sn) xs = filter (from_vehicle r mfr sn) (of_queue (Shard (mfr @ ''/'' @ sn)) xs)"
  by (induction xs) (auto simp: of_queue_def dest: from_vehicle_route)

text \<open>
  C4. The state, visualization and factsheet messages of one vehicle are handled in the order in
  which they were accepted, none of them lost or handled twice: in every interleaving of calls,
  workers and stop, the accepted ones are the handled ones followed by the one in hand and the
  waiting ones.
\<close>
theorem vehicle_messages_in_order:
  assumes "dispatching cfg run s0 d"
  shows "filter (from_vehicle r mfr sn) (lg_accepted d) =
    filter (from_vehicle r mfr sn) (lg_handled d) @
    filter (from_vehicle r mfr sn) (in_hand d (Shard (mfr @ ''/'' @ sn)) @ waiting d (Shard (mfr @ ''/'' @ sn)))"
  using dispatching_fifo [OF assms]
  by (simp add: fifo_def from_vehicle_queue [of r mfr sn "lg_accepted d"]
      from_vehicle_queue [of r mfr sn "lg_handled d"] del: filter_append)
    (simp add: from_vehicle_queue [of r mfr sn "lg_handled d", symmetric])

theorem vehicle_messages_in_order_witness:
  "filter (from_vehicle \<lparr>res_Interface = [], res_Version = []\<rparr> ''M'' ''S'') (lg_accepted ex_disp2) =
     filter (from_vehicle \<lparr>res_Interface = [], res_Version = []\<rparr> ''M'' ''S'')
       (in_hand ex_disp2 (Shard ''M/S'') @ [ex_state])"
  using vehicle_messages_in_order [OF ex_run2, of "\<lparr>res_Interface = [], res_Version = []\<rparr>" "''M''" "''S''"]
  by simp

text \<open>
  C25. The queues stay within their bounds: no queue ever holds more messages than the configured
  size (256 when none is set), a worker has at most one message in hand, at most one wake-up is
  pending on the connection lane.
\<close>
theorem dispatch_bounded:
  assumes "dispatching cfg run s0 d"
  shows "0 < queueSize cfg \<and> int (length (waiting d q)) \<le> queueSize cfg \<and>
    length (in_hand d q) \<le> 1 \<and> length (ch_buf (dp_connWake d)) \<le> 1"
proof -
  have "0 < queueSize cfg" by (simp add: queueSize_def defaultInboundQueue_def)
  moreover have "length (waiting d q) \<le> nat (queueSize cfg)"
  proof (cases "dp_queue d q")
    case (Some u)
    then have "queue_within (dp_qsize d) u" using dispatching_bounded [OF assms] by (simp add: bounded_def)
    then show ?thesis
      using Some dispatching_qsize [OF assms] by (simp add: waiting_def queue_within_def chan.within_def)
  qed (simp add: waiting_def)
  moreover have "length (in_hand d q) \<le> 1"
  proof (cases "dp_queue d q")
    case (Some u)
    then show ?thesis by (cases "qu_worker u") (simp_all add: in_hand_def)
  qed (simp add: in_hand_def)
  ultimately show ?thesis
    using dispatching_bounded [OF assms] by (simp add: bounded_def chan.within_def)
qed

theorem dispatch_bounded_witness:
  "length (waiting ex_disp2 (Shard ''M/S'')) = 1 \<and> int (length (waiting ex_disp2 (Shard ''M/S''))) \<le> 2"
  using dispatch_bounded [OF ex_run2, of "Shard ''M/S''"]
  by (simp add: queueSize_def ex_mqtt_def)

text \<open>
  C5. Every message handed to enqueue is accounted for: it was accepted by a queue, put on the
  connection lane, discarded, abandoned, or its call is still in progress. Only visualization
  messages are discarded, and nothing is abandoned while the dispatcher runs: backpressure loses
  no other message.
\<close>
theorem only_visualization_discarded:
  assumes "dispatching cfg run s0 d"
  shows "mset (lg_offered d) = mset (lg_accepted d) + mset (lg_put d) + mset (lg_discarded d) +
      mset (lg_abandoned d) + in_calls d \<and>
    (\<forall>m \<in> set (lg_discarded d). droppableTopic (in_topic m)) \<and>
    (dp_open d \<longrightarrow> lg_abandoned d = [])"
  using dispatching_accounted [OF assms] dispatching_running [OF assms]
  by (simp add: accounted_def running_ok_def)

theorem only_visualization_discarded_witness:
  "mset (lg_offered ex_disp2) = {#ex_state#} + {#ex_conn#} + mset (lg_discarded ex_disp2)"
  using only_visualization_discarded [OF ex_run2] by (simp add: in_calls_def)

text \<open>
  C6. On the connection lane the latest state wins: the connection messages of a vehicle that are
  handled are a subsequence of those that came in, and while the dispatcher runs, the last one
  that came in is the last one handled, in hand or pending.
\<close>
theorem connection_latest_wins:
  assumes "dispatching cfg run s0 d"
  shows "subseq (of_conn k (lg_handled d)) (of_conn k (lg_put d)) \<and>
    (dp_open d \<longrightarrow> of_conn k (lg_put d) \<noteq> [] \<longrightarrow>
       conn_seen d k \<noteq> [] \<and> last (conn_seen d k) = last (of_conn k (lg_put d)))"
  using dispatching_latest [OF assms]
  by (auto simp: latest_wins_def conn_seen_def intro: subseq_front)

theorem connection_latest_wins_witness:
  "last (conn_seen ex_disp2 ''M/S'') = ex_conn"
  using connection_latest_wins [OF ex_run2, of "''M/S''"] by simp

text \<open>
  C3. The backlog of a running dispatcher drains: once no call is in progress, the workers take at
  most as many steps as the workload measures, and when they can take no more, every accepted
  message has been handled, in order, and for every vehicle the last connection message that came
  in is the last one handled. In particular no wake-up is ever lost.
\<close>
theorem backlog_drains:
  assumes "dispatching cfg run s0 d" and "dp_open d" and "dp_calls d = {#}"
  shows "(\<forall>n d'. (work_step cfg run ^^ n) d d' \<longrightarrow> n \<le> workload d) \<and>
    (\<forall>d' q k. (work_step cfg run)\<^sup>*\<^sup>* d d' \<longrightarrow> (\<nexists>d''. work_step cfg run d' d'') \<longrightarrow>
       of_queue q (lg_handled d') = of_queue q (lg_accepted d) \<and>
       (of_conn k (lg_put d) \<noteq> [] \<longrightarrow> of_conn k (lg_handled d') \<noteq> [] \<and>
          last (of_conn k (lg_handled d')) = last (of_conn k (lg_put d))))"
proof (intro conjI allI impI)
  fix n d'
  assume "(work_step cfg run ^^ n) d d'"
  from work_bounded [OF dispatching_bounded [OF assms(1)] this] show "n \<le> workload d" by simp
next
  fix d' q k
  assume run: "(work_step cfg run)\<^sup>*\<^sup>* d d'" and stuck: "\<nexists>d''. work_step cfg run d' d''"
  note drained = work_drains [OF assms run stuck]
  show "of_queue q (lg_handled d') = of_queue q (lg_accepted d)" using drained [of q k] by simp
  assume "of_conn k (lg_put d) \<noteq> []"
  then show "of_conn k (lg_handled d') \<noteq> []"
    "last (of_conn k (lg_handled d')) = last (of_conn k (lg_put d))" using drained [of q k] by simp_all
qed

theorem backlog_drains_witness:
  "\<exists>d'. (work_step ex_mqtt ex_count)\<^sup>*\<^sup>* ex_disp2 d' \<and>
     of_queue (Shard ''M/S'') (lg_handled d') = [ex_state] \<and>
     last (of_conn ''M/S'' (lg_handled d')) = ex_conn"
proof -
  note drains = backlog_drains [OF ex_run2 ex_disp2_fields(1,2)]
  obtain d' where d': "(work_step ex_mqtt ex_count)\<^sup>*\<^sup>* ex_disp2 d'" "\<nexists>d''. work_step ex_mqtt ex_count d' d''"
    using workers_come_to_rest [OF ex_run2] by blast
  with conjunct2 [OF drains] have "of_queue (Shard ''M/S'') (lg_handled d') = of_queue (Shard ''M/S'') [ex_state]"
    "of_conn ''M/S'' [ex_conn] \<noteq> [] \<longrightarrow> last (of_conn ''M/S'' (lg_handled d')) = last (of_conn ''M/S'' [ex_conn])"
    by auto
  with d'(1) show ?thesis by (auto simp: of_queue_def of_conn_def conn_key_def)
qed

end
