(* ===== verification/Inbound_Mqtt.thy ===== *)
theory Inbound_Mqtt
  imports Inbound_Correct Mqtt_Dispatch_Correct Outbound_Mqtt
begin

text \<open>
  The whole inbound path: messages that the MQTT transport enqueues, the dispatcher of
  Mqtt_Dispatch in any interleaving, the adapter, and the client's onRawMessage or dispatchTopic.
  The world of the dispatcher is the client together with the world of its callbacks. While it
  runs, nobody registers handlers on the client, and a handler runs as one step.
\<close>

subsection \<open>The client behind the dispatcher\<close>

definition run_raw ::
  "'s inbound_env \<Rightarrow> raw_handler \<Rightarrow> goctx \<Rightarrow> string \<Rightarrow> bytes \<Rightarrow> ('s, 'u) client \<times> 's \<Rightarrow>
     (('s, 'u) client \<times> 's) \<times> goerr option" where
  "run_raw ie h ctx topic payload w =
     (case h of
        OnRawMessage \<Rightarrow> (case onRawMessage ie ctx topic payload (fst w) (snd w) of (c, s, r) \<Rightarrow> ((c, s), r))
      | DispatchTopic th \<Rightarrow>
          (case dispatchTopic ie ctx topic payload th (fst w) (snd w) of (s, r) \<Rightarrow> ((fst w, s), r)))"

definition inbound_run :: "'s inbound_env \<Rightarrow> goctx \<Rightarrow> (('s, 'u) client \<times> 's) handler_run" where
  "inbound_run ie ctx = adapter_run (run_raw ie) ctx"

text \<open>The transport's configuration of New, its callbacks acting on the second half of the world.\<close>

definition inbound_config :: "('s, 'u) client \<Rightarrow> (('s, 'u) client \<times> 's, client_callback) mqtt_config" where
  "inbound_config c =
     (let m = client_mqtt_config (cl_cfg c) in
      \<lparr>mc_Broker = mc_Broker m, mc_ClientID = mc_ClientID m, mc_Username = mc_Username m,
       mc_Password = mc_Password m, mc_QoS = mc_QoS m, mc_QoSExplicit = mc_QoSExplicit m,
       mc_KeepAlive = mc_KeepAlive m, mc_ConnectTimeout = mc_ConnectTimeout m,
       mc_CleanSession = mc_CleanSession m, mc_AutoReconnect = mc_AutoReconnect m, mc_TLS = mc_TLS m,
       mc_Will = mc_Will m, mc_InboundQueueSize = mc_InboundQueueSize m,
       mc_OnInboundDrop = map_option (\<lambda>f topic reason w. (fst w, f topic reason (snd w))) (mc_OnInboundDrop m),
       mc_OnHandlerError = None, mc_OnConnectionLost = None, mc_OnReconnect = None\<rparr>)"

lemma inbound_config_fields [simp]:
  "mc_OnHandlerError (inbound_config c) = None"
  "mc_OnInboundDrop (inbound_config c) = map_option (\<lambda>f topic reason w. (fst w, f topic reason (snd w)))
     (mapInboundDrop (cfg_OnInboundDrop (cl_cfg c)))"
  by (simp_all add: inbound_config_def client_mqtt_config_def Let_def)

subsection \<open>One message\<close>

text \<open>An inbound message changes the client only in the queue of the auto-tracking worker.\<close>

definition same_settings :: "('s, 'u) client \<Rightarrow> ('s, 'u) client \<Rightarrow> bool" where
  "same_settings c c' \<longleftrightarrow> (\<exists>j. c' = c\<lparr>cl_fleetJobs := j\<rparr>)"

lemma same_settings_refl [simp]: "same_settings c c"
  unfolding same_settings_def by (rule exI [of _ "cl_fleetJobs c"]) (cases c, simp)

lemma same_settings_jobs [simp]: "same_settings c (c\<lparr>cl_fleetJobs := j\<rparr>)"
  by (auto simp: same_settings_def)

lemma same_settings_trans: "same_settings a b \<Longrightarrow> same_settings b c \<Longrightarrow> same_settings a c"
  by (auto simp: same_settings_def)

lemma same_settings_fields:
  "same_settings c c' \<Longrightarrow> cl_cfg c' = cl_cfg c \<and> cl_topics c' = cl_topics c \<and> cl_extensions c' = cl_extensions c \<and>
    cl_bus c' = cl_bus c \<and> cl_stateHandlers c' = cl_stateHandlers c \<and> cl_onHandlerError c' = cl_onHandlerError c"
  by (auto simp: same_settings_def)

lemma schedule_settings: "scheduleAutoTrack pd env st c s = (c', s') \<Longrightarrow> same_settings c c'"
  by (auto simp: scheduleAutoTrack_def Let_def split: if_splits option.splits)

lemma dispatch_settings: "dispatch_channel ie ctx c env s = (c', r) \<Longrightarrow> same_settings c c'"
  by (auto simp: dispatch_channel_def Let_def invokeConnection_def split: if_splits sum.splits prod.splits
    dest: schedule_settings)

lemma onRawMessage_settings: "onRawMessage ie ctx t p c s = (c', r) \<Longrightarrow> same_settings c c'"
  by (auto simp: onRawMessage_def Let_def split: prod.splits sum.splits option.splits dest: dispatch_settings)

text \<open>
  An observation of the world, obs, is what the state handlers were called with: each call appends
  the topic and payload of its envelope and no other handler or callback changes it.
\<close>

type_synonym delivery = "string \<times> bytes"

definition sees_states :: "('s \<Rightarrow> delivery list) \<Rightarrow> 's user_code \<Rightarrow> bool" where
  "sees_states obs uc \<longleftrightarrow>
     (\<forall>h ctx env m s. obs (fst (run_state uc h ctx env m s)) = obs s @ [(env_Topic env, env_Raw env)]) \<and>
     (\<forall>h ctx env m s. obs (fst (run_connection uc h ctx env m s)) = obs s) \<and>
     (\<forall>h ctx env m s. obs (fst (run_visualization uc h ctx env m s)) = obs s) \<and>
     (\<forall>h ctx env m s. obs (fst (run_factsheet uc h ctx env m s)) = obs s) \<and>
     (\<forall>h ctx env s. obs (fst (run_topic uc h ctx env s)) = obs s)"

definition callbacks_blind :: "('s \<Rightarrow> delivery list) \<Rightarrow> ('s, 'u) client \<Rightarrow> bool" where
  "callbacks_blind obs c \<longleftrightarrow>
     (\<forall>x. callbacks_keep (\<lambda>s. obs s = x) c) \<and>
     (\<forall>f topic reason s. cfg_OnInboundDrop (cl_cfg c) = Some f \<longrightarrow> obs (f topic reason s) = obs s)"

text \<open>The state messages that onRawMessage gives to the handlers.\<close>

definition deliverable :: "decoders \<Rightarrow> ('s, 'u) client \<Rightarrow> string \<Rightarrow> bytes \<Rightarrow> bool" where
  "deliverable dec c topic payload \<longleftrightarrow>
     (case Parse (cl_topics c) topic of
        Inl e \<Rightarrow> False
      | Inr p \<Rightarrow>
         pt_Channel p = ChannelState \<and> \<not> isl (dec_state dec payload) \<and>
         (case cl_extensions c of None \<Rightarrow> True
          | Some reg \<Rightarrow> \<not> isl (Registry_Apply (Some reg) ChannelState payload)) \<and>
         (case dec_header dec payload of Inl e \<Rightarrow> True
          | Inr h \<Rightarrow> \<not> strictIdentity (cl_cfg c) \<or>
              (h_Manufacturer h, h_SerialNumber h) \<in> {([], []), (pt_Manufacturer p, pt_SerialNumber p)}))"

lemma blind_keep:
  assumes "callbacks_blind obs c"
  shows "obs (noteInbound clock c env s) = obs s"
    "cl_bus c = None \<Longrightarrow> obs (reportDecode ctx c env err s) = obs s"
    "obs (fst (finishHandler c env r)) = obs (fst r)"
    "obs (snd (applyInboundPolicy c env s)) = obs s"
    "scheduleAutoTrack pd env st c s = (c', s') \<Longrightarrow> obs s' = obs s \<and> callbacks_blind obs c'"
proof -
  have k: "callbacks_keep (\<lambda>s'. obs s' = x) c" for x using assms by (simp add: callbacks_blind_def)
  show "obs (noteInbound clock c env s) = obs s" by (rule note_keep [OF k refl])
  show "cl_bus c = None \<Longrightarrow> obs (reportDecode ctx c env err s) = obs s" by (rule report_keep [OF k _ refl]) (simp add: bus_keeps_def)
  show "obs (fst (finishHandler c env r)) = obs (fst r)" by (rule finish_keep [OF k refl])
  show "obs (snd (applyInboundPolicy c env s)) = obs s" by (rule policy_state [OF k refl])
  assume sch: "scheduleAutoTrack pd env st c s = (c', s')"
  obtain j where "c' = c\<lparr>cl_fleetJobs := j\<rparr>" using schedule_settings [OF sch] by (auto simp: same_settings_def)
  with assms schedule_keep [OF k refl sch] show "obs s' = obs s \<and> callbacks_blind obs c'"
    by (simp add: callbacks_blind_def callbacks_keep_def)
qed

lemma ChannelConnection_not_State: "ChannelConnection \<noteq> ChannelState" by (simp add: channel_defs)

lemma dispatch_obs:
  assumes "callbacks_blind obs c" "sees_states obs (ie_uc ie)" "cl_bus c = None" "cl_stateHandlers c = [h]"
    and "dispatch_channel ie ctx c env s = (c', s', r)"
  shows "obs s' = obs s @ (if env_Channel env = ChannelState \<and> \<not> isl (dec_state (ie_dec ie) (env_Raw env))
      then [(env_Topic env, env_Raw env)] else []) \<and> callbacks_blind obs c'"
proof -
  have blind': "callbacks_blind obs c'"
    using dispatch_settings [OF assms(5)] assms(1)
    by (auto simp: same_settings_def callbacks_blind_def callbacks_keep_def)
  have quiet: "obs (fst (run_handlers (\<lambda>h. run h) hs s)) = obs s"
    if "\<And>h s. obs (fst (run h s)) = obs s" for run hs and s :: 'a
    by (rule run_handlers_keep [of _ "\<lambda>s'. obs s' = obs s"]) (use that in auto)
  note sees = assms(2) [unfolded sees_states_def]
  have state_obs: "obs (fst (invokeState (ie_uc ie) ctx c env m s)) = obs s @ [(env_Topic env, env_Raw env)]" for m
    using sees by (simp add: invokeState_def assms(3,4) split: prod.split option.split) (metis fst_conv)
  have viz_obs: "obs (fst (invokeVisualization (ie_uc ie) ctx c env m s)) = obs s" for m
    unfolding invokeVisualization_def assms(3) option.case by (rule quiet) (use sees in simp)
  have fs_obs: "obs (fst (invokeFactsheet (ie_uc ie) ctx c env m s)) = obs s" for m
    unfolding invokeFactsheet_def assms(3) option.case by (rule quiet) (use sees in simp)
  have conn_obs: "obs (fst (finishHandler c1 env q)) = obs s"
    if inv: "invokeConnection (ie_pick_done ie) (ie_uc ie) ctx c env m s = (c1, q)" for m c1 q
  proof -
    obtain c0 s1 where sch0: "scheduleAutoTrack (ie_pick_done ie) env (cn_ConnectionState m) c s = (c0, s1)"
      by fastforce
    then have "cl_bus c0 = None" using same_settings_fields [OF schedule_settings] assms(3) by metis
    then have c0: "c0 = c1" and q: "q = run_handlers (\<lambda>h. run_connection (ie_uc ie) h ctx env m) (cl_connHandlers c1) s1"
      using inv sch0 by (auto simp: invokeConnection_def)
    note sch = sch0 [unfolded c0]
    note b = blind_keep(5) [OF assms(1) sch]
    have "obs (fst q) = obs s1" unfolding q
      by (rule run_handlers_keep [of _ "\<lambda>s'. obs s' = obs s1"]) (use sees in auto)
    then show ?thesis using b blind_keep(3) [of obs c1 env q] by simp
  qed
  have fin: "obs s' = obs (fst q)" if "finishHandler c env q = (s', r)" for q
    using blind_keep(3) [OF assms(1), of env q] that by simp
  have rep: "obs s' = obs s" if "reportDecode ctx c env e s = s'" for e
    using blind_keep(2) [OF assms(1,3), of ctx env e s] that by simp
  consider (state) "env_Channel env = ChannelState" | (conn) "env_Channel env = ChannelConnection"
    | (viz) "env_Channel env = ChannelVisualization" | (fs) "env_Channel env = ChannelFactsheet"
    | (other) "env_Channel env \<notin> {ChannelState, ChannelConnection, ChannelVisualization, ChannelFactsheet}"
    by auto
  then have "obs s' = obs s @ (if env_Channel env = ChannelState \<and> \<not> isl (dec_state (ie_dec ie) (env_Raw env))
      then [(env_Topic env, env_Raw env)] else [])"
  proof cases
    case state
    show ?thesis
    proof (cases "dec_state (ie_dec ie) (env_Raw env)")
      case (Inl e)
      then have "reportDecode ctx c env (decode_failed e) s = s'"
        using state assms(5) by (auto simp: dispatch_channel_def Let_def channel_defs)
      from rep [OF this] show ?thesis using state Inl by (simp add: channel_defs)
    next
      case (Inr m)
      then have "finishHandler c env (invokeState (ie_uc ie) ctx c env m s) = (s', r)"
        using state assms(5) by (auto simp: dispatch_channel_def Let_def channel_defs)
      from fin [OF this] show ?thesis using state Inr state_obs by (simp add: channel_defs)
    qed
  next
    case conn
    then show ?thesis
    proof (cases "dec_connection (ie_dec ie) (env_Raw env)")
      case (Inr m)
      obtain c1 q where inv: "invokeConnection (ie_pick_done ie) (ie_uc ie) ctx c env m s = (c1, q)" by (metis prod.collapse)
      from Inr conn inv assms(5) have "finishHandler c1 env q = (s', r)"
        by (auto simp: dispatch_channel_def Let_def channel_defs)
      then have "obs s' = obs s" using conn_obs [OF inv] by (metis fst_conv)
      then show ?thesis using conn ChannelConnection_not_State by simp
    next
      case (Inl e)
      then have "reportDecode ctx c env (decode_failed e) s = s'"
        using conn assms(5) by (auto simp: dispatch_channel_def Let_def channel_defs)
      from rep [OF this] show ?thesis using conn by (simp add: channel_defs)
    qed
  next
    case viz
    show ?thesis
    proof (cases "dec_visualization (ie_dec ie) (env_Raw env)")
      case (Inl e)
      then have "reportDecode ctx c env (decode_failed e) s = s'"
        using viz assms(5) by (auto simp: dispatch_channel_def Let_def channel_defs)
      from rep [OF this] show ?thesis using viz Inl by (simp add: channel_defs)
    next
      case (Inr m)
      then have "finishHandler c env (invokeVisualization (ie_uc ie) ctx c env m s) = (s', r)"
        using viz assms(5) by (auto simp: dispatch_channel_def Let_def channel_defs)
      from fin [OF this] show ?thesis using viz Inr viz_obs by (simp add: channel_defs)
    qed
  next
    case fs
    show ?thesis
    proof (cases "dec_factsheet (ie_dec ie) (env_Raw env)")
      case (Inl e)
      then have "reportDecode ctx c env (decode_failed e) s = s'"
        using fs assms(5) by (auto simp: dispatch_channel_def Let_def channel_defs)
      from rep [OF this] show ?thesis using fs Inl by (simp add: channel_defs)
    next
      case (Inr m)
      then have "finishHandler c env (invokeFactsheet (ie_uc ie) ctx c env m s) = (s', r)"
        using fs assms(5) by (auto simp: dispatch_channel_def Let_def channel_defs)
      from fin [OF this] show ?thesis using fs Inr fs_obs by (simp add: channel_defs)
    qed
  qed (use assms(5) in \<open>auto simp: dispatch_channel_def Let_def\<close>)
  with blind' show ?thesis by simp
qed

text \<open>onRawMessage, path by path.\<close>

lemma onRawMessage_obs:
  assumes "callbacks_blind obs c" "sees_states obs (ie_uc ie)" "cl_bus c = None" "cl_stateHandlers c = [h]"
    and "onRawMessage ie ctx topic payload c s = (c', s', r)"
  shows "obs s' = obs s @ (if deliverable (ie_dec ie) c topic payload then [(topic, payload)] else [])"
proof -
  obtain ra da where times: "envelopeTimes (Some ctx) (ie_clock ie s) = (ra, da)" by fastforce
  note eqs = onRawMessage_def times prod.case Let_def
  have reported: "obs (noteInbound (ie_clock ie) c env (reportDecode ctx c env err s)) = obs s" for env err
    using blind_keep(1,2) [OF assms(1)] assms(3) by simp
  have dispatched: "obs s' = obs s1 @ (if pt_Channel p = ChannelState \<and> \<not> isl (dec_state (ie_dec ie) payload)
      then [(topic, payload)] else [])"
    if "(case dispatch_channel ie ctx c env s1 of
        (c', s', r) \<Rightarrow> (c', noteInbound (ie_clock ie) c' env s', r)) = (c', s', r)"
      "env_Topic env = topic" "env_Raw env = payload" "env_Channel env = pt_Channel p" for env s1 p
  proof -
    obtain c2 s2 r2 where run: "dispatch_channel ie ctx c env s1 = (c2, s2, r2)" using prod_cases3 by blast
    from dispatch_obs [OF assms(1-4) run] blind_keep(1) [of obs c2 "ie_clock ie" env s2] run that
    show ?thesis by auto
  qed
  show ?thesis
  proof (cases "Parse (cl_topics c) topic")
    case (Inl err)
    then show ?thesis using assms(5) reported by (auto simp: eqs deliverable_def)
  next
    case parsed: (Inr p)
    let ?env = "base_envelope c topic payload ra da p"
    show ?thesis
    proof (cases "extended_envelope c ?env")
      case (Inl err)
      then have "\<not> deliverable (ie_dec ie) c topic payload"
        using parsed by (auto simp: deliverable_def extended_envelope_def split: option.splits sum.splits)
      with Inl show ?thesis using assms(5) reported parsed by (auto simp: eqs)
    next
      case env1: (Inr env1)
      have ext: "case cl_extensions c of None \<Rightarrow> True
          | Some reg \<Rightarrow> \<not> isl (Registry_Apply (Some reg) (pt_Channel p) payload)"
        using env1 by (auto simp: extended_envelope_def split: option.splits sum.splits)
      note fields = extended_keep [OF env1, unfolded base_fields]
      show ?thesis
      proof (cases "extractHeader (ie_dec ie) payload")
        case (Inl e)
        then have "deliverable (ie_dec ie) c topic payload \<longleftrightarrow>
            pt_Channel p = ChannelState \<and> \<not> isl (dec_state (ie_dec ie) payload)"
          using parsed ext by (auto simp: deliverable_def extractHeader_def split: option.splits)
        with dispatched [of env1 s p] show ?thesis
          using assms(5) parsed env1 Inl fields by (auto simp: eqs)
      next
        case header: (Inr hd)
        let ?env2 = "env1\<lparr>env_Header := summary_of hd\<rparr>"
        have check: "checkIdentity c ?env2 = None \<longleftrightarrow> \<not> strictIdentity (cl_cfg c) \<or>
            (h_Manufacturer hd, h_SerialNumber hd) \<in> {([], []), (pt_Manufacturer p, pt_SerialNumber p)}"
          using fields by (auto simp: checkIdentity_def summary_of_def)
        then have deliv: "deliverable (ie_dec ie) c topic payload \<longleftrightarrow> checkIdentity c ?env2 = None \<and>
            pt_Channel p = ChannelState \<and> \<not> isl (dec_state (ie_dec ie) payload)"
          using parsed ext header by (auto simp: deliverable_def extractHeader_def split: option.splits)
        show ?thesis
        proof (cases "checkIdentity c ?env2")
          case (Some err)
          then show ?thesis using assms(5) parsed env1 header reported deliv by (auto simp: eqs)
        next
          case None
          obtain env3 s1 where pol: "applyInboundPolicy c ?env2 s = (env3, s1)" by fastforce
          obtain d m where env3: "env3 = ?env2\<lparr>env_InboundDisposition := d, env_Meta := m\<rparr>"
            using policy_fields [of c ?env2 s] pol by auto
          have "obs s1 = obs s" using blind_keep(4) [OF assms(1), of ?env2 s] pol by simp
          moreover have "obs s' = obs s1 @ (if pt_Channel p = ChannelState \<and>
              \<not> isl (dec_state (ie_dec ie) payload) then [(topic, payload)] else [])"
            using assms(5) parsed env1 header None pol fields
            by (intro dispatched [of env3]) (auto simp: eqs env3)
          ultimately show ?thesis using deliv None by simp
        qed
      qed
    qed
  qed
qed

lemma dispatchTopic_obs:
  assumes "callbacks_blind obs c" "sees_states obs (ie_uc ie)"
    and "dispatchTopic ie ctx topic payload th c s = (s', r)"
  shows "obs s' = obs s"
proof -
  obtain env where "\<exists>s1. finishHandler c env (run_topic (ie_uc ie) th ctx env s) = (s1, r) \<and>
      s' = noteInbound (ie_clock ie) c env s1"
    using assms(3) by (auto simp: dispatchTopic_def Let_def split: prod.splits)
  then show ?thesis
    using blind_keep(1,3) [OF assms(1)] assms(2) unfolding sees_states_def by (metis fst_conv)
qed

subsection \<open>The whole path\<close>

text \<open>The deliveries among handled messages: state messages that came by way of onRawMessage.\<close>

definition delivered :: "decoders \<Rightarrow> ('s, 'u) client \<Rightarrow> inbound \<Rightarrow> bool" where
  "delivered dec c m \<longleftrightarrow> in_handler m = OnRawMessage \<and> deliverable dec c (in_topic m) (in_payload m)"

definition deliveries :: "decoders \<Rightarrow> ('s, 'u) client \<Rightarrow> inbound list \<Rightarrow> delivery list" where
  "deliveries dec c ms = map (\<lambda>m. (in_topic m, in_payload m)) (filter (delivered dec c) ms)"

definition path_ok ::
  "('s \<Rightarrow> delivery list) \<Rightarrow> 's inbound_env \<Rightarrow> ('s, 'u) client \<Rightarrow> 's \<Rightarrow> (('s, 'u) client \<times> 's) dispatcher \<Rightarrow> bool" where
  "path_ok obs ie c0 s0 d \<longleftrightarrow> same_settings c0 (fst (dp_world d)) \<and>
     obs (snd (dp_world d)) = obs s0 @ deliveries (ie_dec ie) c0 (lg_handled d)"

lemma settings_cong:
  assumes "same_settings c c'"
  shows "callbacks_blind obs c' = callbacks_blind obs c" "deliverable dec c' t p = deliverable dec c t p"
proof -
  obtain j where c': "c' = c\<lparr>cl_fleetJobs := j\<rparr>" using assms by (auto simp: same_settings_def)
  show "callbacks_blind obs c' = callbacks_blind obs c" by (simp add: c' callbacks_blind_def callbacks_keep_def)
  have "cl_topics c' = cl_topics c" "cl_extensions c' = cl_extensions c" "cl_cfg c' = cl_cfg c"
    by (simp_all add: c')
  then show "deliverable dec c' t p = deliverable dec c t p" by (simp only: deliverable_def cong: sum.case_cong)
qed

lemma dispatchOne_path:
  assumes "callbacks_blind obs c0" "sees_states obs (ie_uc ie)" "cl_bus c0 = None" "cl_stateHandlers c0 = [h]"
    and "same_settings c0 (fst w)" and "dispatchOne (inbound_config c0) (inbound_run ie ctx) m w = w'"
  shows "same_settings c0 (fst w') \<and> obs (snd w') = obs (snd w) @ deliveries (ie_dec ie) c0 [m]"
proof -
  obtain c s where w: "w = (c, s)" by fastforce
  let ?ctx = "contextWithInboundReceivedAt (Some ctx) (in_receivedAt m)"
  have w': "w' = fst (run_raw ie (in_handler m) ?ctx (in_topic m) (in_payload m) (c, s))"
    using assms(6) by (auto simp: w dispatchOne_def inbound_run_def adapter_run_def split: prod.splits option.splits)
  note c = assms(5) [unfolded w fst_conv]
  note same = same_settings_fields [OF c]
  have blind: "callbacks_blind obs c" using assms(1) settings_cong(1) [OF c] by simp
  have bus: "cl_bus c = None" "cl_stateHandlers c = [h]" using same assms(3,4) by simp_all
  show ?thesis
  proof (cases "in_handler m")
    case OnRawMessage
    obtain c' s' r where run: "onRawMessage ie ?ctx (in_topic m) (in_payload m) c s = (c', s', r)"
      using prod_cases3 by blast
    with w' OnRawMessage have "w' = (c', s')" by (simp add: run_raw_def)
    then show ?thesis
      using onRawMessage_obs [OF blind assms(2) bus run] onRawMessage_settings [OF run] settings_cong(2) [OF c]
        OnRawMessage same_settings_trans [OF c]
      by (simp add: w deliveries_def delivered_def)
  next
    case (DispatchTopic th)
    obtain s' r where run: "dispatchTopic ie ?ctx (in_topic m) (in_payload m) th c s = (s', r)" by fastforce
    with w' DispatchTopic have "w' = (c, s')" by (simp add: run_raw_def)
    then show ?thesis
      using dispatchTopic_obs [OF blind assms(2) run] c DispatchTopic
      by (simp add: w deliveries_def delivered_def)
  qed
qed

lemma notify_drop_path:
  assumes "callbacks_blind obs c0"
  shows "fst (dp_world (notify_drop (inbound_config c0) t d)) = fst (dp_world d) \<and>
    obs (snd (dp_world (notify_drop (inbound_config c0) t d))) = obs (snd (dp_world d))"
  using assms by (auto simp: notify_drop_def mapInboundDrop_def callbacks_blind_def split: option.splits)

lemma call_step_path:
  assumes "call_step (inbound_config c0) d d'" and "callbacks_blind obs c0"
  shows "lg_handled d' = lg_handled d \<and> fst (dp_world d') = fst (dp_world d) \<and>
    obs (snd (dp_world d')) = obs (snd (dp_world d))"
  using assms
proof (induction rule: call_step.induct)
  case (wake d M)
  then show ?case by (auto simp: send_wake_def split: option.splits)
next
  case (no_queue d m b M d')
  then show ?case by (auto simp: abandon_def queueFor_None)
next
  case (find_queue d m b M q d')
  then show ?case by (auto elim!: queueFor_SomeE)
next
  case (full_drop d q m b M)
  then show ?case using notify_drop_path [OF full_drop.prems, of "in_topic m" "d\<lparr>dp_calls := M\<rparr>"]
    by (simp add: discard_def notify_drop_def split: option.splits)
next
  case (full_block d q m b M)
  then show ?case
    using notify_drop_path [OF full_block.prems, of "in_topic m" "d\<lparr>dp_calls := add_mset (Blocked q m b) M\<rparr>"]
    by (simp add: notify_drop_def split: option.splits)
qed (auto simp: abandon_def put_latest_def elim!: pushE)

lemma handled_path:
  assumes "callbacks_blind obs c0" "sees_states obs (ie_uc ie)" "cl_bus c0 = None" "cl_stateHandlers c0 = [h]"
    and "path_ok obs ie c0 s0 d" and "dp_world d1 = dp_world d" and "lg_handled d1 = lg_handled d"
  shows "path_ok obs ie c0 s0 (handle (inbound_config c0) (inbound_run ie ctx) m d1)"
  using dispatchOne_path [OF assms(1-4) _ refl, of "dp_world d" ctx m] assms(5-7)
  by (simp add: path_ok_def handle_def deliveries_def)

lemma dispatching_path:
  assumes "dispatching (inbound_config c0) (inbound_run ie ctx) (c0, s0) d"
    and "callbacks_blind obs c0" "sees_states obs (ie_uc ie)" "cl_bus c0 = None" "cl_stateHandlers c0 = [h]"
  shows "path_ok obs ie c0 s0 d"
  using assms(1)
proof (induction rule: dispatching.induct)
  case start
  then show ?case by (simp add: path_ok_def startDispatchLocked_def Let_def deliveries_def)
next
  case (call d d')
  then show ?case using call_step_path [OF call.hyps(2) assms(2)] by (simp add: path_ok_def)
next
  case (work d d')
  note step = handled_path [OF assms(2-5)]
  from work.hyps(2) work.IH show ?case
  proof (induction rule: work_step.induct)
    case (handle d q u m)
    then show ?case by (intro step) simp_all
  next
    case (conn_handle d m)
    then show ?case by (intro step) simp_all
  qed (simp_all add: path_ok_def)
next
  case (stop d d')
  from stop.hyps(2) stop.IH show ?case by (induction rule: stop_step.induct) (simp_all add: path_ok_def)
qed

text \<open>The deliveries of one vehicle.\<close>

definition of_vehicle :: "resolver \<Rightarrow> string \<Rightarrow> string \<Rightarrow> delivery \<Rightarrow> bool" where
  "of_vehicle r mfr sn x =
     (case Parse r (fst x) of Inl e \<Rightarrow> False
      | Inr p \<Rightarrow> pt_Manufacturer p = mfr \<and> pt_SerialNumber p = sn)"

lemma deliveries_of_vehicle:
  "filter (of_vehicle (cl_topics c) mfr sn) (deliveries dec c ms) =
     deliveries dec c (filter (from_vehicle (cl_topics c) mfr sn) ms)"
  by (induction ms)
    (auto simp: deliveries_def of_vehicle_def from_vehicle_def delivered_def deliverable_def split: sum.splits)

lemma deliveries_append [simp]:
  "deliveries dec c (xs @ ys) = deliveries dec c xs @ deliveries dec c ys" "deliveries dec c [] = []"
  by (simp_all add: deliveries_def)

lemma handled_prefix:
  assumes "dispatching cfg run w d"
  shows "\<exists>rest. filter (from_vehicle r mfr sn) (lg_accepted d) = filter (from_vehicle r mfr sn) (lg_handled d) @ rest \<and>
    (dp_open d \<and> (\<nexists>d'. work_step cfg run d d') \<longrightarrow> rest = [])"
proof -
  let ?q = "Shard (mfr @ ''/'' @ sn)"
  have acc: "of_queue ?q (lg_accepted d) = of_queue ?q (lg_handled d) @ in_hand d ?q @ waiting d ?q"
    using dispatching_fifo [OF assms] by (simp add: fifo_def)
  then have "filter (from_vehicle r mfr sn) (lg_accepted d) = filter (from_vehicle r mfr sn) (lg_handled d) @
      filter (from_vehicle r mfr sn) (in_hand d ?q @ waiting d ?q)"
    by (metis acc filter_append from_vehicle_queue)
  moreover have "dp_open d \<and> (\<nexists>d'. work_step cfg run d d') \<longrightarrow> in_hand d ?q = [] \<and> waiting d ?q = []"
    using stuck_queue [OF assms, of ?q] by blast
  ultimately show ?thesis
    by (intro exI [of _ "filter (from_vehicle r mfr sn) (in_hand d ?q @ waiting d ?q)"] conjI impI) simp_all
qed

text \<open>
  C13. A state message that the dispatcher accepts reaches the state handler exactly once and in
  order. In every run of the MQTT dispatcher over a client with one state handler, the handler has
  been called with exactly the deliverable messages handled so far (topic and header of the right
  vehicle, extension and body decoded), none twice and no other; per vehicle these calls are a
  prefix of the deliverable messages accepted, in order of acceptance; and once the workers of an
  open dispatcher can take no step, they are all of them.
\<close>
theorem states_delivered_once:
  assumes "dispatching (inbound_config c0) (inbound_run ie ctx) (c0, s0) d"
    and "callbacks_blind obs c0" and "sees_states obs (ie_uc ie)"
    and "cl_bus c0 = None" and "cl_stateHandlers c0 = [h]"
  shows "\<exists>new. obs (snd (dp_world d)) = obs s0 @ new \<and> new = deliveries (ie_dec ie) c0 (lg_handled d) \<and>
    (\<forall>mfr sn. let own = filter (of_vehicle (cl_topics c0) mfr sn) new;
        due = deliveries (ie_dec ie) c0 (filter (from_vehicle (cl_topics c0) mfr sn) (lg_accepted d)) in
      prefix own due \<and>
      (dp_open d \<and> (\<nexists>d'. work_step (inbound_config c0) (inbound_run ie ctx) d d') \<longrightarrow> own = due))"
proof -
  let ?new = "deliveries (ie_dec ie) c0 (lg_handled d)"
  have "let own = filter (of_vehicle (cl_topics c0) mfr sn) ?new;
        due = deliveries (ie_dec ie) c0 (filter (from_vehicle (cl_topics c0) mfr sn) (lg_accepted d)) in
      prefix own due \<and>
      (dp_open d \<and> (\<nexists>d'. work_step (inbound_config c0) (inbound_run ie ctx) d d') \<longrightarrow> own = due)" for mfr sn
  proof -
    obtain rest where "filter (from_vehicle (cl_topics c0) mfr sn) (lg_accepted d) =
        filter (from_vehicle (cl_topics c0) mfr sn) (lg_handled d) @ rest"
      "dp_open d \<and> (\<nexists>d'. work_step (inbound_config c0) (inbound_run ie ctx) d d') \<longrightarrow> rest = []"
      using handled_prefix [OF assms(1)] by blast
    then show ?thesis by (auto simp: deliveries_of_vehicle Let_def)
  qed
  with dispatching_path [OF assms] show ?thesis by (simp add: path_ok_def)
qed

subsection \<open>A concrete path\<close>

text \<open>A client over an idle paho client whose only state handler records what it is called with.\<close>

type_synonym ex_log = "(client_callback, delivery list) mqtt_world"

definition ex_log_paho :: "(client_callback, delivery list) paho" where
  "ex_log_paho = \<lparr>ph_NewClient = (\<lambda>o' w. w), ph_Connect = (\<lambda>w. (w, ex_acked)), ph_Disconnect = (\<lambda>n w. w),
     ph_IsConnected = (\<lambda>w. True), ph_Publish = (\<lambda>t q r p w. (w, ex_acked)),
     ph_Subscribe = (\<lambda>f q h w. (w, ex_acked)), ph_Unsubscribe = (\<lambda>f w. (w, ex_acked)), ph_now = (\<lambda>w. 10),
     ph_pass = (\<lambda>t s. s), ph_tie_timer = True, ph_tie_ctx = True\<rparr>"

definition ex_log_user :: "ex_log user_code" where
  "ex_log_user = \<lparr>run_state = (\<lambda>h ctx env m s. ((fst s, snd s @ [(env_Topic env, env_Raw env)]), None)),
     run_connection = (\<lambda>h ctx env m s. (s, None)), run_visualization = (\<lambda>h ctx env m s. (s, None)),
     run_factsheet = (\<lambda>h ctx env m s. (s, None)), run_topic = (\<lambda>h ctx env s. (s, None)),
     run_event = (\<lambda>h ctx p s. (s, None))\<rparr>"

definition ex_log_env :: "ex_log inbound_env" where
  "ex_log_env = \<lparr>ie_dec = \<lparr>dec_header = (\<lambda>p. Inl (ErrorsNew ''eof'')),
       dec_state = (\<lambda>p. if p = [1] then Inr \<lparr>st_LastNodeId = [], st_OrderId = [], st_OrderUpdateId = 0,
         st_ActionStates = [], st_rest = Opaque 0\<rparr> else Inl (ErrorsNew ''eof'')),
       dec_connection = (\<lambda>p. Inl (ErrorsNew ''eof'')),
       dec_visualization = (\<lambda>p. Inl (ErrorsNew ''eof'')), dec_factsheet = (\<lambda>p. Inl (ErrorsNew ''eof''))\<rparr>,
     ie_uc = ex_log_user, ie_clock = (\<lambda>s. 0), ie_pick_done = False\<rparr>"

definition ex_log_settings :: "(ex_log, string, event_handler, payload) config" where
  "ex_log_settings = ex_settings"

definition ex_log0 :: ex_log where
  "ex_log0 = (mqtt_New (client_mqtt_config ex_log_settings), [])"

definition ex_listener :: "(ex_log, string) client" where
  "ex_listener = fst (OnState (Some 1) (projr (snd (New (newMQTTTransport ex_log_paho) ex_log_settings ex_log0))) ex_log0)"

lemma ex_listener_fields:
  "cl_cfg ex_listener = ex_log_settings" "cl_topics ex_listener = \<lparr>res_Interface = ''uagv'', res_Version = ''v2''\<rparr>"
  "cl_bus ex_listener = None" "cl_stateHandlers ex_listener = [1]" "cl_extensions ex_listener = None"
  "cl_onHandlerError ex_listener = None"
proof -
  have v: "validate ex_log_settings = None" by (simp add: ex_log_settings_def ex_settings_valid)
  show "cl_cfg ex_listener = ex_log_settings" "cl_topics ex_listener = \<lparr>res_Interface = ''uagv'', res_Version = ''v2''\<rparr>"
    "cl_bus ex_listener = None" "cl_stateHandlers ex_listener = [1]" "cl_extensions ex_listener = None"
    "cl_onHandlerError ex_listener = None"
    using v by (simp_all add: ex_listener_def OnState_def New_def Let_def) (simp_all add: ex_log_settings_def ex_settings_def)
qed

theorem states_delivered_once_witness:
  "\<exists>d. dispatching (inbound_config ex_listener) (inbound_run ex_log_env Background) (ex_listener, ex_log0) d \<and>
     filter (of_vehicle (cl_topics ex_listener) ''acme'' ''A1'') (snd (snd (dp_world d))) = [(ex_topic, [1])]"
proof -
  let ?cfg = "inbound_config ex_listener" and ?run = "inbound_run ex_log_env Background"
  let ?m = "\<lparr>in_topic = ex_topic, in_payload = [1], in_handler = OnRawMessage, in_receivedAt = 1\<rparr>"
  have "classifyInbound (in_topic ?m) = (laneAGV, ''acme/A1'')" by (simp add: classifyInbound_def ex_topic_def)
  from first_accepted [OF this, of ?cfg ?run "(ex_listener, ex_log0)"] obtain d0
    where d0: "dispatching ?cfg ?run (ex_listener, ex_log0) d0" "dp_open d0" "lg_accepted d0 = [?m]" by blast
  obtain d where d: "(work_step ?cfg ?run)\<^sup>*\<^sup>* d0 d" "\<nexists>d'. work_step ?cfg ?run d d'"
    using workers_come_to_rest [OF d0(1)] by blast
  note run = work_run [OF d(1) d0(1)]
  have blind: "callbacks_blind snd ex_listener"
    by (simp add: callbacks_blind_def callbacks_keep_def ex_listener_fields) (simp add: ex_log_settings_def ex_settings_def)
  have sees: "sees_states snd (ie_uc ex_log_env)"
    by (simp add: sees_states_def ex_log_env_def ex_log_user_def)
  obtain new where new: "snd (snd (dp_world d)) = snd ex_log0 @ new"
    "new = deliveries (ie_dec ex_log_env) ex_listener (lg_handled d)"
    "filter (of_vehicle (cl_topics ex_listener) ''acme'' ''A1'') new =
      deliveries (ie_dec ex_log_env) ex_listener
        (filter (from_vehicle (cl_topics ex_listener) ''acme'' ''A1'') (lg_accepted d))"
    using states_delivered_once [OF conjunct1 [OF run] blind sees ex_listener_fields(3,4)] run d0(2) d(2)
    by (auto simp: Let_def)
  have "deliveries (ie_dec ex_log_env) ex_listener
      (filter (from_vehicle (cl_topics ex_listener) ''acme'' ''A1'') (lg_accepted d)) = [(ex_topic, [1])]"
    using run d0(3) by (simp add: deliveries_def from_vehicle_def delivered_def deliverable_def
        ex_listener_fields ex_parse ex_log_env_def)
  then show ?thesis using run new by (intro exI [of _ d]) (simp add: ex_log0_def)
qed

end
