(* ===== verification/Auto_Track_Correct.thy ===== *)
theory Auto_Track_Correct
  imports Auto_Track Client_Broker
begin

text \<open>
  The auto-tracking worker on the in-process broker: once the queue is drained, a vehicle is
  tracked exactly if the last connection state queued for it says so.
\<close>

fun presence :: "fleet_conn_job list \<Rightarrow> string \<Rightarrow> bool \<Rightarrow> bool" where
  "presence [] k b = b"
| "presence (job # jobs) k b =
     presence jobs k
       (if agv_key (job_agv job) = k
        then (case job_state job of Online \<Rightarrow> True | Offline \<Rightarrow> False | ConnectionBroken \<Rightarrow> False
              | OtherConnectionState _ \<Rightarrow> b)
        else b)"

definition steady_hooks :: "(agv \<Rightarrow> ('h, 'c) broker \<times> 'w \<Rightarrow> ('h, 'c) broker \<times> 'w) list \<Rightarrow> bool" where
  "steady_hooks hs \<longleftrightarrow> quiet_hooks fb_ok fb_live fb_issued hs \<and>
     (\<forall>h \<in> set hs. \<forall>a s. fb_up (h a s) = fb_up s)"

text \<open>The state the worker keeps: an auto-tracking session in order on a broker that is up.\<close>

definition worker_ok :: "(int \<rightharpoonup> string) \<Rightarrow> ('w fb_world, int) transport \<Rightarrow> ('w fb_world, int) client \<Rightarrow> 'w fb_world \<Rightarrow> bool" where
  "worker_ok fg tr c s \<longleftrightarrow> cl_transport c = tr \<and> fb_up s \<and>
     (case cl_fleet c of None \<Rightarrow> False
      | Some f \<Rightarrow> session_ok fb_ok fb_live fg f s \<and> opt_AutoTrackFromConnection (fl_opts f) \<and>
          steady_hooks (fl_onOnline f @ fl_onOffline f))"

definition present :: "('s, 'u) client \<Rightarrow> string \<Rightarrow> bool" where
  "present c k = (case cl_fleet c of None \<Rightarrow> False | Some f \<Rightarrow> tracked_agvs f k \<noteq> None)"

lemma fb_transport_subs:
  "cl_transport c = fb_transport run ks race clock \<Longrightarrow>
     fleetSubscribe c = fb_subscribe OnRawMessage \<and> tr_Unsubscribe (cl_transport c) = fb_unsubscribe"
  by (simp add: fleetSubscribe_def fb_transport_def fun_eq_iff)

lemma handle_job:
  assumes "worker_ok fg (fb_transport run ks race clock) c s"
    and "autotrack_handle ctx job c s = (c', s')"
  shows "worker_ok fg (fb_transport run ks race clock) c' s' \<and> present c' k = presence [job] k (present c k)"
proof -
  obtain f where f: "cl_fleet c = Some f" "session_ok fb_ok fb_live fg f s"
    "opt_AutoTrackFromConnection (fl_opts f)" "steady_hooks (fl_onOnline f @ fl_onOffline f)"
    and c: "cl_transport c = fb_transport run ks race clock" "fb_up s"
    using assms(1) by (auto simp: worker_ok_def split: option.splits)
  have hooks: "quiet_hooks fb_ok fb_live fb_issued (fl_onOnline f)"
    "quiet_hooks fb_ok fb_live fb_issued (fl_onOffline f)"
    "\<forall>h \<in> set (fl_onOnline f). \<forall>a s. fb_up (h a s) = fb_up s"
    "\<forall>h \<in> set (fl_onOffline f). \<forall>a s. fb_up (h a s) = fb_up s"
    using f(4) by (auto simp: steady_hooks_def quiet_hooks_def)
  have result: ?thesis if "HandleConnection (fb_subscribe OnRawMessage) fb_unsubscribe ctx (job_agv job)
        (job_state job) f s = (f1, s1, None)" and "session_ok fb_ok fb_live fg f1 s1"
      and "same_config f f1" and "fb_up s1"
      and "(tracked_agvs f1 k \<noteq> None) = presence [job] k (tracked_agvs f k \<noteq> None)" for f1 s1
    using that assms(2) f c fb_transport_subs [OF c(1)]
    by (auto simp: autotrack_handle_def worker_ok_def present_def same_config_def Let_def)
  have untrack: ?thesis if st: "job_state job = Offline \<or> job_state job = ConnectionBroken"
  proof -
    obtain f1 s1 r where run: "fleet_untrack fb_unsubscribe ctx (job_agv job) True f s = (f1, s1, r)"
      using prod_cases3 by blast
    note u = fs.untrack_session [OF f(2) hooks(2) run]
    have "fb_up s1" using fav.untrack_up [OF c(2) hooks(4), of ctx "job_agv job" True] run by simp
    then show ?thesis
      using u run st f(3)
      by (intro result [of f1 s1]) (auto simp: HandleConnection_def Fleet_Untrack_def tracked_agvs_def)
  qed
  show ?thesis
  proof (cases "job_state job")
    case Online
    obtain f1 s1 where run: "fleet_track (fb_subscribe OnRawMessage) fb_unsubscribe ctx (job_agv job) True f s
        = (f1, s1, None)" "fb_up s1"
      using fav.track_up [OF c(2) hooks(3)] by blast
    note t = fs.track_session [OF f(2) hooks(1) run(1)]
    then show ?thesis
      using run Online f(3)
      by (intro result [of f1 s1])
        (auto simp: HandleConnection_def Fleet_Track_def track_exists_iff)
  next
    case (OtherConnectionState x)
    then show ?thesis using f(2,3) c(2) by (intro result [of f s]) (simp_all add: HandleConnection_def)
  qed (use untrack in auto)
qed

lemma worker_ok_jobs [simp]:
  "worker_ok fg tr (c\<lparr>cl_fleetJobs := jobs\<rparr>) s = worker_ok fg tr c s"
  "present (c\<lparr>cl_fleetJobs := jobs\<rparr>) k = present c k"
  by (simp_all add: worker_ok_def present_def)

text \<open>
  C26. Draining the auto-tracking queue on the in-process broker empties it and leaves each vehicle
  tracked exactly if the last queued connection state that concerns it is ONLINE (OFFLINE and
  CONNECTION_BROKEN end the tracking, unknown states are ignored), vehicles without a queued state
  staying as they are; the session invariant holds and foreign subscriptions are untouched.
\<close>
theorem drain_presence:
  assumes "worker_ok fg (fb_transport run ks race clock) c s"
    and "drain (length (queued c)) ctx c s = (c', s')"
  shows "queued c' = [] \<and> worker_ok fg (fb_transport run ks race clock) c' s' \<and>
    present c' k = presence (queued c) k (present c k)"
  using assms
proof (induction "queued c" arbitrary: c s)
  case Nil
  then show ?case by auto
next
  case (Cons job rest)
  obtain c1 jobs where c1: "autotrack_step ctx c s = Some (autotrack_handle ctx job c1 s)"
    "queued (fst (autotrack_handle ctx job c1 s)) = rest" "c1 = c\<lparr>cl_fleetJobs := jobs\<rparr>"
    using autotrack_step_job [OF Cons.hyps(2) [symmetric], of ctx s] by blast
  obtain c2 s2 where c2: "autotrack_handle ctx job c1 s = (c2, s2)" by (metis prod.collapse)
  have "worker_ok fg (fb_transport run ks race clock) c2 s2 \<and> present c2 k = presence [job] k (present c k)"
    using handle_job [OF _ c2, of fg run ks race clock k] Cons.prems(1) c1(3) by simp
  moreover have "drain (length (queued c2)) ctx c2 s2 = (c', s')"
    using Cons.prems(2) c1(1,2) c2 unfolding Cons.hyps(2) [symmetric] by simp
  ultimately show ?case
    using Cons.hyps(1) [of c2 s2] c1(2) c2 Cons.hyps(2) [symmetric] by (auto split: if_splits)
qed

definition ex_job :: "connection_state \<Rightarrow> fleet_conn_job" where
  "ex_job st = \<lparr>job_agv = ex_agv, job_state = st, job_env = new_envelope [] [] 0 0\<rparr>"

definition ex_worker :: "(ex_rest fb_world, int) client" where
  "ex_worker = ex_c0\<lparr>cl_fleet := Some (NewFleetSession \<lparr>res_Interface = ''uagv'', res_Version = ''v2''\<rparr>
       \<lparr>opt_SubscribeState = True, opt_SubscribeVisualization = False, opt_AutoTrackFromConnection = True\<rparr>),
     cl_fleetJobs := Some \<lparr>ch_cap = 64, ch_buf = [ex_job Offline, ex_job Online]\<rparr>\<rparr>"

theorem drain_presence_witness:
  "present (fst (drain 2 Background ex_worker (NewFakeBroker\<lparr>fb_running := True\<rparr>, ex_rest0))) ''acme/A1''"
proof -
  let ?s = "(NewFakeBroker\<lparr>fb_running := True\<rparr>, ex_rest0) :: ex_rest fb_world"
  have fresh: "fb_ok ?s" "fb_up ?s"
    by (simp_all add: fb_ok_def fb_up_def NewFakeBroker_def)
  have w: "worker_ok (fb_live ?s) ex_transport ex_worker ?s"
    using new_session_ok [of fb_ok ?s fb_live] fresh
    by (simp add: worker_ok_def ex_worker_def ex_c0_facts steady_hooks_def) (simp add: NewFleetSession_def)
  have q: "queued ex_worker = [ex_job Offline, ex_job Online]"
    by (simp add: queued_def ex_worker_def)
  then have len: "length (queued ex_worker) = 2" by simp
  obtain c' s' where run: "drain 2 Background ex_worker ?s = (c', s')" by (metis prod.collapse)
  have "present c' ''acme/A1'' = presence (queued ex_worker) ''acme/A1'' (present ex_worker ''acme/A1'')"
    using drain_presence [OF w [unfolded ex_transport_def], unfolded len, OF run] by blast
  then show ?thesis using run by (simp add: q ex_job_def ex_agv_def agv_key_def)
qed

end
