(* ===== verification/Egress.thy ===== *)
theory Egress
  imports Outbound_Correct
begin

text \<open>
  examples/dispatch-egress-sketch/main.go: the orchestration loop that the library documents. A
  ledger hands out header and order update ids, an attempt publishes one order with them, and the
  outcome decides whether the ids were consumed (recorded or fenced) or may be used again. What
  PublishOrder does not read of an order (here empty node and edge lists) is the argument rest.
  The main function is modelled from the construction of the client to the deferred Stop; its
  result has the ledger and the number of messages the broker saw, which it prints.
\<close>

record ledger =
  ld_nextHeader :: u32
  ld_nextUpdate :: u32
  ld_recorded :: "string list"
  ld_fenced :: "string list"

definition GetNext :: "ledger \<Rightarrow> string \<Rightarrow> string \<Rightarrow> string \<Rightarrow> u32 \<times> u32" where
  "GetNext l mfr sn orderID = (ld_nextHeader l, ld_nextUpdate l)"

definition utoa :: "u32 \<Rightarrow> string" where
  "utoa x = itoa (unat x)"

definition RecordSuccessfulPublish :: "string \<Rightarrow> string \<Rightarrow> string \<Rightarrow> u32 \<Rightarrow> u32 \<Rightarrow> ledger \<Rightarrow> ledger" where
  "RecordSuccessfulPublish mfr sn orderID headerID orderUpdateID l =
     l\<lparr>ld_recorded := ld_recorded l @ [mfr @ ''/'' @ sn @ '' '' @ orderID @ '' h='' @ utoa headerID @
         '' u='' @ utoa orderUpdateID],
       ld_nextHeader := headerID + 1, ld_nextUpdate := orderUpdateID + 1\<rparr>"

definition Fence :: "u32 \<Rightarrow> u32 \<Rightarrow> ledger \<Rightarrow> ledger" where
  "Fence headerID orderUpdateID l =
     l\<lparr>ld_fenced := ld_fenced l @ [''h='' @ utoa headerID @ '' u='' @ utoa orderUpdateID],
       ld_nextHeader := headerID + 1, ld_nextUpdate := orderUpdateID + 1\<rparr>"

definition egress_order :: "opaque \<Rightarrow> string \<Rightarrow> u32 \<Rightarrow> u32 \<Rightarrow> vorder" where
  "egress_order rest orderID headerID updateID =
     \<lparr>o_header = zero_header\<lparr>h_HeaderId := headerID\<rparr>, o_OrderId = orderID,
      o_OrderUpdateId = updateID, o_rest = rest\<rparr>"

definition publishOrderOnce ::
  "gerr_is \<Rightarrow> (vorder \<Rightarrow> goerr + bytes) \<Rightarrow> opaque \<Rightarrow> gotime \<Rightarrow> goctx \<Rightarrow> ('s, 'u) client \<Rightarrow> ledger \<Rightarrow>
     string \<Rightarrow> string \<Rightarrow> string \<Rightarrow> 's \<Rightarrow> (ledger \<times> 's \<times> goerr option) option" where
  "publishOrderOnce gis mo rest wall ctx c l mfr sn orderID s =
     (case GetNext l mfr sn orderID of
        (headerID, updateID) \<Rightarrow>
         (case PublishOrder mo wall c (AGV mfr sn) ctx (Some (egress_order rest orderID headerID updateID)) s of
            None \<Rightarrow> None
          | Some (_, s', res, err) \<Rightarrow>
             (let o' = ClassifyPublish gis err in
              Some (if o' = PublishOutcomeAccepted
                    then (RecordSuccessfulPublish mfr sn orderID (pr_HeaderID res) (pr_OrderUpdateID res) l, s', None)
                    else if o' = PublishOutcomeNotStarted
                    then (l, s', Some (ErrorfW ''not started (same ids reusable header=%d update=%d): %w''
                        [ArgInt (uint headerID), ArgInt (uint updateID)] (the err)))
                    else if o' = PublishOutcomeUncertain
                    then (Fence headerID updateID l, s',
                      Some (ErrorfW ''uncertain (do not reuse header=%d update=%d): %w''
                        [ArgInt (uint headerID), ArgInt (uint updateID)] (the err)))
                    else (l, s', err)))))"

definition egress_config :: "('s, 'u) transport \<Rightarrow> ('s, 'u, event_handler, payload) config" where
  "egress_config tr = \<lparr>cfg_Broker = [], cfg_ClientID = [], cfg_Username = [], cfg_Password = [],
     cfg_Interface = ''uagv'', cfg_Version = ''v2'', cfg_HeaderVersion = [],
     cfg_Manufacturer = [], cfg_SerialNumber = [], cfg_QoS = None, cfg_KeepAlive = 0,
     cfg_ConnectTimeout = 0, cfg_CleanSession = False, cfg_AutoReconnect = False, cfg_TLS = None,
     cfg_Will = None, cfg_InboundQueueSize = 0, cfg_OnInboundDrop = None, cfg_SlowInbound = 0,
     cfg_OnSlowInbound = None, cfg_RestoreSubscriptionsOnReconnect = None,
     cfg_StrictIdentity = None, cfg_Transport = Some tr,
     cfg_Fleet = None, cfg_Extensions = None, cfg_Bus = None,
     cfg_IdentityMapper = None, cfg_OutboundValidation = None, cfg_InboundPolicy = None,
     cfg_OnDecodeError = None, cfg_OnHandlerError = None, cfg_OnTransportUp = None,
     cfg_OnTransportDown = None, cfg_OnSubscriptionsRestored = None\<rparr>"

text \<open>Inl is the error of a log.Fatal; the outer None is a publish that never returns.\<close>

definition egress_main ::
  "gerr_is \<Rightarrow> (vorder \<Rightarrow> goerr + bytes) \<Rightarrow> opaque \<Rightarrow> gotime \<Rightarrow> ('w fb_world, int) transport \<Rightarrow>
     (('w fb_world, client_callback) mqtt_config \<Rightarrow> ('w fb_world, int) transport) \<Rightarrow> 'w \<Rightarrow>
     ((goerr + ledger \<times> nat \<times> 'w fb_world)) option" where
  "egress_main gis mo rest wall tr newMQTT w =
     (case New newMQTT (egress_config tr) (NewFakeBroker, w) of
        (s0, Inl e) \<Rightarrow> Some (Inl e)
      | (s0, Inr c0) \<Rightarrow>
         (case Start Background c0 s0 of
            (c1, s1, Some e) \<Rightarrow> Some (Inl e)
          | (c1, s1, None) \<Rightarrow>
             map_option (\<lambda>(l, s2, r). case r of
                 Some e \<Rightarrow> Inl e
               | None \<Rightarrow> Inr (l, length (Published (fst s2)), fst (snd (Stop Background [] c1 s2))))
               (publishOrderOnce gis mo rest wall Background c1
                 \<lparr>ld_nextHeader = 1, ld_nextUpdate = 1, ld_recorded = [], ld_fenced = []\<rparr>
                 ''M'' ''S1'' ''order-42'' s1)))"

subsection \<open>No id is used twice\<close>

text \<open>
  A sequence of attempts on one ledger, each with its own vehicle, order, context, clock and
  world. The log has the ids of the attempts whose packet may have reached the vehicle, by the
  outcome of the publish they made and whatever became of the ledger.
\<close>

record 's attempt =
  at_mfr :: string
  at_sn :: string
  at_order :: string
  at_ctx :: goctx
  at_wall :: gotime
  at_world :: 's

definition may_have_gone_out ::
  "gerr_is \<Rightarrow> (vorder \<Rightarrow> goerr + bytes) \<Rightarrow> opaque \<Rightarrow> ('s, 'u) client \<Rightarrow> 's attempt \<Rightarrow> u32 \<times> u32 \<Rightarrow> bool" where
  "may_have_gone_out gis mo rest c a ids =
     (case PublishOrder mo (at_wall a) c (AGV (at_mfr a) (at_sn a)) (at_ctx a)
         (Some (egress_order rest (at_order a) (fst ids) (snd ids))) (at_world a) of
        None \<Rightarrow> False
      | Some (_, _, _, err) \<Rightarrow> ClassifyPublish gis err \<noteq> PublishOutcomeNotStarted)"

fun attempts ::
  "gerr_is \<Rightarrow> (vorder \<Rightarrow> goerr + bytes) \<Rightarrow> opaque \<Rightarrow> ('s, 'u) client \<Rightarrow> 's attempt list \<Rightarrow> ledger \<Rightarrow>
     ((u32 \<times> u32) list \<times> ledger) option" where
  "attempts gis mo rest c [] l = Some ([], l)"
| "attempts gis mo rest c (a # as) l =
     (let ids = GetNext l (at_mfr a) (at_sn a) (at_order a) in
      case publishOrderOnce gis mo rest (at_wall a) (at_ctx a) c l (at_mfr a) (at_sn a) (at_order a) (at_world a) of
        None \<Rightarrow> None
      | Some (l', _, _) \<Rightarrow>
          map_option (\<lambda>(log, l''). (if may_have_gone_out gis mo rest c a ids then ids # log else log, l''))
            (attempts gis mo rest c as l'))"

end
