(* ===== verification/Egress_Correct.thy ===== *)
theory Egress_Correct
  imports Egress
begin

text \<open>
  What the egress loop guarantees: ids are consumed exactly when the packet may have gone out, and
  no consumed id is handed out again.
\<close>

lemma accepted_result:
  assumes "PublishOrder mo wall c a ctx (Some r) s = Some (x, s', res, None)"
  shows "pr_HeaderID res = h_HeaderId (o_header r) \<and> pr_OrderUpdateID res = o_OrderUpdateId r"
  by (cases rule: PublishOrder_cases [OF assms])
    (auto simp: rejected_def order_result_def order_filled_def ApplyHeader_def zero_result_def)

lemma classify_none: "ClassifyPublish gis err = PublishOutcomeAccepted \<longleftrightarrow> err = None"
  by (auto simp: ClassifyPublish_def outcome_defs)

subsection \<open>A client for the witnesses\<close>

lemma egress_strings: "TrimSpace ''o1'' \<noteq> []"
  by (simp_all add: TrimSpace_def trim_left.simps trim_right_rev.simps space_len_def
      space_len_end_def char_bytes_def is_space_bytes_def)

lemma egress_config_fields [simp]:
  "cfg_Interface (egress_config tr) = ''uagv''" "cfg_Version (egress_config tr) = ''v2''"
  "cfg_Transport (egress_config tr) = Some tr" "cfg_Fleet (egress_config tr) = None"
  "cfg_RestoreSubscriptionsOnReconnect (egress_config tr) = None" "cfg_Will (egress_config tr) = None"
  "cfg_OnTransportUp (egress_config tr) = None" "cfg_QoS (egress_config tr) = None"
  "cfg_OutboundValidation (egress_config tr) = None" "cfg_Bus (egress_config tr) = None"
  by (simp_all add: egress_config_def)

lemma egress_valid: "validate (egress_config tr) = None"
  by (simp add: validate_def ex_nonblank)

definition egress_c0 :: "('w fb_world, int) transport \<Rightarrow> ('w fb_world, int) client" where
  "egress_c0 tr = projr (snd (New (\<lambda>_. tr) (egress_config tr) undefined))"

lemma egress_c0_facts [simp]:
  "cl_transport (egress_c0 tr) = tr" "cl_fleet (egress_c0 tr) = None" "\<not> cl_started (egress_c0 tr)"
  "cl_wantState (egress_c0 tr) = False" "cl_wantConn (egress_c0 tr) = False" "cl_wantViz (egress_c0 tr) = False"
  "cl_wantFS (egress_c0 tr) = False" "cl_topicHandlers (egress_c0 tr) = []"
  "cl_onTransportUp (egress_c0 tr) = None" "cl_busUnsubs (egress_c0 tr) = []" "cl_unsubs (egress_c0 tr) = []"
  "cl_cfg (egress_c0 tr) = egress_config tr"
  "cl_topics (egress_c0 tr) = \<lparr>res_Interface = ''uagv'', res_Version = ''v2''\<rparr>"
  by (simp_all add: egress_c0_def New_def egress_valid Let_def)

lemma egress_order_valid:
  "TrimSpace i \<noteq> [] \<Longrightarrow> h \<noteq> 0 \<Longrightarrow> u \<noteq> 0 \<Longrightarrow>
   validateOutboundOrder (egress_order rest i h u) mfr sn (outboundValidation (egress_config tr)) = None"
  by (simp add: validateOutboundOrder_def validateOutboundHeader_def egress_order_def outboundValidation_def
      zero_header_def)

text \<open>
  A running broker, the same broker armed to hang for five nanoseconds, and a started client.
\<close>

definition ex_egress_tr :: "(nat fb_world, int) transport" where
  "ex_egress_tr = fb_transport (\<lambda>h ctx topic payload s. (s, None)) (\<lambda>s. []) False (\<lambda>s. 0)"

definition ex_egress_client :: "(nat fb_world, int) client" where
  "ex_egress_client = (egress_c0 ex_egress_tr)\<lparr>cl_started := True\<rparr>"

definition ex_egress_world :: "bool \<Rightarrow> nat fb_world" where
  "ex_egress_world hang = (NewFakeBroker\<lparr>fb_running := True, fb_hang := hang, fb_hangFor := 5\<rparr>, 0)"

definition ex_ledger :: ledger where
  "ex_ledger = \<lparr>ld_nextHeader = 7, ld_nextUpdate = 2, ld_recorded = [], ld_fenced = []\<rparr>"

definition ex_attempt :: "bool \<Rightarrow> nat fb_world attempt" where
  "ex_attempt hang = \<lparr>at_mfr = ''acme'', at_sn = ''A1'', at_order = ''o1'', at_ctx = Background, at_wall = 0,
     at_world = ex_egress_world hang\<rparr>"

lemma ex_egress_publish:
  assumes "h \<noteq> 0" "u \<noteq> 0"
  shows "\<exists>x s' res err. PublishOrder (\<lambda>r. Inr [1]) 0 ex_egress_client (AGV ''acme'' ''A1'') Background
     (Some (egress_order (Opaque 0) ''o1'' h u)) (ex_egress_world hang) = Some (x, s', res, err) \<and>
     ClassifyPublish by_code err = (if hang then PublishOutcomeUncertain else PublishOutcomeAccepted)"
proof -
  let ?c = ex_egress_client
  have deliver: "fb_deliver (\<lambda>h ctx topic payload s. (s, None)) subs ctx' t p s' = (s', None)" for subs ctx' t p s'
    by (induction subs) auto
  have c: "cl_started ?c" "cl_transport ?c = ex_egress_tr" "cl_cfg ?c = egress_config ex_egress_tr"
    by (simp_all add: ex_egress_client_def)
  have v: "validateOutboundOrder (egress_order (Opaque 0) ''o1'' h u) mfr sn (outboundValidation (cl_cfg ?c)) = None"
    for mfr sn using egress_order_valid [OF egress_strings assms] c by simp
  have qos: "validatePublishQoS (publishQoS (cl_cfg ?c)) = None"
    by (simp add: c publishQoS_def DefaultOrderQoS_def validatePublishQoS_def)
  obtain e where e: "hang_error False Background 0 5 = Some e" by (simp add: hang_error_def Background_def)
  have "tr_Publish (cl_transport ?c) Background t p o' (ex_egress_world hang) =
      (if hang then Some ((NewFakeBroker\<lparr>fb_running := True, fb_hang := False, fb_hangFor := 5\<rparr>, 0), MarkPublishAttempted (Some e))
       else Some ((NewFakeBroker\<lparr>fb_running := True, fb_hang := False, fb_hangFor := 5,
         fb_published := [\<lparr>pub_Topic = t, pub_Payload = p, pub_Opts = o'\<rparr>]\<rparr>, 0), None))" for t p o'
    by (simp add: c ex_egress_tr_def fb_publish_sel FB_Publish_def Let_def deliver ex_egress_world_def
        NewFakeBroker_def e)
  then show ?thesis
    using hang_uncertain [OF matches_by_code_by_code e]
    by (simp add: PublishOrder_valid [OF c(1) v] qos classify_none)
qed

lemma ex_egress_once:
  assumes "ld_nextHeader l \<noteq> 0" "ld_nextUpdate l \<noteq> 0"
  shows "\<exists>l' s r. publishOrderOnce by_code (\<lambda>r. Inr [1]) (Opaque 0) 0 Background ex_egress_client l
      ''acme'' ''A1'' ''o1'' (ex_egress_world hang) = Some (l', s, r) \<and>
    ld_nextHeader l' = ld_nextHeader l + 1 \<and> ld_nextUpdate l' = ld_nextUpdate l + 1"
proof -
  obtain x s' res err where p: "PublishOrder (\<lambda>r. Inr [1]) 0 ex_egress_client (AGV ''acme'' ''A1'') Background
     (Some (egress_order (Opaque 0) ''o1'' (ld_nextHeader l) (ld_nextUpdate l))) (ex_egress_world hang) = Some (x, s', res, err)"
    "ClassifyPublish by_code err = (if hang then PublishOutcomeUncertain else PublishOutcomeAccepted)"
    using ex_egress_publish [OF assms] by blast
  have "ClassifyPublish by_code err = PublishOutcomeAccepted \<Longrightarrow>
      pr_HeaderID res = ld_nextHeader l \<and> pr_OrderUpdateID res = ld_nextUpdate l"
    using accepted_result p(1) by (fastforce simp: egress_order_def classify_none)
  then show ?thesis using p
    by (auto simp: publishOrderOnce_def GetNext_def outcome_defs RecordSuccessfulPublish_def Fence_def
        split: if_splits)
qed

subsection \<open>One attempt\<close>

text \<open>
  C34. An attempt consumes its ids exactly when its packet may have gone out. The outcome of the
  publish decides: Accepted moves the ledger past the ids and records the order under them, with no
  error; Uncertain moves it past the ids as well, fences them and returns an error; NotStarted
  leaves the ledger as it is, so that the next attempt gets the same ids, and returns an error.
\<close>
theorem publishOrderOnce_consumes:
  assumes "PublishOrder mo wall c (AGV mfr sn) ctx
      (Some (egress_order rest orderID (ld_nextHeader l) (ld_nextUpdate l))) s = Some (ord', s', res, err)"
  shows "case publishOrderOnce gis mo rest wall ctx c l mfr sn orderID s of
      None \<Rightarrow> False
    | Some (l', s'', r) \<Rightarrow> s'' = s' \<and>
       (let past = l\<lparr>ld_nextHeader := ld_nextHeader l + 1, ld_nextUpdate := ld_nextUpdate l + 1\<rparr>;
            ids = ''h='' @ utoa (ld_nextHeader l) @ '' u='' @ utoa (ld_nextUpdate l) in
        if ClassifyPublish gis err = PublishOutcomeAccepted
        then r = None \<and> l' = past\<lparr>ld_recorded := ld_recorded l @ [mfr @ ''/'' @ sn @ '' '' @ orderID @ '' '' @ ids]\<rparr>
        else r \<noteq> None \<and> (if ClassifyPublish gis err = PublishOutcomeUncertain
          then l' = past\<lparr>ld_fenced := ld_fenced l @ [ids]\<rparr>
          else ClassifyPublish gis err = PublishOutcomeNotStarted \<and> GetNext l' = GetNext l \<and> l' = l))"
proof -
  have cases: "ClassifyPublish gis err \<in> {PublishOutcomeAccepted, PublishOutcomeNotStarted, PublishOutcomeUncertain}"
    by (auto simp: ClassifyPublish_def)
  show ?thesis
  proof (cases err)
    case None
    with accepted_result [OF assms [unfolded None]] assms show ?thesis
      by (auto simp: publishOrderOnce_def GetNext_def Let_def RecordSuccessfulPublish_def egress_order_def classify_none)
  next
    case (Some e)
    then have "ClassifyPublish gis err \<noteq> PublishOutcomeAccepted" by (simp add: classify_none)
    with cases Some assms show ?thesis
      by (auto simp: publishOrderOnce_def GetNext_def Let_def Fence_def)
  qed
qed

theorem publishOrderOnce_consumes_witness:
  "case publishOrderOnce by_code (\<lambda>r. Inr [1]) (Opaque 0) 0 Background ex_egress_client ex_ledger
     ''acme'' ''A1'' ''o1'' (ex_egress_world True) of None \<Rightarrow> False
   | Some (l, s, r) \<Rightarrow> r \<noteq> None \<and> ld_fenced l = [''h='' @ utoa 7 @ '' u='' @ utoa 2] \<and> ld_nextHeader l = 8"
proof -
  have "(7 :: u32) \<noteq> 0" "(2 :: u32) \<noteq> 0" by simp_all
  from ex_egress_publish [OF this, of True]
  obtain x s' res err where p: "PublishOrder (\<lambda>r. Inr [1]) 0 ex_egress_client (AGV ''acme'' ''A1'') Background
     (Some (egress_order (Opaque 0) ''o1'' (ld_nextHeader ex_ledger) (ld_nextUpdate ex_ledger)))
     (ex_egress_world True) = Some (x, s', res, err)"
    "ClassifyPublish by_code err = PublishOutcomeUncertain" by (auto simp: ex_ledger_def)
  from publishOrderOnce_consumes [OF p(1), where gis = by_code] p(2) show ?thesis
    by (auto simp: outcome_defs ex_ledger_def split: option.splits)
qed

subsection \<open>Sequences of attempts\<close>

lemma attempt_ledger:
  assumes "publishOrderOnce gis mo rest (at_wall a) (at_ctx a) c l (at_mfr a) (at_sn a) (at_order a) (at_world a) =
      Some (l', s', r)"
  shows "if may_have_gone_out gis mo rest c a (ld_nextHeader l, ld_nextUpdate l)
    then ld_nextHeader l' = ld_nextHeader l + 1 \<and> ld_nextUpdate l' = ld_nextUpdate l + 1 else l' = l"
proof -
  obtain x s'' res err where p: "PublishOrder mo (at_wall a) c (AGV (at_mfr a) (at_sn a)) (at_ctx a)
      (Some (egress_order rest (at_order a) (ld_nextHeader l) (ld_nextUpdate l))) (at_world a) =
      Some (x, s'', res, err)"
    using assms by (auto simp: publishOrderOnce_def GetNext_def split: option.splits)
  have ids: "ClassifyPublish gis err = PublishOutcomeAccepted \<Longrightarrow>
      pr_HeaderID res = ld_nextHeader l \<and> pr_OrderUpdateID res = ld_nextUpdate l"
    using accepted_result p by (fastforce simp: egress_order_def classify_none)
  have "ClassifyPublish gis err \<in> {PublishOutcomeAccepted, PublishOutcomeNotStarted, PublishOutcomeUncertain}"
    by (auto simp: ClassifyPublish_def)
  with assms p ids show ?thesis
    by (auto simp: publishOrderOnce_def may_have_gone_out_def GetNext_def Let_def RecordSuccessfulPublish_def Fence_def
        outcome_defs split: if_splits)
qed

lemma unat_succ: "Suc (unat x) < 2 ^ 32 \<Longrightarrow> unat (x + 1) = Suc (unat (x :: u32))"
  by (simp add: unat_word_ariths)

lemma attempts_Cons:
  assumes "attempts gis mo rest c (a # as) l = Some (log, l')"
  obtains l1 log1 where "attempts gis mo rest c as l1 = Some (log1, l')"
    and "may_have_gone_out gis mo rest c a (ld_nextHeader l, ld_nextUpdate l)"
      "ld_nextHeader l1 = ld_nextHeader l + 1" "log = (ld_nextHeader l, ld_nextUpdate l) # log1"
  | "attempts gis mo rest c as l = Some (log, l')"
proof -
  obtain l1 s1 r log1 where one: "publishOrderOnce gis mo rest (at_wall a) (at_ctx a) c l (at_mfr a) (at_sn a)
      (at_order a) (at_world a) = Some (l1, s1, r)"
    and more: "attempts gis mo rest c as l1 = Some (log1, l')"
    and log: "log = (if may_have_gone_out gis mo rest c a (ld_nextHeader l, ld_nextUpdate l)
      then (ld_nextHeader l, ld_nextUpdate l) # log1 else log1)"
    using assms by (auto simp: GetNext_def Let_def split: option.splits)
  show ?thesis using that attempt_ledger [OF one] more log by (auto split: if_splits)
qed

lemma attempts_grow:
  "attempts gis mo rest c as l = Some (log, l') \<Longrightarrow> unat (ld_nextHeader l) + length as < 2 ^ 32 \<Longrightarrow>
    unat (ld_nextHeader l) \<le> unat (ld_nextHeader l')"
proof (induction as arbitrary: l log)
  case (Cons a as)
  from Cons.prems(1) show ?case
    by (cases rule: attempts_Cons) (use Cons.IH Cons.prems(2) in \<open>fastforce simp: unat_succ\<close>)+
qed simp

lemma attempts_ids:
  "attempts gis mo rest c as l = Some (log, l') \<Longrightarrow> unat (ld_nextHeader l) + length as < 2 ^ 32 \<Longrightarrow>
    sorted_wrt (<) (map (unat \<circ> fst) log) \<and>
    (\<forall>i \<in> set log. unat (ld_nextHeader l) \<le> unat (fst i) \<and> unat (fst i) < unat (ld_nextHeader l'))"
proof (induction as arbitrary: l log)
  case (Cons a as)
  from Cons.prems(1) show ?case
  proof (cases rule: attempts_Cons)
    case (1 l1 log1)
    then have next1: "unat (ld_nextHeader l1) = Suc (unat (ld_nextHeader l))"
      using Cons.prems(2) by (simp add: unat_succ)
    have "unat (ld_nextHeader l1) \<le> unat (ld_nextHeader l')"
      by (rule attempts_grow [OF 1(1)]) (use next1 Cons.prems(2) in simp)
    then show ?thesis
      using Cons.IH [OF 1(1)] Cons.prems(2) next1 1(4) by auto
  next
    case 2
    then show ?thesis using Cons.IH [OF 2] Cons.prems(2) by simp
  qed
qed simp

text \<open>
  C33. No protocol id is used twice: over any sequence of attempts that starts with header ids left
  for all of them, the header ids of the attempts whose packet may have reached the vehicle (the
  publish was Accepted or Uncertain) are strictly increasing, none below the first one handed
  out and all below the next one that the ledger hands out.
\<close>
theorem ids_never_reused:
  assumes "attempts gis mo rest c as l = Some (log, l')"
    and "unat (ld_nextHeader l) + length as < 2 ^ 32"
  shows "sorted_wrt (<) (map (unat \<circ> fst) log) \<and> distinct (map fst log) \<and>
    (\<forall>i \<in> set log. unat (ld_nextHeader l) \<le> unat (fst i) \<and> unat (fst i) < unat (ld_nextHeader l'))"
proof -
  have "distinct (map fst log)" if "sorted_wrt (<) (map (unat \<circ> fst) log)"
    using strict_sorted_iff that by (metis distinct_map map_map)
  then show ?thesis using attempts_ids [OF assms] by blast
qed

text \<open>An attempt that hangs and one that is accepted: both sets of ids are used up.\<close>

theorem ids_never_reused_witness:
  "\<exists>log l. attempts by_code (\<lambda>r. Inr [1]) (Opaque 0) ex_egress_client [ex_attempt True, ex_attempt False] ex_ledger =
     Some (log, l) \<and> map fst log = [7, 8] \<and> distinct (map fst log) \<and> 8 < unat (ld_nextHeader l)"
proof -
  obtain l1 s1 r1 where one: "publishOrderOnce by_code (\<lambda>r. Inr [1]) (Opaque 0) 0 Background ex_egress_client ex_ledger
     ''acme'' ''A1'' ''o1'' (ex_egress_world True) = Some (l1, s1, r1)" "ld_nextHeader l1 = 8" "ld_nextUpdate l1 = 3"
    using ex_egress_once [of ex_ledger True] by (auto simp: ex_ledger_def)
  obtain l2 s2 r2 where two: "publishOrderOnce by_code (\<lambda>r. Inr [1]) (Opaque 0) 0 Background ex_egress_client l1
     ''acme'' ''A1'' ''o1'' (ex_egress_world False) = Some (l2, s2, r2)"
    using ex_egress_once [of l1 False] one(2,3) by auto
  have gone: "may_have_gone_out by_code (\<lambda>r. Inr [1]) (Opaque 0) ex_egress_client (ex_attempt hang) (h, u)"
    if "h \<noteq> 0" "u \<noteq> 0" for hang h u
    using ex_egress_publish [OF that, of hang]
    by (auto simp: may_have_gone_out_def ex_attempt_def outcome_defs split: if_splits)
  have run: "attempts by_code (\<lambda>r. Inr [1]) (Opaque 0) ex_egress_client [ex_attempt True, ex_attempt False] ex_ledger =
      Some ([(7, 2), (8, 3)], l2)"
    using one two gone [of 7 2] gone [of 8 3]
    by (simp add: ex_attempt_def [of True, simplified] ex_attempt_def GetNext_def ex_ledger_def Let_def)
  have "unat (ld_nextHeader ex_ledger) + length [ex_attempt True, ex_attempt False] < 2 ^ 32" by (simp add: ex_ledger_def)
  from ids_never_reused [OF run this] run show ?thesis by auto
qed

end
