(* ===== verification/Recording.thy ===== *)
theory Recording
  imports Client_Broker
begin

text \<open>
  testkit/recording.go: a transport that records the calls made through it. The recorder is shared
  state: a message the wrapped transport delivers while it publishes may publish through the
  recording transport again, so the recorder is a part of the world 's, read with get and changed
  with upd. The Unsubscribe closure captures the inner one and the filter: they are the handle.
\<close>

record recorder =
  rec_published :: "published list"
  rec_subscribed :: "string list"
  rec_unsubscribed :: "string list"

definition Rec_Published :: "recorder \<Rightarrow> published list" where
  "Rec_Published r = rec_published r"

definition SubscribedFilters :: "recorder \<Rightarrow> string list" where
  "SubscribedFilters r = rec_subscribed r"

definition NewRecorder :: "recorder option \<Rightarrow> recorder" where
  "NewRecorder rec =
     (case rec of None \<Rightarrow> \<lparr>rec_published = [], rec_subscribed = [], rec_unsubscribed = []\<rparr> | Some r \<Rightarrow> r)"

type_synonym 's rec_update = "(recorder \<Rightarrow> recorder) \<Rightarrow> 's \<Rightarrow> 's"

definition RT_Publish ::
  "('s, 'u) transport \<Rightarrow> 's rec_update \<Rightarrow> goctx \<Rightarrow> string \<Rightarrow> bytes \<Rightarrow> publish_options \<Rightarrow> 's \<Rightarrow>
     ('s \<times> goerr option) option" where
  "RT_Publish inner upd ctx topic payload opts s =
     map_option (\<lambda>(s', err).
       (upd (\<lambda>r. r\<lparr>rec_published := rec_published r @
          [\<lparr>pub_Topic = topic, pub_Payload = payload, pub_Opts = opts\<rparr>]\<rparr>) s', err))
       (tr_Publish inner ctx topic payload opts s)"

definition RT_Subscribe ::
  "('s, 'u) transport \<Rightarrow> 's rec_update \<Rightarrow> goctx \<Rightarrow> string \<Rightarrow> raw_handler \<Rightarrow> 's \<Rightarrow> 's \<times> (goerr + 'u \<times> string)" where
  "RT_Subscribe inner upd ctx fltr handler s =
     (case tr_Subscribe inner ctx fltr handler s of
        (s', Inl e) \<Rightarrow> (s', Inl e)
      | (s', Inr u) \<Rightarrow> (upd (\<lambda>r. r\<lparr>rec_subscribed := rec_subscribed r @ [fltr]\<rparr>) s', Inr (u, fltr)))"

definition RT_Unsubscribe ::
  "('s, 'u) transport \<Rightarrow> 's rec_update \<Rightarrow> goctx \<Rightarrow> 'u \<times> string \<Rightarrow> 's \<Rightarrow> 's \<times> goerr option" where
  "RT_Unsubscribe inner upd ctx h s =
     tr_Unsubscribe inner ctx (fst h)
       (upd (\<lambda>r. r\<lparr>rec_unsubscribed := rec_unsubscribed r @ [snd h]\<rparr>) s)"

definition RT_Connected :: "('s, 'u) transport \<Rightarrow> 's \<Rightarrow> bool" where
  "RT_Connected inner s = (case tr_Connected inner of None \<Rightarrow> False | Some f \<Rightarrow> f s)"

definition RT_SetOnReconnect :: "('s, 'u) transport \<Rightarrow> client_callback \<Rightarrow> 's \<Rightarrow> 's" where
  "RT_SetOnReconnect inner fn s = (case tr_SetOnReconnect inner of None \<Rightarrow> s | Some f \<Rightarrow> f fn s)"

definition RT_SetOnConnectionLost :: "('s, 'u) transport \<Rightarrow> client_callback \<Rightarrow> 's \<Rightarrow> 's" where
  "RT_SetOnConnectionLost inner fn s = (case tr_SetOnConnectionLost inner of None \<Rightarrow> s | Some f \<Rightarrow> f fn s)"

definition NewRecordingTransport ::
  "('s, 'u) transport \<Rightarrow> 's rec_update \<Rightarrow> ('s, 'u \<times> string) transport" where
  "NewRecordingTransport inner upd =
     \<lparr>tr_Start = tr_Start inner, tr_Stop = tr_Stop inner, tr_Publish = RT_Publish inner upd,
      tr_Subscribe = RT_Subscribe inner upd, tr_Unsubscribe = RT_Unsubscribe inner upd,
      tr_Connected = Some (RT_Connected inner),
      tr_SetOnReconnect = Some (RT_SetOnReconnect inner),
      tr_SetOnConnectionLost = Some (RT_SetOnConnectionLost inner)\<rparr>"

subsection \<open>Recording does not change the contract of the wrapped transport\<close>

text \<open>
  A service whose handles carry their filter: it keeps the contract of subscribing of the service
  it wraps, provided that recording touches nothing the contract speaks of. The handles issued are
  those of the wrapped service with the filter they were issued for, which issued_for gives.
\<close>

locale recorded_service = subscription_service subscribe unsubscribe live issued ok
  for subscribe :: "goctx \<Rightarrow> string \<Rightarrow> 's \<Rightarrow> 's \<times> (goerr + 'u)"
    and unsubscribe :: "goctx \<Rightarrow> 'u \<Rightarrow> 's \<Rightarrow> 's \<times> goerr option"
    and live :: "'s \<Rightarrow> 'u \<rightharpoonup> string" and issued :: "'s \<Rightarrow> 'u set" and ok :: "'s \<Rightarrow> bool" +
  fixes upd :: "'s rec_update"
  assumes upd_ok: "ok (upd f s) = ok s" and upd_live: "live (upd f s) = live s"
    and upd_issued: "issued (upd f s) = issued s"
begin

definition rec_subscribe :: "goctx \<Rightarrow> string \<Rightarrow> 's \<Rightarrow> 's \<times> (goerr + 'u \<times> string)" where
  "rec_subscribe ctx fltr s =
     (case subscribe ctx fltr s of
        (s', Inl e) \<Rightarrow> (s', Inl e)
      | (s', Inr u) \<Rightarrow> (upd (\<lambda>r. r\<lparr>rec_subscribed := rec_subscribed r @ [fltr]\<rparr>) s', Inr (u, fltr)))"

lemma rec_subscribe_live:
  assumes "ok s" "rec_subscribe ctx f s = (s', Inr (u, g))"
  shows "g = f \<and> u \<notin> issued s \<and> ok s' \<and> live s' = (live s)(u \<mapsto> f)"
  using assms subscribe_done [OF assms(1), of ctx f]
  by (auto simp: rec_subscribe_def upd_ok upd_live split: prod.splits sum.splits)

lemma rec_subscribe_failed:
  assumes "ok s" "rec_subscribe ctx f s = (s', Inl e)"
  shows "ok s' \<and> live s' = live s"
  using assms subscribe_failed [OF assms(1), of ctx f]
  by (auto simp: rec_subscribe_def split: prod.splits sum.splits)

lemma rec_unsubscribe_live:
  assumes "ok s" "unsubscribe ctx (fst h) (upd f s) = (s', None)"
  shows "ok s' \<and> live s' (fst h) = None \<and> (\<forall>v. v \<noteq> fst h \<longrightarrow> live s' v = live s v)"
  using assms unsubscribe_others [of "upd f s" ctx "fst h" s' None] unsubscribe_done [of "upd f s" ctx "fst h" s']
  by (simp add: upd_ok upd_live)

end

text \<open>On the in-process broker the recorder lives in the rest of the world.\<close>

definition fb_upd :: "(recorder \<Rightarrow> recorder) \<Rightarrow> ('h, 'c) broker \<times> recorder \<Rightarrow> ('h, 'c) broker \<times> recorder" where
  "fb_upd f s = (fst s, f (snd s))"

interpretation fbr: recorded_service "fb_subscribe h" fb_unsubscribe fb_live fb_issued fb_ok fb_upd
  for h :: 'h
  by unfold_locales (simp_all add: fb_upd_def fb_ok_def fb_live_def fb_issued_def fun_eq_iff)

lemma RT_Subscribe_fb:
  "RT_Subscribe (fb_transport run ks race clock) fb_upd ctx f h = fbr.rec_subscribe h ctx f"
  by (simp add: RT_Subscribe_def fbr.rec_subscribe_def fb_transport_def fun_eq_iff)

text \<open>
  Publishing a list of messages through the recording transport, each whatever its outcome; the
  run stops when a publish never returns.
\<close>

fun publish_all ::
  "('s, 'u) transport \<Rightarrow> goctx \<Rightarrow> published list \<Rightarrow> 's \<Rightarrow> 's option" where
  "publish_all tr ctx [] s = Some s"
| "publish_all tr ctx (m # ms) s =
     (case tr_Publish tr ctx (pub_Topic m) (pub_Payload m) (pub_Opts m) s of
        None \<Rightarrow> None
      | Some (s', _) \<Rightarrow> publish_all tr ctx ms s')"

lemma rt_publish_fb:
  "tr_Publish (NewRecordingTransport (fb_transport run ks race clock) fb_upd) ctx topic payload opts s =
     map_option (\<lambda>(s', err). (fb_upd (\<lambda>r. r\<lparr>rec_published := rec_published r @
        [\<lparr>pub_Topic = topic, pub_Payload = payload, pub_Opts = opts\<rparr>]\<rparr>) s', err))
       (FB_Publish run (ks s) race (clock s) ctx topic payload opts s)"
  by (simp add: NewRecordingTransport_def RT_Publish_def fb_transport_def)

text \<open>
  Handlers that leave the broker and the recorder as they are (they may fail): what one publish does.
\<close>

definition hands_off :: "('h, 'c, 'w) fb_run \<Rightarrow> bool" where
  "hands_off run \<longleftrightarrow> (\<forall>h ctx t p s. fst (run h ctx t p s) = s)"

lemma fb_publish_frame:
  assumes "hands_off run" and "FB_Publish run ks race now ctx topic payload opts s = Some (s', err)"
  shows "snd s' = snd s \<and>
    (if \<not> fb_running (fst s) then fst s' = fst s
     else fb_running (fst s') \<and> fb_fail (fst s') = None \<and> \<not> fb_hang (fst s') \<and>
       fb_published (fst s') = fb_published (fst s) @
         (if fb_fail (fst s) \<noteq> None \<or> fb_hang (fst s) then []
          else [\<lparr>pub_Topic = topic, pub_Payload = payload, pub_Opts = opts\<rparr>]))"
proof -
  have deliver: "fst (fb_deliver run subs ctx t p x) = x" for subs t p and x :: "('a, 'b) broker \<times> 'c"
  proof (induction subs arbitrary: x)
    case (Cons sub subs)
    obtain f h where sub: "sub = (f, h)" by fastforce
    obtain x1 e where r: "run h ctx t p x = (x1, e)" by fastforce
    have "x1 = x" using assms(1) r unfolding hands_off_def by (metis fst_conv)
    then show ?case using Cons.IH [of x] r sub by (auto split: option.split)
  qed simp
  show ?thesis
    using assms(2)
    by (auto simp: FB_Publish_def Let_def prod_eq_iff [of "fb_deliver _ _ _ _ _ _"] deliver
        split: if_splits option.splits)
qed

text \<open>
  C39. The recorder sees what the client hands over, the broker what it takes: after any messages
  published through a recording transport over the in-process broker, whose handlers leave the broker
  and the recorder alone (whatever errors they return), the recorder holds all of them in order.
  The broker recorded all of them too if it was running with no failure armed, all but the first
  if a failure or a hang was armed (and the hang came to an end), and none if it was not running.
\<close>
theorem recorder_sees_all:
  assumes "hands_off run"
    and "publish_all (NewRecordingTransport (fb_transport run ks race clock) fb_upd) ctx ms s = Some s'"
  shows "Rec_Published (snd s') = Rec_Published (snd s) @ ms \<and>
    Published (fst s') = Published (fst s) @
      (if \<not> fb_running (fst s) then []
       else if fb_fail (fst s) \<noteq> None \<or> fb_hang (fst s) then tl ms else ms)"
  using assms(2)
proof (induction ms arbitrary: s)
  case (Cons m ms)
  have eta: "\<lparr>pub_Topic = pub_Topic m, pub_Payload = pub_Payload m, pub_Opts = pub_Opts m\<rparr> = m" by simp
  let ?tr = "fb_transport run ks race clock"
  obtain s1 err where one: "FB_Publish run (ks s) race (clock s) ctx (pub_Topic m)
      (pub_Payload m) (pub_Opts m) s = Some (s1, err)"
    and more: "publish_all (NewRecordingTransport ?tr fb_upd) ctx ms
      (fb_upd (\<lambda>r. r\<lparr>rec_published := rec_published r @ [m]\<rparr>) s1) = Some s'"
    using Cons.prems
    by (auto simp: rt_publish_fb eta split: option.splits)
  have "Rec_Published (snd s') = Rec_Published (snd s1) @ m # ms \<and>
    Published (fst s') = Published (fst s1) @
      (if \<not> fb_running (fst s1) then []
       else if fb_fail (fst s1) \<noteq> None \<or> fb_hang (fst s1) then tl ms else ms)"
    using Cons.IH [OF more] by (simp add: fb_upd_def Rec_Published_def)
  with fb_publish_frame [OF assms(1) one] show ?case
    by (simp add: Published_def Rec_Published_def split: if_splits)
qed (simp add: Rec_Published_def)

text \<open>A running broker that is armed to fail once, and two messages.\<close>

theorem recorder_sees_all_witness:
  "let m = (\<lambda>t. \<lparr>pub_Topic = t, pub_Payload = [], pub_Opts = \<lparr>po_QoS = 0, po_Retain = False\<rparr>\<rparr>);
       b = NewFakeBroker\<lparr>fb_running := True, fb_fail := Some (ErrorsNew ''down'')\<rparr> :: (raw_handler, client_callback) broker in
     case publish_all (NewRecordingTransport (fb_transport (\<lambda>h ctx t p s. (s, None)) (\<lambda>s. []) False (\<lambda>s. 0)) fb_upd)
       Background [m ''t'', m ''u''] (b, NewRecorder None) of
     None \<Rightarrow> False | Some s' \<Rightarrow> map pub_Topic (Rec_Published (snd s')) = [''t'', ''u''] \<and>
       map pub_Topic (Published (fst s')) = [''u'']"
proof -
  let ?m = "\<lambda>t. \<lparr>pub_Topic = t, pub_Payload = [], pub_Opts = \<lparr>po_QoS = 0, po_Retain = False\<rparr>\<rparr>"
  let ?b = "NewFakeBroker\<lparr>fb_running := True, fb_fail := Some (ErrorsNew ''down'')\<rparr> :: (raw_handler, client_callback) broker"
  let ?run = "publish_all (NewRecordingTransport (fb_transport (\<lambda>h ctx t p s. (s, None)) (\<lambda>s. []) False (\<lambda>s. 0)) fb_upd)
    Background [?m ''t'', ?m ''u''] (?b, NewRecorder None)"
  have off: "hands_off (\<lambda>h ctx t p s. (s, None))" by (simp add: hands_off_def)
  obtain s' where run: "?run = Some s'" by (simp add: rt_publish_fb FB_Publish_def NewFakeBroker_def fb_upd_def)
  from recorder_sees_all [OF off this] run show ?thesis
    by (simp add: Let_def Rec_Published_def NewRecorder_def Published_def NewFakeBroker_def)
qed

end
