(* ===== verification/Gerr_New.thy ===== *)
theory Gerr_New
  imports Go_Errors
begin

text \<open>
  The rest of internal/gerrors/code.go: the format aliases and the constructors of every error
  with arguments or metadata that the program does not call itself (Go_Errors has those it calls).
  Each keeps the code of its sentinel.
\<close>

definition InvalidConfigF :: goerr where
  "InvalidConfigF = sentinel InvalidConfig"

definition NewInvalidConfigWithMetadata :: "string \<Rightarrow> garg \<Rightarrow> goerr" where
  "NewInvalidConfigWithMetadata key value = gerr_With (sentinel InvalidConfig) key value"

definition NewClientNotStartedWithMetadata :: "string \<Rightarrow> garg \<Rightarrow> goerr" where
  "NewClientNotStartedWithMetadata key value = gerr_With (sentinel ClientNotStarted) key value"

definition NewClientAlreadyStartedWithMetadata :: "string \<Rightarrow> garg \<Rightarrow> goerr" where
  "NewClientAlreadyStartedWithMetadata key value = gerr_With (sentinel ClientAlreadyStarted) key value"

definition DecodeFailedF :: goerr where
  "DecodeFailedF = sentinel DecodeFailed"

definition NewDecodeFailedWithMetadata :: "string \<Rightarrow> garg \<Rightarrow> goerr" where
  "NewDecodeFailedWithMetadata key value = gerr_With (sentinel DecodeFailed) key value"

definition NewIdentityMismatchWithMetadata :: "string \<Rightarrow> garg \<Rightarrow> goerr" where
  "NewIdentityMismatchWithMetadata key value = gerr_With (sentinel IdentityMismatch) key value"

definition IdAllocationFailedF :: goerr where
  "IdAllocationFailedF = sentinel IdAllocationFailed"

definition NewIdAllocationFailedWithArgs :: "garg list \<Rightarrow> goerr" where
  "NewIdAllocationFailedWithArgs args = gerr_Args (sentinel IdAllocationFailed) args"

definition NewIdAllocationFailedWithMetadata :: "string \<Rightarrow> garg \<Rightarrow> goerr" where
  "NewIdAllocationFailedWithMetadata key value = gerr_With (sentinel IdAllocationFailed) key value"

definition NewMQTTTransportNotRunningWithMetadata :: "string \<Rightarrow> garg \<Rightarrow> goerr" where
  "NewMQTTTransportNotRunningWithMetadata key value = gerr_With (sentinel MQTTTransportNotRunning) key value"

definition NewMQTTTransportAlreadyRunningWithMetadata :: "string \<Rightarrow> garg \<Rightarrow> goerr" where
  "NewMQTTTransportAlreadyRunningWithMetadata key value = gerr_With (sentinel MQTTTransportAlreadyRunning) key value"

definition NewConnectionFailedWithMetadata :: "string \<Rightarrow> garg \<Rightarrow> goerr" where
  "NewConnectionFailedWithMetadata key value = gerr_With (sentinel ConnectionFailed) key value"

definition NewAuthenticationFailedWithMetadata :: "string \<Rightarrow> garg \<Rightarrow> goerr" where
  "NewAuthenticationFailedWithMetadata key value = gerr_With (sentinel AuthenticationFailed) key value"

definition NewSubscriptionFailedWithMetadata :: "string \<Rightarrow> garg \<Rightarrow> goerr" where
  "NewSubscriptionFailedWithMetadata key value = gerr_With (sentinel SubscriptionFailed) key value"

definition NewPublishFailedWithMetadata :: "string \<Rightarrow> garg \<Rightarrow> goerr" where
  "NewPublishFailedWithMetadata key value = gerr_With (sentinel PublishFailed) key value"

definition NewInvalidTopicWithMetadata :: "string \<Rightarrow> garg \<Rightarrow> goerr" where
  "NewInvalidTopicWithMetadata key value = gerr_With (sentinel InvalidTopic) key value"

definition NewClientNotConnectedWithMetadata :: "string \<Rightarrow> garg \<Rightarrow> goerr" where
  "NewClientNotConnectedWithMetadata key value = gerr_With (sentinel ClientNotConnected) key value"

definition NewReconnectFailedWithMetadata :: "string \<Rightarrow> garg \<Rightarrow> goerr" where
  "NewReconnectFailedWithMetadata key value = gerr_With (sentinel ReconnectFailed) key value"

definition NewTLSConfigErrorWithMetadata :: "string \<Rightarrow> garg \<Rightarrow> goerr" where
  "NewTLSConfigErrorWithMetadata key value = gerr_With (sentinel TLSConfigError) key value"

definition NewWillMessageErrorWithMetadata :: "string \<Rightarrow> garg \<Rightarrow> goerr" where
  "NewWillMessageErrorWithMetadata key value = gerr_With (sentinel WillMessageError) key value"

definition NewQosNotSupportedWithMetadata :: "string \<Rightarrow> garg \<Rightarrow> goerr" where
  "NewQosNotSupportedWithMetadata key value = gerr_With (sentinel QosNotSupported) key value"

definition NewMessageTooLargeWithMetadata :: "string \<Rightarrow> garg \<Rightarrow> goerr" where
  "NewMessageTooLargeWithMetadata key value = gerr_With (sentinel MessageTooLarge) key value"

definition NewBrokerUnavailableWithMetadata :: "string \<Rightarrow> garg \<Rightarrow> goerr" where
  "NewBrokerUnavailableWithMetadata key value = gerr_With (sentinel BrokerUnavailable) key value"

definition NewProtocolErrorWithMetadata :: "string \<Rightarrow> garg \<Rightarrow> goerr" where
  "NewProtocolErrorWithMetadata key value = gerr_With (sentinel ProtocolError) key value"

definition NewTimeoutErrorWithMetadata :: "string \<Rightarrow> garg \<Rightarrow> goerr" where
  "NewTimeoutErrorWithMetadata key value = gerr_With (sentinel TimeoutError) key value"

definition NewAlreadySubscribedWithMetadata :: "string \<Rightarrow> garg \<Rightarrow> goerr" where
  "NewAlreadySubscribedWithMetadata key value = gerr_With (sentinel AlreadySubscribed) key value"

definition NewNotSubscribedWithMetadata :: "string \<Rightarrow> garg \<Rightarrow> goerr" where
  "NewNotSubscribedWithMetadata key value = gerr_With (sentinel NotSubscribed) key value"

definition NewInvalidPayloadWithMetadata :: "string \<Rightarrow> garg \<Rightarrow> goerr" where
  "NewInvalidPayloadWithMetadata key value = gerr_With (sentinel InvalidPayload) key value"

definition NewOutboundValidationFailedWithMetadata :: "string \<Rightarrow> garg \<Rightarrow> goerr" where
  "NewOutboundValidationFailedWithMetadata key value = gerr_With (sentinel OutboundValidationFailed) key value"

definition ConfigurationErrorF :: goerr where
  "ConfigurationErrorF = sentinel ConfigurationError"

definition NewConfigurationErrorWithMetadata :: "string \<Rightarrow> garg \<Rightarrow> goerr" where
  "NewConfigurationErrorWithMetadata key value = gerr_With (sentinel ConfigurationError) key value"

definition SubscriptionNotActiveF :: goerr where
  "SubscriptionNotActiveF = sentinel SubscriptionNotActive"

definition NewSubscriptionNotActiveWithArgs :: "garg list \<Rightarrow> goerr" where
  "NewSubscriptionNotActiveWithArgs args = gerr_Args (sentinel SubscriptionNotActive) args"

definition NewSubscriptionNotActiveWithMetadata :: "string \<Rightarrow> garg \<Rightarrow> goerr" where
  "NewSubscriptionNotActiveWithMetadata key value = gerr_With (sentinel SubscriptionNotActive) key value"

definition UnsubscribeFailedF :: goerr where
  "UnsubscribeFailedF = sentinel UnsubscribeFailed"

definition NewUnsubscribeFailedWithMetadata :: "string \<Rightarrow> garg \<Rightarrow> goerr" where
  "NewUnsubscribeFailedWithMetadata key value = gerr_With (sentinel UnsubscribeFailed) key value"

lemmas gerr_new_defs =
  InvalidConfigF_def NewInvalidConfigWithMetadata_def
  NewClientNotStartedWithMetadata_def NewClientAlreadyStartedWithMetadata_def
  DecodeFailedF_def NewDecodeFailedWithMetadata_def
  NewIdentityMismatchWithMetadata_def IdAllocationFailedF_def
  NewIdAllocationFailedWithArgs_def NewIdAllocationFailedWithMetadata_def
  NewMQTTTransportNotRunningWithMetadata_def NewMQTTTransportAlreadyRunningWithMetadata_def
  NewConnectionFailedWithMetadata_def NewAuthenticationFailedWithMetadata_def
  NewSubscriptionFailedWithMetadata_def NewPublishFailedWithMetadata_def
  NewInvalidTopicWithMetadata_def NewClientNotConnectedWithMetadata_def
  NewReconnectFailedWithMetadata_def NewTLSConfigErrorWithMetadata_def
  NewWillMessageErrorWithMetadata_def NewQosNotSupportedWithMetadata_def
  NewMessageTooLargeWithMetadata_def NewBrokerUnavailableWithMetadata_def
  NewProtocolErrorWithMetadata_def NewTimeoutErrorWithMetadata_def
  NewAlreadySubscribedWithMetadata_def NewNotSubscribedWithMetadata_def
  NewInvalidPayloadWithMetadata_def NewOutboundValidationFailedWithMetadata_def
  ConfigurationErrorF_def NewConfigurationErrorWithMetadata_def
  SubscriptionNotActiveF_def NewSubscriptionNotActiveWithArgs_def
  NewSubscriptionNotActiveWithMetadata_def UnsubscribeFailedF_def
  NewUnsubscribeFailedWithMetadata_def

text \<open>Every constructor makes an error that matches its own sentinel, and no other.\<close>

lemma metadata_matches:
  assumes "matches_by_code gis"
  shows
    "errors_Is gis (NewInvalidConfigWithMetadata key value) (TGerr k) \<longleftrightarrow> k = InvalidConfig"
    "errors_Is gis (NewClientNotStartedWithMetadata key value) (TGerr k) \<longleftrightarrow> k = ClientNotStarted"
    "errors_Is gis (NewClientAlreadyStartedWithMetadata key value) (TGerr k) \<longleftrightarrow> k = ClientAlreadyStarted"
    "errors_Is gis (NewDecodeFailedWithMetadata key value) (TGerr k) \<longleftrightarrow> k = DecodeFailed"
    "errors_Is gis (NewIdentityMismatchWithMetadata key value) (TGerr k) \<longleftrightarrow> k = IdentityMismatch"
    "errors_Is gis (NewIdAllocationFailedWithMetadata key value) (TGerr k) \<longleftrightarrow> k = IdAllocationFailed"
    "errors_Is gis (NewMQTTTransportNotRunningWithMetadata key value) (TGerr k) \<longleftrightarrow> k = MQTTTransportNotRunning"
    "errors_Is gis (NewMQTTTransportAlreadyRunningWithMetadata key value) (TGerr k) \<longleftrightarrow> k = MQTTTransportAlreadyRunning"
    "errors_Is gis (NewConnectionFailedWithMetadata key value) (TGerr k) \<longleftrightarrow> k = ConnectionFailed"
    "errors_Is gis (NewAuthenticationFailedWithMetadata key value) (TGerr k) \<longleftrightarrow> k = AuthenticationFailed"
    "errors_Is gis (NewSubscriptionFailedWithMetadata key value) (TGerr k) \<longleftrightarrow> k = SubscriptionFailed"
    "errors_Is gis (NewPublishFailedWithMetadata key value) (TGerr k) \<longleftrightarrow> k = PublishFailed"
    "errors_Is gis (NewInvalidTopicWithMetadata key value) (TGerr k) \<longleftrightarrow> k = InvalidTopic"
    "errors_Is gis (NewClientNotConnectedWithMetadata key value) (TGerr k) \<longleftrightarrow> k = ClientNotConnected"
    "errors_Is gis (NewReconnectFailedWithMetadata key value) (TGerr k) \<longleftrightarrow> k = ReconnectFailed"
    "errors_Is gis (NewTLSConfigErrorWithMetadata key value) (TGerr k) \<longleftrightarrow> k = TLSConfigError"
    "errors_Is gis (NewWillMessageErrorWithMetadata key value) (TGerr k) \<longleftrightarrow> k = WillMessageError"
    "errors_Is gis (NewQosNotSupportedWithMetadata key value) (TGerr k) \<longleftrightarrow> k = QosNotSupported"
    "errors_Is gis (NewMessageTooLargeWithMetadata key value) (TGerr k) \<longleftrightarrow> k = MessageTooLarge"
    "errors_Is gis (NewBrokerUnavailableWithMetadata key value) (TGerr k) \<longleftrightarrow> k = BrokerUnavailable"
    "errors_Is gis (NewProtocolErrorWithMetadata key value) (TGerr k) \<longleftrightarrow> k = ProtocolError"
    "errors_Is gis (NewTimeoutErrorWithMetadata key value) (TGerr k) \<longleftrightarrow> k = TimeoutError"
    "errors_Is gis (NewAlreadySubscribedWithMetadata key value) (TGerr k) \<longleftrightarrow> k = AlreadySubscribed"
    "errors_Is gis (NewNotSubscribedWithMetadata key value) (TGerr k) \<longleftrightarrow> k = NotSubscribed"
    "errors_Is gis (NewInvalidPayloadWithMetadata key value) (TGerr k) \<longleftrightarrow> k = InvalidPayload"
    "errors_Is gis (NewOutboundValidationFailedWithMetadata key value) (TGerr k) \<longleftrightarrow> k = OutboundValidationFailed"
    "errors_Is gis (NewConfigurationErrorWithMetadata key value) (TGerr k) \<longleftrightarrow> k = ConfigurationError"
    "errors_Is gis (NewSubscriptionNotActiveWithMetadata key value) (TGerr k) \<longleftrightarrow> k = SubscriptionNotActive"
    "errors_Is gis (NewUnsubscribeFailedWithMetadata key value) (TGerr k) \<longleftrightarrow> k = UnsubscribeFailed"
  using assms by (auto simp: gerr_new_defs matches_by_code_def)

lemma args_match:
  assumes "matches_by_code gis"
  shows
    "errors_Is gis (NewIdAllocationFailedWithArgs args) (TGerr k) \<longleftrightarrow> k = IdAllocationFailed"
    "errors_Is gis (NewSubscriptionNotActiveWithArgs args) (TGerr k) \<longleftrightarrow> k = SubscriptionNotActive"
  using assms by (auto simp: gerr_new_defs matches_by_code_def)

end
