(* ===== verification/Spec2Isabelle.thy ===== *)
theory Spec2Isabelle
  imports Facts Client_Broker Client_Mqtt Fleet_Mqtt Inbound_Mqtt Outbound_Mqtt Auto_Track_Correct Inbound_Correct Mqtt_Classify
    Mqtt_Dispatch_Correct Egress_Correct Recording Gerr_New Extend Memory_Bus Inbound_Policy
begin

text \<open>
  navlink is a Go client library for fleets of vehicles that speak VDA 5050 over MQTT: it builds
  and parses topics, publishes orders and instant actions, decodes what the vehicles send into
  typed handlers, keeps per-vehicle subscriptions, and survives lost connections.

  \<^bold>\<open>The parts and how they interact.\<close> An application builds a Client (client.go) from a
  Config and registers handlers on it. Start connects a Transport (transport.go) and subscribes
  the filters the handlers need, and the fleet session (internal/session/fleet.go) subscribes
  four filters per tracked vehicle. An inbound message goes from the paho client through the
  dispatcher of internal/mqtt (one lane for connection messages, one queue for other topics, one
  queue per vehicle) to Client.onRawMessage, which decodes it, checks the identity, asks the
  InboundPolicy and runs the handlers, or publishes on the EventBus (internal/bus/memory.go).
  Connection messages also feed the auto-tracking worker, which tracks and untracks vehicles. An
  outbound message goes through AGVHandle.PublishOrder or PublishInstantActions, is checked,
  stamped, marshalled and handed to the transport; the caller reads the outcome of the attempt
  from the error (publish.go). After a reconnect the transport calls the client back, which
  subscribes everything again.

  \<^bold>\<open>Theories, by source.\<close>
  \<^item> Go_Prelude, Channels: Go's strings, integers at their width, contexts, times, maps and
    their iteration orders, callbacks, buffered channels.
  \<^item> Vda_Types: the fields of the vendored message types that the repository reads or writes.
  \<^item> Gerr_Codes, Gerr_New, Go_Errors: internal/gerrors/code.go, and error values with
    errors.Is, wrapping and metadata.
  \<^item> Topics: topic/resolver.go. Envelope: envelope.go, identity.go, inbound_timing.go and
    inbound_drop.go. Extend: extend/registry.go. Facts: facts/facts.go.
  \<^item> Publish_Outcome: publish.go. Config, Mqtt_Config: config.go and the settings of
    internal/mqtt. Inbound_Policy: inbound_policy.go. Builder: internal/outbound/builder.go.
  \<^item> Transport_Api: transport.go and handlers.go. Memory_Bus, Events: internal/bus/memory.go,
    events.go and eventbus_client.go.
  \<^item> Fleet_Session: internal/session/fleet.go. Its lemmas are in Fleet_Correct (the
    invariant), Fleet_Contract (any reliable subscription service), Fleet_Available (a service
    that is up), Fleet_Broker (the in-process broker), Filter_Service and Filter_Refusals (a
    service that keys subscriptions by filter, as MQTT does, and may refuse them) and Fleet_Mqtt
    (the MQTT transport in front of a broker that may refuse any filter).
  \<^item> Fake_Broker, Recording: testkit/fake_broker.go and testkit/recording.go.
  \<^item> Client, Client_Life: client.go, eventbus_client.go and the client side of
    fleet_autotrack.go. Client_Subs, Client_Broker: starting, stopping and reconnecting over a
    reliable transport, and over the in-process broker. Client_Filters: the filters a client needs,
    and the same over a filter-keyed transport; Client_Mqtt: over the MQTT transport.
  \<^item> Auto_Track, Auto_Track_Correct: the worker of fleet_autotrack.go.
  \<^item> Inbound, Inbound_Correct: inbound.go. Inbound_Mqtt composes it with the dispatcher.
  \<^item> Outbound, Outbound_Correct: outbound_validate.go, agv.go and instant.go. Outbound_Mqtt
    composes them with the MQTT transport.
  \<^item> Mqtt_Classify: internal/mqtt/classify.go. Mqtt_Dispatch with _Inv, _Route, _Logs, _Live
    and _Correct: internal/mqtt/dispatch.go and the dispatcher fields of transport.go.
    Mqtt_Transport, Mqtt_Transport_Correct: transport.go, wait.go and attempted.go of
    internal/mqtt, and mqtt_adapter.go.
  \<^item> Egress, Egress_Correct: examples/dispatch-egress-sketch/main.go.

  \<^bold>\<open>State and operations.\<close> A struct is a record with the fields of the source, a method is a
  function from its receiver, its arguments and the world to the new receiver, the new world and
  its results; an error result is an option (None is nil) or a sum. The world 's is a type
  variable: it holds whatever a callback, a transport or a handler can change. Functions that may
  never return give None. User code, json, the paho client, the clock and the choices the Go
  scheduler makes (select ties, map iteration order, whether a buffered send finds room) are
  arguments; the order in which a map is ranged over is constrained to be an enumeration of it.
  The dispatcher, which is concurrent, is the inductive relation dispatching over call_step,
  work_step and stop_step: a step is one region under the lock or one channel operation, so its
  properties hold in every interleaving.

  \<^bold>\<open>Interfaces.\<close> Each is a locale with an interpretation on the model's own definitions:
  \<^item> bounded_fifo: Go channels (Channels), used by the dispatcher and the auto-tracking queue.
  \<^item> subscription_service, reliable_subscriptions, fleet_service, available_service and
    client_service: what the fleet session and the client need from a transport whose handles name
    single subscriptions, provided by FakeBroker (fb, fs, fav, fbc).
  \<^item> refusing_service: a transport whose subscriptions are keyed by filter and that may refuse a
    subscription, provided by the MQTT transport in front of a broker that answers every request
    (mqa). filter_service extends it by a transport that accepts them all, and filter_transport is
    one of these per handler, provided by the MQTT transport in front of a broker that acknowledges
    every request (mqtt, mqc).
  \<^item> recorded_service: a transport behind the recording transport (fbr).
  \<^item> event_bus: the bus the client forwards to, provided by Memory (memory).
  \<^item> watermark_policy: a policy that depends on one watermark per key, provided by
    HeaderSequencePolicy (header_seq).

  \<^bold>\<open>What is shown.\<close>
  \<^item> Publishing: the classification of errors into Accepted, NotStarted and Uncertain refines
    its abstract description; nothing is sent unless every check passed; over MQTT the outcome is
    what the token and the context say, and NotStarted from the local checks means that nothing
    was handed to the MQTT client (a failure of json.Marshal is the one outcome that misleads: it
    is Uncertain though nothing was sent); the egress loop never reuses the header id of an order
    that may have gone out.
  \<^item> Dispatching: order per vehicle, accounting of every message, discarding of visualization
    messages only, latest-wins on the connection lane, bounded queues, and that a backlog drains.
    End to end, each accepted state message reaches the typed handler exactly once and in order.
  \<^item> Sessions: Track is all-or-nothing and idempotent whatever the broker refuses, Untrack and
    Stop release exactly their own, Restore keeps the tracked set when it succeeds and forgets the
    vehicles from the refused one on when it fails. Start, reconnect and Stop of the client leave
    exactly the filters it needs at the broker, in process and over MQTT; what a client needs
    (needed_filters in Client_Filters) is stated from its registrations, with the topics spelled
    out, not with the code that subscribes them.
  \<^item> Inbound: handlers and bus are only given what the message says: the event of its channel,
    the message decoded from its payload and an envelope with its header and identity.
  \<^item> Topics, facts, the bus, the registry, the policy and the recorder: round trips, the
    replay of facts, the order of delivery, the merge of extractors, the verdict after any
    history, and the completeness of the recording.
  \<^item> Deviations the proofs make visible: an OrderUpdateChanged whose previous order is the
    new one; vehicles lost by a failing Restore; a raw handler that loses its filter when a vehicle
    with the same filter is untracked.

  \<^bold>\<open>Bounds and fuel.\<close> Draining the auto-tracking queue takes as much fuel as the queue holds
  jobs, and one step removes one job, so it empties the queue. The waits of the MQTT transport are
  not loops: a token is the instant at which it completes, so waiting is a case distinction, shown
  to end within its timeout. The runs of the dispatcher have no fuel: every run of worker steps
  is bounded by a measure of the backlog, for any number of queues.

  \<^bold>\<open>Not modelled.\<close>
  \<^item> examples/platform-wiring and examples/subscribe-state print what the client delivers and
    wait for a signal; doc.go is a comment.
  \<^item> Code outside the repository (gerror, paho, encoding/json, the VDA 5050 message types, TLS)
    is a parameter.
  \<^item> One run of the dispatcher, from startDispatchLocked to the stop that ends it: a worker
    of a stopped run that is still inside a handler while a restart opens the next run is not
    followed into that run.
  \<^item> A handler runs as one step. Client methods are sequential: two of them interleaved by
    goroutines, or a handler that calls back into the client that is delivering to it, are outside
    the model; the in-process bus is modelled with handlers that re-enter it.
\<close>

end
